(* ===== verification/Prelude.thy ===== *)
theory Prelude
  imports Complex_Main "HOL-Library.AList" "HOL-Library.Char_ord" "HOL-Library.List_Lexorder"
    "HOL-Library.Sublist"
begin

text \<open>
  Shared vocabulary of the development: the rule collections the component theories fill and
  use, the truthiness operators of TypeScript on strings, and the insertion-ordered \<open>Set\<close> and
  \<open>Map\<close> of the language with the contract the grouping code of \<open>src/web/src/lib\<close> relies on.

  A UI text (a form field, an identifier, a message) is a \<open>string\<close>: one \<open>char\<close> per UTF-16 code
  unit, code units 0 to 255. Text that crosses the wire as JSON is a list of code units of
  unrestricted size (theory \<open>JsJson\<close>).
\<close>

named_theorems text_simps \<open>equations of the string functions\<close>
named_theorems form_simps \<open>definitions of form conversions and validators\<close>
named_theorems req_simps \<open>definitions of request builders\<close>
named_theorems view_simps \<open>definitions of pure view helpers\<close>

section \<open>Truthiness\<close>

text \<open>\<open>a || b\<close> on strings: the empty string is falsy.\<close>

definition or_else :: "string \<Rightarrow> string \<Rightarrow> string" where
  "or_else a b = (if a = [] then b else a)"

text \<open>\<open>a || b\<close> where \<open>a\<close> is an optional string: \<open>undefined\<close> and the empty string are falsy.\<close>

definition opt_or :: "string option \<Rightarrow> string \<Rightarrow> string" where
  "opt_or a b = (case a of None \<Rightarrow> b | Some s \<Rightarrow> or_else s b)"

text \<open>An optional string in a boolean position.\<close>

definition truthy :: "string option \<Rightarrow> bool" where
  "truthy a = (case a of None \<Rightarrow> False | Some s \<Rightarrow> s \<noteq> [])"

lemma or_else_simps [simp]:
  "or_else [] b = b" "or_else (c # cs) b = c # cs" "or_else a [] = a"
  by (simp_all add: or_else_def)

lemma or_else_assoc [simp]: "or_else (or_else a b) c = or_else a (or_else b c)"
  by (simp add: or_else_def)

lemma or_else_eq_Nil [simp]: "or_else a b = [] \<longleftrightarrow> a = [] \<and> b = []"
  by (simp add: or_else_def)

lemma opt_or_simps [simp]:
  "opt_or None b = b" "opt_or (Some s) b = or_else s b"
  by (simp_all add: opt_or_def)

lemma truthy_simps [simp]: "\<not> truthy None" "truthy (Some s) \<longleftrightarrow> s \<noteq> []"
  by (simp_all add: truthy_def)

lemma truthy_iff: "truthy a \<longleftrightarrow> opt_or a [] \<noteq> []"
  by (cases a) simp_all

section \<open>Insertion-ordered sets\<close>

text \<open>
  \<open>Set.add\<close> and the loop that fills a \<open>Set\<close>: iteration (\<open>Array.from\<close>) is in insertion order,
  adding a present element changes nothing.
\<close>

definition set_add :: "'a \<Rightarrow> 'a list \<Rightarrow> 'a list" where
  "set_add x xs = (if x \<in> set xs then xs else xs @ [x])"

fun set_of :: "'a list \<Rightarrow> 'a list \<Rightarrow> 'a list" where
  "set_of seen [] = seen"
| "set_of seen (x # xs) = set_of (set_add x seen) xs"

lemma set_set_add [simp]: "set (set_add x xs) = insert x (set xs)"
  by (auto simp: set_add_def)

lemma distinct_set_add [simp]: "distinct xs \<Longrightarrow> distinct (set_add x xs)"
  by (auto simp: set_add_def)

lemma set_set_of [simp]: "set (set_of seen xs) = set seen \<union> set xs"
  by (induction xs arbitrary: seen) auto

lemma distinct_set_of [simp]: "distinct seen \<Longrightarrow> distinct (set_of seen xs)"
  by (induction xs arbitrary: seen) auto

lemma set_of_distinct: "distinct (seen @ xs) \<Longrightarrow> set_of seen xs = seen @ xs"
proof (induction xs arbitrary: seen)
  case (Cons x xs)
  then have "set_add x seen = seen @ [x]" by (simp add: set_add_def)
  with Cons show ?case by simp
qed simp

lemma set_of_absorb: "set xs \<subseteq> set seen \<Longrightarrow> set_of seen xs = seen"
  by (induction xs arbitrary: seen) (auto simp: set_add_def)

lemma set_of_idem: "distinct seen \<Longrightarrow> set_of [] (set_of seen xs) = set_of seen xs"
  using set_of_distinct [of "[]" "set_of seen xs"] by simp

section \<open>Insertion-ordered maps\<close>

text \<open>
  The \<open>Map\<close> of the language: \<open>get\<close> is a partial lookup, \<open>set\<close> replaces the value of a present
  key in place and appends a new key at the end, \<open>keys\<close> iterates in insertion order. The
  grouping loops of the program use nothing else of it; what they rely on is the contract
  below, which association lists with \<^const>\<open>AList.update\<close> satisfy.
\<close>

locale ordered_map =
  fixes get :: "'m \<Rightarrow> 'k \<Rightarrow> 'v option"
    and put :: "'k \<Rightarrow> 'v \<Rightarrow> 'm \<Rightarrow> 'm"
    and keys :: "'m \<Rightarrow> 'k list"
    and empty :: "'m"
    and invar :: "'m \<Rightarrow> bool"
  assumes get_empty: "get empty k = None"
    and get_put: "invar m \<Longrightarrow> get (put k v m) k' = (if k' = k then Some v else get m k')"
    and keys_empty: "keys empty = []"
    and keys_put: "invar m \<Longrightarrow> keys (put k v m) = set_add k (keys m)"
    and get_keys: "invar m \<Longrightarrow> get m k \<noteq> None \<longleftrightarrow> k \<in> set (keys m)"
    and invar_empty: "invar empty"
    and invar_put: "invar m \<Longrightarrow> invar (put k v m)"
begin

text \<open>
  The grouping loop: for every element, fetch the group of its key (or a fresh group), fold
  the element in, store the group back.
\<close>

primrec group_loop :: "('e \<Rightarrow> 'k) \<Rightarrow> ('k \<Rightarrow> 'v) \<Rightarrow> ('e \<Rightarrow> 'v \<Rightarrow> 'v) \<Rightarrow> 'e list \<Rightarrow> 'm \<Rightarrow> 'm" where
  "group_loop key fresh upd [] m = m"
| "group_loop key fresh upd (e # es) m =
     group_loop key fresh upd es
       (put (key e) (upd e (case get m (key e) of None \<Rightarrow> fresh (key e) | Some g \<Rightarrow> g)) m)"

lemma group_loop_invar: "invar m \<Longrightarrow> invar (group_loop key fresh upd es m)"
  by (induction es arbitrary: m) (simp_all add: invar_put)

lemma group_loop_keys:
  "invar m \<Longrightarrow> keys (group_loop key fresh upd es m) = set_of (keys m) (map key es)"
  by (induction es arbitrary: m) (simp_all add: invar_put keys_put)

lemma group_loop_get:
  "invar m \<Longrightarrow> get (group_loop key fresh upd es m) k =
     (if k \<in> set (keys m) \<union> key ` set es
      then Some (fold upd (filter (\<lambda>e. key e = k) es)
             (case get m k of None \<Rightarrow> fresh k | Some g \<Rightarrow> g))
      else None)"
proof (induction es arbitrary: m)
  case Nil
  then show ?case using get_keys [of m k] by (cases "get m k") auto
next
  case (Cons e es)
  from Cons.prems have "invar (put (key e) v m)" for v by (rule invar_put)
  from Cons.IH [OF this] Cons.prems show ?case
    by (auto simp: get_put keys_put)
qed

lemma group_loop_distinct:
  "distinct (keys (group_loop key fresh upd es empty))"
  by (simp add: group_loop_keys invar_empty keys_empty)

end

type_synonym ('k, 'v) jsmap = "('k \<times> 'v) list"

abbreviation jsmap_keys :: "('k, 'v) jsmap \<Rightarrow> 'k list" where
  "jsmap_keys m \<equiv> map fst m"

lemma keys_update: "jsmap_keys (AList.update k v m) = set_add k (jsmap_keys m)"
  by (induction m) (auto simp: set_add_def)

interpretation jsmap: ordered_map map_of AList.update jsmap_keys "[]" "\<lambda>m. distinct (jsmap_keys m)"
proof (unfold_locales, goal_cases)
  case (2 m k v k')
  show ?case by (simp add: update_conv')
next
  case (5 m k)
  show ?case by (metis map_of_eq_None_iff list.set_map)
qed (simp_all add: keys_update)

section \<open>Sorting\<close>

text \<open>
  \<open>Array.prototype.sort\<close> with a comparator that answers by a linear order on a key is a stable
  sort by that key; without a comparator, strings are ordered by their code units, which is the
  lexicographic order of \<^typ>\<open>string\<close>.
\<close>

definition js_sort :: "string list \<Rightarrow> string list" where
  "js_sort xs = sort xs"

lemma js_sort_facts [simp]:
  "sorted (js_sort xs)" "set (js_sort xs) = set xs" "length (js_sort xs) = length xs"
  "distinct (js_sort xs) = distinct xs"
  by (simp_all add: js_sort_def)

end
