(* ===== verification/JsText.thy ===== *)
theory JsText
  imports Prelude
begin

text \<open>
  The string functions of the language that the portal uses: \<open>trim\<close>, \<open>toLowerCase\<close>, \<open>split\<close>
  on a one-character separator, \<open>join\<close>, \<open>includes\<close>, \<open>startsWith\<close>, \<open>endsWith\<close>, decimal
  rendering of integers and \<open>encodeURIComponent\<close>, on texts over the code units 0 to 255, with
  the round-trip and idempotence laws the form code rests on.
\<close>

section \<open>Trimming\<close>

text \<open>White space and line terminators of the language among the code units 0 to 255.\<close>

definition is_ws :: "char \<Rightarrow> bool" where
  "is_ws c = (of_char c \<in> {9, 10, 11, 12, 13, 32, 160 :: nat})"

definition trim_left :: "string \<Rightarrow> string" where
  "trim_left s = dropWhile is_ws s"

definition trim :: "string \<Rightarrow> string" where
  "trim s = rev (dropWhile is_ws (rev (dropWhile is_ws s)))"

definition trimmed_text :: "string \<Rightarrow> bool" where
  "trimmed_text s = (s = [] \<or> (\<not> is_ws (hd s) \<and> \<not> is_ws (last s)))"

lemma trim_Nil [simp]: "trim [] = []"
  by (simp add: trim_def)

lemma trim_eq_Nil: "trim s = [] \<longleftrightarrow> list_all is_ws s"
proof -
  have "trim s = [] \<longleftrightarrow> list_all is_ws (dropWhile is_ws s)"
    by (simp add: trim_def list_all_iff)
  also have "\<dots> \<longleftrightarrow> list_all is_ws s"
    by (induction s) (auto simp: list_all_iff)
  finally show ?thesis .
qed

lemma trim_trimmed: "trimmed_text s \<Longrightarrow> trim s = s"
proof (cases s)
  case (Cons c cs)
  assume t: "trimmed_text s"
  with Cons have "dropWhile is_ws s = s" by (simp add: trimmed_text_def)
  moreover have "dropWhile is_ws (rev s) = rev s"
    using t Cons by (cases "rev s") (auto simp: trimmed_text_def simp flip: hd_rev)
  ultimately show ?thesis by (simp add: trim_def)
qed simp

lemma trimmed_trim: "trimmed_text (trim s)"
proof (cases "trim s = []")
  case False
  let ?d = "dropWhile is_ws s"
  have r: "trim s = rev (dropWhile is_ws (rev ?d))" by (simp add: trim_def)
  from False r have ne: "dropWhile is_ws (rev ?d) \<noteq> []" by simp
  then have "\<not> is_ws (hd (dropWhile is_ws (rev ?d)))" by (rule hd_dropWhile)
  with r ne have l: "\<not> is_ws (last (trim s))" by (simp add: last_rev)
  obtain a where a: "rev ?d = a @ dropWhile is_ws (rev ?d)"
    by (metis takeWhile_dropWhile_id)
  then have d: "?d = trim s @ rev a" unfolding r by (metis rev_append rev_rev_ident)
  with False have "hd (trim s) = hd ?d" by simp
  moreover have "?d \<noteq> []" using d False by auto
  ultimately have "\<not> is_ws (hd (trim s))" by (metis hd_dropWhile)
  with l show ?thesis by (simp add: trimmed_text_def)
qed (simp add: trimmed_text_def)

lemma trim_idem [simp]: "trim (trim s) = trim s"
  by (rule trim_trimmed [OF trimmed_trim])

lemma set_trim: "set (trim s) \<subseteq> set s"
  by (auto simp: trim_def dest!: set_dropWhileD)

lemma trim_ws_append: "is_ws c \<Longrightarrow> trim (c # s) = trim s"
  by (simp add: trim_def)

section \<open>Case folding\<close>

definition lower_char :: "char \<Rightarrow> char" where
  "lower_char c = (let n = of_char c :: nat in
     if (65 \<le> n \<and> n \<le> 90) \<or> (192 \<le> n \<and> n \<le> 222 \<and> n \<noteq> 215) then char_of (n + 32) else c)"

definition toLowerCase :: "string \<Rightarrow> string" where
  "toLowerCase s = map lower_char s"

lemma lower_char_idem [simp]: "lower_char (lower_char c) = lower_char c"
  by (auto simp: lower_char_def Let_def of_char_of)

lemma toLowerCase_idem [simp]: "toLowerCase (toLowerCase s) = toLowerCase s"
  by (simp add: toLowerCase_def)

lemma toLowerCase_append [simp]: "toLowerCase (s @ t) = toLowerCase s @ toLowerCase t"
  by (simp add: toLowerCase_def)

lemma toLowerCase_eq_Nil [simp]: "toLowerCase s = [] \<longleftrightarrow> s = []"
  by (simp add: toLowerCase_def)

section \<open>Searching\<close>

fun str_includes :: "'a list \<Rightarrow> 'a list \<Rightarrow> bool" where
  "str_includes [] needle = (needle = [])"
| "str_includes (c # cs) needle = (prefix needle (c # cs) \<or> str_includes cs needle)"

definition startsWith :: "string \<Rightarrow> string \<Rightarrow> bool" where
  "startsWith s p = prefix p s"

definition endsWith :: "string \<Rightarrow> string \<Rightarrow> bool" where
  "endsWith s p = suffix p s"

lemma str_includes_iff: "str_includes s n \<longleftrightarrow> (\<exists>a b. s = a @ n @ b)"
proof (induction s)
  case (Cons c s)
  show ?case
  proof
    assume "str_includes (c # s) n"
    then consider "prefix n (c # s)" | "str_includes s n" by auto
    then show "\<exists>a b. c # s = a @ n @ b"
    proof cases
      case 1
      then show ?thesis by (metis append_Nil prefix_def)
    next
      case 2
      with Cons.IH show ?thesis by (metis append_Cons)
    qed
  next
    assume "\<exists>a b. c # s = a @ n @ b"
    then obtain a b where ab: "c # s = a @ n @ b" by blast
    show "str_includes (c # s) n"
    proof (cases a)
      case Nil
      with ab have "prefix n (c # s)" by (simp add: prefix_def)
      then show ?thesis by simp
    next
      case (Cons x a')
      with ab have "s = a' @ n @ b" by simp
      with \<open>str_includes s n = _\<close> show ?thesis by auto
    qed
  qed
qed auto

lemma str_includes_Nil [simp]: "str_includes s []"
  by (cases s) simp_all

lemma str_includes_self [simp]: "str_includes s s"
  by (cases s) simp_all

section \<open>Splitting and joining\<close>

fun split_on :: "char \<Rightarrow> string \<Rightarrow> string list" where
  "split_on c [] = [[]]"
| "split_on c (x # xs) =
     (if x = c then [] # split_on c xs
      else (case split_on c xs of [] \<Rightarrow> [[x]] | y # ys \<Rightarrow> (x # y) # ys))"

fun join :: "'a list \<Rightarrow> 'a list list \<Rightarrow> 'a list" where
  "join sep [] = []"
| "join sep [x] = x"
| "join sep (x # y # ys) = x @ sep @ join sep (y # ys)"

lemma split_on_ne [simp]: "split_on c s \<noteq> []"
  by (cases s) (auto split: list.splits)

lemma split_on_no_sep: "c \<notin> set s \<Longrightarrow> split_on c s = [s]"
  by (induction s) auto

lemma split_on_append: "c \<notin> set s \<Longrightarrow> split_on c (s @ c # t) = s # split_on c t"
  by (induction s) auto

lemma split_on_parts: "p \<in> set (split_on c s) \<Longrightarrow> c \<notin> set p"
  by (induction s arbitrary: p) (auto split: list.splits if_splits)

lemma join_split_on: "join [c] (split_on c s) = s"
proof (induction s)
  case (Cons x s)
  show ?case
  proof (cases "split_on c s")
    case (Cons y ys)
    with \<open>join [c] (split_on c s) = s\<close> show ?thesis by (cases ys) auto
  qed simp
qed simp

lemma split_on_join:
  "xs \<noteq> [] \<Longrightarrow> (\<forall>x\<in>set xs. c \<notin> set x) \<Longrightarrow> split_on c (join [c] xs) = xs"
proof (induction xs rule: induct_list012)
  case (3 x y zs)
  then show ?case by (simp add: split_on_append)
qed (simp_all add: split_on_no_sep)

section \<open>Comma-separated lists\<close>

text \<open>
  The idiom \<open>for (const item of value.split(",")) { const t = item.trim(); if (t) seen.add(t) }\<close>
  of \<open>parseRegionAllowlist\<close> and \<open>parseScopes\<close>, and the \<open>join(", ")\<close> that renders such a list
  back into its text field.
\<close>

definition csv_items :: "string \<Rightarrow> string list" where
  "csv_items s = set_of [] (filter (\<lambda>t. t \<noteq> []) (map trim (split_on CHR '','' s)))"

definition csv_item_ok :: "string \<Rightarrow> bool" where
  "csv_item_ok t = (t \<noteq> [] \<and> trimmed_text t \<and> CHR '','' \<notin> set t)"

lemma csv_items_distinct: "distinct (csv_items s)"
  by (simp add: csv_items_def)

lemma csv_items_ok: "t \<in> set (csv_items s) \<Longrightarrow> csv_item_ok t"
  by (auto simp: csv_items_def csv_item_ok_def trimmed_trim dest!: split_on_parts
      dest: subsetD [OF set_trim])

lemma split_on_join_comma_space:
  assumes "xs \<noteq> []" "\<forall>x\<in>set xs. CHR '','' \<notin> set x"
  shows "split_on CHR '','' (join '', '' xs) = hd xs # map (\<lambda>x. CHR '' '' # x) (tl xs)"
  using assms
proof (induction xs rule: induct_list012)
  case (3 x y zs)
  have "split_on CHR '','' (CHR '' '' # join '', '' (y # zs)) =
      (CHR '' '' # y) # map (\<lambda>x. CHR '' '' # x) zs"
    using 3 by simp
  with 3 show ?case by (simp add: split_on_append)
qed (simp_all add: split_on_no_sep)

lemma is_ws_space: "is_ws CHR '' ''"
  by (simp add: is_ws_def)

theorem csv_items_join:
  assumes "distinct xs" "\<forall>x\<in>set xs. csv_item_ok x"
  shows "csv_items (join '', '' xs) = xs"
proof (cases xs)
  case Nil
  then show ?thesis by (simp add: csv_items_def)
next
  case (Cons x ys)
  have "map trim (split_on CHR '','' (join '', '' xs)) = xs"
    using assms Cons
    by (simp add: split_on_join_comma_space csv_item_ok_def trim_trimmed trim_ws_append
        is_ws_space map_idI)
  moreover have "filter (\<lambda>t. t \<noteq> []) xs = xs"
    using assms by (simp add: csv_item_ok_def)
  ultimately show ?thesis
    using assms(1) by (simp add: csv_items_def set_of_distinct)
qed

section \<open>Decimal rendering\<close>

text \<open>\<open>String(n)\<close> of an integer below \<open>1e21\<close>.\<close>

definition digit_char :: "nat \<Rightarrow> char" where
  "digit_char d = char_of (48 + d)"

fun nat_str :: "nat \<Rightarrow> string" where
  "nat_str n = (if n < 10 then [digit_char n] else nat_str (n div 10) @ [digit_char (n mod 10)])"

declare nat_str.simps [simp del]

definition int_str :: "int \<Rightarrow> string" where
  "int_str i = (if i < 0 then CHR ''-'' # nat_str (nat (- i)) else nat_str (nat i))"

definition is_digit :: "char \<Rightarrow> bool" where
  "is_digit c = (48 \<le> (of_char c :: nat) \<and> (of_char c :: nat) \<le> 57)"

definition digit_val :: "char \<Rightarrow> nat" where
  "digit_val c = of_char c - 48"

definition digits_val :: "string \<Rightarrow> nat" where
  "digits_val s = foldl (\<lambda>n c. 10 * n + digit_val c) 0 s"

lemma digit_char_facts:
  "d < 10 \<Longrightarrow> is_digit (digit_char d)" "d < 10 \<Longrightarrow> digit_val (digit_char d) = d"
  by (simp_all add: is_digit_def digit_char_def digit_val_def of_char_of)

lemma nat_str_digits: "list_all is_digit (nat_str n)"
  by (induction n rule: nat_str.induct) (subst nat_str.simps, simp add: digit_char_facts)

lemma nat_str_ne [simp]: "nat_str n \<noteq> []"
  by (subst nat_str.simps) simp

lemma digits_val_nat_str: "digits_val (nat_str n) = n"
proof (induction n rule: nat_str.induct)
  case (1 n)
  show ?case
  proof (cases "n < 10")
    case True
    then show ?thesis by (subst nat_str.simps) (simp add: digits_val_def digit_char_facts)
  next
    case False
    with 1 have "digits_val (nat_str (n div 10)) = n div 10" by simp
    with False show ?thesis
      by (subst nat_str.simps) (simp add: digits_val_def digit_char_facts)
  qed
qed

lemma nat_str_inj [simp]: "nat_str m = nat_str n \<longleftrightarrow> m = n"
  by (metis digits_val_nat_str)

lemma minus_not_nat_str: "CHR ''-'' # s \<noteq> nat_str n"
  using nat_str_digits [of n] by (cases "nat_str n") (auto simp: is_digit_def)

lemma int_str_inj [simp]: "int_str i = int_str j \<longleftrightarrow> i = j"
  using minus_not_nat_str minus_not_nat_str [symmetric]
  by (auto simp: int_str_def eq_nat_nat_iff)

lemma int_str_ne [simp]: "int_str i \<noteq> []"
  by (simp add: int_str_def)

section \<open>Percent encoding\<close>

definition hex_char :: "nat \<Rightarrow> char" where
  "hex_char d = (if d < 10 then char_of (48 + d) else char_of (55 + d))"

definition pct :: "nat \<Rightarrow> string" where
  "pct b = [CHR ''%'', hex_char (b div 16), hex_char (b mod 16)]"

text \<open>The UTF-8 bytes of a code unit below 256, percent-encoded.\<close>

definition pct_utf8 :: "char \<Rightarrow> string" where
  "pct_utf8 c = (let n = of_char c :: nat in
     if n < 128 then pct n else pct (192 + n div 64) @ pct (128 + n mod 64))"

definition is_alnum :: "char \<Rightarrow> bool" where
  "is_alnum c = (let n = of_char c :: nat in
     (48 \<le> n \<and> n \<le> 57) \<or> (65 \<le> n \<and> n \<le> 90) \<or> (97 \<le> n \<and> n \<le> 122))"

text \<open>The characters \<open>encodeURIComponent\<close> leaves alone.\<close>

definition uri_unreserved :: "char \<Rightarrow> bool" where
  "uri_unreserved c = (is_alnum c \<or> c \<in> set ''-_.!~*'' \<or> of_char c \<in> {39, 40, 41 :: nat})"

definition encodeURIComponent :: "string \<Rightarrow> string" where
  "encodeURIComponent s = concat (map (\<lambda>c. if uri_unreserved c then [c] else pct_utf8 c) s)"

definition hex_val :: "char \<Rightarrow> nat option" where
  "hex_val c = (let n = of_char c :: nat in
     if 48 \<le> n \<and> n \<le> 57 then Some (n - 48)
     else if 65 \<le> n \<and> n \<le> 70 then Some (n - 55)
     else if 97 \<le> n \<and> n \<le> 102 then Some (n - 87) else None)"

lemma hex_val_hex_char: "d < 16 \<Longrightarrow> hex_val (hex_char d) = Some d"
  by (auto simp: hex_val_def hex_char_def of_char_of)

lemma hex_char_alnum: "d < 16 \<Longrightarrow> is_alnum (hex_char d)"
  by (auto simp: is_alnum_def hex_char_def of_char_of)

text \<open>
  Percent decoding as \<open>URLSearchParams\<close> performs it: a percent sign that does not open an escape of
  two hexadecimal digits stands for itself, the other escapes are bytes of UTF-8 text. \<open>None\<close>
  when the decoded text has a code unit above 255, the replacement character of ill-formed
  UTF-8 included.
\<close>

fun pct_decode :: "string \<Rightarrow> string option" where
  "pct_decode [] = Some []"
| "pct_decode (c # s) =
     (if c \<noteq> CHR ''%'' then map_option ((#) c) (pct_decode s)
      else (case s of
        a # b # s1 \<Rightarrow>
          (case (hex_val a, hex_val b) of
            (Some h, Some l) \<Rightarrow>
              (if 16 * h + l < 128 then map_option ((#) (char_of (16 * h + l))) (pct_decode s1)
               else (case s1 of
                 p # a1 # b1 # s2 \<Rightarrow>
                   (case (hex_val a1, hex_val b1) of
                     (Some h1, Some l1) \<Rightarrow>
                       (if p = CHR ''%'' \<and> 16 * h + l \<in> {194, 195} \<and> 16 * h1 + l1 \<in> {128..191}
                        then map_option
                          ((#) (char_of ((16 * h + l - 192) * 64 + (16 * h1 + l1 - 128))))
                          (pct_decode s2)
                        else None)
                   | _ \<Rightarrow> None)
               | _ \<Rightarrow> None))
          | _ \<Rightarrow> map_option ((#) c) (pct_decode s))
      | _ \<Rightarrow> map_option ((#) c) (pct_decode s)))"

declare pct_decode.simps [simp del]

lemma pct_decode_byte:
  assumes "b < 128"
  shows "pct_decode (pct b @ s) = map_option ((#) (char_of b)) (pct_decode s)"
proof -
  have "b div 16 < 16" "b mod 16 < 16" using assms by auto
  with assms show ?thesis by (simp add: pct_def hex_val_hex_char pct_decode.simps(2) [of "CHR ''%''"])
qed

lemma pct_decode_two:
  assumes "x \<in> {194, 195}" "y \<in> {128..191}"
  shows "pct_decode (pct x @ pct y @ s) =
    map_option ((#) (char_of ((x - 192) * 64 + (y - 128)))) (pct_decode s)"
proof -
  have h: "x div 16 < 16" "x mod 16 < 16" "y div 16 < 16" "y mod 16 < 16" using assms by auto
  have x: "16 * (x div 16) + x mod 16 = x" and y: "16 * (y div 16) + y mod 16 = y" by simp_all
  have "\<not> x < 128" using assms by auto
  with assms show ?thesis
    by (simp only: pct_def append.simps pct_decode.simps(2) [of "CHR ''%''"] hex_val_hex_char [OF h(1)]
        hex_val_hex_char [OF h(2)] hex_val_hex_char [OF h(3)] hex_val_hex_char [OF h(4)]
        list.case option.case prod.case x y) simp
qed

lemma pct_decode_pct_utf8: "pct_decode (pct_utf8 c @ s) = map_option ((#) c) (pct_decode s)"
proof (cases "(of_char c :: nat) < 128")
  case True
  then show ?thesis by (simp add: pct_utf8_def Let_def pct_decode_byte)
next
  case False
  define n where "n = (of_char c :: nat)"
  have "n < 256" "\<not> n < 128" using False by (simp_all add: n_def)
  then have "n div 64 = 2 \<or> n div 64 = 3" by arith
  then have d: "192 + n div 64 \<in> {194, 195}" by auto
  have m: "128 + n mod 64 \<in> {128..191}" by auto
  have "pct_utf8 c = pct (192 + n div 64) @ pct (128 + n mod 64)"
    using False by (simp add: pct_utf8_def Let_def n_def)
  then have "pct_decode (pct_utf8 c @ s) = map_option ((#) (char_of n)) (pct_decode s)"
    using pct_decode_two [OF d m, of s] by simp
  then show ?thesis by (simp add: n_def)
qed

text \<open>
  What lets an encoded text be read back: an encoder that keeps some characters (never the
  percent sign) and percent-encodes the others is inverted by the decoder.
\<close>

definition pct_encode :: "(char \<Rightarrow> bool) \<Rightarrow> string \<Rightarrow> string" where
  "pct_encode keep s = concat (map (\<lambda>c. if keep c then [c] else pct_utf8 c) s)"

lemma pct_decode_encode:
  assumes "\<not> keep CHR ''%''"
  shows "pct_decode (pct_encode keep s) = Some s"
proof (induction s)
  case (Cons c s)
  show ?case
  proof (cases "keep c")
    case True
    with assms have "c \<noteq> CHR ''%''" by auto
    with True Cons show ?thesis by (simp add: pct_encode_def pct_decode.simps(2) [of c])
  next
    case False
    with Cons show ?thesis by (simp add: pct_encode_def pct_decode_pct_utf8)
  qed
qed (simp add: pct_encode_def pct_decode.simps)

lemma encodeURIComponent_eq: "encodeURIComponent s = pct_encode uri_unreserved s"
  by (simp add: encodeURIComponent_def pct_encode_def)

lemma pct_decode_encodeURIComponent: "pct_decode (encodeURIComponent s) = Some s"
  unfolding encodeURIComponent_eq
  by (rule pct_decode_encode) (simp add: uri_unreserved_def is_alnum_def)

lemma encodeURIComponent_inj [simp]:
  "encodeURIComponent s = encodeURIComponent t \<longleftrightarrow> s = t"
  by (metis option.inject pct_decode_encodeURIComponent)

lemma set_pct: "b < 256 \<Longrightarrow> x \<in> set (pct b) \<Longrightarrow> x = CHR ''%'' \<or> is_alnum x"
  by (auto simp: pct_def intro!: hex_char_alnum)

lemma set_pct_utf8: "x \<in> set (pct_utf8 c) \<Longrightarrow> x = CHR ''%'' \<or> is_alnum x"
proof -
  have "(of_char c :: nat) < 256" by simp
  then have "192 + (of_char c :: nat) div 64 < 256" "128 + (of_char c :: nat) mod 64 < 256"
    by (auto simp del: nat_of_char_less_256)
  then show "x \<in> set (pct_utf8 c) \<Longrightarrow> x = CHR ''%'' \<or> is_alnum x"
    by (auto simp: pct_utf8_def Let_def dest: set_pct [rotated] split: if_splits)
qed

lemma set_encodeURIComponent:
  "x \<in> set (encodeURIComponent s) \<Longrightarrow> x = CHR ''%'' \<or> uri_unreserved x"
  by (auto simp: encodeURIComponent_def uri_unreserved_def split: if_splits dest: set_pct_utf8)

text \<open>An encoded segment cannot open a path segment, a query or a fragment.\<close>

lemma encodeURIComponent_no_delim:
  "CHR ''/'' \<notin> set (encodeURIComponent s)" "CHR ''?'' \<notin> set (encodeURIComponent s)"
  "CHR ''#'' \<notin> set (encodeURIComponent s)" "CHR ''&'' \<notin> set (encodeURIComponent s)"
  by (auto dest!: set_encodeURIComponent simp: uri_unreserved_def is_alnum_def)

lemma encodeURIComponent_eq_Nil [simp]: "encodeURIComponent s = [] \<longleftrightarrow> s = []"
  using encodeURIComponent_inj [of s "[]"] by (simp add: encodeURIComponent_def)

end
