(* ===== verification/JsNumber.thy ===== *)
theory JsNumber
  imports JsText
begin

text \<open>
  The numbers of the language: IEEE binary64 values. A finite value is the rational it denotes;
  \<open>round64\<close> is rounding to nearest, ties to even, with gradual underflow and overflow to an
  infinity. On top of it: \<open>Number(text)\<close>, \<open>String(number)\<close>, \<open>toFixed\<close>, division, remainder
  and \<open>Math.floor\<close>/\<open>Math.ceil\<close> as the duration, byte and port code uses them. The main facts:
  integers up to \<open>2^53\<close> are exact, and the floor and the ceiling of a rounded quotient of such
  integers are those of the exact quotient. Minus zero is identified with zero.
\<close>

datatype jsnum = NaN | PInf | NInf | Fin rat

section \<open>Rounding to binary64\<close>

text \<open>The number of digits of a positive integer in base \<open>b\<close>.\<close>

function digit_count :: "int \<Rightarrow> int \<Rightarrow> nat" where
  "digit_count b x = (if x < 1 \<or> b < 2 then 0 else Suc (digit_count b (x div b)))"
  by pat_completeness auto
termination
  by (relation "measure (\<lambda>(b, x). nat x)") (auto simp: int_div_less_self nat_mono_iff)

declare digit_count.simps [simp del]

definition flog :: "int \<Rightarrow> rat \<Rightarrow> int" where
  "flog b q = (if q \<ge> 1 then int (digit_count b \<lfloor>q\<rfloor>) - 1
     else - int (digit_count b (\<lceil>1 / q\<rceil> - 1)))"

abbreviation flog2 :: "rat \<Rightarrow> int" where
  "flog2 \<equiv> flog 2"

definition pow2 :: "int \<Rightarrow> rat" where
  "pow2 e = (if e \<ge> 0 then 2 ^ nat e else 1 / 2 ^ nat (- e))"

definition round_even :: "rat \<Rightarrow> int" where
  "round_even q = (let f = \<lfloor>q\<rfloor>; d = q - of_int f in
     if d < 1 / 2 then f else if d > 1 / 2 then f + 1 else if even f then f else f + 1)"

definition ulp :: "rat \<Rightarrow> rat" where
  "ulp q = pow2 (max (flog2 \<bar>q\<bar>) (- 1022) - 52)"

definition round64 :: "rat \<Rightarrow> jsnum" where
  "round64 q = (if q = 0 then Fin 0
     else let r = of_int (round_even (q / ulp q)) * ulp q in
       if r \<ge> 2 ^ 1024 then PInf else if r \<le> - (2 ^ 1024) then NInf else Fin r)"

lemma pow2_pos [simp]: "0 < pow2 e"
  by (simp add: pow2_def)

lemma pow2_add: "pow2 (a + b) = pow2 a * pow2 b"
proof -
  have "pow2 e = 2 powi e" for e
    by (simp add: pow2_def power_int_def field_simps)
  then show ?thesis by (simp add: power_int_add)
qed

lemma pow2_mono: "a \<le> b \<Longrightarrow> pow2 a \<le> pow2 b"
proof -
  assume "a \<le> b"
  then have "pow2 b = pow2 a * 2 ^ nat (b - a)"
    using pow2_add [of a "b - a"] by (simp add: pow2_def)
  moreover have "(1::rat) \<le> 2 ^ nat (b - a)" by simp
  ultimately show ?thesis by (metis mult.right_neutral mult_left_mono pow2_pos less_imp_le)
qed

lemma pow2_nat: "pow2 (int n) = 2 ^ n"
  by (simp add: pow2_def)

lemma pow2_minus_nat: "pow2 (- int n) = 1 / 2 ^ n"
  by (simp add: pow2_def)

lemma digit_count_bounds:
  assumes "1 \<le> x" "2 \<le> b"
  shows "1 \<le> digit_count b x" "b ^ (digit_count b x - 1) \<le> x" "x < b ^ digit_count b x"
proof -
  show "1 \<le> digit_count b x" using assms by (subst digit_count.simps) simp
  have "b ^ (digit_count b x - 1) \<le> x \<and> x < b ^ digit_count b x" using assms
  proof (induction b x rule: digit_count.induct)
    case (1 b x)
    then have u: "digit_count b x = Suc (digit_count b (x div b))"
      by (subst digit_count.simps) simp
    show ?case
    proof (cases "x < b")
      case True
      then have "digit_count b (x div b) = 0"
        using 1 by (subst digit_count.simps) simp
      with u True 1 show ?thesis by simp
    next
      case False
      then have d: "1 \<le> x div b" using 1 by (simp add: pos_imp_zdiv_pos_iff int_one_le_iff_zero_less)
      have IH: "b ^ (digit_count b (x div b) - 1) \<le> x div b"
        "x div b < b ^ digit_count b (x div b)" using 1 d by auto
      define k where "k = digit_count b (x div b)"
      have k: "1 \<le> k" using d 1 unfolding k_def by (subst digit_count.simps) simp
      have "b * b ^ (k - 1) \<le> b * (x div b)" using IH(1) 1 by (simp add: k_def)
      also have "\<dots> \<le> x"
        using mult_div_mod_eq [of b x] pos_mod_sign [of b x] 1(3) by linarith
      finally have lo: "b ^ k \<le> x" using k by (simp flip: power_Suc)
      have "x < b * (x div b) + b"
        using mult_div_mod_eq [of b x] pos_mod_bound [of b x] 1(3) by linarith
      then have "x < b * (x div b + 1)" by (simp add: distrib_left)
      also have "\<dots> \<le> b * b ^ k" using IH(2) 1 by (simp add: k_def)
      finally show ?thesis using lo u by (simp add: k_def)
    qed
  qed
  then show "b ^ (digit_count b x - 1) \<le> x" "x < b ^ digit_count b x" by auto
qed

lemma of_int_less_power: "n < 2 ^ k \<Longrightarrow> of_int n + 1 \<le> (2::rat) ^ k"
proof -
  assume "n < 2 ^ k"
  then have "n + 1 \<le> 2 ^ k" by simp
  then have "of_int (n + 1) \<le> (of_int (2 ^ k) :: rat)" by (simp only: of_int_le_iff)
  then show ?thesis by simp
qed

lemma power_le_of_int: "2 ^ k \<le> n \<Longrightarrow> (2::rat) ^ k \<le> of_int n"
  using of_int_le_iff [of "2 ^ k" n, where ?'a = rat] by simp

lemma flog2_bounds:
  assumes "0 < q"
  shows "pow2 (flog2 q) \<le> q \<and> q < pow2 (flog2 q + 1)"
proof (cases "q \<ge> 1")
  case True
  define n where "n = \<lfloor>q\<rfloor>"
  define k where "k = digit_count 2 n"
  have n: "1 \<le> n" using True by (simp add: n_def)
  note b = digit_count_bounds [OF n, of 2, folded k_def, simplified]
  then have e: "flog2 q = int (k - 1)" "flog2 q + 1 = int k"
    using True by (auto simp: flog_def n_def k_def)
  have "of_int n \<le> q" "q < of_int n + 1" unfolding n_def by linarith+
  moreover have "(2::rat) ^ (k - 1) \<le> of_int n" using b(2) by (simp add: power_le_of_int)
  moreover have "of_int n + 1 \<le> (2::rat) ^ k" using b(3) by (rule of_int_less_power)
  ultimately show ?thesis unfolding e(2) unfolding e(1) pow2_nat by linarith
next
  case False
  define c where "c = \<lceil>1 / q\<rceil>"
  define m where "m = c - 1"
  define k where "k = digit_count 2 m"
  from assms False have "1 < 1 / q" by simp
  then have m: "1 \<le> m" unfolding m_def c_def by linarith
  note b = digit_count_bounds [OF m, of 2, folded k_def, simplified]
  have e: "flog2 q = - int k" "flog2 q + 1 = - int (k - 1)"
    using False b(1) by (auto simp: flog_def c_def m_def k_def)
  have "1 / q \<le> of_int m + 1" "of_int m < 1 / q" unfolding m_def c_def by linarith+
  moreover have "(2::rat) ^ (k - 1) \<le> of_int m" using b(2) by (simp add: power_le_of_int)
  moreover have "of_int m + 1 \<le> (2::rat) ^ k" using b(3) by (rule of_int_less_power)
  ultimately have lo: "1 / q \<le> 2 ^ k" and hi: "2 ^ (k - 1) < 1 / q" by linarith+
  from lo assms have "1 / 2 ^ k \<le> q" by (simp add: field_simps)
  moreover from hi assms have "q < 1 / 2 ^ (k - 1)" by (simp add: field_simps)
  ultimately show ?thesis unfolding e(2) unfolding e(1) pow2_minus_nat by simp
qed

lemma round_even_int [simp]: "round_even (of_int i) = i"
  by (simp add: round_even_def)

lemma round_even_error: "\<bar>of_int (round_even q) - q\<bar> \<le> 1 / 2"
  by (auto simp: round_even_def Let_def abs_if) linarith+

text \<open>Integers of at most 53 bits are binary64 values.\<close>

lemma pow2_le_int:
  assumes "i \<noteq> 0" "\<bar>i\<bar> \<le> 2 ^ 53"
  shows "\<exists>j. of_int i / ulp (of_int i) = (of_int j :: rat)"
proof -
  define e where "e = flog2 \<bar>of_int i\<bar>"
  have q: "(0::rat) < \<bar>of_int i\<bar>" "(1::rat) \<le> \<bar>of_int i\<bar>" using assms(1) by (auto simp flip: of_int_abs)
  from flog2_bounds [OF q(1)] have b: "pow2 e \<le> \<bar>of_int i\<bar>" "\<bar>of_int i\<bar> < pow2 (e + 1)"
    by (auto simp: e_def)
  have e0: "0 \<le> e"
  proof (rule ccontr)
    assume "\<not> 0 \<le> e"
    then have "pow2 (e + 1) \<le> pow2 (int 0)" by (intro pow2_mono) simp
    with b(2) q(2) show False by (simp add: pow2_def [of 0])
  qed
  show ?thesis
  proof (cases "e \<le> 52")
    case True
    then have "ulp (of_int i) = 1 / 2 ^ nat (52 - e)"
      using e0 by (simp add: ulp_def e_def [symmetric] pow2_def max_def)
    then have "of_int i / ulp (of_int i) = (of_int (i * 2 ^ nat (52 - e)) :: rat)" by simp
    then show ?thesis by blast
  next
    case False
    have "pow2 e \<le> 2 ^ 53"
      using b(1) assms(2) by (metis (mono_tags) of_int_abs of_int_le_iff of_int_numeral of_int_power
          order_trans)
    moreover have "pow2 e \<ge> pow2 (int 53)" using False by (intro pow2_mono) simp
    ultimately have "pow2 e = 2 ^ 53" unfolding pow2_nat by (rule antisym)
    with b(1) have "\<bar>of_int i\<bar> \<ge> (2 ^ 53 :: rat)" by simp
    then have "\<bar>i\<bar> \<ge> 2 ^ 53" by (metis (mono_tags) of_int_abs of_int_le_iff of_int_numeral of_int_power)
    with assms(2) have i: "\<bar>i\<bar> = 2 ^ 53" by simp
    have "e < 54"
    proof (rule ccontr)
      assume "\<not> e < 54"
      then have "pow2 (int 54) \<le> pow2 e" by (intro pow2_mono) simp
      then show False unfolding \<open>pow2 e = 2 ^ 53\<close> pow2_nat by simp
    qed
    with False have "e = 53" by simp
    then have "ulp (of_int i) = 2" by (simp add: ulp_def e_def [symmetric] pow2_def)
    moreover obtain j where "i = 2 * j" using i by (metis (no_types) abs_eq_iff' dvd_def
          dvd_abs_iff dvd_power zero_less_numeral)
    ultimately show ?thesis by auto
  qed
qed

lemma round64_int:
  assumes "\<bar>i\<bar> \<le> 2 ^ 53"
  shows "round64 (of_int i) = Fin (of_int i)"
proof (cases "i = 0")
  case False
  obtain j where j: "of_int i / ulp (of_int i) = (of_int j :: rat)"
    using pow2_le_int [OF False assms] by blast
  have "ulp (of_int i) \<noteq> 0" by (simp add: ulp_def less_imp_neq [OF pow2_pos, symmetric])
  with j have r: "of_int j * ulp (of_int i) = of_int i" by (simp add: field_simps)
  have "\<bar>of_int i\<bar> \<le> (2 ^ 53 :: rat)"
    using assms by (metis (mono_tags) of_int_abs of_int_le_iff of_int_numeral of_int_power)
  moreover have "(2::rat) ^ 53 < 2 ^ 1024" by (rule power_strict_increasing) simp_all
  ultimately have "\<bar>of_int i\<bar> < (2 ^ 1024 :: rat)" by linarith
  with j r False show ?thesis by (simp add: round64_def Let_def abs_less_iff)
qed (simp add: round64_def)

text \<open>In the normal range the relative rounding error is at most \<open>2^-53\<close>.\<close>

lemma round64_error:
  assumes "pow2 (- 1022) \<le> q" "q < 2 ^ 1023"
  shows "\<exists>r. round64 q = Fin r \<and> \<bar>r - q\<bar> \<le> q / 2 ^ 53"
proof -
  have q0: "0 < q" using assms(1) pow2_pos by (rule order.strict_trans2 [rotated])
  define e where "e = flog2 q"
  have b: "pow2 e \<le> q" "q < pow2 (e + 1)" using flog2_bounds [OF q0] by (auto simp: e_def)
  have e: "- 1022 \<le> e"
  proof (rule ccontr)
    assume "\<not> - 1022 \<le> e"
    then have "pow2 (e + 1) \<le> pow2 (- 1022)" by (intro pow2_mono) simp
    with b(2) assms(1) show False by simp
  qed
  define u where "u = ulp q"
  have u: "u = pow2 (e - 52)" using q0 e by (simp add: u_def ulp_def e_def max_def)
  have u0: "0 < u" by (simp add: u)
  have "pow2 e = u * 2 ^ 52"
    using pow2_add [of "e - 52" 52] by (simp add: u pow2_def [of 52])
  with b(1) have uq: "u \<le> q / 2 ^ 52" by (simp add: field_simps)
  define r where "r = of_int (round_even (q / u)) * u"
  have "r - q = (of_int (round_even (q / u)) - q / u) * u"
    using u0 by (simp add: r_def algebra_simps)
  then have "\<bar>r - q\<bar> = \<bar>of_int (round_even (q / u)) - q / u\<bar> * u"
    using u0 by (simp add: abs_mult)
  also have "\<dots> \<le> 1 / 2 * u" by (rule mult_right_mono [OF round_even_error]) (use u0 in simp)
  also have "\<dots> \<le> q / 2 ^ 53" using uq by simp
  finally have err: "\<bar>r - q\<bar> \<le> q / 2 ^ 53" .
  have "q / 2 ^ 53 \<le> q" using q0 by (simp add: field_simps)
  with err have lo: "0 \<le> r" and hi: "r \<le> 2 * q" by linarith+
  from hi assms(2) have "r < 2 * 2 ^ 1023" by linarith
  also have "(2::rat) * 2 ^ 1023 = 2 ^ 1024" using power_Suc [of "2::rat" 1023] by simp
  finally have "r < 2 ^ 1024" .
  moreover have "- (2 ^ 1024) < (0 :: rat)" by simp
  ultimately have "round64 q = Fin r"
    using q0 lo unfolding round64_def u_def [symmetric] r_def [symmetric] Let_def by auto
  with err show ?thesis by blast
qed

text \<open>The quotient of two such integers never crosses an integer when it is rounded.\<close>

lemma round64_quotient:
  fixes n d :: int
  assumes "0 \<le> n" "n < 2 ^ 53" "0 < d" "d \<le> 2 ^ 53"
  shows "\<exists>r. round64 (of_int n / of_int d) = Fin r \<and>
    (if n mod d = 0 then r = of_int (n div d)
     else of_int (n div d) < r \<and> r < of_int (n div d) + 1)"
proof (cases "n mod d = 0")
  case True
  then have "of_int n / of_int d = (of_int (n div d) :: rat)"
    using assms(3) by (metis mod_0_imp_dvd of_int_div rel_simps(93) less_irrefl)
  moreover have "\<bar>n div d\<bar> \<le> 2 ^ 53"
    using assms by (smt (verit) div_by_1 int_div_less_self pos_imp_zdiv_nonneg_iff zdiv_mono2)
  ultimately show ?thesis using True round64_int [of "n div d"] by simp
next
  case False
  define k where "k = n div d"
  define m where "m = n mod d"
  have m: "1 \<le> m" "m \<le> d - 1"
    using False pos_mod_sign [OF assms(3), of n] pos_mod_bound [OF assms(3), of n]
    unfolding m_def by linarith+
  have nd: "n = d * k + m" by (simp add: k_def m_def)
  define q :: rat where "q = of_int n / of_int d"
  have d0: "(0::rat) < of_int d" using assms(3) by simp
  have q: "q = of_int k + of_int m / of_int d" using d0 by (simp add: q_def nd field_simps)
  have n1: "1 \<le> n" using False assms(1) by (cases "n = 0") auto
  have "1 / of_int d \<le> q" using n1 d0 by (simp add: q_def divide_right_mono)
  moreover have "(1::rat) / 2 ^ 53 \<le> 1 / of_int d"
  proof (rule divide_left_mono)
    show "of_int d \<le> (2 ^ 53 :: rat)"
      using assms(4) by (metis (mono_tags) of_int_le_iff of_int_numeral of_int_power)
    show "0 < 2 ^ 53 * (of_int d :: rat)" using d0 by simp
  qed simp
  moreover have "pow2 (- 1022) \<le> 1 / 2 ^ 53"
    using pow2_mono [of "- 1022" "- int 53"] by (simp only: pow2_minus_nat)
  ultimately have lo: "pow2 (- 1022) \<le> q" by linarith
  have nr: "of_int n < (2 ^ 53 :: rat)" using assms(2)
    by (metis (mono_tags) of_int_less_iff of_int_numeral of_int_power)
  have "1 \<le> (of_int d :: rat)" using assms(3) by simp
  then have "q \<le> of_int n" using n1 unfolding q_def by (simp add: field_simps)
  moreover have "(2::rat) ^ 53 \<le> 2 ^ 1023" by (rule power_increasing) simp_all
  ultimately have hi: "q < 2 ^ 1023" using nr by linarith
  obtain r where r: "round64 q = Fin r" "\<bar>r - q\<bar> \<le> q / 2 ^ 53"
    using round64_error [OF lo hi] by blast
  have "q / 2 ^ 53 = (of_int n / 2 ^ 53) / of_int d" by (simp add: q_def)
  also have "\<dots> < 1 / of_int d" using nr d0 by (intro divide_strict_right_mono) simp_all
  finally have err: "\<bar>r - q\<bar> < 1 / of_int d" using r(2) by linarith
  have "1 / of_int d \<le> (of_int m / of_int d :: rat)" using m(1) d0 by (simp add: divide_right_mono)
  then have "of_int k < r" using err q by linarith
  moreover have "of_int m / of_int d \<le> (1 :: rat) - 1 / of_int d"
  proof -
    have "of_int m \<le> (of_int d - 1 :: rat)" using m(2) by (metis of_int_1 of_int_diff of_int_le_iff)
    then show ?thesis using d0 by (simp add: field_simps)
  qed
  then have "r < of_int k + 1" using err q by linarith
  ultimately show ?thesis using False r(1) by (simp add: q_def k_def)
qed

lemma floor_round64_quotient:
  assumes "0 \<le> n" "n < 2 ^ 53" "0 < d" "d \<le> 2 ^ 53"
  shows "\<exists>r. round64 (of_int n / of_int d) = Fin r \<and> \<lfloor>r\<rfloor> = n div d"
  using round64_quotient [OF assms] by (auto simp: floor_eq_iff split: if_splits)

lemma ceiling_round64_quotient:
  assumes "0 \<le> n" "n < 2 ^ 53" "0 < d" "d \<le> 2 ^ 53"
  shows "\<exists>r. round64 (of_int n / of_int d) = Fin r \<and>
    \<lceil>r\<rceil> = n div d + (if n mod d = 0 then 0 else 1)"
  using round64_quotient [OF assms] by (auto simp: ceiling_eq_iff split: if_splits)

section \<open>Operations\<close>

text \<open>Division and remainder by a positive constant, the only divisors of the program.\<close>

fun num_div :: "jsnum \<Rightarrow> rat \<Rightarrow> jsnum" where
  "num_div (Fin a) d = round64 (a / d)"
| "num_div x d = x"

fun num_mod :: "jsnum \<Rightarrow> rat \<Rightarrow> jsnum" where
  "num_mod (Fin a) d = Fin (if a \<ge> 0 then a - d * of_int \<lfloor>a / d\<rfloor> else a - d * of_int \<lceil>a / d\<rceil>)"
| "num_mod x d = NaN"

fun num_floor :: "jsnum \<Rightarrow> jsnum" where
  "num_floor (Fin a) = Fin (of_int \<lfloor>a\<rfloor>)"
| "num_floor x = x"

fun num_ceil :: "jsnum \<Rightarrow> jsnum" where
  "num_ceil (Fin a) = Fin (of_int \<lceil>a\<rceil>)"
| "num_ceil x = x"

fun num_gt :: "jsnum \<Rightarrow> rat \<Rightarrow> bool" where
  "num_gt (Fin a) b = (a > b)"
| "num_gt PInf b = True"
| "num_gt x b = False"

fun num_lt :: "jsnum \<Rightarrow> rat \<Rightarrow> bool" where
  "num_lt (Fin a) b = (a < b)"
| "num_lt NInf b = True"
| "num_lt x b = False"

fun num_le :: "jsnum \<Rightarrow> rat \<Rightarrow> bool" where
  "num_le (Fin a) b = (a \<le> b)"
| "num_le NInf b = True"
| "num_le x b = False"

fun is_finite :: "jsnum \<Rightarrow> bool" where
  "is_finite (Fin a) = True"
| "is_finite x = False"

text \<open>A number in a boolean position: zero and \<open>NaN\<close> are falsy.\<close>

fun num_truthy :: "jsnum \<Rightarrow> bool" where
  "num_truthy (Fin a) = (a \<noteq> 0)"
| "num_truthy NaN = False"
| "num_truthy x = True"

abbreviation num_of_int :: "int \<Rightarrow> jsnum" where
  "num_of_int i \<equiv> Fin (of_int i)"

text \<open>Flooring a quotient of integers of at most 53 bits is integer division.\<close>

lemma num_floor_div_int:
  assumes "0 \<le> n" "n < 2 ^ 53" "0 < d" "d \<le> 2 ^ 53"
  shows "num_floor (num_div (num_of_int n) (of_int d)) = num_of_int (n div d)"
  using floor_round64_quotient [OF assms] by auto

lemma num_ceil_div_int:
  assumes "0 \<le> n" "n < 2 ^ 53" "0 < d" "d \<le> 2 ^ 53"
  shows "num_ceil (num_div (num_of_int n) (of_int d)) =
    num_of_int (n div d + (if n mod d = 0 then 0 else 1))"
  using ceiling_round64_quotient [OF assms] by auto

lemma num_mod_int:
  assumes "0 \<le> n" "0 < d"
  shows "num_mod (num_of_int n) (of_int d) = num_of_int (n mod d)"
proof -
  have "\<lfloor>of_int n / (of_int d :: rat)\<rfloor> = n div d" by (rule floor_divide_of_int_eq)
  moreover have "of_int n - of_int d * of_int (n div d) = (of_int (n mod d) :: rat)"
    by (simp flip: of_int_mult of_int_diff add: minus_mult_div_eq_mod)
  ultimately show ?thesis using assms by simp
qed

section \<open>Number(text)\<close>

definition digits_span :: "string \<Rightarrow> string \<times> string" where
  "digits_span s = (takeWhile is_digit s, dropWhile is_digit s)"

definition exponent :: "string \<Rightarrow> int option" where
  "exponent s = (case s of
     [] \<Rightarrow> Some 0
   | c # r \<Rightarrow>
       if c = CHR ''e'' \<or> c = CHR ''E'' then
         (let sg = (case r of x # _ \<Rightarrow> x = CHR ''-'' | [] \<Rightarrow> False);
              ds = (case r of x # t \<Rightarrow> if x = CHR ''-'' \<or> x = CHR ''+'' then t else r | [] \<Rightarrow> [])
          in if ds \<noteq> [] \<and> list_all is_digit ds
             then Some (if sg then - int (digits_val ds) else int (digits_val ds)) else None)
       else None)"

text \<open>An unsigned decimal literal: digits, an optional fraction, an optional exponent.\<close>

definition unsigned_decimal :: "string \<Rightarrow> rat option" where
  "unsigned_decimal s =
    (let (ip, r) = digits_span s;
         (fp, r2) = (case r of c # t \<Rightarrow> if c = CHR ''.'' then digits_span t else ([], r)
                     | [] \<Rightarrow> ([], []))
     in if ip = [] \<and> fp = [] then None
        else (case exponent r2 of
          None \<Rightarrow> None
        | Some e \<Rightarrow> Some (of_nat (digits_val (ip @ fp)) * 10 powi (e - int (length fp)))))"

definition radix_val :: "nat \<Rightarrow> string \<Rightarrow> nat option" where
  "radix_val b s = (if s = [] then None else
     foldl (\<lambda>acc c. case (acc, hex_val c) of
        (Some n, Some d) \<Rightarrow> if d < b then Some (b * n + d) else None | _ \<Rightarrow> None) (Some 0) s)"

definition opt_num :: "rat option \<Rightarrow> jsnum" where
  "opt_num x = (case x of None \<Rightarrow> NaN | Some q \<Rightarrow> round64 q)"

fun num_neg :: "jsnum \<Rightarrow> jsnum" where
  "num_neg (Fin a) = Fin (- a)"
| "num_neg PInf = NInf"
| "num_neg NInf = PInf"
| "num_neg NaN = NaN"

definition unsigned_number :: "string \<Rightarrow> jsnum" where
  "unsigned_number s = (if s = ''Infinity'' then PInf else opt_num (unsigned_decimal s))"

definition Number :: "string \<Rightarrow> jsnum" where
  "Number text = (case trim text of
     [] \<Rightarrow> Fin 0
   | c # s \<Rightarrow>
       if c = CHR ''-'' then num_neg (unsigned_number s)
       else if c = CHR ''+'' then unsigned_number s
       else (case s of
         [] \<Rightarrow> unsigned_number (c # s)
       | x # r \<Rightarrow>
           if c = CHR ''0'' \<and> x \<in> set ''xX'' then opt_num (map_option of_nat (radix_val 16 r))
           else if c = CHR ''0'' \<and> x \<in> set ''oO'' then opt_num (map_option of_nat (radix_val 8 r))
           else if c = CHR ''0'' \<and> x \<in> set ''bB'' then opt_num (map_option of_nat (radix_val 2 r))
           else unsigned_number (c # s)))"

lemma takeWhile_all: "list_all P s \<Longrightarrow> takeWhile P s = s" "list_all P s \<Longrightarrow> dropWhile P s = []"
  by (induction s) auto

lemma unsigned_decimal_digits:
  assumes "s \<noteq> []" "list_all is_digit s"
  shows "unsigned_decimal s = Some (of_nat (digits_val s))"
  using assms by (simp add: unsigned_decimal_def digits_span_def takeWhile_all exponent_def)

lemma digit_not_ws: "is_digit c \<Longrightarrow> \<not> is_ws c"
  by (auto simp: is_digit_def is_ws_def)

lemma digits_trimmed: "list_all is_digit s \<Longrightarrow> trimmed_text s"
  by (cases "s = []") (simp_all add: trimmed_text_def list_all_iff digit_not_ws)

lemma digit_not_special:
  "is_digit c \<Longrightarrow> c \<notin> set ''-+xXoObB''"
  by (auto simp: is_digit_def)

lemma Number_digits:
  assumes "s \<noteq> []" "list_all is_digit s"
  shows "Number s = round64 (of_nat (digits_val s))"
proof -
  obtain c r where s: "s = c # r" using assms(1) by (cases s) auto
  have t: "trim s = s" by (rule trim_trimmed [OF digits_trimmed [OF assms(2)]])
  have "s \<noteq> ''Infinity''" using assms(2) by (auto simp: is_digit_def)
  then have u: "unsigned_number (c # r) = round64 (of_nat (digits_val s))"
    using assms by (simp add: unsigned_number_def opt_num_def unsigned_decimal_digits flip: s)
  have d: "is_digit c" "\<forall>x \<in> set r. is_digit x" using assms(2) s by (auto simp: list_all_iff)
  show ?thesis
  proof (cases r)
    case Nil
    with s t u digit_not_special [OF d(1)] show ?thesis by (simp add: Number_def)
  next
    case (Cons x r')
    with d(2) have "is_digit x" by simp
    then have "x \<notin> set ''-+xXoObB''" by (rule digit_not_special)
    with Cons s t u digit_not_special [OF d(1)] show ?thesis by (simp add: Number_def)
  qed
qed

lemma Number_nat_str:
  assumes "n \<le> 2 ^ 53"
  shows "Number (nat_str n) = Fin (of_nat n)"
proof -
  have "Number (nat_str n) = round64 (of_int (int n))"
    by (simp add: Number_digits nat_str_digits digits_val_nat_str)
  also have "\<dots> = Fin (of_int (int n))"
    using assms by (intro round64_int) (simp add: nat_le_iff [symmetric])
  finally show ?thesis by simp
qed

section \<open>String(number) and toFixed\<close>

text \<open>
  \<open>String(x)\<close>: an integer of at most 53 bits prints its digits; any other finite value prints
  the shortest decimal digits that round back to it, in positional notation for exponents from
  -7 to 20 and in scientific notation otherwise.
\<close>

definition nearest :: "rat \<Rightarrow> int" where
  "nearest q = \<lfloor>q + 1 / 2\<rfloor>"

text \<open>
  The shortest digits \<open>s\<close>, their number \<open>k\<close> and the exponent \<open>n\<close> of the decimal point; a value
  just below a power of ten can round up to it.
\<close>

fun shortest :: "rat \<Rightarrow> int \<Rightarrow> nat list \<Rightarrow> nat \<times> int \<times> int" where
  "shortest q n [] = (nat (nearest (q * 10 powi (17 - n))), 17, n)"
| "shortest q n (k # ks) =
     (let s = nearest (q * 10 powi (int k - n))
      in if round64 (of_int s * 10 powi (n - int k)) = Fin q
         then (if s = 10 ^ k then (1, 1, n + 1) else (nat s, int k, n))
         else shortest q n ks)"

definition positive_str :: "rat \<Rightarrow> string" where
  "positive_str q =
    (let (s, k, n) = shortest q (flog 10 q + 1) [1..<17];
         ds = nat_str s
     in if k \<le> n \<and> n \<le> 21 then ds @ replicate (nat (n - k)) CHR ''0''
        else if 0 < n \<and> n \<le> 21 then take (nat n) ds @ ''.'' @ drop (nat n) ds
        else if -6 < n \<and> n \<le> 0 then ''0.'' @ replicate (nat (- n)) CHR ''0'' @ ds
        else take 1 ds @ (if k = 1 then [] else ''.'' @ drop 1 ds) @ ''e'' @
          (if n - 1 < 0 then ''-'' else ''+'') @ nat_str (nat \<bar>n - 1\<bar>))"

definition rat_str :: "rat \<Rightarrow> string" where
  "rat_str q = (if of_int \<lfloor>q\<rfloor> = q \<and> \<bar>q\<bar> \<le> 2 ^ 53 then int_str \<lfloor>q\<rfloor>
     else if q < 0 then CHR ''-'' # positive_str (- q) else positive_str q)"

fun num_str :: "jsnum \<Rightarrow> string" where
  "num_str (Fin q) = rat_str q"
| "num_str NaN = ''NaN''"
| "num_str PInf = ''Infinity''"
| "num_str NInf = ''-Infinity''"

lemma num_str_int [simp]: "\<bar>i\<bar> \<le> 2 ^ 53 \<Longrightarrow> num_str (num_of_int i) = int_str i"
proof -
  assume "\<bar>i\<bar> \<le> 2 ^ 53"
  then have "\<bar>of_int i\<bar> \<le> (2 ^ 53 :: rat)"
    by (metis (mono_tags) of_int_abs of_int_le_iff of_int_numeral of_int_power)
  then show ?thesis by (simp add: rat_str_def)
qed

definition fixed_digits :: "nat \<Rightarrow> nat \<Rightarrow> string" where
  "fixed_digits f n = (let m = nat_str n;
     p = replicate (f + 1 - length m) CHR ''0'' @ m
   in if f = 0 then m else take (length p - f) p @ ''.'' @ drop (length p - f) p)"

text \<open>\<open>toFixed\<close> of a finite value below \<open>1e21\<close>: the nearest multiple, the larger one on a tie.\<close>

definition toFixed :: "rat \<Rightarrow> nat \<Rightarrow> string" where
  "toFixed q f = (if q < 0 then CHR ''-'' # fixed_digits f (nat \<lfloor>- q * 10 ^ f + 1 / 2\<rfloor>)
     else fixed_digits f (nat \<lfloor>q * 10 ^ f + 1 / 2\<rfloor>))"

end
