(* ===== verification/JsJson.thy ===== *)
theory JsJson
  imports JsNumber
begin

text \<open>
  \<open>JSON.stringify\<close> and \<open>JSON.parse\<close> over UTF-16 code units, as the API client, the recording
  preview and the terminal frames use them. A text is a list of code units; a JSON string holds
  code units, so escapes above \<open>U+00FF\<close> and surrogates are kept as they are. The parser is a
  recursive descent with fuel; \<open>json_parse_complete\<close> shows that the fuel \<open>json_parse\<close> gives
  never runs out on a text that any amount of fuel accepts, and \<open>json_parse_stringify\<close> is the
  round trip. The order of integer-like keys in objects, which no code reads, is not modelled.
\<close>

type_synonym units = "nat list"

definition u16 :: "string \<Rightarrow> units" where
  "u16 s = map of_char s"

datatype json =
    JNull
  | JBool bool
  | JNum jsnum
  | JStr units
  | JArr "json list"
  | JObj "(units \<times> json) list"

lemma u16_append [simp]: "u16 (s @ t) = u16 s @ u16 t"
  by (simp add: u16_def)

lemma u16_Nil [simp]: "u16 [] = []" "u16 s = [] \<longleftrightarrow> s = []"
  by (simp_all add: u16_def)

lemma length_u16 [simp]: "length (u16 s) = length s"
  by (simp add: u16_def)

lemma u16_inj [simp]: "u16 s = u16 t \<longleftrightarrow> s = t"
  by (simp add: u16_def inj_map_eq_map inj_of_char)

section \<open>Stringify\<close>

definition is_high :: "nat \<Rightarrow> bool" where
  "is_high c = (0xD800 \<le> c \<and> c \<le> 0xDBFF)"

definition is_low :: "nat \<Rightarrow> bool" where
  "is_low c = (0xDC00 \<le> c \<and> c \<le> 0xDFFF)"

definition hex_unit :: "nat \<Rightarrow> nat" where
  "hex_unit d = (if d < 10 then 48 + d else 87 + d)"

definition hex4 :: "nat \<Rightarrow> units" where
  "hex4 c = [92, 117, hex_unit (c div 4096), hex_unit (c div 256 mod 16),
     hex_unit (c div 16 mod 16), hex_unit (c mod 16)]"

definition esc :: "nat \<Rightarrow> units" where
  "esc c = (if c = 8 then [92, 98] else if c = 9 then [92, 116] else if c = 10 then [92, 110]
     else if c = 12 then [92, 102] else if c = 13 then [92, 114] else if c = 34 then [92, 34]
     else if c = 92 then [92, 92] else if c < 32 \<or> is_high c \<or> is_low c then hex4 c else [c])"

fun quote_units :: "units \<Rightarrow> units" where
  "quote_units [] = []"
| "quote_units [c] = esc c"
| "quote_units (c # d # s) =
     (if is_high c \<and> is_low d then c # d # quote_units s else esc c @ quote_units (d # s))"

definition quote_str :: "units \<Rightarrow> units" where
  "quote_str s = 34 # quote_units s @ [34]"

fun num_json :: "jsnum \<Rightarrow> units" where
  "num_json (Fin q) = u16 (rat_str q)"
| "num_json _ = u16 ''null''"

fun json_stringify :: "json \<Rightarrow> units" where
  "json_stringify JNull = u16 ''null''"
| "json_stringify (JBool b) = u16 (if b then ''true'' else ''false'')"
| "json_stringify (JNum n) = num_json n"
| "json_stringify (JStr s) = quote_str s"
| "json_stringify (JArr xs) = 91 # join [44] (map json_stringify xs) @ [93]"
| "json_stringify (JObj kvs) =
     123 # join [44] (map (\<lambda>(k, v). quote_str k @ 58 # json_stringify v) kvs) @ [125]"

section \<open>Parse\<close>

fun skip_ws :: "units \<Rightarrow> units" where
  "skip_ws [] = []"
| "skip_ws (c # s) = (if c \<in> {9, 10, 13, 32} then skip_ws s else c # s)"

definition unhex :: "nat \<Rightarrow> nat option" where
  "unhex n = (if 48 \<le> n \<and> n \<le> 57 then Some (n - 48)
     else if 65 \<le> n \<and> n \<le> 70 then Some (n - 55)
     else if 97 \<le> n \<and> n \<le> 102 then Some (n - 87) else None)"

definition unesc :: "nat \<Rightarrow> nat option" where
  "unesc e = (if e = 34 \<or> e = 92 \<or> e = 47 then Some e else if e = 98 then Some 8
     else if e = 102 then Some 12 else if e = 110 then Some 10 else if e = 114 then Some 13
     else if e = 116 then Some 9 else None)"

definition push :: "nat \<Rightarrow> (units \<times> units) option \<Rightarrow> (units \<times> units) option" where
  "push c r = map_option (\<lambda>(cs, rest). (c # cs, rest)) r"

text \<open>The rest of a string literal after its opening quote.\<close>

fun parse_str :: "units \<Rightarrow> (units \<times> units) option" where
  "parse_str [] = None"
| "parse_str (c # r) =
     (if c = 34 then Some ([], r)
      else if c < 32 then None
      else if c \<noteq> 92 then push c (parse_str r)
      else (case r of
        [] \<Rightarrow> None
      | e # r1 \<Rightarrow>
          if e = 117 then
            (case r1 of
              a # b # x # y # r2 \<Rightarrow>
                (case (unhex a, unhex b, unhex x, unhex y) of
                  (Some a', Some b', Some x', Some y') \<Rightarrow>
                    push (a' * 4096 + b' * 256 + x' * 16 + y') (parse_str r2)
                | _ \<Rightarrow> None)
            | _ \<Rightarrow> None)
          else (case unesc e of None \<Rightarrow> None | Some c' \<Rightarrow> push c' (parse_str r1))))"

definition num_unit :: "nat \<Rightarrow> bool" where
  "num_unit c = ((48 \<le> c \<and> c \<le> 57) \<or> c \<in> {43, 45, 46, 69, 101})"

text \<open>A number token against the JSON grammar, and its value.\<close>

definition json_unsigned :: "string \<Rightarrow> rat option" where
  "json_unsigned s =
    (let (ip, r) = digits_span s in
     if ip = [] \<or> (hd ip = CHR ''0'' \<and> length ip \<noteq> 1) then None
     else if r \<noteq> [] \<and> hd r = CHR ''.'' \<and> fst (digits_span (tl r)) = [] then None
     else unsigned_decimal s)"

definition json_number :: "string \<Rightarrow> jsnum option" where
  "json_number s = (case s of
     [] \<Rightarrow> None
   | c # r \<Rightarrow> if c = CHR ''-'' then map_option (\<lambda>q. num_neg (round64 q)) (json_unsigned r)
              else map_option round64 (json_unsigned s))"

definition parse_num :: "units \<Rightarrow> (json \<times> units) option" where
  "parse_num s = map_option (\<lambda>n. (JNum n, dropWhile num_unit s))
     (json_number (map char_of (takeWhile num_unit s)))"

definition parse_word :: "units \<Rightarrow> (json \<times> units) option" where
  "parse_word s =
    (if prefix (u16 ''null'') s then Some (JNull, drop 4 s)
     else if prefix (u16 ''true'') s then Some (JBool True, drop 4 s)
     else if prefix (u16 ''false'') s then Some (JBool False, drop 5 s)
     else parse_num s)"

fun parse_value :: "nat \<Rightarrow> units \<Rightarrow> (json \<times> units) option"
and parse_elems :: "nat \<Rightarrow> units \<Rightarrow> (json list \<times> units) option"
and parse_members :: "nat \<Rightarrow> (units \<times> json) list \<Rightarrow> units \<Rightarrow> ((units \<times> json) list \<times> units) option"
where
  "parse_value 0 s = None"
| "parse_value (Suc f) s =
    (case skip_ws s of
      [] \<Rightarrow> None
    | c # r \<Rightarrow>
        if c = 34 then map_option (\<lambda>(cs, r'). (JStr cs, r')) (parse_str r)
        else if c = 91 then
          (if prefix [93] (skip_ws r) then Some (JArr [], tl (skip_ws r))
           else map_option (\<lambda>(xs, r'). (JArr xs, r')) (parse_elems f r))
        else if c = 123 then
          (if prefix [125] (skip_ws r) then Some (JObj [], tl (skip_ws r))
           else map_option (\<lambda>(kvs, r'). (JObj kvs, r')) (parse_members f [] r))
        else parse_word (c # r))"
| "parse_elems 0 s = None"
| "parse_elems (Suc f) s =
    (case parse_value f s of
      None \<Rightarrow> None
    | Some (v, r) \<Rightarrow>
        (case skip_ws r of
          [] \<Rightarrow> None
        | c # r' \<Rightarrow>
            if c = 44 then map_option (\<lambda>(vs, r''). (v # vs, r'')) (parse_elems f r')
            else if c = 93 then Some ([v], r') else None))"
| "parse_members 0 acc s = None"
| "parse_members (Suc f) acc s =
    (case skip_ws s of
      [] \<Rightarrow> None
    | q # r0 \<Rightarrow>
        if q \<noteq> 34 then None
        else (case parse_str r0 of
          None \<Rightarrow> None
        | Some (k, r1) \<Rightarrow>
            (case skip_ws r1 of
              [] \<Rightarrow> None
            | d # r2 \<Rightarrow>
                if d \<noteq> 58 then None
                else (case parse_value f r2 of
                  None \<Rightarrow> None
                | Some (v, r3) \<Rightarrow>
                    (case skip_ws r3 of
                      [] \<Rightarrow> None
                    | c # r4 \<Rightarrow>
                        if c = 44 then parse_members f (AList.update k v acc) r4
                        else if c = 125 then Some (AList.update k v acc, r4) else None)))))"

definition json_parse :: "units \<Rightarrow> json option" where
  "json_parse s = (case parse_value (2 * length s) s of
     None \<Rightarrow> None
   | Some (v, r) \<Rightarrow> if skip_ws r = [] then Some v else None)"

section \<open>Enough fuel\<close>

lemma skip_ws_length: "length (skip_ws s) \<le> length s"
  by (induction s) auto

lemma skip_ws_Cons_length: "skip_ws s = c # r \<Longrightarrow> length r < length s"
  using skip_ws_length [of s] by simp

lemma push_Some: "push c x = Some (cs, r) \<longleftrightarrow> (\<exists>ds. cs = c # ds \<and> x = Some (ds, r))"
  by (auto simp: push_def)

lemma parse_str_length: "parse_str s = Some (cs, r) \<Longrightarrow> length r < length s"
proof (induction s arbitrary: cs rule: parse_str.induct)
  case (2 c s)
  then show ?case
    by (fastforce simp: push_Some split: if_splits list.splits option.splits)
qed simp

lemma parse_num_length: "parse_num s = Some (v, r) \<Longrightarrow> length r < length s"
proof -
  assume a: "parse_num s = Some (v, r)"
  then have "takeWhile num_unit s \<noteq> []" by (auto simp: parse_num_def json_number_def)
  moreover have "length s = length (takeWhile num_unit s) + length (dropWhile num_unit s)"
    by (metis length_append takeWhile_dropWhile_id)
  ultimately show ?thesis using a by (auto simp: parse_num_def)
qed

lemma parse_word_length: "parse_word s = Some (v, r) \<Longrightarrow> length r < length s"
  by (auto simp: parse_word_def prefix_def dest: parse_num_length split: if_splits)

lemma parse_mono_step:
  "parse_value f s = Some x \<Longrightarrow> parse_value (Suc f) s = Some x"
  "parse_elems f s = Some y \<Longrightarrow> parse_elems (Suc f) s = Some y"
  "parse_members f acc s = Some z \<Longrightarrow> parse_members (Suc f) acc s = Some z"
proof (induction f s and f s and f acc s arbitrary: x and y and z
    rule: parse_value_parse_elems_parse_members.induct)
  case (2 f s)
  then show ?case
    by (auto simp del: parse_elems.simps parse_members.simps split: list.splits if_splits)
next
  case (4 f s)
  from "4.prems" obtain v r where v: "parse_value f s = Some (v, r)"
    by (auto split: option.splits)
  with "4.IH"(1) have v': "parse_value (Suc f) s = Some (v, r)" by blast
  show ?case
    using "4.prems" "4.IH"(2) v
    by (subst parse_elems.simps)
      (auto simp: v' simp del: parse_value.simps parse_elems.simps(2) split: list.splits if_splits
        simp: parse_elems.simps(2) [of f s])
next
  case (6 f acc s)
  from "6.prems" obtain q r0 k r1 d r2 v r3 where
    v: "skip_ws s = q # r0" "q = 34" "parse_str r0 = Some (k, r1)" "skip_ws r1 = d # r2" "d = 58"
      "parse_value f r2 = Some (v, r3)"
    by (auto split: list.splits if_splits option.splits)
  have v': "parse_value (Suc f) r2 = Some (v, r3)" using "6.IH"(1) v by auto
  show ?case
    using "6.prems" "6.IH"(2) v
    by (subst parse_members.simps)
      (auto simp: v' simp del: parse_value.simps parse_members.simps(2) split: list.splits if_splits
        simp: parse_members.simps(2) [of f acc s])
qed simp_all

lemma parse_mono:
  "parse_value f s = Some x \<Longrightarrow> f \<le> g \<Longrightarrow> parse_value g s = Some x"
  "parse_elems f s = Some y \<Longrightarrow> f \<le> g \<Longrightarrow> parse_elems g s = Some y"
  "parse_members f acc s = Some z \<Longrightarrow> f \<le> g \<Longrightarrow> parse_members g acc s = Some z"
  by (rule dec_induct [of f g]; blast intro: parse_mono_step)+

text \<open>A parse that consumes \<open>n\<close> units needs no more than \<open>2 * n\<close> units of fuel.\<close>

definition consumed :: "units \<Rightarrow> units \<Rightarrow> nat" where
  "consumed s r = 2 * (length s - length r)"

lemma consumed_le: "length r < length s \<Longrightarrow> length s' < length s \<Longrightarrow> length r \<le> length r' \<Longrightarrow>
  consumed s' r' \<le> consumed s r - 1"
  by (simp add: consumed_def)

lemma consumed_Suc: "length r < length s \<Longrightarrow> consumed s r = Suc (consumed s r - 1)"
  by (simp add: consumed_def)

lemma parse_value_array_fuel:
  assumes "skip_ws s = 91 # r0" "\<not> prefix [93] (skip_ws r0)" "length r < length r0"
    "parse_elems (consumed r0 r) r0 = Some (xs, r)"
  shows "parse_value (consumed s r) s = Some (JArr xs, r)"
proof -
  have l: "length r0 < length s" using assms(1) by (rule skip_ws_Cons_length)
  with assms(3) have sr: "length r < length s" by simp
  have "parse_elems (consumed s r - 1) r0 = Some (xs, r)"
    using parse_mono(2) [OF assms(4) consumed_le [OF sr l order_refl]] .
  then show ?thesis using assms(1,2) by (subst consumed_Suc [OF sr]) simp
qed

lemma parse_value_object_fuel:
  assumes "skip_ws s = 123 # r0" "\<not> prefix [125] (skip_ws r0)" "length r < length r0"
    "parse_members (consumed r0 r) [] r0 = Some (kvs, r)"
  shows "parse_value (consumed s r) s = Some (JObj kvs, r)"
proof -
  have l: "length r0 < length s" using assms(1) by (rule skip_ws_Cons_length)
  with assms(3) have sr: "length r < length s" by simp
  have "parse_members (consumed s r - 1) [] r0 = Some (kvs, r)"
    using parse_mono(3) [OF assms(4) consumed_le [OF sr l order_refl]] .
  then show ?thesis using assms(1,2) by (subst consumed_Suc [OF sr]) simp
qed

lemma parse_fuel:
  "parse_value f s = Some (v, r) \<Longrightarrow>
     length r < length s \<and> parse_value (consumed s r) s = Some (v, r)"
  "parse_elems f s = Some (vs, r) \<Longrightarrow>
     length r < length s \<and> parse_elems (consumed s r) s = Some (vs, r)"
  "parse_members f acc s = Some (kvs, r) \<Longrightarrow>
     length r < length s \<and> parse_members (consumed s r) acc s = Some (kvs, r)"
proof (induction f s and f s and f acc s arbitrary: v r and vs r and kvs r
    rule: parse_value_parse_elems_parse_members.induct)
  case (2 f s)
  from "2.prems" obtain c r0 where c: "skip_ws s = c # r0" by (auto split: list.splits)
  have l: "length r0 < length s" using c by (rule skip_ws_Cons_length)
  consider (str) "c = 34" | (arr0) "c = 91" "prefix [93] (skip_ws r0)"
    | (arr) "c = 91" "\<not> prefix [93] (skip_ws r0)" | (obj0) "c = 123" "prefix [125] (skip_ws r0)"
    | (obj) "c = 123" "\<not> prefix [125] (skip_ws r0)"
    | (word) "c \<noteq> 34" "c \<noteq> 91" "c \<noteq> 123" by blast
  then show ?case
  proof cases
    case arr
    with "2.prems" c obtain xs where "parse_elems f r0 = Some (xs, r)" "v = JArr xs" by auto
    with "2.IH"(1) [OF c _ arr] arr c l show ?thesis
      using parse_value_array_fuel by fastforce
  next
    case obj
    with "2.prems" c obtain kvs where "parse_members f [] r0 = Some (kvs, r)" "v = JObj kvs" by auto
    with "2.IH"(2) [OF c _ _ obj] obj c l show ?thesis
      using parse_value_object_fuel by fastforce
  next
    case str
    with "2.prems" c have ps: "parse_str r0 = Some (case v of JStr x \<Rightarrow> x, r)" by auto
    with l parse_str_length have sr: "length r < length s" by fastforce
    with "2.prems" c str show ?thesis by (subst consumed_Suc) auto
  next
    case arr0
    with "2.prems" c skip_ws_length [of r0] l have sr: "length r < length s"
      by (auto simp: prefix_def)
    with "2.prems" c arr0 show ?thesis by (subst consumed_Suc) auto
  next
    case obj0
    with "2.prems" c skip_ws_length [of r0] l have sr: "length r < length s"
      by (auto simp: prefix_def)
    with "2.prems" c obj0 show ?thesis by (subst consumed_Suc) auto
  next
    case word
    with "2.prems" c have "parse_word (c # r0) = Some (v, r)" by auto
    then have "length r < length (c # r0)" by (rule parse_word_length)
    with c skip_ws_length [of s] have sr: "length r < length s" by simp
    with "2.prems" c word show ?thesis by (subst consumed_Suc) auto
  qed
next
  case (4 f s)
  from "4.prems" obtain v r1 where v: "parse_value f s = Some (v, r1)" by (auto split: option.splits)
  with "4.IH"(1) have iv: "length r1 < length s" "parse_value (consumed s r1) s = Some (v, r1)" by auto
  from "4.prems" v obtain c r2 where c: "skip_ws r1 = c # r2" by (auto split: list.splits)
  have l2: "length r2 < length r1" using c by (rule skip_ws_Cons_length)
  show ?case
  proof (cases "c = 44")
    case True
    with "4.prems" v c obtain ws where ws: "parse_elems f r2 = Some (ws, r)" "vs = v # ws" by auto
    with "4.IH"(2) [OF v _ c True] have ie: "length r < length r2"
      "parse_elems (consumed r2 r) r2 = Some (ws, r)" by auto
    have sr: "length r < length s" using ie iv l2 by simp
    have "parse_value (consumed s r - 1) s = Some (v, r1)"
      using iv ie l2 by (intro parse_mono(1) [OF iv(2)]) (simp add: consumed_def)
    moreover have "parse_elems (consumed s r - 1) r2 = Some (ws, r)"
      using iv ie l2 by (intro parse_mono(2) [OF ie(2)]) (simp add: consumed_def)
    ultimately show ?thesis using sr c True ws by (subst consumed_Suc) auto
  next
    case False
    with "4.prems" v c have e: "c = 93" "vs = [v]" "r = r2" by (auto split: if_splits)
    have sr: "length r < length s" using e iv l2 by simp
    have "parse_value (consumed s r - 1) s = Some (v, r1)"
      using iv l2 e by (intro parse_mono(1) [OF iv(2)]) (simp add: consumed_def)
    then show ?thesis using sr c e by (subst consumed_Suc) auto
  qed
next
  case (6 f acc s)
  from "6.prems" obtain q r0 k r1 d r2 v r3 c r4 where
    v: "skip_ws s = q # r0" "q = 34" "parse_str r0 = Some (k, r1)" "skip_ws r1 = d # r2" "d = 58"
      "parse_value f r2 = Some (v, r3)" "skip_ws r3 = c # r4"
    by (auto split: list.splits if_splits option.splits)
  have l: "length r0 < length s" "length r1 < length r0" "length r2 < length r1" "length r4 < length r3"
    using v skip_ws_Cons_length parse_str_length by blast+
  have iv: "length r3 < length r2" "parse_value (consumed r2 r3) r2 = Some (v, r3)"
    using "6.IH"(1) v by auto
  show ?case
  proof (cases "c = 44")
    case True
    with "6.prems" v have ms: "parse_members f (AList.update k v acc) r4 = Some (kvs, r)" by auto
    with "6.IH"(2) v True have im: "length r < length r4"
      "parse_members (consumed r4 r) (AList.update k v acc) r4 = Some (kvs, r)" by auto
    have sr: "length r < length s" using im iv l by simp
    have "parse_value (consumed s r - 1) r2 = Some (v, r3)"
      using iv im l by (intro parse_mono(1) [OF iv(2)]) (simp add: consumed_def)
    moreover have "parse_members (consumed s r - 1) (AList.update k v acc) r4 = Some (kvs, r)"
      using iv im l by (intro parse_mono(3) [OF im(2)]) (simp add: consumed_def)
    ultimately show ?thesis using sr v True by (subst consumed_Suc) auto
  next
    case False
    with "6.prems" v have e: "c = 125" "kvs = AList.update k v acc" "r = r4"
      by (auto split: if_splits)
    have sr: "length r < length s" using e iv l by simp
    have "parse_value (consumed s r - 1) r2 = Some (v, r3)"
      using iv l e by (intro parse_mono(1) [OF iv(2)]) (simp add: consumed_def)
    then show ?thesis using sr v e by (subst consumed_Suc) auto
  qed
qed simp_all

lemma json_parse_complete:
  assumes "parse_value f s = Some (v, r)" "skip_ws r = []"
  shows "json_parse s = Some v"
proof -
  have "parse_value (consumed s r) s = Some (v, r)" using parse_fuel(1) [OF assms(1)] by blast
  then have "parse_value (2 * length s) s = Some (v, r)"
    by (rule parse_mono(1)) (simp add: consumed_def)
  with assms(2) show ?thesis by (simp add: json_parse_def)
qed

section \<open>Round trip\<close>

text \<open>
  The values whose printed form is read back exactly: code units of 16 bits, integers of at
  most 53 bits, distinct keys in every object.
\<close>

fun int_num :: "jsnum \<Rightarrow> bool" where
  "int_num (Fin q) = (of_int \<lfloor>q\<rfloor> = q \<and> \<bar>\<lfloor>q\<rfloor>\<bar> \<le> 2 ^ 53)"
| "int_num _ = False"

definition wf_units :: "units \<Rightarrow> bool" where
  "wf_units s = list_all (\<lambda>c. c < 65536) s"

fun wf_json :: "json \<Rightarrow> bool" where
  "wf_json (JNum n) = int_num n"
| "wf_json (JStr s) = wf_units s"
| "wf_json (JArr xs) = list_all wf_json xs"
| "wf_json (JObj kvs) = (distinct (map fst kvs) \<and> list_all (\<lambda>(k, v). wf_units k \<and> wf_json v) kvs)"
| "wf_json _ = True"

lemma unhex_hex_unit: "d < 16 \<Longrightarrow> unhex (hex_unit d) = Some d"
  by (auto simp: unhex_def hex_unit_def)

lemma parse_str_hex4: "c < 65536 \<Longrightarrow> parse_str (hex4 c @ t) = push c (parse_str t)"
proof -
  assume "c < 65536"
  then have d: "c div 4096 < 16" by simp
  have "c div 4096 * 4096 + c div 256 mod 16 * 256 + c div 16 mod 16 * 16 + c mod 16 = c"
  proof -
    have "c div 16 div 16 = c div 256" "c div 256 div 16 = c div 4096"
      by (simp_all flip: div_mult2_eq)
    then have "c = 16 * (c div 16) + c mod 16" "c div 16 = 16 * (c div 256) + c div 16 mod 16"
      "c div 256 = 16 * (c div 4096) + c div 256 mod 16"
      using mult_div_mod_eq [of 16 "c div 16"] mult_div_mod_eq [of 16 "c div 256"] by simp_all
    then show ?thesis by linarith
  qed
  with d show ?thesis by (simp add: hex4_def unhex_hex_unit del: parse_str.simps)
      (simp add: parse_str.simps(2) [of 92] unhex_hex_unit)
qed

lemma parse_str_esc: "c < 65536 \<Longrightarrow> parse_str (esc c @ t) = push c (parse_str t)"
  by (auto simp: esc_def parse_str_hex4 unesc_def is_high_def is_low_def simp del: parse_str.simps)
    (simp_all add: parse_str.simps unesc_def)

lemma parse_str_quote: "wf_units s \<Longrightarrow> parse_str (quote_units s @ 34 # r) = Some (s, r)"
proof (induction s rule: quote_units.induct)
  case (2 c)
  then show ?case by (simp add: wf_units_def parse_str_esc push_def del: parse_str.simps)
      (simp add: parse_str.simps)
next
  case (3 c d s)
  then show ?case
    by (auto simp: wf_units_def parse_str_esc push_def is_high_def is_low_def)
qed simp

lemma nat_str_no_leading_zero: "hd (nat_str n) = CHR ''0'' \<Longrightarrow> length (nat_str n) = 1"
proof (induction n rule: nat_str.induct)
  case (1 n)
  show ?case
  proof (cases "n < 10")
    case True
    then show ?thesis by (simp add: nat_str.simps [of n])
  next
    case False
    with 1 have h: "hd (nat_str (n div 10)) = CHR ''0''" by (simp add: nat_str.simps [of n])
    with 1(1) False have "length (nat_str (n div 10)) = 1" by simp
    with h have "nat_str (n div 10) = [CHR ''0'']" by (cases "nat_str (n div 10)") auto
    then have "digits_val (nat_str (n div 10)) = 0" by (simp add: digits_val_def digit_val_def)
    with False show ?thesis by (simp add: digits_val_nat_str)
  qed
qed

lemma json_unsigned_nat_str: "json_unsigned (nat_str n) = Some (of_nat n)"
proof -
  have s: "digits_span (nat_str n) = (nat_str n, [])"
    using nat_str_digits by (simp add: digits_span_def takeWhile_all)
  have "unsigned_decimal (nat_str n) = Some (of_nat n)"
    using unsigned_decimal_digits [of "nat_str n"] nat_str_digits by (simp add: digits_val_nat_str)
  then show ?thesis using s nat_str_no_leading_zero [of n] by (auto simp: json_unsigned_def)
qed

lemma json_number_int_str:
  assumes "\<bar>i\<bar> \<le> 2 ^ 53"
  shows "json_number (int_str i) = Some (Fin (of_int i))"
proof (cases "i < 0")
  case True
  have "round64 (of_nat (nat (- i))) = Fin (of_int (- i))"
    using round64_int [of "- i"] assms True by simp
  with True show ?thesis by (simp add: int_str_def json_number_def json_unsigned_nat_str)
next
  case False
  have r: "round64 (of_nat (nat i)) = Fin (of_int i)"
    using round64_int [of i] assms False by simp
  obtain c t where c: "nat_str (nat i) = c # t" by (cases "nat_str (nat i)") auto
  with minus_not_nat_str [of t "nat i"] have "c \<noteq> CHR ''-''" by auto
  with c r False json_unsigned_nat_str [of "nat i"] show ?thesis
    by (simp add: int_str_def json_number_def)
qed

lemma num_unit_digit: "is_digit c \<Longrightarrow> num_unit (of_char c)"
  by (auto simp: is_digit_def num_unit_def)

lemma num_unit_int_str: "list_all num_unit (u16 (int_str i))"
proof -
  have "num_unit (of_char c)" if "c \<in> set (nat_str n)" for c n
    using nat_str_digits [of n] that num_unit_digit by (simp add: list_all_iff)
  moreover have "num_unit (of_char CHR ''-'')" by (simp add: num_unit_def)
  ultimately show ?thesis by (auto simp: int_str_def u16_def list_all_iff simp del: of_char_Char)
qed

definition rest_ok :: "units \<Rightarrow> bool" where
  "rest_ok r = (r = [] \<or> \<not> num_unit (hd r))"

lemma span_append:
  "list_all P s \<Longrightarrow> r = [] \<or> \<not> P (hd r) \<Longrightarrow> takeWhile P (s @ r) = s \<and> dropWhile P (s @ r) = r"
  by (induction s) (cases r; auto)+

lemma parse_num_int:
  assumes "\<bar>i\<bar> \<le> 2 ^ 53" "rest_ok r"
  shows "parse_num (u16 (int_str i) @ r) = Some (JNum (Fin (of_int i)), r)"
proof -
  have "takeWhile num_unit (u16 (int_str i) @ r) = u16 (int_str i)"
    "dropWhile num_unit (u16 (int_str i) @ r) = r"
    using span_append [OF num_unit_int_str] assms(2) by (auto simp: rest_ok_def)
  moreover have "map char_of (u16 (int_str i)) = int_str i"
    by (simp add: u16_def comp_def)
  ultimately show ?thesis by (simp add: parse_num_def json_number_int_str [OF assms(1)])
qed

text \<open>No printed value starts with white space or with a closing bracket.\<close>

definition opens_value :: "units \<Rightarrow> bool" where
  "opens_value s = (s \<noteq> [] \<and> hd s \<notin> {9, 10, 13, 32, 93, 125})"

lemma rat_str_int:
  "int_num (Fin q) \<Longrightarrow> rat_str q = int_str \<lfloor>q\<rfloor> \<and> \<bar>\<lfloor>q\<rfloor>\<bar> \<le> 2 ^ 53 \<and> q = of_int \<lfloor>q\<rfloor>"
proof -
  assume "int_num (Fin q)"
  then have q: "q = of_int \<lfloor>q\<rfloor>" "\<bar>\<lfloor>q\<rfloor>\<bar> \<le> 2 ^ 53" by auto
  from q(2) have "\<bar>of_int \<lfloor>q\<rfloor>\<bar> \<le> (2 ^ 53 :: rat)"
    by (metis (mono_tags) of_int_abs of_int_le_iff of_int_numeral of_int_power)
  with q show ?thesis by (simp add: rat_str_def)
qed

lemma num_unit_opens: "s \<noteq> [] \<Longrightarrow> list_all num_unit s \<Longrightarrow> opens_value s"
  by (cases s) (auto simp: opens_value_def num_unit_def)

lemma opens_stringify: "wf_json v \<Longrightarrow> opens_value (json_stringify v)"
proof (cases v)
  case (JNum n)
  assume "wf_json v"
  with JNum obtain q where "n = Fin q" "int_num (Fin q)" by (cases n) auto
  with JNum rat_str_int [of q] show ?thesis
    using num_unit_opens [OF _ num_unit_int_str] by auto
qed (auto simp: opens_value_def quote_str_def u16_def)

lemma skip_ws_opens: "opens_value s \<Longrightarrow> skip_ws (s @ r) = s @ r"
  by (cases s) (auto simp: opens_value_def)

lemma skip_ws_unit: "c \<notin> {9, 10, 13, 32} \<Longrightarrow> skip_ws (c # r) = c # r"
  by simp

definition reads_back :: "json \<Rightarrow> bool" where
  "reads_back v = (\<forall>r. rest_ok r \<longrightarrow> (\<exists>f. parse_value f (json_stringify v @ r) = Some (v, r)))"

lemma reads_backE:
  assumes "reads_back v" "rest_ok r"
  obtains f where "parse_value f (json_stringify v @ r) = Some (v, r)"
  using assms by (auto simp: reads_back_def)

lemma rest_ok_delim [simp]: "rest_ok (44 # r)" "rest_ok (93 # r)" "rest_ok (125 # r)" "rest_ok []"
  by (simp_all add: rest_ok_def num_unit_def)

lemma parse_elems_join:
  assumes "xs \<noteq> []" "\<forall>x\<in>set xs. reads_back x"
  shows "\<exists>f. parse_elems f (join [44] (map json_stringify xs) @ 93 # r) = Some (xs, r)"
  using assms
proof (induction xs rule: induct_list012)
  case (2 x)
  then obtain f where "parse_value f (json_stringify x @ 93 # r) = Some (x, 93 # r)"
    by (auto elim: reads_backE [where r = "93 # r"])
  then have "parse_elems (Suc f) (join [44] (map json_stringify [x]) @ 93 # r) = Some ([x], r)"
    by simp
  then show ?case by blast
next
  case (3 x y zs)
  let ?rest = "join [44] (map json_stringify (y # zs)) @ 93 # r"
  obtain f where f: "parse_value f (json_stringify x @ 44 # ?rest) = Some (x, 44 # ?rest)"
    using 3 by (auto elim: reads_backE [where r = "44 # ?rest"])
  obtain g where g: "parse_elems g ?rest = Some (y # zs, r)" using 3 by auto
  have "parse_elems (Suc (max f g)) (json_stringify x @ 44 # ?rest) = Some (x # y # zs, r)"
    using parse_mono(1) [OF f, of "max f g"] parse_mono(2) [OF g, of "max f g"] by simp
  then show ?case by (intro exI [of _ "Suc (max f g)"]) simp
qed simp

definition member_str :: "units \<times> json \<Rightarrow> units" where
  "member_str p = quote_str (fst p) @ 58 # json_stringify (snd p)"

lemma parse_members_one:
  assumes "wf_units k" "opens_value (json_stringify v)"
    "parse_value f (json_stringify v @ c # r) = Some (v, c # r)" "c = 44 \<or> c = 125"
  shows "parse_members (Suc f) acc (member_str (k, v) @ c # r) =
    (if c = 44 then parse_members f (AList.update k v acc) r else Some (AList.update k v acc, r))"
proof -
  have "parse_str (quote_units k @ 34 # 58 # json_stringify v @ c # r) =
      Some (k, 58 # json_stringify v @ c # r)" by (rule parse_str_quote [OF assms(1)])
  with assms(3,4) show ?thesis by (auto simp: member_str_def quote_str_def)
qed

lemma update_fresh: "k \<notin> fst ` set acc \<Longrightarrow> AList.update k v acc = acc @ [(k, v)]"
  by (induction acc) auto

lemma parse_members_join:
  assumes "kvs \<noteq> []" "\<forall>(k, v)\<in>set kvs. wf_units k \<and> wf_json v \<and> reads_back v"
    "distinct (map fst (acc @ kvs))"
  shows "\<exists>f. parse_members f acc (join [44] (map member_str kvs) @ 125 # r) = Some (acc @ kvs, r)"
  using assms
proof (induction kvs arbitrary: acc rule: induct_list012)
  case (2 p)
  obtain k v where p: "p = (k, v)" by (cases p)
  obtain f where f: "parse_value f (json_stringify v @ 125 # r) = Some (v, 125 # r)"
    using 2 p by (auto elim: reads_backE [where r = "125 # r"])
  have "parse_members (Suc f) acc (member_str (k, v) @ 125 # r) = Some (AList.update k v acc, r)"
    by (subst parse_members_one [OF _ _ f]) (use 2 p in \<open>auto simp: opens_stringify\<close>)
  moreover have "AList.update k v acc = acc @ [(k, v)]" using 2 p by (auto intro: update_fresh)
  ultimately have "parse_members (Suc f) acc (member_str (k, v) @ 125 # r) = Some (acc @ [(k, v)], r)"
    by (simp only:)
  then show ?case unfolding p list.map join.simps by blast
next
  case (3 p q zs)
  let ?rest = "join [44] (map member_str (q # zs)) @ 125 # r"
  obtain k v where p: "p = (k, v)" by (cases p)
  obtain f where f: "parse_value f (json_stringify v @ 44 # ?rest) = Some (v, 44 # ?rest)"
    using 3 p by (auto elim: reads_backE [where r = "44 # ?rest"])
  have u: "AList.update k v acc = acc @ [(k, v)]" using 3 p by (auto intro: update_fresh)
  obtain g where g: "parse_members g (acc @ [(k, v)]) ?rest = Some (acc @ (k, v) # q # zs, r)"
    using 3(2) [of "acc @ [(k, v)]"] 3 p by auto
  let ?m = "max f g"
  have fm: "parse_value ?m (json_stringify v @ 44 # ?rest) = Some (v, 44 # ?rest)"
    using parse_mono(1) [OF f, of ?m] by simp
  have gm: "parse_members ?m (acc @ [(k, v)]) ?rest = Some (acc @ (k, v) # q # zs, r)"
    using parse_mono(3) [OF g, of ?m] by simp
  have "parse_members (Suc ?m) acc (member_str (k, v) @ 44 # ?rest) = Some (acc @ (k, v) # q # zs, r)"
    by (subst parse_members_one [OF _ _ fm]) (use 3 p u gm in \<open>auto simp: opens_stringify\<close>)
  then show ?case unfolding p list.map join.simps append_assoc append_Cons append_Nil by blast
qed simp

lemma json_stringify_JObj: "json_stringify (JObj kvs) = 123 # join [44] (map member_str kvs) @ [125]"
proof -
  have "(\<lambda>(k, v). quote_str k @ 58 # json_stringify v) = member_str"
    by (auto simp: member_str_def fun_eq_iff)
  then show ?thesis by simp
qed

lemma opens_join:
  "xs \<noteq> [] \<Longrightarrow> opens_value (hd xs) \<Longrightarrow> opens_value (join [44] xs)"
  by (induction xs rule: induct_list012) (auto simp: opens_value_def hd_append)

lemma not_close:
  assumes "opens_value s" "c \<in> {93, 125}"
  shows "\<not> prefix [c] (skip_ws (s @ t))"
  using assms by (cases s) (auto simp: skip_ws_opens opens_value_def)

lemma reads_back_word:
  assumes "parse_word (json_stringify v @ r) = Some (v, r)" "opens_value (json_stringify v)"
    "hd (json_stringify v) \<notin> {34, 91, 123}"
  shows "parse_value (Suc 0) (json_stringify v @ r) = Some (v, r)"
  using assms skip_ws_opens [OF assms(2), of r]
  by (cases "json_stringify v") (auto simp: opens_value_def)

lemma num_unit_not_word: "list_all num_unit s \<Longrightarrow> s \<noteq> [] \<Longrightarrow> parse_word (s @ r) = parse_num (s @ r)"
  by (cases s) (auto simp: parse_word_def u16_def num_unit_def)

lemma json_reads_back: "wf_json v \<Longrightarrow> reads_back v"
proof (induction v)
  case (JArr xs)
  then have w: "\<forall>x\<in>set xs. reads_back x" "list_all wf_json xs" by (auto simp: list_all_iff)
  show ?case
  proof (cases "xs = []")
    case True
    then have "parse_value 1 (json_stringify (JArr xs) @ r) = Some (JArr xs, r)" for r by simp
    then show ?thesis unfolding reads_back_def by blast
  next
    case False
    have "opens_value (join [44] (map json_stringify xs))"
      using False w(2) by (intro opens_join) (auto simp: hd_map list_all_iff opens_stringify)
    from not_close [OF this] have nc: "\<not> prefix [93] (skip_ws (join [44] (map json_stringify xs) @ t))"
      for t by simp
    show ?thesis unfolding reads_back_def
    proof (intro allI impI)
      fix r
      obtain f where "parse_elems f (join [44] (map json_stringify xs) @ 93 # r) = Some (xs, r)"
        using parse_elems_join [OF False w(1)] by blast
      then have "parse_value (Suc f) (json_stringify (JArr xs) @ r) = Some (JArr xs, r)"
        using nc [of "93 # r"] by simp
      then show "\<exists>f. parse_value f (json_stringify (JArr xs) @ r) = Some (JArr xs, r)" by blast
    qed
  qed
next
  case (JObj kvs)
  then have w: "\<forall>(k, v)\<in>set kvs. wf_units k \<and> wf_json v \<and> reads_back v"
    by (fastforce simp: list_all_iff)
  have d: "distinct (map fst ([] @ kvs))" using JObj by simp
  show ?case
  proof (cases "kvs = []")
    case True
    then have "parse_value 1 (json_stringify (JObj kvs) @ r) = Some (JObj kvs, r)" for r by simp
    then show ?thesis unfolding reads_back_def by blast
  next
    case False
    have "opens_value (join [44] (map member_str kvs))"
      using False by (intro opens_join) (auto simp: hd_map member_str_def quote_str_def opens_value_def)
    from not_close [OF this] have nc: "\<not> prefix [125] (skip_ws (join [44] (map member_str kvs) @ t))"
      for t by simp
    show ?thesis unfolding reads_back_def json_stringify_JObj
    proof (intro allI impI)
      fix r
      obtain f where "parse_members f [] (join [44] (map member_str kvs) @ 125 # r) = Some (kvs, r)"
        using parse_members_join [OF False w d] by auto
      then have "parse_value (Suc f) ((123 # join [44] (map member_str kvs) @ [125]) @ r) =
          Some (JObj kvs, r)"
        using nc [of "125 # r"] by simp
      then show "\<exists>f. parse_value f ((123 # join [44] (map member_str kvs) @ [125]) @ r) =
          Some (JObj kvs, r)" by blast
    qed
  qed
next
  case (JStr s)
  have "parse_value 1 (json_stringify (JStr s) @ r) = Some (JStr s, r)" for r
    using JStr parse_str_quote [of s r] by (simp add: quote_str_def)
  then show ?case unfolding reads_back_def by blast
next
  case (JNum n)
  then obtain q where n: "n = Fin q" "int_num (Fin q)" by (cases n) auto
  note q = rat_str_int [OF n(2)]
  have o: "opens_value (json_stringify (JNum n))" using JNum by (intro opens_stringify)
  have h: "hd (json_stringify (JNum n)) \<notin> {34, 91, 123}"
    using num_unit_int_str [of "\<lfloor>q\<rfloor>"] n q
    by (cases "u16 (int_str \<lfloor>q\<rfloor>)") (auto simp: num_unit_def)
  have "parse_word (json_stringify (JNum n) @ r) = Some (JNum n, r)" if "rest_ok r" for r
    using parse_num_int [of "\<lfloor>q\<rfloor>" r] num_unit_not_word [OF num_unit_int_str] n q that by simp
  from reads_back_word [OF this o h] show ?case unfolding reads_back_def by blast
next
  case JNull
  have "parse_value 1 (json_stringify JNull @ r) = Some (JNull, r)" for r
    by (simp add: u16_def parse_word_def)
  then show ?case unfolding reads_back_def by blast
next
  case (JBool b)
  have "parse_value 1 (json_stringify (JBool b) @ r) = Some (JBool b, r)" for r
    by (simp add: u16_def parse_word_def)
  then show ?case unfolding reads_back_def by blast
qed

lemma json_parse_stringify: "wf_json v \<Longrightarrow> json_parse (json_stringify v) = Some v"
proof -
  assume "wf_json v"
  then have "reads_back v" by (rule json_reads_back)
  then obtain f where "parse_value f (json_stringify v @ []) = Some (v, [])"
    using reads_backE rest_ok_delim(4) by blast
  then show ?thesis using json_parse_complete [of f "json_stringify v" v "[]"] by simp
qed

end
