(* ===== verification/ApiTypes.thy ===== *)
theory ApiTypes
  imports JsJson
begin

text \<open>
  The data model of the portal: every object type of \<open>src/web/src/types/auth.ts\<close> and of the
  API modules \<open>src/web/src/api\<close> as a record, every string union as a datatype with the
  string it stands for. Field names carry a prefix per record, since Isabelle's field names are
  global: \<open>asset.env\<close> of the source is \<open>asset_env\<close>. An optional member is an \<open>option\<close>, a numeric
  member (a count, a size, a status code) an integer, and a \<open>jsnum\<close> where the program fills it
  with \<open>Number(text)\<close>.
\<close>

section \<open>String unions\<close>

datatype AwsAuthMode = AssumeRole | StaticKeys

fun AwsAuthMode_str :: "AwsAuthMode \<Rightarrow> string" where
  "AwsAuthMode_str AssumeRole = ''assume_role''"
| "AwsAuthMode_str StaticKeys = ''static''"

datatype AwsSyncRunStatus = RunRunning | RunSuccess | RunFailed

datatype BastionRequestStatus = ReqPending | ReqApproved | ReqRejected | ReqCancelled | ReqExpired

fun BastionRequestStatus_str :: "BastionRequestStatus \<Rightarrow> string" where
  "BastionRequestStatus_str ReqPending = ''pending''"
| "BastionRequestStatus_str ReqApproved = ''approved''"
| "BastionRequestStatus_str ReqRejected = ''rejected''"
| "BastionRequestStatus_str ReqCancelled = ''cancelled''"
| "BastionRequestStatus_str ReqExpired = ''expired''"

datatype BastionRequestAction = ActApprove | ActReject | ActCancel

fun BastionRequestAction_str :: "BastionRequestAction \<Rightarrow> string" where
  "BastionRequestAction_str ActApprove = ''approve''"
| "BastionRequestAction_str ActReject = ''reject''"
| "BastionRequestAction_str ActCancel = ''cancel''"

datatype SSHProxyAuthType = AuthPassword | AuthKey

fun SSHProxyAuthType_str :: "SSHProxyAuthType \<Rightarrow> string" where
  "SSHProxyAuthType_str AuthPassword = ''password''"
| "SSHProxyAuthType_str AuthKey = ''key''"

datatype HostKeyScope = ScopeAsset | ScopeProxy

fun HostKeyScope_str :: "HostKeyScope \<Rightarrow> string" where
  "HostKeyScope_str ScopeAsset = ''asset''"
| "HostKeyScope_str ScopeProxy = ''proxy''"

datatype ScopeOp = OpIn | OpNotIn | OpEq

datatype MatrixCellState = CellAll | CellPartial | CellNone

datatype HealthStatus = HealthOk | HealthError

datatype SourceKind = FromRole | FromGrant

datatype StepSource = StepRole | StepGrant | StepProfile

datatype Effect = Allow | Deny

text \<open>A value of type \<open>unknown\<close> in a tag or label map; \<open>null\<close> and \<open>undefined\<close> are not told apart.\<close>

datatype unknown =
    UNull
  | UBool bool
  | UNum jsnum
  | UStr string
  | UArr "unknown list"
  | UObj "(string \<times> unknown) list"

text \<open>\<open>String(value)\<close>: an array joins its elements with commas, null elements as empty texts.\<close>

fun unknown_str :: "unknown \<Rightarrow> string" where
  "unknown_str UNull = ''null''"
| "unknown_str (UBool b) = (if b then ''true'' else ''false'')"
| "unknown_str (UNum n) = num_str n"
| "unknown_str (UStr s) = s"
| "unknown_str (UArr xs) = join '','' (map (\<lambda>x. if x = UNull then [] else unknown_str x) xs)"
| "unknown_str (UObj kvs) = ''[object Object]''"

fun unknown_json :: "unknown \<Rightarrow> json" where
  "unknown_json UNull = JNull"
| "unknown_json (UBool b) = JBool b"
| "unknown_json (UNum n) = JNum n"
| "unknown_json (UStr s) = JStr (u16 s)"
| "unknown_json (UArr xs) = JArr (map unknown_json xs)"
| "unknown_json (UObj kvs) = JObj (map (\<lambda>(k, v). (u16 k, unknown_json v)) kvs)"

section \<open>Object types\<close>

subsection \<open>\<open>src/web/src/types/auth.ts\<close>\<close>

record User =
  usr_id :: "string"
  usr_oidc_subject :: "string"
  usr_email :: "string"
  usr_name :: "string"
  usr_created_at :: "string"
  usr_updated_at :: "string"
  usr_last_login_at :: "string"

record Identity =
  ident_user :: "User"
  ident_roles :: "string list"
  ident_permissions :: "string list"

record LocalLoginRequest =
  loginreq_username :: "string"
  loginreq_password :: "string"

subsection \<open>\<open>src/web/src/api/health.ts\<close>\<close>

record HealthResponse =
  health_status :: "HealthStatus"
  health_error :: "string option"

subsection \<open>\<open>src/web/src/api/aws.ts\<close>\<close>

record AwsAccount =
  awsacc_access_key_id :: "string option"
  awsacc_account_id :: "string"
  awsacc_auth_mode :: "AwsAuthMode"
  awsacc_created_at :: "string"
  awsacc_display_name :: "string"
  awsacc_enabled :: "bool"
  awsacc_external_id :: "string option"
  awsacc_id :: "string"
  awsacc_region_allowlist :: "string list"
  awsacc_role_arn :: "string option"
  awsacc_updated_at :: "string"

record CreateAwsAccountPayload =
  awscreate_access_key_id :: "string option"
  awscreate_account_id :: "string"
  awscreate_auth_mode :: "AwsAuthMode"
  awscreate_display_name :: "string"
  awscreate_enabled :: "bool"
  awscreate_external_id :: "string option"
  awscreate_region_allowlist :: "string list"
  awscreate_role_arn :: "string option"
  awscreate_secret_access_key :: "string option"

record UpdateAwsAccountPayload =
  awsupd_access_key_id :: "string option"
  awsupd_display_name :: "string option"
  awsupd_enabled :: "bool option"
  awsupd_external_id :: "string option"
  awsupd_region_allowlist :: "(string list) option"
  awsupd_role_arn :: "string option"
  awsupd_secret_access_key :: "string option"

record AwsConnectionTestResult =
  awstest_account_id :: "string"
  awstest_arn :: "string"
  awstest_checked_at :: "string"
  awstest_region :: "string"
  awstest_status :: "string"
  awstest_user_id :: "string"

record AwsSyncStatus =
  awssync_last_error :: "string option"
  awssync_last_finished_at :: "string option"
  awssync_last_started_at :: "string option"
  awssync_running :: "bool"

record AwsSyncRun =
  awsrun_account_display_name :: "string"
  awsrun_account_id :: "string"
  awsrun_error_message :: "string option"
  awsrun_finished_at :: "string option"
  awsrun_id :: "string"
  awsrun_region :: "string"
  awsrun_resource_type :: "string"
  awsrun_resources_processed :: "int"
  awsrun_started_at :: "string"
  awsrun_status :: "AwsSyncRunStatus"

record AwsSyncTriggerResponse =
  awstrig_message :: "string"
  awstrig_status :: "AwsSyncStatus"
  awstrig_triggered :: "bool"

record ListAwsAccountsResponse =
  awsaccs_items :: "AwsAccount list"

record ListAwsSyncRunsResponse =
  awsruns_items :: "AwsSyncRun list"
  awsruns_limit :: "int"

record ListAwsSyncRunsOptions =
  awsrunopt_limit :: "int option"

subsection \<open>\<open>src/web/src/api/bastion.ts\<close>\<close>

record BastionRequest =
  breq_id :: "string"
  breq_user_id :: "string"
  breq_user_name :: "string"
  breq_asset_id :: "string"
  breq_asset_name :: "string"
  breq_reason :: "string option"
  breq_requested_duration_seconds :: "int"
  breq_status :: "BastionRequestStatus"
  breq_decided_by_id :: "string option"
  breq_decided_by_name :: "string option"
  breq_decided_at :: "string option"
  breq_decision_reason :: "string option"
  breq_grant_id :: "string option"
  breq_created_at :: "string"
  breq_updated_at :: "string"

record ListBastionRequestsOptions =
  breqopt_limit :: "int option"
  breqopt_mine :: "bool option"
  breqopt_offset :: "int option"
  breqopt_status :: "BastionRequestStatus option"
  breqopt_userID :: "string option"

record BastionGrant =
  bgrant_id :: "string"
  bgrant_user_id :: "string"
  bgrant_user_name :: "string"
  bgrant_asset_id :: "string"
  bgrant_asset_name :: "string"
  bgrant_granted_by_id :: "string"
  bgrant_granted_by_name :: "string"
  bgrant_reason :: "string option"
  bgrant_expires_at :: "string"
  bgrant_revoked_at :: "string option"
  bgrant_revoked_by_id :: "string option"
  bgrant_revoked_by_name :: "string option"
  bgrant_revoke_reason :: "string option"
  bgrant_request_id :: "string option"
  bgrant_created_at :: "string"
  bgrant_active :: "bool"

record ListBastionRequestsResponse =
  breqs_items :: "BastionRequest list"

record ListBastionGrantsResponse =
  bgrants_items :: "BastionGrant list"

record DecideBastionRequestPayload =
  bdecide_reason :: "string option"

record CreateBastionRequestPayload =
  bcreate_asset_id :: "string"
  bcreate_duration_seconds :: "jsnum option"
  bcreate_reason :: "string option"

record ApproveBastionRequestResponse =
  bappr_request :: "BastionRequest"
  bappr_grant :: "BastionGrant"

subsection \<open>\<open>src/web/src/api/cmdb.ts\<close>\<close>

record Asset =
  asset_id :: "string"
  asset_type :: "string"
  asset_name :: "string"
  asset_status :: "string"
  asset_env :: "string"
  asset_source :: "string"
  asset_external_id :: "string option"
  asset_external_arn :: "string option"
  asset_ami_name :: "string option"
  asset_ami_owner_id :: "string option"
  asset_public_ip :: "string option"
  asset_private_ip :: "string option"
  asset_private_dns :: "string option"
  asset_region :: "string option"
  asset_zone :: "string option"
  asset_account_id :: "string option"
  asset_instance_type :: "string option"
  asset_os_image :: "string option"
  asset_os_family :: "string option"
  asset_vpc_id :: "string option"
  asset_subnet_id :: "string option"
  asset_key_name :: "string option"
  asset_owner :: "string option"
  asset_business_unit :: "string option"
  asset_criticality :: "string option"
  asset_expires_at :: "string option"
  asset_is_vpc_proxy :: "bool option"
  asset_system_tags :: "((string \<times> unknown) list) option"
  asset_labels :: "((string \<times> unknown) list) option"
  asset_tags :: "((string \<times> unknown) list) option"
  asset_created_at :: "string"
  asset_updated_at :: "string"

record ListAssetsResponse =
  assets_items :: "Asset list"
  assets_total :: "int"
  assets_limit :: "int"
  assets_offset :: "int"

record AssetFacets =
  facets_envs :: "string list"
  facets_regions :: "string list"
  facets_sources :: "string list"
  facets_statuses :: "string list"
  facets_types :: "string list"

record AssetConnectionProfile =
  conn_asset_id :: "string"
  conn_auth_type :: "string"
  conn_bastion_enabled :: "bool"
  conn_created_at :: "string"
  conn_database :: "string option"
  conn_has_passphrase :: "bool"
  conn_has_password :: "bool"
  conn_has_private_key :: "bool"
  conn_host :: "string"
  conn_last_probe_at :: "string option"
  conn_last_probe_error :: "string option"
  conn_last_probe_status :: "string option"
  conn_port :: "int"
  conn_protocol :: "string"
  conn_proxy_id :: "string option"
  conn_proxy_name :: "string option"
  conn_proxy_zone :: "string option"
  conn_updated_at :: "string"
  conn_username :: "string"

record AssetConnectionTestResult =
  conntest_status :: "string"

record UpdateAssetConnectionProfilePayload =
  connupd_auth_type :: "string"
  connupd_bastion_enabled :: "bool"
  connupd_database :: "string option"
  connupd_host :: "string"
  connupd_passphrase :: "string option"
  connupd_password :: "string option"
  connupd_port :: "jsnum"
  connupd_private_key :: "string option"
  connupd_protocol :: "string"
  connupd_proxy_id :: "string option"
  connupd_username :: "string"

record AssetProbeSnapshot =
  probe_arch :: "string"
  probe_asset_id :: "string"
  probe_collected_at :: "string"
  probe_collected_by :: "string"
  probe_cpu_cores :: "int"
  probe_cpu_model :: "string"
  probe_disk_summary :: "string"
  probe_hostname :: "string"
  probe_id :: "string"
  probe_kernel :: "string"
  probe_memory_mb :: "int"
  probe_os_name :: "string"
  probe_os_version :: "string"
  probe_raw :: "((string \<times> unknown) list) option"
  probe_software :: "string list"
  probe_uptime_seconds :: "int"

record AssetRelation =
  rel_created_at :: "string"
  rel_from_asset_id :: "string"
  rel_from_name :: "string option"
  rel_from_type :: "string option"
  rel_id :: "string"
  rel_relation_type :: "string"
  rel_source :: "string"
  rel_to_asset_id :: "string"
  rel_to_name :: "string option"
  rel_to_type :: "string option"
  rel_updated_at :: "string"

record ListAssetsOptions =
  assetopt_accountID :: "string option"
  assetopt_criticality :: "string option"
  assetopt_env :: "string option"
  assetopt_isVPCProxy :: "bool option"
  assetopt_limit :: "int option"
  assetopt_offset :: "int option"
  assetopt_owner :: "string option"
  assetopt_query :: "string option"
  assetopt_region :: "string option"
  assetopt_source :: "string option"
  assetopt_status :: "string option"
  assetopt_type :: "string option"

record CreateAssetPayload =
  acreate_type :: "string"
  acreate_name :: "string"
  acreate_account_id :: "string option"
  acreate_business_unit :: "string option"
  acreate_criticality :: "string option"
  acreate_env :: "string option"
  acreate_expires_at :: "string option"
  acreate_external_arn :: "string option"
  acreate_external_id :: "string option"
  acreate_instance_type :: "string option"
  acreate_labels :: "((string \<times> unknown) list) option"
  acreate_os_image :: "string option"
  acreate_owner :: "string option"
  acreate_private_dns :: "string option"
  acreate_private_ip :: "string option"
  acreate_public_ip :: "string option"
  acreate_region :: "string option"
  acreate_source :: "string option"
  acreate_status :: "string option"
  acreate_subnet_id :: "string option"
  acreate_vpc_id :: "string option"
  acreate_zone :: "string option"

record UpdateAssetPayload =
  aupd_account_id :: "string option"
  aupd_business_unit :: "string option"
  aupd_criticality :: "string option"
  aupd_env :: "string option"
  aupd_expires_at :: "string option"
  aupd_instance_type :: "string option"
  aupd_labels :: "((string \<times> unknown) list) option"
  aupd_name :: "string option"
  aupd_os_image :: "string option"
  aupd_owner :: "string option"
  aupd_private_dns :: "string option"
  aupd_private_ip :: "string option"
  aupd_public_ip :: "string option"
  aupd_region :: "string option"
  aupd_status :: "string option"
  aupd_subnet_id :: "string option"
  aupd_vpc_id :: "string option"
  aupd_zone :: "string option"

record DeleteStatusResponse =
  delstat_status :: "string"

record PromoteVPCProxyOptions =
  promopt_auth_type :: "string option"
  promopt_username :: "string option"

record PromotedVPCProxySummary =
  promsum_auth_type :: "string"
  promsum_host :: "string"
  promsum_id :: "string"
  promsum_name :: "string"
  promsum_network_zone :: "string option"
  promsum_port :: "int"
  promsum_username :: "string"

record PromoteVPCProxyResult =
  promres_asset :: "Asset"
  promres_proxy :: "PromotedVPCProxySummary"

subsection \<open>\<open>src/web/src/api/connectivity.ts\<close>\<close>

record SSHProxy =
  proxy_auth_type :: "SSHProxyAuthType"
  proxy_created_at :: "string"
  proxy_description :: "string option"
  proxy_has_passphrase :: "bool"
  proxy_has_password :: "bool"
  proxy_has_private_key :: "bool"
  proxy_host :: "string"
  proxy_id :: "string"
  proxy_name :: "string"
  proxy_network_zone :: "string option"
  proxy_port :: "int"
  proxy_updated_at :: "string"
  proxy_username :: "string"

record UpsertSSHProxyPayload =
  proxyup_auth_type :: "SSHProxyAuthType"
  proxyup_description :: "string"
  proxyup_host :: "string"
  proxyup_name :: "string"
  proxyup_network_zone :: "string"
  proxyup_passphrase :: "string option"
  proxyup_password :: "string option"
  proxyup_port :: "jsnum"
  proxyup_private_key :: "string option"
  proxyup_username :: "string"

record ListSSHProxiesResponse =
  proxies_items :: "SSHProxy list"

record DeleteSSHProxyResponse =
  proxydel_status :: "string"

record SSHKeypair =
  keypair_created_at :: "string"
  keypair_description :: "string option"
  keypair_fingerprint :: "string"
  keypair_has_passphrase :: "bool"
  keypair_id :: "string"
  keypair_name :: "string"
  keypair_updated_at :: "string"
  keypair_uploaded_by :: "string option"

record UpsertSSHKeypairPayload =
  keypairup_description :: "string"
  keypairup_name :: "string"
  keypairup_passphrase :: "string option"
  keypairup_private_key :: "string"

record DeleteSSHKeypairResponse =
  keypairdel_status :: "string"

record HostKeyRecord =
  hostkey_created_at :: "string"
  hostkey_fingerprint_sha256 :: "string"
  hostkey_first_seen_at :: "string"
  hostkey_host :: "string"
  hostkey_id :: "string"
  hostkey_key_type :: "string"
  hostkey_last_mismatch_at :: "string option"
  hostkey_last_mismatch_fingerprint :: "string option"
  hostkey_last_seen_at :: "string"
  hostkey_override_at :: "string option"
  hostkey_override_by :: "string option"
  hostkey_override_expires_at :: "string option"
  hostkey_port :: "int"
  hostkey_scope :: "HostKeyScope"
  hostkey_status :: "string"
  hostkey_target_id :: "string"
  hostkey_target_name :: "string option"
  hostkey_updated_at :: "string"

record ListHostKeysResponse =
  hostkeys_items :: "HostKeyRecord list"

record ApproveHostKeyOverrideResponse =
  hkover_status :: "string"
  hkover_ttl_minute :: "int"

subsection \<open>\<open>src/web/src/api/iam.ts\<close>\<close>

record IamUser =
  iamuser_id :: "string"
  iamuser_oidc_subject :: "string"
  iamuser_email :: "string option"
  iamuser_name :: "string option"
  iamuser_created_at :: "string"
  iamuser_updated_at :: "string"
  iamuser_last_login_at :: "string"
  iamuser_roles :: "(string list) option"

record RolePermission =
  roleperm_action :: "string"
  roleperm_permission :: "string"
  roleperm_resource :: "string"

record IamRole =
  iamrole_id :: "string"
  iamrole_name :: "string"
  iamrole_description :: "string"
  iamrole_created_at :: "string"
  iamrole_permissions :: "(RolePermission list) option"

record IamUserIdentity =
  iamid_user :: "IamUser"
  iamid_roles :: "string list"
  iamid_permissions :: "string list"

record ListIamUsersOptions =
  iamusersopt_query :: "string option"

record ListIamUsersResponse =
  iamusers_items :: "IamUser list"

record ListIamRolesOptions =
  iamrolesopt_includePermissions :: "bool option"

record ListIamRolesResponse =
  iamroles_items :: "IamRole list"

record RolePermissionsResponse =
  roleperms_role_name :: "string"
  roleperms_permissions :: "RolePermission list"

record ScopeConstraint =
  scope_dimension :: "string"
  scope_op :: "ScopeOp"
  scope_values :: "string list"

record PermissionSource =
  psrc_kind :: "SourceKind"
  psrc_ref :: "string"
  psrc_scope :: "(ScopeConstraint list) option"

record Capability =
  cap_permission :: "string"
  cap_resource :: "string"
  cap_action :: "string"
  cap_group :: "string"
  cap_description :: "string option"

record MatrixCell =
  cell_state :: "MatrixCellState"
  cell_scope :: "(ScopeConstraint list) option"
  cell_sources :: "(PermissionSource list) option"

record MatrixRole =
  mrole_name :: "string"
  mrole_rank :: "int"

record ResolveStep =
  rstep_source :: "StepSource"
  rstep_ref :: "string"
  rstep_capability :: "string"
  rstep_scope :: "(ScopeConstraint list) option"
  rstep_note :: "string option"

record ResolveResult =
  rres_allowed :: "bool"
  rres_effect :: "Effect"
  rres_expires_at :: "string option"
  rres_path :: "ResolveStep list"
  rres_denied_reason :: "string option"

record ResolveCapabilityRequest =
  rreq_user_id :: "string"
  rreq_capability :: "string"
  rreq_resource_ref :: "string option"

subsection \<open>\<open>src/web/src/api/oidc.ts\<close>\<close>

record OIDCSettings =
  oidc_authorize_url :: "string"
  oidc_client_id :: "string"
  oidc_enabled :: "bool"
  oidc_has_client_secret :: "bool"
  oidc_issuer_url :: "string"
  oidc_redirect_url :: "string"
  oidc_scopes :: "string list"
  oidc_token_url :: "string"
  oidc_updated_at :: "string option"
  oidc_userinfo_url :: "string"

record UpdateOIDCSettingsPayload =
  oidcupd_authorize_url :: "string"
  oidcupd_client_id :: "string"
  oidcupd_client_secret :: "string option"
  oidcupd_enabled :: "bool"
  oidcupd_issuer_url :: "string"
  oidcupd_redirect_url :: "string"
  oidcupd_scopes :: "string list"
  oidcupd_token_url :: "string"
  oidcupd_userinfo_url :: "string"

record OIDCConnectionTestResult =
  oidctest_authorize_url :: "string"
  oidctest_checked_at :: "string"
  oidctest_http_status :: "string"
  oidctest_http_status_code :: "int"
  oidctest_status :: "string"

subsection \<open>\<open>src/web/src/api/sessions.ts\<close>\<close>

record SessionAuditRecord =
  sess_asset_id :: "string"
  sess_asset_name :: "string"
  sess_bytes_in :: "int"
  sess_bytes_out :: "int"
  sess_client_ip :: "string option"
  sess_duration_ms :: "int option"
  sess_ended_at :: "string option"
  sess_error :: "string option"
  sess_exit_code :: "int option"
  sess_has_recording :: "bool"
  sess_id :: "string"
  sess_proxy_id :: "string option"
  sess_proxy_name :: "string option"
  sess_recording_bytes :: "int option"
  sess_started_at :: "string"
  sess_user_id :: "string"
  sess_user_name :: "string"

record ListSessionsOptions =
  sessopt_assetID :: "string option"
  sessopt_limit :: "int option"
  sessopt_offset :: "int option"
  sessopt_userID :: "string option"

record ListSessionsResponse =
  sesslist_items :: "SessionAuditRecord list"

record SessionTicketResponse =
  ticket_expires_at :: "string"
  ticket_ticket :: "string"

subsection \<open>Composite types\<close>

record LocalLoginResponse = Identity +
  loginres_access_token :: string
  loginres_token_type :: string
  loginres_expires_in :: int

type_synonym Scope = "ScopeConstraint list"

record CapabilityMatrix =
  matrix_roles :: "MatrixRole list"
  matrix_capabilities :: "Capability list"
  matrix_cells :: "(string \<times> (string \<times> MatrixCell) list) list"
  matrix_unscoped_grants :: int

record CapabilityPrincipals =
  principals_permission :: string
  principals_users :: int
  principals_groups :: int
  principals_label :: string
  principals_sources :: "PermissionSource list"

end
