(* ===== verification/ApiClient.thy ===== *)
theory ApiClient
  imports ApiTypes
begin

text \<open>
  The API client \<open>src/web/src/api/client.ts\<close>: the module-level authentication configuration, the
  header rules, the response parser and the error path of \<open>apiRequest\<close>. The configuration's two
  callbacks act on an application state \<open>'s\<close>; \<open>fetch\<close> is a parameter that answers a request with
  a response (status and body text) or rejects. The locale \<open>unauthorized_handler\<close> states what the
  client relies on when a token is rejected.
\<close>

datatype body = TextBody units | FormDataBody

datatype response_type = JsonResponse | TextResponse

record ApiRequestOptions =
  opt_method :: "string option"
  opt_body :: "body option"
  opt_headers :: "(string \<times> string) list"
  opt_skipAuth :: bool
  opt_responseType :: "response_type option"

definition no_options :: ApiRequestOptions where
  "no_options = \<lparr>opt_method = None, opt_body = None, opt_headers = [], opt_skipAuth = False,
     opt_responseType = None\<rparr>"

record 's ApiAuthConfig =
  cfg_getToken :: "'s \<Rightarrow> string"
  cfg_onUnauthorized :: "'s \<Rightarrow> 's"

definition authConfig :: "'s ApiAuthConfig" where
  "authConfig = \<lparr>cfg_getToken = (\<lambda>_. []), cfg_onUnauthorized = (\<lambda>s. s)\<rparr>"

text \<open>\<open>{ ...authConfig, ...config }\<close> for a partial configuration.\<close>

definition configureApiClient ::
  "('s \<Rightarrow> string) option \<Rightarrow> ('s \<Rightarrow> 's) option \<Rightarrow> 's ApiAuthConfig \<Rightarrow> 's ApiAuthConfig" where
  "configureApiClient t f c =
     (let c1 = (case t of None \<Rightarrow> c | Some g \<Rightarrow> c\<lparr>cfg_getToken := g\<rparr>)
      in case f of None \<Rightarrow> c1 | Some g \<Rightarrow> c1\<lparr>cfg_onUnauthorized := g\<rparr>)"

datatype payload = PJson json | PText units

record ApiError =
  err_message :: units
  err_status :: int
  err_payload :: payload

text \<open>A rejected \<open>fetch\<close> carries the message of the browser's own error.\<close>

datatype call_error = FetchRejected units | ApiFailure ApiError

text \<open>\<open>error.message\<close>\<close>

fun error_text :: "call_error \<Rightarrow> units" where
  "error_text (FetchRejected m) = m"
| "error_text (ApiFailure a) = err_message a"

record http_request =
  req_url :: string
  req_method :: string
  req_headers :: "(string \<times> string) list"
  req_body :: "body option"

record http_response =
  res_status :: int
  res_text :: units

section \<open>Headers\<close>

text \<open>
  \<open>Headers\<close>: names are case-insensitive and kept in lower case; the constructor appends, so a
  repeated name combines its values with a comma.
\<close>

definition headers_has :: "(string \<times> string) list \<Rightarrow> string \<Rightarrow> bool" where
  "headers_has h n = (map_of h (toLowerCase n) \<noteq> None)"

definition headers_get :: "(string \<times> string) list \<Rightarrow> string \<Rightarrow> string option" where
  "headers_get h n = map_of h (toLowerCase n)"

definition headers_set :: "string \<Rightarrow> string \<Rightarrow> (string \<times> string) list \<Rightarrow> (string \<times> string) list" where
  "headers_set n v h = AList.update (toLowerCase n) v h"

definition headers_append :: "string \<times> string \<Rightarrow> (string \<times> string) list \<Rightarrow> (string \<times> string) list" where
  "headers_append p h = (case map_of h (toLowerCase (fst p)) of
     None \<Rightarrow> AList.update (toLowerCase (fst p)) (snd p) h
   | Some old \<Rightarrow> AList.update (toLowerCase (fst p)) (old @ '', '' @ snd p) h)"

definition new_headers :: "(string \<times> string) list \<Rightarrow> (string \<times> string) list" where
  "new_headers ps = fold headers_append ps []"

lemma headers_get_set: "headers_get (headers_set n v h) m =
    (if toLowerCase m = toLowerCase n then Some v else headers_get h m)"
  by (simp add: headers_get_def headers_set_def update_conv')

lemma headers_has_get: "headers_has h n \<longleftrightarrow> headers_get h n \<noteq> None"
  by (simp add: headers_has_def headers_get_def)

section \<open>Body and response\<close>

definition hasRequestBody :: "body option \<Rightarrow> bool" where
  "hasRequestBody b = (b \<noteq> None)"

definition shouldSendJsonContentType :: "body option \<Rightarrow> bool" where
  "shouldSendJsonContentType b = (hasRequestBody b \<and> b \<noteq> Some FormDataBody)"

definition parseResponse :: "units \<Rightarrow> response_type option \<Rightarrow> payload" where
  "parseResponse text rt =
    (if rt = Some TextResponse then PText text
     else if text = [] then PJson (JObj [])
     else (case json_parse text of Some v \<Rightarrow> PJson v | None \<Rightarrow> PText text))"

text \<open>Truthiness of a JSON value and \<open>trim\<close> on code units.\<close>

fun json_truthy :: "json \<Rightarrow> bool" where
  "json_truthy JNull = False"
| "json_truthy (JBool b) = b"
| "json_truthy (JNum n) = num_truthy n"
| "json_truthy (JStr s) = (s \<noteq> [])"
| "json_truthy (JArr xs) = True"
| "json_truthy (JObj kvs) = True"

definition ws_unit :: "nat \<Rightarrow> bool" where
  "ws_unit c = (c \<in> {9, 10, 11, 12, 13, 32, 160, 0x1680, 0x2028, 0x2029, 0x202F, 0x205F, 0x3000, 0xFEFF}
     \<or> (0x2000 \<le> c \<and> c \<le> 0x200A))"

definition trim_units :: "units \<Rightarrow> units" where
  "trim_units s = rev (dropWhile ws_unit (rev (dropWhile ws_unit s)))"

text \<open>A property read \<open>data.key\<close>: \<open>None\<close> is \<open>undefined\<close>. Arrays have none of the keys read here.\<close>

fun json_prop :: "json \<Rightarrow> string \<Rightarrow> json option" where
  "json_prop (JObj kvs) k = map_of kvs (u16 k)"
| "json_prop _ k = None"

fun first_truthy :: "json option list \<Rightarrow> json option" where
  "first_truthy [] = None"
| "first_truthy [x] = x"
| "first_truthy (x # xs) = (case x of Some v \<Rightarrow> if json_truthy v then x else first_truthy xs
     | None \<Rightarrow> first_truthy xs)"

definition errorMessage :: "payload \<Rightarrow> units" where
  "errorMessage p = (case p of
     PText t \<Rightarrow> t
   | PJson (JStr s) \<Rightarrow> s
   | PJson v \<Rightarrow>
       (case first_truthy [json_prop v ''error'', json_prop v ''message'', json_prop v ''detail''] of
         Some (JStr s) \<Rightarrow> if trim_units s \<noteq> [] then s else u16 ''Request failed''
       | _ \<Rightarrow> u16 ''Request failed''))"

section \<open>The request\<close>

definition request_headers :: "string \<Rightarrow> ApiRequestOptions \<Rightarrow> (string \<times> string) list" where
  "request_headers token opts =
    (let h0 = new_headers (opt_headers opts);
         h1 = (if shouldSendJsonContentType (opt_body opts) \<and> \<not> headers_has h0 ''Content-Type''
               then headers_set ''Content-Type'' ''application/json'' h0 else h0)
     in if \<not> opt_skipAuth opts \<and> token \<noteq> [] \<and> \<not> headers_has h1 ''Authorization''
        then headers_set ''Authorization'' (''Bearer '' @ token) h1 else h1)"

definition build_request :: "string \<Rightarrow> string \<Rightarrow> ApiRequestOptions \<Rightarrow> http_request" where
  "build_request token path opts =
     \<lparr>req_url = path,
      req_method = (case opt_method opts of None \<Rightarrow> ''GET'' | Some m \<Rightarrow> m),
      req_headers = request_headers token opts,
      req_body = opt_body opts\<rparr>"

definition response_ok :: "http_response \<Rightarrow> bool" where
  "response_ok r = (200 \<le> res_status r \<and> res_status r \<le> 299)"

definition apiRequest ::
  "'s ApiAuthConfig \<Rightarrow> (http_request \<Rightarrow> units + http_response) \<Rightarrow> string \<Rightarrow> ApiRequestOptions \<Rightarrow> 's
     \<Rightarrow> (call_error + payload) \<times> 's" where
  "apiRequest cfg fetch path opts s =
    (case fetch (build_request (cfg_getToken cfg s) path opts) of
      Inl m \<Rightarrow> (Inl (FetchRejected m), s)
    | Inr r \<Rightarrow>
        (let p = parseResponse (res_text r) (if response_ok r then opt_responseType opts else None)
         in if \<not> response_ok r then
              (Inl (ApiFailure \<lparr>err_message = errorMessage p, err_status = res_status r, err_payload = p\<rparr>),
               if res_status r = 401 \<and> \<not> opt_skipAuth opts then cfg_onUnauthorized cfg s else s)
            else (Inr p, s)))"

section \<open>Facts\<close>

lemma auth_not_content_type [simp]: "toLowerCase ''Authorization'' \<noteq> toLowerCase ''Content-Type''"
  by (simp add: toLowerCase_def lower_char_def)

lemma new_headers_Nil [simp]: "new_headers [] = []"
  by (simp add: new_headers_def)

lemma headers_get_Nil [simp]: "headers_get [] n = None"
  by (simp add: headers_get_def)

lemma authorization_header:
  assumes "opt_headers opts = []"
  shows "headers_get (request_headers token opts) ''Authorization'' =
    (if \<not> opt_skipAuth opts \<and> token \<noteq> [] then Some (''Bearer '' @ token) else None)"
  using assms by (simp add: request_headers_def Let_def headers_get_set headers_has_get)

lemma content_type_header:
  assumes "opt_headers opts = []"
  shows "headers_get (request_headers token opts) ''Content-Type'' =
    (if shouldSendJsonContentType (opt_body opts) then Some ''application/json'' else None)"
  using assms auth_not_content_type auth_not_content_type [symmetric]
  by (auto simp: request_headers_def Let_def headers_get_set headers_has_get)

lemma json_stringify_ne: "wf_json v \<Longrightarrow> json_stringify v \<noteq> []"
  using opens_stringify by (auto simp: opens_value_def)

lemma parseResponse_json:
  "wf_json v \<Longrightarrow> rt \<noteq> Some TextResponse \<Longrightarrow> parseResponse (json_stringify v) rt = PJson v"
  by (simp add: parseResponse_def json_parse_stringify json_stringify_ne)

lemma errorMessage_shadow:
  assumes "json_prop v ''error'' = Some w" "json_truthy w" "\<nexists>s. w = JStr s" "\<nexists>s. v = JStr s"
  shows "errorMessage (PJson v) = u16 ''Request failed''"
  using assms by (auto simp: errorMessage_def split: json.splits)

lemma apiRequest_state:
  "snd (apiRequest cfg fetch path opts s) = s \<or>
   snd (apiRequest cfg fetch path opts s) = cfg_onUnauthorized cfg s"
  by (simp add: apiRequest_def Let_def split: sum.splits)

lemma apiRequest_ok:
  assumes "fetch (build_request (cfg_getToken cfg s) path opts) = Inr r" "response_ok r"
  shows "apiRequest cfg fetch path opts s = (Inr (parseResponse (res_text r) (opt_responseType opts)), s)"
  using assms by (simp add: apiRequest_def)

lemma apiRequest_fail:
  assumes "fetch (build_request (cfg_getToken cfg s) path opts) = Inr r" "\<not> response_ok r"
  shows "apiRequest cfg fetch path opts s =
    (Inl (ApiFailure \<lparr>err_message = errorMessage (parseResponse (res_text r) None),
        err_status = res_status r, err_payload = parseResponse (res_text r) None\<rparr>),
     if res_status r = 401 \<and> \<not> opt_skipAuth opts then cfg_onUnauthorized cfg s else s)"
  using assms by (simp add: apiRequest_def Let_def)

text \<open>
  What the application promises when it registers its \<open>onUnauthorized\<close> callback: afterwards it is
  signed out. Then a rejected token signs the application out, whatever call met it, and no
  other answer changes the state.
\<close>

locale unauthorized_handler =
  fixes reset :: "'s \<Rightarrow> 's" and signed_out :: "'s \<Rightarrow> bool"
  assumes reset_signs_out: "signed_out (reset s)"
begin

lemma rejected_token_signs_out:
  assumes "cfg_onUnauthorized cfg = reset"
    "fetch (build_request (cfg_getToken cfg s) path opts) = Inr r" "res_status r = 401"
    "\<not> opt_skipAuth opts"
  shows "signed_out (snd (apiRequest cfg fetch path opts s))"
proof -
  have "\<not> response_ok r" using assms(3) by (simp add: response_ok_def)
  then show ?thesis using apiRequest_fail [of fetch cfg s path opts r] assms reset_signs_out by simp
qed

lemma login_answer_keeps_state:
  "opt_skipAuth opts \<Longrightarrow> snd (apiRequest cfg fetch path opts s) = s"
  by (simp add: apiRequest_def Let_def split: sum.splits)

end

section \<open>Properties\<close>

lemma errorMessage_error:
  "trim_units m \<noteq> [] \<Longrightarrow> errorMessage (PJson (JObj ((u16 ''error'', JStr m) # kvs))) = m"
  by (auto simp: errorMessage_def trim_units_def)



end
