(* ===== verification/JsUrl.thy ===== *)
theory JsUrl
  imports JsText
begin

text \<open>
  \<open>URLSearchParams\<close> as the query builders of \<open>src/web/src/api\<close> and \<open>src/web/src/lib\<close> use it: an
  ordered list of name and value pairs with \<open>set\<close>, \<open>get\<close> and the
  \<open>application/x-www-form-urlencoded\<close> serialisation of \<open>toString\<close>. The contract
  \<open>search_params_codec\<close> states what the deep-link code needs of whoever reads a query string
  back (the router); the reference parser below satisfies it.
\<close>

type_synonym search_params = "(string \<times> string) list"

fun params_set :: "string \<Rightarrow> string \<Rightarrow> search_params \<Rightarrow> search_params" where
  "params_set k v [] = [(k, v)]"
| "params_set k v (p # ps) =
     (if fst p = k then (k, v) # filter (\<lambda>q. fst q \<noteq> k) ps else p # params_set k v ps)"

definition params_get :: "search_params \<Rightarrow> string \<Rightarrow> string option" where
  "params_get ps k = map_of ps k"

text \<open>\<open>if (cond) params.set(key, value)\<close>, the step every query builder repeats.\<close>

definition set_if :: "bool \<Rightarrow> string \<Rightarrow> string \<Rightarrow> search_params \<Rightarrow> search_params" where
  "set_if b k v ps = (if b then params_set k v ps else ps)"

definition set_opt :: "string \<Rightarrow> int option \<Rightarrow> search_params \<Rightarrow> search_params" where
  "set_opt k v ps = (case v of None \<Rightarrow> ps | Some i \<Rightarrow> params_set k (int_str i) ps)"

definition form_keep :: "char \<Rightarrow> bool" where
  "form_keep c = (is_alnum c \<or> c \<in> set ''*-._'')"

definition form_enc :: "string \<Rightarrow> string" where
  "form_enc s = concat (map (\<lambda>c. if c = CHR '' '' then ''+''
     else if form_keep c then [c] else pct_utf8 c) s)"

definition pair_str :: "string \<times> string \<Rightarrow> string" where
  "pair_str p = form_enc (fst p) @ CHR ''='' # form_enc (snd p)"

definition params_str :: "search_params \<Rightarrow> string" where
  "params_str ps = join ''&'' (map pair_str ps)"

section \<open>Laws of set and get\<close>

lemma params_get_set: "params_get (params_set k v ps) k' = (if k' = k then Some v else params_get ps k')"
proof (induction ps)
  case (Cons p ps)
  have "map_of (filter (\<lambda>q. fst q \<noteq> k) ps) k' = map_of ps k'" if "k' \<noteq> k"
    using that by (induction ps) auto
  with Cons show ?case by (cases p) (auto simp: params_get_def)
qed (simp add: params_get_def)

lemma params_set_fresh: "k \<notin> fst ` set ps \<Longrightarrow> params_set k v ps = ps @ [(k, v)]"
  by (induction ps) auto

lemma keys_params_set: "fst ` set (params_set k v ps) = insert k (fst ` set ps)"
  by (induction ps) (auto simp: image_iff)

lemma params_get_simps [simp]:
  "params_get [] k = None"
  "params_get ((k', v) # ps) k = (if k = k' then Some v else params_get ps k)"
  by (simp_all add: params_get_def)

lemma params_get_set_if [simp]:
  "params_get (set_if b k v ps) k' = (if b \<and> k' = k then Some v else params_get ps k')"
  by (simp add: set_if_def params_get_set)

lemma params_get_set_opt [simp]:
  "params_get (set_opt k v ps) k' =
     (if v \<noteq> None \<and> k' = k then map_option int_str v else params_get ps k')"
  by (cases v) (simp_all add: set_opt_def params_get_set)

lemma distinct_params_set:
  "distinct (map fst ps) \<Longrightarrow> distinct (map fst (params_set k v ps))"
proof (induction ps)
  case (Cons p ps)
  then show ?case
    using keys_params_set [of k v ps] by (auto simp: distinct_map_filter image_iff)
qed simp

lemma params_set_ne [simp]: "params_set k v ps \<noteq> []"
  by (cases ps) auto

section \<open>The serialisation can be read back\<close>

fun plus_space :: "string \<Rightarrow> string" where
  "plus_space [] = []"
| "plus_space (c # s) = (if c = CHR ''+'' then CHR '' '' else c) # plus_space s"

definition form_dec :: "string \<Rightarrow> string option" where
  "form_dec s = pct_decode (plus_space s)"

definition cut_eq :: "string \<Rightarrow> string \<times> string" where
  "cut_eq s = (takeWhile (\<lambda>c. c \<noteq> CHR ''='') s, drop 1 (dropWhile (\<lambda>c. c \<noteq> CHR ''='') s))"

definition pair_dec :: "string \<Rightarrow> (string \<times> string) option" where
  "pair_dec s = (case (form_dec (fst (cut_eq s)), form_dec (snd (cut_eq s))) of
     (Some k, Some v) \<Rightarrow> Some (k, v) | _ \<Rightarrow> None)"

fun collect :: "'a option list \<Rightarrow> 'a list option" where
  "collect [] = Some []"
| "collect (x # xs) = (case (x, collect xs) of (Some a, Some as) \<Rightarrow> Some (a # as) | _ \<Rightarrow> None)"

definition params_parse :: "string \<Rightarrow> search_params option" where
  "params_parse s = collect (map pair_dec (filter (\<lambda>p. p \<noteq> []) (split_on CHR ''&'' s)))"

text \<open>
  \<open>new URLSearchParams(text)\<close>: one leading question mark is dropped. \<open>None\<close> stands for a query whose
  decoded text has a code unit above 255. \<open>delete\<close> removes every pair of a name.
\<close>

definition URLSearchParams :: "string \<Rightarrow> search_params option" where
  "URLSearchParams s = params_parse (if startsWith s ''?'' then tl s else s)"

definition params_delete :: "string \<Rightarrow> search_params \<Rightarrow> search_params" where
  "params_delete k ps = filter (\<lambda>p. fst p \<noteq> k) ps"

lemma plus_space_append [simp]: "plus_space (s @ t) = plus_space s @ plus_space t"
  by (induction s) auto

lemma plus_space_id: "CHR ''+'' \<notin> set s \<Longrightarrow> plus_space s = s"
  by (induction s) auto

lemma plus_space_pct_utf8 [simp]: "plus_space (pct_utf8 c) = pct_utf8 c"
  by (rule plus_space_id) (auto dest!: set_pct_utf8 simp: is_alnum_def)

lemma plus_space_form_enc:
  "plus_space (form_enc s) = pct_encode (\<lambda>c. form_keep c \<or> c = CHR '' '') s"
proof (induction s)
  case (Cons c s)
  have "c \<noteq> CHR ''+''" if "form_keep c" using that by (auto simp: form_keep_def is_alnum_def)
  with Cons show ?case by (auto simp: form_enc_def pct_encode_def)
qed (simp add: form_enc_def pct_encode_def)

lemma form_dec_enc: "form_dec (form_enc s) = Some s"
  unfolding form_dec_def plus_space_form_enc
  by (rule pct_decode_encode) (simp add: form_keep_def is_alnum_def)

lemma set_form_enc: "x \<in> set (form_enc s) \<Longrightarrow> x \<in> set ''%+'' \<or> form_keep x"
  by (auto simp: form_enc_def form_keep_def split: if_splits dest: set_pct_utf8)

lemma form_enc_no_delim: "CHR ''='' \<notin> set (form_enc s)" "CHR ''&'' \<notin> set (form_enc s)"
  by (auto dest!: set_form_enc simp: form_keep_def is_alnum_def)

lemma pair_dec_str: "pair_dec (pair_str p) = Some p"
proof -
  have "takeWhile (\<lambda>c. c \<noteq> CHR ''='') (pair_str p) = form_enc (fst p)"
    "dropWhile (\<lambda>c. c \<noteq> CHR ''='') (pair_str p) = CHR ''='' # form_enc (snd p)"
    using form_enc_no_delim(1) [of "fst p"]
    by (auto simp: pair_str_def takeWhile_append dropWhile_append)
  then show ?thesis by (simp add: pair_dec_def cut_eq_def form_dec_enc)
qed

lemma collect_map_Some: "collect (map (\<lambda>x. Some (f x)) xs) = Some (map f xs)"
  by (induction xs) auto

lemma params_parse_str: "params_parse (params_str ps) = Some ps"
proof (cases ps)
  case Nil
  then show ?thesis by (simp add: params_parse_def params_str_def)
next
  case (Cons q qs)
  have "CHR ''&'' \<notin> set (pair_str p)" for p
    using form_enc_no_delim(2) by (auto simp: pair_str_def)
  then have "split_on CHR ''&'' (params_str ps) = map pair_str ps"
    unfolding params_str_def using Cons by (intro split_on_join) auto
  moreover have "filter (\<lambda>p. p \<noteq> []) (map pair_str ps) = map pair_str ps"
    by (auto simp: filter_id_conv pair_str_def)
  moreover have "map pair_dec (map pair_str ps) = map (\<lambda>p. Some (id p)) ps"
    by (simp add: pair_dec_str)
  ultimately show ?thesis unfolding params_parse_def by (simp only: collect_map_Some) simp
qed

lemma params_str_inj [simp]: "params_str ps = params_str qs \<longleftrightarrow> ps = qs"
  by (metis option.inject params_parse_str)

lemma params_str_eq_Nil [simp]: "params_str ps = [] \<longleftrightarrow> ps = []"
  using params_str_inj [of ps "[]"] by (simp add: params_str_def)

lemma URLSearchParams_str: "URLSearchParams (CHR ''?'' # params_str ps) = Some ps"
  by (simp add: URLSearchParams_def startsWith_def params_parse_str)

lemma params_get_delete: "params_get (params_delete k ps) k' = (if k' = k then None else params_get ps k')"
  by (induction ps) (auto simp: params_delete_def params_get_def)

text \<open>
  What the program relies on when a URL it built is opened: the router's reading of the query
  string yields the parameters that were serialised.
\<close>

locale search_params_codec =
  fixes parse :: "string \<Rightarrow> search_params option"
  assumes parse_str: "parse (params_str ps) = Some ps"
begin

text \<open>Two parameter lists that are read back differently were never serialised alike.\<close>

lemma str_determines: "params_str ps = params_str qs \<Longrightarrow> parse (params_str ps) = Some qs"
  by (simp add: parse_str)

lemma read_back_get: "map_option (\<lambda>ps. params_get ps k) (parse (params_str qs)) = Some (params_get qs k)"
  by (simp add: parse_str)

end

interpretation reference_parser: search_params_codec params_parse
  by unfold_locales (rule params_parse_str)

interpretation page_url: search_params_codec "\<lambda>s. URLSearchParams (CHR ''?'' # s)"
  by unfold_locales (rule URLSearchParams_str)

end
