(* ===== verification/ApiEndpoints.thy ===== *)
theory ApiEndpoints
  imports ApiClient JsUrl
begin

text \<open>
  The endpoint modules of \<open>src/web/src/api\<close> (auth, health, aws, bastion, cmdb, connectivity, iam,
  oidc, sessions): path builders, query builders, and every request function as the call it
  hands to \<open>apiRequest\<close> (path and options). A JSON body is the text \<open>JSON.stringify\<close> prints for
  the payload, in which members that are \<open>undefined\<close> do not appear.
\<close>

record api_call =
  call_path :: string
  call_opts :: ApiRequestOptions

definition call_get :: "string \<Rightarrow> api_call" where
  "call_get path = \<lparr>call_path = path, call_opts = no_options\<rparr>"

definition call_send :: "string \<Rightarrow> string \<Rightarrow> units option \<Rightarrow> api_call" where
  "call_send meth path b =
     \<lparr>call_path = path, call_opts = no_options\<lparr>opt_method := Some meth, opt_body := map_option TextBody b\<rparr>\<rparr>"

definition empty_object :: units where
  "empty_object = u16 ''{}''"

definition run_call ::
  "'s ApiAuthConfig \<Rightarrow> (http_request \<Rightarrow> units + http_response) \<Rightarrow> api_call \<Rightarrow> 's
     \<Rightarrow> (call_error + payload) \<times> 's" where
  "run_call cfg fetch c s = apiRequest cfg fetch (call_path c) (call_opts c) s"

section \<open>Payload texts\<close>

definition jstr :: "string \<Rightarrow> json" where
  "jstr s = JStr (u16 s)"

definition jint :: "int \<Rightarrow> json" where
  "jint i = JNum (num_of_int i)"

definition jmem :: "string \<Rightarrow> json \<Rightarrow> (units \<times> json) list" where
  "jmem k v = [(u16 k, v)]"

definition jopt :: "string \<Rightarrow> ('a \<Rightarrow> json) \<Rightarrow> 'a option \<Rightarrow> (units \<times> json) list" where
  "jopt k f x = (case x of None \<Rightarrow> [] | Some a \<Rightarrow> [(u16 k, f a)])"

definition jstrs :: "string list \<Rightarrow> json" where
  "jstrs xs = JArr (map jstr xs)"

definition jrecord :: "(string \<times> unknown) list \<Rightarrow> json" where
  "jrecord kvs = unknown_json (UObj kvs)"

definition LocalLoginRequest_json :: "LocalLoginRequest \<Rightarrow> json" where
  "LocalLoginRequest_json p = JObj (jmem ''username'' (jstr (loginreq_username p)) @
     jmem ''password'' (jstr (loginreq_password p)))"

definition CreateAwsAccountPayload_json :: "CreateAwsAccountPayload \<Rightarrow> json" where
  "CreateAwsAccountPayload_json p = JObj (
     jopt ''access_key_id'' jstr (awscreate_access_key_id p) @
     jmem ''account_id'' (jstr (awscreate_account_id p)) @
     jmem ''auth_mode'' (jstr (AwsAuthMode_str (awscreate_auth_mode p))) @
     jmem ''display_name'' (jstr (awscreate_display_name p)) @
     jmem ''enabled'' (JBool (awscreate_enabled p)) @
     jopt ''external_id'' jstr (awscreate_external_id p) @
     jmem ''region_allowlist'' (jstrs (awscreate_region_allowlist p)) @
     jopt ''role_arn'' jstr (awscreate_role_arn p) @
     jopt ''secret_access_key'' jstr (awscreate_secret_access_key p))"

definition UpdateAwsAccountPayload_json :: "UpdateAwsAccountPayload \<Rightarrow> json" where
  "UpdateAwsAccountPayload_json p = JObj (
     jopt ''access_key_id'' jstr (awsupd_access_key_id p) @
     jopt ''display_name'' jstr (awsupd_display_name p) @
     jopt ''enabled'' JBool (awsupd_enabled p) @
     jopt ''external_id'' jstr (awsupd_external_id p) @
     jopt ''region_allowlist'' jstrs (awsupd_region_allowlist p) @
     jopt ''role_arn'' jstr (awsupd_role_arn p) @
     jopt ''secret_access_key'' jstr (awsupd_secret_access_key p))"

definition DecideBastionRequestPayload_json :: "DecideBastionRequestPayload \<Rightarrow> json" where
  "DecideBastionRequestPayload_json p = JObj (jopt ''reason'' jstr (bdecide_reason p))"

definition CreateBastionRequestPayload_json :: "CreateBastionRequestPayload \<Rightarrow> json" where
  "CreateBastionRequestPayload_json p = JObj (
     jmem ''asset_id'' (jstr (bcreate_asset_id p)) @
     jopt ''duration_seconds'' JNum (bcreate_duration_seconds p) @
     jopt ''reason'' jstr (bcreate_reason p))"

definition UpdateAssetConnectionProfilePayload_json :: "UpdateAssetConnectionProfilePayload \<Rightarrow> json" where
  "UpdateAssetConnectionProfilePayload_json p = JObj (
     jmem ''auth_type'' (jstr (connupd_auth_type p)) @
     jmem ''bastion_enabled'' (JBool (connupd_bastion_enabled p)) @
     jopt ''database'' jstr (connupd_database p) @
     jmem ''host'' (jstr (connupd_host p)) @
     jopt ''passphrase'' jstr (connupd_passphrase p) @
     jopt ''password'' jstr (connupd_password p) @
     jmem ''port'' (JNum (connupd_port p)) @
     jopt ''private_key'' jstr (connupd_private_key p) @
     jmem ''protocol'' (jstr (connupd_protocol p)) @
     jopt ''proxy_id'' jstr (connupd_proxy_id p) @
     jmem ''username'' (jstr (connupd_username p)))"

definition CreateAssetPayload_json :: "CreateAssetPayload \<Rightarrow> json" where
  "CreateAssetPayload_json p = JObj (
     jmem ''name'' (jstr (acreate_name p)) @
     jmem ''type'' (jstr (acreate_type p)) @
     jopt ''account_id'' jstr (acreate_account_id p) @
     jopt ''business_unit'' jstr (acreate_business_unit p) @
     jopt ''criticality'' jstr (acreate_criticality p) @
     jopt ''env'' jstr (acreate_env p) @
     jopt ''expires_at'' jstr (acreate_expires_at p) @
     jopt ''external_arn'' jstr (acreate_external_arn p) @
     jopt ''external_id'' jstr (acreate_external_id p) @
     jopt ''instance_type'' jstr (acreate_instance_type p) @
     jopt ''labels'' jrecord (acreate_labels p) @
     jopt ''os_image'' jstr (acreate_os_image p) @
     jopt ''owner'' jstr (acreate_owner p) @
     jopt ''private_dns'' jstr (acreate_private_dns p) @
     jopt ''private_ip'' jstr (acreate_private_ip p) @
     jopt ''public_ip'' jstr (acreate_public_ip p) @
     jopt ''region'' jstr (acreate_region p) @
     jopt ''source'' jstr (acreate_source p) @
     jopt ''status'' jstr (acreate_status p) @
     jopt ''subnet_id'' jstr (acreate_subnet_id p) @
     jopt ''vpc_id'' jstr (acreate_vpc_id p) @
     jopt ''zone'' jstr (acreate_zone p))"

definition UpdateAssetPayload_json :: "UpdateAssetPayload \<Rightarrow> json" where
  "UpdateAssetPayload_json p = JObj (
     jopt ''account_id'' jstr (aupd_account_id p) @
     jopt ''business_unit'' jstr (aupd_business_unit p) @
     jopt ''criticality'' jstr (aupd_criticality p) @
     jopt ''env'' jstr (aupd_env p) @
     jopt ''expires_at'' jstr (aupd_expires_at p) @
     jopt ''instance_type'' jstr (aupd_instance_type p) @
     jopt ''labels'' jrecord (aupd_labels p) @
     jopt ''name'' jstr (aupd_name p) @
     jopt ''os_image'' jstr (aupd_os_image p) @
     jopt ''owner'' jstr (aupd_owner p) @
     jopt ''private_dns'' jstr (aupd_private_dns p) @
     jopt ''private_ip'' jstr (aupd_private_ip p) @
     jopt ''public_ip'' jstr (aupd_public_ip p) @
     jopt ''region'' jstr (aupd_region p) @
     jopt ''status'' jstr (aupd_status p) @
     jopt ''subnet_id'' jstr (aupd_subnet_id p) @
     jopt ''vpc_id'' jstr (aupd_vpc_id p) @
     jopt ''zone'' jstr (aupd_zone p))"

definition PromoteVPCProxyOptions_json :: "PromoteVPCProxyOptions \<Rightarrow> json" where
  "PromoteVPCProxyOptions_json p = JObj (
     jopt ''auth_type'' jstr (promopt_auth_type p) @
     jopt ''username'' jstr (promopt_username p))"

definition UpsertSSHProxyPayload_json :: "UpsertSSHProxyPayload \<Rightarrow> json" where
  "UpsertSSHProxyPayload_json p = JObj (
     jmem ''auth_type'' (jstr (SSHProxyAuthType_str (proxyup_auth_type p))) @
     jmem ''description'' (jstr (proxyup_description p)) @
     jmem ''host'' (jstr (proxyup_host p)) @
     jmem ''name'' (jstr (proxyup_name p)) @
     jmem ''network_zone'' (jstr (proxyup_network_zone p)) @
     jmem ''port'' (JNum (proxyup_port p)) @
     jmem ''username'' (jstr (proxyup_username p)) @
     jopt ''password'' jstr (proxyup_password p) @
     jopt ''private_key'' jstr (proxyup_private_key p) @
     jopt ''passphrase'' jstr (proxyup_passphrase p))"

definition UpsertSSHKeypairPayload_json :: "UpsertSSHKeypairPayload \<Rightarrow> json" where
  "UpsertSSHKeypairPayload_json p = JObj (
     jmem ''description'' (jstr (keypairup_description p)) @
     jmem ''name'' (jstr (keypairup_name p)) @
     jmem ''private_key'' (jstr (keypairup_private_key p)) @
     jopt ''passphrase'' jstr (keypairup_passphrase p))"

definition ResolveCapabilityRequest_json :: "ResolveCapabilityRequest \<Rightarrow> json" where
  "ResolveCapabilityRequest_json p = JObj (
     jmem ''user_id'' (jstr (rreq_user_id p)) @
     jmem ''capability'' (jstr (rreq_capability p)) @
     jopt ''resource_ref'' jstr (rreq_resource_ref p))"

definition UpdateOIDCSettingsPayload_json :: "UpdateOIDCSettingsPayload \<Rightarrow> json" where
  "UpdateOIDCSettingsPayload_json p = JObj (
     jmem ''authorize_url'' (jstr (oidcupd_authorize_url p)) @
     jmem ''client_id'' (jstr (oidcupd_client_id p)) @
     jmem ''enabled'' (JBool (oidcupd_enabled p)) @
     jmem ''issuer_url'' (jstr (oidcupd_issuer_url p)) @
     jmem ''redirect_url'' (jstr (oidcupd_redirect_url p)) @
     jmem ''scopes'' (jstrs (oidcupd_scopes p)) @
     jmem ''token_url'' (jstr (oidcupd_token_url p)) @
     jmem ''userinfo_url'' (jstr (oidcupd_userinfo_url p)) @
     jopt ''client_secret'' jstr (oidcupd_client_secret p))"

abbreviation send_json :: "string \<Rightarrow> string \<Rightarrow> json \<Rightarrow> api_call" where
  "send_json meth path v \<equiv> call_send meth path (Some (json_stringify v))"

abbreviation post_empty :: "string \<Rightarrow> api_call" where
  "post_empty path \<equiv> call_send ''POST'' path (Some empty_object)"

abbreviation delete_at :: "string \<Rightarrow> api_call" where
  "delete_at path \<equiv> call_send ''DELETE'' path None"

text \<open>\<open>params ? `${path}?${params}` : path\<close>\<close>

definition with_query :: "string \<Rightarrow> string \<Rightarrow> string" where
  "with_query path q = (if q = [] then path else path @ ''?'' @ q)"

section \<open>auth.ts and health.ts\<close>

definition TOKEN_STORAGE_KEY :: string where
  "TOKEN_STORAGE_KEY = ''ops_platform_access_token''"

definition loginLocal :: "LocalLoginRequest \<Rightarrow> api_call" where
  "loginLocal p = (let c = send_json ''POST'' ''/auth/local/login'' (LocalLoginRequest_json p)
     in c\<lparr>call_opts := (call_opts c)\<lparr>opt_skipAuth := True\<rparr>\<rparr>)"

definition getCurrentIdentity :: api_call where
  "getCurrentIdentity = call_get ''/auth/me''"

definition getHealth :: api_call where
  "getHealth = (let c = call_get ''/healthz'' in c\<lparr>call_opts := (call_opts c)\<lparr>opt_skipAuth := True\<rparr>\<rparr>)"

section \<open>aws.ts\<close>

definition buildAwsAccountPath :: "string \<Rightarrow> string" where
  "buildAwsAccountPath accountID = ''/api/v1/aws/accounts/'' @ encodeURIComponent accountID"

definition buildAwsAccountTestPath :: "string \<Rightarrow> string" where
  "buildAwsAccountTestPath accountID = buildAwsAccountPath accountID @ ''/test''"

definition buildAwsSyncRunsQuery :: "ListAwsSyncRunsOptions \<Rightarrow> string" where
  "buildAwsSyncRunsQuery opts = params_str (set_opt ''limit'' (awsrunopt_limit opts) [])"

definition listAwsAccounts :: api_call where
  "listAwsAccounts = call_get ''/api/v1/aws/accounts''"

definition createAwsAccount :: "CreateAwsAccountPayload \<Rightarrow> api_call" where
  "createAwsAccount p = send_json ''POST'' ''/api/v1/aws/accounts'' (CreateAwsAccountPayload_json p)"

definition updateAwsAccount :: "string \<Rightarrow> UpdateAwsAccountPayload \<Rightarrow> api_call" where
  "updateAwsAccount accountID p =
     send_json ''PATCH'' (buildAwsAccountPath accountID) (UpdateAwsAccountPayload_json p)"

definition testAwsAccount :: "string \<Rightarrow> api_call" where
  "testAwsAccount accountID = post_empty (buildAwsAccountTestPath accountID)"

definition getAwsSyncStatus :: api_call where
  "getAwsSyncStatus = call_get ''/api/v1/aws/sync/status''"

definition listAwsSyncRuns :: "ListAwsSyncRunsOptions \<Rightarrow> api_call" where
  "listAwsSyncRuns opts = call_get (with_query ''/api/v1/aws/sync/runs'' (buildAwsSyncRunsQuery opts))"

definition triggerAwsSync :: api_call where
  "triggerAwsSync = post_empty ''/api/v1/aws/sync/run''"

section \<open>bastion.ts\<close>

definition buildBastionRequestActionPath :: "string \<Rightarrow> BastionRequestAction \<Rightarrow> string" where
  "buildBastionRequestActionPath requestID action =
     ''/api/v1/bastion/requests/'' @ encodeURIComponent requestID @ ''/'' @ BastionRequestAction_str action"

definition buildBastionRequestDecisionPath :: "string \<Rightarrow> BastionRequestAction \<Rightarrow> string" where
  "buildBastionRequestDecisionPath requestID decision = buildBastionRequestActionPath requestID decision"

definition buildBastionRequestsQuery :: "ListBastionRequestsOptions \<Rightarrow> string" where
  "buildBastionRequestsQuery opts =
    (let p0 = [];
         p1 = set_if (breqopt_mine opts = Some True) ''mine'' ''true'' p0;
         p2 = (case breqopt_status opts of None \<Rightarrow> p1
               | Some st \<Rightarrow> params_set ''status'' (BastionRequestStatus_str st) p1);
         p3 = set_if (truthy (breqopt_userID opts)) ''user_id'' (opt_or (breqopt_userID opts) []) p2;
         p4 = set_opt ''limit'' (breqopt_limit opts) p3;
         p5 = set_opt ''offset'' (breqopt_offset opts) p4
     in params_str p5)"

definition no_breq_options :: ListBastionRequestsOptions where
  "no_breq_options = \<lparr>breqopt_limit = None, breqopt_mine = None, breqopt_offset = None,
     breqopt_status = None, breqopt_userID = None\<rparr>"

definition listMyBastionRequests :: "int \<Rightarrow> api_call" where
  "listMyBastionRequests limit = call_get (''/api/v1/bastion/requests?'' @
     buildBastionRequestsQuery (no_breq_options\<lparr>breqopt_mine := Some True, breqopt_limit := Some limit\<rparr>))"

definition listPendingBastionRequests :: "int \<Rightarrow> api_call" where
  "listPendingBastionRequests limit = call_get (''/api/v1/bastion/requests?'' @
     buildBastionRequestsQuery (no_breq_options\<lparr>breqopt_status := Some ReqPending, breqopt_limit := Some limit\<rparr>))"

definition listMyActiveBastionGrants :: "string \<Rightarrow> int \<Rightarrow> api_call" where
  "listMyActiveBastionGrants userID limit = call_get (''/api/v1/bastion/grants?'' @
     params_str [(''active'', ''true''), (''user_id'', userID), (''limit'', int_str limit)])"

definition listAssetActiveGrants :: "string \<Rightarrow> int \<Rightarrow> api_call" where
  "listAssetActiveGrants assetID limit = call_get (''/api/v1/bastion/grants?'' @
     params_str [(''active'', ''true''), (''asset_id'', assetID), (''limit'', int_str limit)])"

definition createBastionRequest :: "CreateBastionRequestPayload \<Rightarrow> api_call" where
  "createBastionRequest p =
     send_json ''POST'' ''/api/v1/bastion/requests'' (CreateBastionRequestPayload_json p)"

definition approveBastionRequest :: "string \<Rightarrow> DecideBastionRequestPayload \<Rightarrow> api_call" where
  "approveBastionRequest requestID p = send_json ''POST''
     (buildBastionRequestDecisionPath requestID ActApprove) (DecideBastionRequestPayload_json p)"

definition rejectBastionRequest :: "string \<Rightarrow> DecideBastionRequestPayload \<Rightarrow> api_call" where
  "rejectBastionRequest requestID p = send_json ''POST''
     (buildBastionRequestDecisionPath requestID ActReject) (DecideBastionRequestPayload_json p)"

definition cancelBastionRequest :: "string \<Rightarrow> api_call" where
  "cancelBastionRequest requestID = post_empty (buildBastionRequestActionPath requestID ActCancel)"

section \<open>cmdb.ts\<close>

definition buildAssetsQuery :: "ListAssetsOptions \<Rightarrow> string" where
  "buildAssetsQuery opts =
    (let put = (\<lambda>k v ps. set_if (truthy v) k (opt_or v []) ps);
         p1 = put ''type'' (assetopt_type opts) [];
         p2 = put ''env'' (assetopt_env opts) p1;
         p3 = put ''status'' (assetopt_status opts) p2;
         p4 = put ''source'' (assetopt_source opts) p3;
         p5 = put ''region'' (assetopt_region opts) p4;
         p6 = put ''account_id'' (assetopt_accountID opts) p5;
         p7 = put ''owner'' (assetopt_owner opts) p6;
         p8 = put ''criticality'' (assetopt_criticality opts) p7;
         p9 = put ''q'' (assetopt_query opts) p8;
         p10 = (case assetopt_isVPCProxy opts of None \<Rightarrow> p9
                | Some b \<Rightarrow> params_set ''is_vpc_proxy'' (if b then ''true'' else ''false'') p9);
         p11 = set_opt ''limit'' (assetopt_limit opts) p10;
         p12 = set_opt ''offset'' (assetopt_offset opts) p11
     in params_str p12)"

definition buildAssetPath :: "string \<Rightarrow> string" where
  "buildAssetPath assetID = ''/api/v1/cmdb/assets/'' @ encodeURIComponent assetID"

definition buildAssetConnectionPath :: "string \<Rightarrow> string" where
  "buildAssetConnectionPath assetID = buildAssetPath assetID @ ''/connection''"

definition buildAssetConnectionTestPath :: "string \<Rightarrow> string" where
  "buildAssetConnectionTestPath assetID = buildAssetConnectionPath assetID @ ''/test''"

definition buildAssetProbePath :: "string \<Rightarrow> string" where
  "buildAssetProbePath assetID = buildAssetPath assetID @ ''/probe/latest''"

definition buildAssetRelationsPath :: "string \<Rightarrow> string" where
  "buildAssetRelationsPath assetID = buildAssetPath assetID @ ''/relations''"

definition buildAssetRelationDeletePath :: "string \<Rightarrow> string \<Rightarrow> string" where
  "buildAssetRelationDeletePath assetID relationID =
     buildAssetRelationsPath assetID @ ''/'' @ encodeURIComponent relationID"

definition buildAssetProbeRunPath :: "string \<Rightarrow> string" where
  "buildAssetProbeRunPath assetID = buildAssetPath assetID @ ''/probe/run''"

definition buildAssetVPCProxyPromotePath :: "string \<Rightarrow> string" where
  "buildAssetVPCProxyPromotePath assetID = buildAssetPath assetID @ ''/promote-vpc-proxy''"

definition buildAssetVPCProxyDemotePath :: "string \<Rightarrow> string" where
  "buildAssetVPCProxyDemotePath assetID = buildAssetPath assetID @ ''/demote-vpc-proxy''"

definition listAssets :: "ListAssetsOptions \<Rightarrow> api_call" where
  "listAssets opts = call_get (with_query ''/api/v1/cmdb/assets'' (buildAssetsQuery opts))"

definition getAsset :: "string \<Rightarrow> api_call" where
  "getAsset assetID = call_get (buildAssetPath assetID)"

definition getAssetConnectionProfile :: "string \<Rightarrow> api_call" where
  "getAssetConnectionProfile assetID = call_get (buildAssetConnectionPath assetID)"

definition updateAssetConnectionProfile :: "string \<Rightarrow> UpdateAssetConnectionProfilePayload \<Rightarrow> api_call" where
  "updateAssetConnectionProfile assetID p = send_json ''PUT'' (buildAssetConnectionPath assetID)
     (UpdateAssetConnectionProfilePayload_json p)"

definition testAssetConnection :: "string \<Rightarrow> api_call" where
  "testAssetConnection assetID = post_empty (buildAssetConnectionTestPath assetID)"

definition getLatestAssetProbe :: "string \<Rightarrow> api_call" where
  "getLatestAssetProbe assetID = call_get (buildAssetProbePath assetID)"

definition listAssetRelations :: "string \<Rightarrow> api_call" where
  "listAssetRelations assetID = call_get (buildAssetRelationsPath assetID)"

definition listAssetFacets :: api_call where
  "listAssetFacets = call_get ''/api/v1/cmdb/assets/facets''"

definition createAsset :: "CreateAssetPayload \<Rightarrow> api_call" where
  "createAsset p = send_json ''POST'' ''/api/v1/cmdb/assets'' (CreateAssetPayload_json p)"

definition updateAsset :: "string \<Rightarrow> UpdateAssetPayload \<Rightarrow> api_call" where
  "updateAsset assetID p = send_json ''PATCH'' (buildAssetPath assetID) (UpdateAssetPayload_json p)"

definition deleteAsset :: "string \<Rightarrow> api_call" where
  "deleteAsset assetID = delete_at (buildAssetPath assetID)"

definition runAssetProbe :: "string \<Rightarrow> api_call" where
  "runAssetProbe assetID = post_empty (buildAssetProbeRunPath assetID)"

definition promoteAssetToVPCProxy :: "string \<Rightarrow> PromoteVPCProxyOptions \<Rightarrow> api_call" where
  "promoteAssetToVPCProxy assetID opts = send_json ''POST'' (buildAssetVPCProxyPromotePath assetID)
     (PromoteVPCProxyOptions_json opts)"

definition demoteAssetVPCProxy :: "string \<Rightarrow> api_call" where
  "demoteAssetVPCProxy assetID = post_empty (buildAssetVPCProxyDemotePath assetID)"

definition deleteAssetRelation :: "string \<Rightarrow> string \<Rightarrow> api_call" where
  "deleteAssetRelation assetID relationID = delete_at (buildAssetRelationDeletePath assetID relationID)"

section \<open>connectivity.ts\<close>

definition buildSSHProxyPath :: "string \<Rightarrow> string" where
  "buildSSHProxyPath proxyID = ''/api/v1/cmdb/ssh-proxies/'' @ encodeURIComponent proxyID"

definition buildSSHKeypairPath :: "string \<Rightarrow> string" where
  "buildSSHKeypairPath keypairID = ''/api/v1/ssh-keypairs/'' @ encodeURIComponent keypairID"

definition buildHostKeyPath :: "HostKeyScope \<Rightarrow> string \<Rightarrow> string" where
  "buildHostKeyPath scope targetID = ''/api/v1/cmdb/hostkeys/'' @
     encodeURIComponent (HostKeyScope_str scope) @ ''/'' @ encodeURIComponent targetID"

definition buildHostKeyOverridePath :: "HostKeyScope \<Rightarrow> string \<Rightarrow> string" where
  "buildHostKeyOverridePath scope targetID = buildHostKeyPath scope targetID @ ''/override''"

definition listSSHProxies :: api_call where
  "listSSHProxies = call_get ''/api/v1/cmdb/ssh-proxies''"

definition createSSHProxy :: "UpsertSSHProxyPayload \<Rightarrow> api_call" where
  "createSSHProxy p = send_json ''POST'' ''/api/v1/cmdb/ssh-proxies'' (UpsertSSHProxyPayload_json p)"

definition updateSSHProxy :: "string \<Rightarrow> UpsertSSHProxyPayload \<Rightarrow> api_call" where
  "updateSSHProxy proxyID p =
     send_json ''PATCH'' (buildSSHProxyPath proxyID) (UpsertSSHProxyPayload_json p)"

definition deleteSSHProxy :: "string \<Rightarrow> api_call" where
  "deleteSSHProxy proxyID = delete_at (buildSSHProxyPath proxyID)"

definition listSSHKeypairs :: api_call where
  "listSSHKeypairs = call_get ''/api/v1/ssh-keypairs/''"

definition upsertSSHKeypair :: "UpsertSSHKeypairPayload \<Rightarrow> api_call" where
  "upsertSSHKeypair p = send_json ''POST'' ''/api/v1/ssh-keypairs/'' (UpsertSSHKeypairPayload_json p)"

definition deleteSSHKeypair :: "string \<Rightarrow> api_call" where
  "deleteSSHKeypair keypairID = delete_at (buildSSHKeypairPath keypairID)"

definition listHostKeys :: api_call where
  "listHostKeys = call_get ''/api/v1/cmdb/hostkeys/''"

definition approveHostKeyOverride :: "HostKeyScope \<Rightarrow> string \<Rightarrow> api_call" where
  "approveHostKeyOverride scope targetID = post_empty (buildHostKeyOverridePath scope targetID)"

definition deleteHostKey :: "HostKeyScope \<Rightarrow> string \<Rightarrow> api_call" where
  "deleteHostKey scope targetID = delete_at (buildHostKeyPath scope targetID)"

section \<open>iam.ts\<close>

definition buildIamUsersQuery :: "ListIamUsersOptions \<Rightarrow> string" where
  "buildIamUsersQuery opts = (let query = map_option trim (iamusersopt_query opts)
     in params_str (set_if (truthy query) ''q'' (opt_or query []) []))"

definition buildIamRolesQuery :: "ListIamRolesOptions \<Rightarrow> string" where
  "buildIamRolesQuery opts =
     params_str (set_if (iamrolesopt_includePermissions opts = Some True) ''include_permissions'' ''true'' [])"

definition buildIamUserPath :: "string \<Rightarrow> string" where
  "buildIamUserPath userID = ''/api/v1/iam/users/'' @ encodeURIComponent userID"

definition buildIamUserRolesPath :: "string \<Rightarrow> string" where
  "buildIamUserRolesPath userID = buildIamUserPath userID @ ''/roles''"

definition buildIamUserRolePath :: "string \<Rightarrow> string \<Rightarrow> string" where
  "buildIamUserRolePath userID roleName =
     buildIamUserRolesPath userID @ ''/'' @ encodeURIComponent roleName"

definition buildIamRolePermissionsPath :: "string \<Rightarrow> string" where
  "buildIamRolePermissionsPath roleName =
     ''/api/v1/iam/roles/'' @ encodeURIComponent roleName @ ''/permissions''"

definition listIamUsers :: "ListIamUsersOptions \<Rightarrow> api_call" where
  "listIamUsers opts = call_get (with_query ''/api/v1/iam/users'' (buildIamUsersQuery opts))"

definition getIamUserIdentity :: "string \<Rightarrow> api_call" where
  "getIamUserIdentity userID = call_get (buildIamUserPath userID)"

definition listIamRoles :: "ListIamRolesOptions \<Rightarrow> api_call" where
  "listIamRoles opts = call_get (with_query ''/api/v1/iam/roles'' (buildIamRolesQuery opts))"

definition getIamRolePermissions :: "string \<Rightarrow> api_call" where
  "getIamRolePermissions roleName = call_get (buildIamRolePermissionsPath roleName)"

definition listCapabilities :: api_call where
  "listCapabilities = call_get ''/api/v1/iam/capabilities''"

definition getCapabilityMatrix :: api_call where
  "getCapabilityMatrix = call_get ''/api/v1/iam/matrix''"

definition getCapabilityPrincipals :: "string \<Rightarrow> api_call" where
  "getCapabilityPrincipals permission =
     call_get (''/api/v1/iam/capabilities/'' @ encodeURIComponent permission @ ''/principals'')"

definition resolveCapability :: "ResolveCapabilityRequest \<Rightarrow> api_call" where
  "resolveCapability req = send_json ''POST'' ''/api/v1/iam/resolve'' (ResolveCapabilityRequest_json req)"

definition bindRoleToUser :: "string \<Rightarrow> string \<Rightarrow> api_call" where
  "bindRoleToUser userID roleName = send_json ''POST'' (buildIamUserRolesPath userID)
     (JObj (jmem ''role_name'' (jstr roleName)))"

definition unbindRoleFromUser :: "string \<Rightarrow> string \<Rightarrow> api_call" where
  "unbindRoleFromUser userID roleName = delete_at (buildIamUserRolePath userID roleName)"

section \<open>oidc.ts\<close>

definition buildOIDCConfigPath :: string where
  "buildOIDCConfigPath = ''/api/v1/iam/oidc-config''"

definition buildOIDCConfigTestPath :: string where
  "buildOIDCConfigTestPath = buildOIDCConfigPath @ ''/test''"

definition getOIDCSettings :: api_call where
  "getOIDCSettings = call_get buildOIDCConfigPath"

definition updateOIDCSettings :: "UpdateOIDCSettingsPayload \<Rightarrow> api_call" where
  "updateOIDCSettings p = send_json ''PUT'' buildOIDCConfigPath (UpdateOIDCSettingsPayload_json p)"

definition testOIDCSettings :: "UpdateOIDCSettingsPayload \<Rightarrow> api_call" where
  "testOIDCSettings p = send_json ''POST'' buildOIDCConfigTestPath (UpdateOIDCSettingsPayload_json p)"

section \<open>sessions.ts\<close>

definition buildSessionsQuery :: "ListSessionsOptions \<Rightarrow> string" where
  "buildSessionsQuery opts =
    (let p1 = set_if (truthy (sessopt_userID opts)) ''user_id'' (opt_or (sessopt_userID opts) []) [];
         p2 = set_if (truthy (sessopt_assetID opts)) ''asset_id'' (opt_or (sessopt_assetID opts) []) p1;
         p3 = set_opt ''limit'' (sessopt_limit opts) p2;
         p4 = set_opt ''offset'' (sessopt_offset opts) p3
     in params_str p4)"

definition buildSessionRecordingPath :: "string \<Rightarrow> string" where
  "buildSessionRecordingPath sessionID =
     ''/api/v1/cmdb/sessions/'' @ encodeURIComponent sessionID @ ''/recording''"

definition buildAssetTerminalTicketPath :: "string \<Rightarrow> string" where
  "buildAssetTerminalTicketPath assetID =
     ''/api/v1/cmdb/assets/'' @ encodeURIComponent assetID @ ''/terminal/ticket''"

definition buildAssetRdpTicketPath :: "string \<Rightarrow> string" where
  "buildAssetRdpTicketPath assetID =
     ''/api/v1/cmdb/assets/'' @ encodeURIComponent assetID @ ''/rdp/ticket''"

definition buildAssetDbTicketPath :: "string \<Rightarrow> string" where
  "buildAssetDbTicketPath assetID =
     ''/api/v1/cmdb/assets/'' @ encodeURIComponent assetID @ ''/db/ticket''"

text \<open>\<open>{ limit: 100, ...options }\<close>: a limit member that is present overrides the default.\<close>

definition listSessions :: "ListSessionsOptions \<Rightarrow> api_call" where
  "listSessions opts = call_get (''/api/v1/cmdb/sessions/?'' @ buildSessionsQuery
     (opts\<lparr>sessopt_limit := (case sessopt_limit opts of None \<Rightarrow> Some 100 | Some l \<Rightarrow> Some l)\<rparr>))"

definition getSessionRecording :: "string \<Rightarrow> api_call" where
  "getSessionRecording sessionID = (let c = call_get (buildSessionRecordingPath sessionID)
     in c\<lparr>call_opts := (call_opts c)\<lparr>opt_responseType := Some TextResponse\<rparr>\<rparr>)"

definition issueTerminalTicket :: "string \<Rightarrow> api_call" where
  "issueTerminalTicket assetID = post_empty (buildAssetTerminalTicketPath assetID)"

definition issueDbTicket :: "string \<Rightarrow> api_call" where
  "issueDbTicket assetID = post_empty (buildAssetDbTicketPath assetID)"

definition issueRdpTicket :: "string \<Rightarrow> api_call" where
  "issueRdpTicket assetID = post_empty (buildAssetRdpTicketPath assetID)"

end
