(* ===== verification/ApiContracts.thy ===== *)
theory ApiContracts
  imports ApiEndpoints
begin

text \<open>
  What a server can rely on in the requests of \<open>src/web/src/api\<close>: identifiers stay in their path
  segment (\<open>id_path\<close>), a JSON body reads back as the payload (\<open>json_payload\<close>), and a query string
  reads back as the options it was built from.
\<close>

section \<open>Identifiers in paths\<close>

text \<open>
  A path builder puts an encoded identifier between a fixed prefix that ends in a slash and a fixed
  rest. The server splits the path at slashes and decodes the segments.
\<close>

locale id_path =
  fixes build :: "string \<Rightarrow> string" and pre :: string and rest :: string
  assumes build_eq: "build i = pre @ CHR ''/'' # encodeURIComponent i @ rest"
    and pre_plain: "CHR ''?'' \<notin> set pre" "CHR ''#'' \<notin> set pre"
    and rest_plain: "CHR ''?'' \<notin> set rest" "CHR ''#'' \<notin> set rest"
    and rest_slash: "rest = [] \<or> hd rest = CHR ''/''"
begin

lemma build_inj: "build i = build j \<longleftrightarrow> i = j"
  by (simp add: build_eq)

lemma build_plain: "CHR ''?'' \<notin> set (build i)" "CHR ''#'' \<notin> set (build i)"
  using pre_plain rest_plain encodeURIComponent_no_delim [of i] by (auto simp: build_eq)

lemma build_segments:
  "split_on CHR ''/'' (build i) =
     split_on CHR ''/'' pre @ encodeURIComponent i # tl (split_on CHR ''/'' rest)"
proof -
  have seg: "split_on c (a @ c # b) = split_on c a @ split_on c b" for c a and b :: string
    by (induction a) (auto split: list.splits)
  have "split_on CHR ''/'' (encodeURIComponent i @ rest) = encodeURIComponent i # tl (split_on CHR ''/'' rest)"
  proof (cases rest)
    case Nil
    then show ?thesis using encodeURIComponent_no_delim(1) [of i] by (simp add: split_on_no_sep)
  next
    case (Cons c cs)
    with rest_slash have "rest = CHR ''/'' # cs" by simp
    then show ?thesis using encodeURIComponent_no_delim(1) [of i] by (simp add: split_on_append)
  qed
  then show ?thesis by (simp add: build_eq seg)
qed

text \<open>Whatever the identifier holds, it is one segment of the path, and it decodes to itself.\<close>

lemma build_segment_decodes:
  "length (split_on CHR ''/'' (build i)) = length (split_on CHR ''/'' pre) + length (split_on CHR ''/'' rest)"
  "pct_decode (split_on CHR ''/'' (build i) ! length (split_on CHR ''/'' pre)) = Some i"
  by (simp_all add: build_segments nth_append pct_decode_encodeURIComponent)

end

lemmas path_defs = buildAwsAccountPath_def buildAwsAccountTestPath_def buildAssetPath_def
  buildAssetConnectionPath_def buildAssetConnectionTestPath_def buildAssetProbePath_def
  buildAssetRelationsPath_def buildAssetRelationDeletePath_def buildAssetProbeRunPath_def
  buildAssetVPCProxyPromotePath_def buildAssetVPCProxyDemotePath_def buildSSHProxyPath_def
  buildSSHKeypairPath_def buildHostKeyPath_def buildHostKeyOverridePath_def buildIamUserPath_def
  buildIamUserRolesPath_def buildIamUserRolePath_def buildIamRolePermissionsPath_def
  buildSessionRecordingPath_def buildAssetTerminalTicketPath_def buildAssetRdpTicketPath_def
  buildAssetDbTicketPath_def buildBastionRequestActionPath_def

lemmas enc_plain = encodeURIComponent_no_delim

interpretation aws_account: id_path buildAwsAccountPath "''/api/v1/aws/accounts''" "[]"
  by unfold_locales (simp_all add: path_defs)

interpretation aws_account_test: id_path buildAwsAccountTestPath "''/api/v1/aws/accounts''" "''/test''"
  by unfold_locales (simp_all add: path_defs)

interpretation asset: id_path buildAssetPath "''/api/v1/cmdb/assets''" "[]"
  by unfold_locales (simp_all add: path_defs)

interpretation asset_connection: id_path buildAssetConnectionPath "''/api/v1/cmdb/assets''" "''/connection''"
  by unfold_locales (simp_all add: path_defs)

interpretation asset_connection_test: id_path buildAssetConnectionTestPath "''/api/v1/cmdb/assets''" "''/connection/test''"
  by unfold_locales (simp_all add: path_defs)

interpretation asset_probe: id_path buildAssetProbePath "''/api/v1/cmdb/assets''" "''/probe/latest''"
  by unfold_locales (simp_all add: path_defs)

interpretation asset_probe_run: id_path buildAssetProbeRunPath "''/api/v1/cmdb/assets''" "''/probe/run''"
  by unfold_locales (simp_all add: path_defs)

interpretation asset_relations: id_path buildAssetRelationsPath "''/api/v1/cmdb/assets''" "''/relations''"
  by unfold_locales (simp_all add: path_defs)

interpretation asset_promote: id_path buildAssetVPCProxyPromotePath "''/api/v1/cmdb/assets''" "''/promote-vpc-proxy''"
  by unfold_locales (simp_all add: path_defs)

interpretation asset_demote: id_path buildAssetVPCProxyDemotePath "''/api/v1/cmdb/assets''" "''/demote-vpc-proxy''"
  by unfold_locales (simp_all add: path_defs)

interpretation asset_terminal: id_path buildAssetTerminalTicketPath "''/api/v1/cmdb/assets''" "''/terminal/ticket''"
  by unfold_locales (simp_all add: path_defs)

interpretation asset_rdp: id_path buildAssetRdpTicketPath "''/api/v1/cmdb/assets''" "''/rdp/ticket''"
  by unfold_locales (simp_all add: path_defs)

interpretation asset_db: id_path buildAssetDbTicketPath "''/api/v1/cmdb/assets''" "''/db/ticket''"
  by unfold_locales (simp_all add: path_defs)

interpretation ssh_proxy: id_path buildSSHProxyPath "''/api/v1/cmdb/ssh-proxies''" "[]"
  by unfold_locales (simp_all add: path_defs)

interpretation ssh_keypair: id_path buildSSHKeypairPath "''/api/v1/ssh-keypairs''" "[]"
  by unfold_locales (simp_all add: path_defs)

interpretation iam_user: id_path buildIamUserPath "''/api/v1/iam/users''" "[]"
  by unfold_locales (simp_all add: path_defs)

interpretation iam_user_roles: id_path buildIamUserRolesPath "''/api/v1/iam/users''" "''/roles''"
  by unfold_locales (simp_all add: path_defs)

interpretation iam_role: id_path buildIamRolePermissionsPath "''/api/v1/iam/roles''" "''/permissions''"
  by unfold_locales (simp_all add: path_defs)

interpretation recording: id_path buildSessionRecordingPath "''/api/v1/cmdb/sessions''" "''/recording''"
  by unfold_locales (simp_all add: path_defs)

text \<open>A path with two identifiers is such a path in each of them.\<close>

interpretation relation_of: id_path "buildAssetRelationDeletePath a"
    "''/api/v1/cmdb/assets/'' @ encodeURIComponent a @ ''/relations''" "[]" for a
  by unfold_locales (simp_all add: path_defs enc_plain)

interpretation user_role: id_path "buildIamUserRolePath u"
    "''/api/v1/iam/users/'' @ encodeURIComponent u @ ''/roles''" "[]" for u
  by unfold_locales (simp_all add: path_defs enc_plain)

interpretation host_key: id_path "buildHostKeyPath scope"
    "''/api/v1/cmdb/hostkeys/'' @ encodeURIComponent (HostKeyScope_str scope)" "[]" for scope
  by unfold_locales (simp_all add: path_defs enc_plain)

interpretation bastion_action: id_path "\<lambda>r. buildBastionRequestActionPath r action"
    "''/api/v1/bastion/requests''" "CHR ''/'' # BastionRequestAction_str action" for action
  by unfold_locales (cases action; simp add: path_defs)+

section \<open>JSON bodies\<close>

lemma wf_units_u16 [simp]: "wf_units (u16 s)"
proof -
  have "(of_char c :: nat) < 65536" for c by (rule less_trans [OF nat_of_char_less_256]) simp
  then show ?thesis by (simp add: wf_units_def u16_def list_all_iff)
qed

lemma wf_jstr [simp]: "wf_json (jstr s)" by (simp add: jstr_def)

lemma wf_jstrs [simp]: "wf_json (jstrs xs)"
  by (simp add: jstrs_def list_all_iff jstr_def)

lemma wf_obj_members:
  "wf_json (JObj (jmem k v @ m)) \<longleftrightarrow> wf_json v \<and> u16 k \<notin> fst ` set m \<and> wf_json (JObj m)"
  "wf_json (JObj (jopt k f x @ m)) \<longleftrightarrow>
     (\<forall>a. x = Some a \<longrightarrow> wf_json (f a) \<and> u16 k \<notin> fst ` set m) \<and> wf_json (JObj m)"
  "wf_json (JObj (jmem k v)) \<longleftrightarrow> wf_json v"
  "wf_json (JObj (jopt k f x)) \<longleftrightarrow> (\<forall>a. x = Some a \<longrightarrow> wf_json (f a))"
  by (auto simp: jmem_def jopt_def split: option.splits)

lemma key_in_members:
  "u16 k \<in> fst ` set (jmem k' v) \<longleftrightarrow> k = k'"
  "u16 k \<in> fst ` set (jopt k' f x) \<longleftrightarrow> x \<noteq> None \<and> k = k'"
  by (auto simp: jmem_def jopt_def split: option.splits)

lemmas wf_obj = wf_obj_members key_in_members image_Un

text \<open>A label value whose numbers are integers of at most 53 bits, with distinct names throughout.\<close>

fun wf_unknown :: "unknown \<Rightarrow> bool" where
  "wf_unknown (UNum n) = int_num n"
| "wf_unknown (UArr xs) = list_all wf_unknown xs"
| "wf_unknown (UObj kvs) = (distinct (map fst kvs) \<and> list_all (\<lambda>(k, v). wf_unknown v) kvs)"
| "wf_unknown _ = True"

lemma wf_unknown_json: "wf_unknown v \<Longrightarrow> wf_json (unknown_json v)"
proof (induction v)
  case (UObj kvs)
  have "distinct (map (\<lambda>p. u16 (fst p)) kvs) \<longleftrightarrow> distinct (map fst kvs)"
    using distinct_map [of u16 "map fst kvs"] by (simp add: inj_on_def comp_def)
  with UObj show ?case by (fastforce simp: list_all_iff case_prod_unfold comp_def)
qed (auto simp: list_all_iff)

lemma members_get:
  "map_of (jmem k v @ m) (u16 k') = (if k' = k then Some v else map_of m (u16 k'))"
  "map_of (jopt k f x @ m) (u16 k') = (if k' = k \<and> x \<noteq> None then map_option f x else map_of m (u16 k'))"
  "map_of (jmem k v) (u16 k') = (if k' = k then Some v else None)"
  "map_of (jopt k f x) (u16 k') = (if k' = k then map_option f x else None)"
  by (auto simp: jmem_def jopt_def split: option.splits)

locale json_payload =
  fixes enc :: "'p \<Rightarrow> json" and ok :: "'p \<Rightarrow> bool"
  assumes enc_wf: "ok p \<Longrightarrow> wf_json (enc p)"
begin

text \<open>
  A call that sends such a payload carries a body that the server's JSON parser reads as the
  payload, and says that the body is JSON.
\<close>

lemma sent_reads_back:
  assumes "ok p"
  shows "opt_body (call_opts (send_json meth path (enc p))) = Some (TextBody (json_stringify (enc p))) \<and>
    json_parse (json_stringify (enc p)) = Some (enc p) \<and>
    headers_get (request_headers token (call_opts (send_json meth path (enc p)))) ''Content-Type'' =
      Some ''application/json''"
  using json_parse_stringify [OF enc_wf [OF assms]]
  by (simp add: call_send_def no_options_def content_type_header shouldSendJsonContentType_def hasRequestBody_def)

lemma sent_determines: "ok p \<Longrightarrow> ok q \<Longrightarrow> json_stringify (enc p) = json_stringify (enc q) \<Longrightarrow> enc p = enc q"
  using json_parse_stringify [OF enc_wf] by (metis option.inject)

end

interpretation login_body: json_payload LocalLoginRequest_json "\<lambda>_. True"
  by unfold_locales (simp add: LocalLoginRequest_json_def wf_obj del: wf_json.simps(4))

interpretation aws_create_body: json_payload CreateAwsAccountPayload_json "\<lambda>_. True"
  by unfold_locales (simp add: CreateAwsAccountPayload_json_def wf_obj del: wf_json.simps(4))

interpretation aws_update_body: json_payload UpdateAwsAccountPayload_json "\<lambda>_. True"
  by unfold_locales (simp add: UpdateAwsAccountPayload_json_def wf_obj del: wf_json.simps(4))

interpretation request_body: json_payload CreateBastionRequestPayload_json
    "\<lambda>p. \<forall>n. bcreate_duration_seconds p = Some n \<longrightarrow> int_num n"
  by unfold_locales (simp add: CreateBastionRequestPayload_json_def wf_obj del: wf_json.simps(4))

interpretation connection_body: json_payload UpdateAssetConnectionProfilePayload_json
    "\<lambda>p. int_num (connupd_port p)"
  by unfold_locales (simp add: UpdateAssetConnectionProfilePayload_json_def wf_obj del: wf_json.simps(4))

interpretation asset_create_body: json_payload CreateAssetPayload_json
    "\<lambda>p. \<forall>l. acreate_labels p = Some l \<longrightarrow> wf_unknown (UObj l)"
  by unfold_locales (simp add: CreateAssetPayload_json_def wf_obj jrecord_def wf_unknown_json
      del: wf_json.simps(4) unknown_json.simps wf_unknown.simps)

interpretation asset_update_body: json_payload UpdateAssetPayload_json
    "\<lambda>p. \<forall>l. aupd_labels p = Some l \<longrightarrow> wf_unknown (UObj l)"
  by unfold_locales (simp add: UpdateAssetPayload_json_def wf_obj jrecord_def wf_unknown_json
      del: wf_json.simps(4) unknown_json.simps wf_unknown.simps)

interpretation proxy_body: json_payload UpsertSSHProxyPayload_json "\<lambda>p. int_num (proxyup_port p)"
  by unfold_locales (simp add: UpsertSSHProxyPayload_json_def wf_obj del: wf_json.simps(4))

interpretation keypair_body: json_payload UpsertSSHKeypairPayload_json "\<lambda>_. True"
  by unfold_locales (simp add: UpsertSSHKeypairPayload_json_def wf_obj del: wf_json.simps(4))

interpretation oidc_body: json_payload UpdateOIDCSettingsPayload_json "\<lambda>_. True"
  by unfold_locales (simp add: UpdateOIDCSettingsPayload_json_def wf_obj del: wf_json.simps(4))

section \<open>Properties\<close>

definition asset_operation_paths :: "string \<Rightarrow> (string \<Rightarrow> string) list" where
  "asset_operation_paths rel = [buildAssetPath, buildAssetConnectionPath, buildAssetConnectionTestPath,
     buildAssetProbePath, buildAssetProbeRunPath, buildAssetRelationsPath, buildAssetVPCProxyPromotePath,
     buildAssetVPCProxyDemotePath, buildAssetTerminalTicketPath, buildAssetRdpTicketPath,
     buildAssetDbTicketPath, \<lambda>a. buildAssetRelationDeletePath a rel]"

definition asset_operation_rests :: "string \<Rightarrow> string list" where
  "asset_operation_rests rel = [[], ''/connection'', ''/connection/test'', ''/probe/latest'', ''/probe/run'',
     ''/relations'', ''/promote-vpc-proxy'', ''/demote-vpc-proxy'', ''/terminal/ticket'', ''/rdp/ticket'',
     ''/db/ticket'', ''/relations/'' @ encodeURIComponent rel]"

lemma asset_operation_all:
  "map (\<lambda>f. f a) (asset_operation_paths rel) =
     map (\<lambda>r. ''/api/v1/cmdb/assets/'' @ encodeURIComponent a @ r) (asset_operation_rests rel)"
  by (simp add: asset_operation_paths_def asset_operation_rests_def path_defs)

lemma asset_operation_length [simp]:
  "length (asset_operation_paths rel) = length (asset_operation_rests rel)"
  by (simp add: asset_operation_paths_def asset_operation_rests_def)

lemma asset_operation_eq:
  "i < length (asset_operation_rests rel) \<Longrightarrow> (asset_operation_paths rel ! i) a =
     ''/api/v1/cmdb/assets/'' @ encodeURIComponent a @ asset_operation_rests rel ! i"
  using arg_cong [OF asset_operation_all [of a rel], of "\<lambda>xs. xs ! i"] by simp

lemma asset_operation_rests_facts:
  "distinct (asset_operation_rests rel)"
  "r \<in> set (asset_operation_rests rel) \<Longrightarrow> r = [] \<or> hd r = CHR ''/''"
  by (auto simp: asset_operation_rests_def)

lemma encoded_prefix_unique:
  assumes "encodeURIComponent a @ r = encodeURIComponent b @ q"
    and "r = [] \<or> hd r = CHR ''/''" "q = [] \<or> hd q = CHR ''/''"
  shows "a = b \<and> r = q"
proof -
  let ?t = "takeWhile (\<lambda>c. c \<noteq> CHR ''/'')"
  have "?t (encodeURIComponent x @ y) = encodeURIComponent x" if "y = [] \<or> hd y = CHR ''/''" for x y
    using that encodeURIComponent_no_delim(1) [of x]
    by (cases y) (auto simp: takeWhile_append takeWhile_eq_all_conv)
  from this [OF assms(2), of a] this [OF assms(3), of b] assms(1)
  show ?thesis by (metis append_same_eq same_append_eq encodeURIComponent_inj)
qed

text \<open>
  The operations on assets cannot be confused. Among the paths of the twelve operations that
  name one asset (read, connection, connection test, latest probe, probe run, relations, promotion,
  demotion, the three session tickets and the removal of a fixed relation), two paths are equal
  only for the same operation on the same asset, whatever characters the identifiers hold.
\<close>

theorem asset_operations_separate:
  assumes "i < length (asset_operation_paths rel)" "j < length (asset_operation_paths rel)"
    and "(asset_operation_paths rel ! i) a = (asset_operation_paths rel ! j) b"
  shows "i = j \<and> a = b"
proof -
  have "encodeURIComponent a @ asset_operation_rests rel ! i = encodeURIComponent b @ asset_operation_rests rel ! j"
    using assms by (simp add: asset_operation_eq)
  then have "a = b \<and> asset_operation_rests rel ! i = asset_operation_rests rel ! j"
    using assms(1,2) by (intro encoded_prefix_unique asset_operation_rests_facts(2) [of _ rel]) simp_all
  then show ?thesis
    using asset_operation_rests_facts(1) [of rel] assms(1,2) by (auto simp: nth_eq_iff_index_eq)
qed

theorem asset_operations_separate_witness:
  "buildAssetConnectionPath ''a/b'' = buildAssetConnectionPath ''a/b'' \<and>
   buildAssetConnectionPath ''x'' \<noteq> buildAssetPath ''x/connection''"
  using asset_operations_separate [of 1 "[]" 0 "''x''" "''x/connection''"]
  by (auto simp: asset_operation_paths_def)

text \<open>
  A role is removed from exactly the user it was asked for: the path of the request has the
  user and the role as two segments of their own that decode to the user and the role, and no
  part of either can start a query or a fragment.
\<close>

theorem unbind_role_segments:
  "let c = unbindRoleFromUser user role; segs = split_on CHR ''/'' (call_path c) in
    length segs = 8 \<and> pct_decode (segs ! 5) = Some user \<and> pct_decode (segs ! 7) = Some role \<and>
    CHR ''?'' \<notin> set (call_path c) \<and> CHR ''#'' \<notin> set (call_path c) \<and>
    opt_method (call_opts c) = Some ''DELETE'' \<and> opt_body (call_opts c) = None"
proof -
  have pre: "split_on CHR ''/'' (''/api/v1/iam/users/'' @ encodeURIComponent user @ ''/roles'') =
      [[], ''api'', ''v1'', ''iam'', ''users'', encodeURIComponent user, ''roles'']"
    using iam_user_roles.build_segments [of user] by (simp add: path_defs)
  show ?thesis
    using user_role.build_segments [of user role] user_role.build_plain [of user role]
    unfolding pre by (simp add: unbindRoleFromUser_def call_send_def no_options_def Let_def
        pct_decode_encodeURIComponent)
qed

definition sample_asset :: CreateAssetPayload where
  "sample_asset = \<lparr>acreate_type = ''vm'', acreate_name = ''web'', acreate_account_id = None,
     acreate_business_unit = None, acreate_criticality = None, acreate_env = None, acreate_expires_at = None,
     acreate_external_arn = None, acreate_external_id = None, acreate_instance_type = None,
     acreate_labels = Some [(''team'', UStr ''ops'')], acreate_os_image = None, acreate_owner = None,
     acreate_private_dns = None, acreate_private_ip = None, acreate_public_ip = None, acreate_region = None,
     acreate_source = None, acreate_status = None, acreate_subnet_id = None, acreate_vpc_id = None,
     acreate_zone = None\<rparr>"

text \<open>
  Creating an asset transmits the whole form: for labels whose numbers are integers, the body is
  JSON that reads back as the payload, is declared as JSON, and a field that was left out of the
  payload does not appear in the object the server reads.
\<close>

theorem create_asset_body:
  assumes "\<forall>l. acreate_labels p = Some l \<longrightarrow> wf_unknown (UObj l)"
  shows "\<exists>b. opt_body (call_opts (createAsset p)) = Some (TextBody b) \<and>
      json_parse b = Some (CreateAssetPayload_json p) \<and>
      json_prop (CreateAssetPayload_json p) ''name'' = Some (jstr (acreate_name p)) \<and>
      json_prop (CreateAssetPayload_json p) ''env'' = map_option jstr (acreate_env p) \<and>
      json_prop (CreateAssetPayload_json p) ''labels'' = map_option jrecord (acreate_labels p)"
proof -
  have "json_prop (CreateAssetPayload_json p) ''name'' = Some (jstr (acreate_name p)) \<and>
      json_prop (CreateAssetPayload_json p) ''env'' = map_option jstr (acreate_env p) \<and>
      json_prop (CreateAssetPayload_json p) ''labels'' = map_option jrecord (acreate_labels p)"
    by (auto simp: CreateAssetPayload_json_def members_get simp del: map_of_append)
  then show ?thesis
    using asset_create_body.sent_reads_back [OF assms, of "''POST''" "''/api/v1/cmdb/assets''"]
    unfolding createAsset_def by blast
qed

theorem create_asset_body_witness:
  "\<exists>b. opt_body (call_opts (createAsset sample_asset)) = Some (TextBody b) \<and>
     json_parse b = Some (CreateAssetPayload_json sample_asset) \<and>
     json_prop (CreateAssetPayload_json sample_asset) ''env'' = None"
  using create_asset_body [of sample_asset] by (auto simp: sample_asset_def)

lemma distinct_set_if: "distinct (map fst ps) \<Longrightarrow> distinct (map fst (set_if b k v ps))"
  by (simp add: set_if_def distinct_params_set)

lemma distinct_set_opt: "distinct (map fst ps) \<Longrightarrow> distinct (map fst (set_opt k v ps))"
  by (cases v) (simp_all add: set_opt_def distinct_params_set)

definition chosen :: "string option \<Rightarrow> string option" where
  "chosen v = (if truthy v then v else None)"

lemma chosen_or: "truthy v \<Longrightarrow> Some (opt_or v []) = v"
  by (cases v) (simp_all add: or_else_def)

text \<open>
  The asset list asks the server for exactly the chosen filters: the query reads back as a list
  of parameters in which each of the twelve filters has the chosen value when one is chosen (an
  empty text counts as not chosen) and is absent otherwise, and no parameter occurs twice.
\<close>

theorem assets_query_reads_back:
  "\<exists>ps. URLSearchParams (CHR ''?'' # buildAssetsQuery opts) = Some ps \<and> distinct (map fst ps) \<and>
    params_get ps ''type'' = chosen (assetopt_type opts) \<and>
    params_get ps ''env'' = chosen (assetopt_env opts) \<and>
    params_get ps ''status'' = chosen (assetopt_status opts) \<and>
    params_get ps ''source'' = chosen (assetopt_source opts) \<and>
    params_get ps ''region'' = chosen (assetopt_region opts) \<and>
    params_get ps ''account_id'' = chosen (assetopt_accountID opts) \<and>
    params_get ps ''owner'' = chosen (assetopt_owner opts) \<and>
    params_get ps ''criticality'' = chosen (assetopt_criticality opts) \<and>
    params_get ps ''q'' = chosen (assetopt_query opts) \<and>
    params_get ps ''is_vpc_proxy'' = map_option (\<lambda>b. if b then ''true'' else ''false'') (assetopt_isVPCProxy opts) \<and>
    params_get ps ''limit'' = map_option int_str (assetopt_limit opts) \<and>
    params_get ps ''offset'' = map_option int_str (assetopt_offset opts)"
  unfolding buildAssetsQuery_def Let_def URLSearchParams_str
  by (rule exI, rule conjI, rule refl)
    (cases "assetopt_isVPCProxy opts"; cases "assetopt_limit opts"; cases "assetopt_offset opts";
     simp add: chosen_def chosen_or params_get_set distinct_set_if distinct_set_opt distinct_params_set)

end
