(* ===== verification/Forms.thy ===== *)
theory Forms
  imports ApiContracts
begin

text \<open>
  What the edit forms of \<open>src/web/src/lib\<close> have in common. The server never returns a stored secret,
  so a form starts with an empty secret field and must send a secret only when one was typed;
  \<open>secret_form\<close> states this contract once for every form and field that has it. The text helpers
  describe stored values that a form shows and sends back unchanged.
\<close>

definition nonblank :: "string \<Rightarrow> string option" where
  "nonblank v = (if trim v = [] then None else Some (trim v))"

text \<open>\<open>clean\<close>: a stored text the form shows unchanged, without surrounding white space.\<close>

definition clean :: "string option \<Rightarrow> bool" where
  "clean v = trimmed_text (opt_or v [])"

lemma trim_clean: "clean v \<Longrightarrow> trim (opt_or v []) = opt_or v []"
  by (simp add: clean_def trim_trimmed)

locale secret_form =
  fixes load :: "'e \<Rightarrow> 'f" and typed :: "'f \<Rightarrow> string" and save :: "'f \<Rightarrow> 'p" and sent :: "'p \<Rightarrow> string option"
  assumes load_blank: "typed (load e) = []"
    and sent_None: "sent (save f) = None \<longleftrightarrow> trim (typed f) = []"
    and sent_Some: "sent (save f) = Some v \<Longrightarrow> trim v = trim (typed f)"
begin

lemma untouched_keeps_secret: "typed f = typed (load e) \<Longrightarrow> sent (save f) = None"
  by (simp add: sent_None load_blank)

lemma sent_not_blank: "sent (save f) = Some v \<Longrightarrow> trim v \<noteq> []"
  using sent_None [of f] sent_Some [of f v] by simp

text \<open>
  The secret the server holds after a save, when it keeps the old one unless a new one is sent:
  it changes exactly when something was typed.
\<close>

definition secret_after :: "string option \<Rightarrow> 'f \<Rightarrow> string option" where
  "secret_after old f = (case sent (save f) of None \<Rightarrow> old | Some v \<Rightarrow> Some v)"

lemma secret_after_untouched: "secret_after old (load e) = old"
  by (simp add: secret_after_def untouched_keeps_secret)

lemma secret_after_typed: "trim (typed f) \<noteq> [] \<Longrightarrow> \<exists>v. secret_after old f = Some v \<and> trim v = trim (typed f)"
  using sent_None [of f] sent_Some [of f] by (auto simp: secret_after_def split: option.splits)

end

end
