(* ===== verification/AssetForms.thy ===== *)
theory AssetForms
  imports Forms
begin

text \<open>
  The asset form of \<open>src/web/src/lib/assets.ts\<close>: loading an asset into the form, the create and
  update payloads, the validator, and the paging arithmetic of the asset list.
\<close>

datatype AssetFormMode = CreateAsset | EditAsset

record AssetFormState =
  af_accountID :: string
  af_businessUnit :: string
  af_criticality :: string
  af_env :: string
  af_externalID :: string
  af_instanceType :: string
  af_name :: string
  af_osImage :: string
  af_owner :: string
  af_privateDNS :: string
  af_privateIP :: string
  af_publicIP :: string
  af_region :: string
  af_source :: string
  af_status :: string
  af_subnetID :: string
  af_type :: string
  af_vpcID :: string
  af_zone :: string

definition emptyAssetForm :: AssetFormState where
  "emptyAssetForm =
    \<lparr>af_accountID = [], af_businessUnit = [], af_criticality = [], af_env = [],
      af_externalID = [], af_instanceType = [], af_name = [], af_osImage = [], af_owner = [],
      af_privateDNS = [], af_privateIP = [], af_publicIP = [], af_region = [], af_source = [],
      af_status = [], af_subnetID = [], af_type = [], af_vpcID = [], af_zone = []\<rparr>"

definition assetToForm :: "Asset \<Rightarrow> AssetFormState" where
  "assetToForm asset =
    \<lparr>af_accountID = opt_or (asset_account_id asset) [],
      af_businessUnit = opt_or (asset_business_unit asset) [],
      af_criticality = opt_or (asset_criticality asset) [],
      af_env = or_else (asset_env asset) [],
      af_externalID = opt_or (asset_external_id asset) [],
      af_instanceType = opt_or (asset_instance_type asset) [],
      af_name = or_else (asset_name asset) [], af_osImage = opt_or (asset_os_image asset) [],
      af_owner = opt_or (asset_owner asset) [],
      af_privateDNS = opt_or (asset_private_dns asset) [],
      af_privateIP = opt_or (asset_private_ip asset) [],
      af_publicIP = opt_or (asset_public_ip asset) [],
      af_region = opt_or (asset_region asset) [], af_source = or_else (asset_source asset) [],
      af_status = or_else (asset_status asset) [],
      af_subnetID = opt_or (asset_subnet_id asset) [], af_type = or_else (asset_type asset) [],
      af_vpcID = opt_or (asset_vpc_id asset) [], af_zone = opt_or (asset_zone asset) []\<rparr>"

definition trimmed :: "string \<Rightarrow> string" where
  "trimmed value = trim value"

text \<open>The object literal of the create payload, before the loop over the optional fields.\<close>

definition required_payload :: "string \<Rightarrow> string \<Rightarrow> CreateAssetPayload" where
  "required_payload nm ty =
    \<lparr>acreate_type = ty, acreate_name = nm, acreate_account_id = None,
      acreate_business_unit = None, acreate_criticality = None, acreate_env = None,
      acreate_expires_at = None, acreate_external_arn = None, acreate_external_id = None,
      acreate_instance_type = None, acreate_labels = None, acreate_os_image = None,
      acreate_owner = None, acreate_private_dns = None, acreate_private_ip = None,
      acreate_public_ip = None, acreate_region = None, acreate_source = None,
      acreate_status = None, acreate_subnet_id = None, acreate_vpc_id = None,
      acreate_zone = None\<rparr>"

definition create_optional ::
  "AssetFormState \<Rightarrow> (((string option \<Rightarrow> string option) \<Rightarrow> CreateAssetPayload \<Rightarrow> CreateAssetPayload) \<times> string) list" where
  "create_optional form =
     [(acreate_account_id_update, af_accountID form),
      (acreate_business_unit_update, af_businessUnit form),
      (acreate_criticality_update, af_criticality form), (acreate_env_update, af_env form),
      (acreate_external_id_update, af_externalID form),
      (acreate_instance_type_update, af_instanceType form),
      (acreate_os_image_update, af_osImage form), (acreate_owner_update, af_owner form),
      (acreate_private_dns_update, af_privateDNS form),
      (acreate_private_ip_update, af_privateIP form),
      (acreate_public_ip_update, af_publicIP form), (acreate_region_update, af_region form),
      (acreate_source_update, af_source form), (acreate_status_update, af_status form),
      (acreate_subnet_id_update, af_subnetID form), (acreate_vpc_id_update, af_vpcID form),
      (acreate_zone_update, af_zone form)]"

definition put_field ::
  "((string option \<Rightarrow> string option) \<Rightarrow> CreateAssetPayload \<Rightarrow> CreateAssetPayload) \<times> string
     \<Rightarrow> CreateAssetPayload \<Rightarrow> CreateAssetPayload" where
  "put_field entry payload = (let trimmedValue = trimmed (snd entry)
     in if trimmedValue \<noteq> [] then fst entry (\<lambda>_. Some trimmedValue) payload else payload)"

definition assetFormToCreatePayload :: "AssetFormState \<Rightarrow> CreateAssetPayload" where
  "assetFormToCreatePayload form = fold put_field (create_optional form)
     (required_payload (trimmed (af_name form)) (trimmed (af_type form)))"

definition assetFormToUpdatePayload :: "AssetFormState \<Rightarrow> UpdateAssetPayload" where
  "assetFormToUpdatePayload form =
    \<lparr>aupd_account_id = Some (trimmed (af_accountID form)),
      aupd_business_unit = Some (trimmed (af_businessUnit form)),
      aupd_criticality = Some (trimmed (af_criticality form)),
      aupd_env = Some (trimmed (af_env form)), aupd_expires_at = None,
      aupd_instance_type = Some (trimmed (af_instanceType form)), aupd_labels = None,
      aupd_name = Some (trimmed (af_name form)),
      aupd_os_image = Some (trimmed (af_osImage form)),
      aupd_owner = Some (trimmed (af_owner form)),
      aupd_private_dns = Some (trimmed (af_privateDNS form)),
      aupd_private_ip = Some (trimmed (af_privateIP form)),
      aupd_public_ip = Some (trimmed (af_publicIP form)),
      aupd_region = Some (trimmed (af_region form)),
      aupd_status = Some (trimmed (af_status form)),
      aupd_subnet_id = Some (trimmed (af_subnetID form)),
      aupd_vpc_id = Some (trimmed (af_vpcID form)),
      aupd_zone = Some (trimmed (af_zone form))\<rparr>"


definition validateAssetForm :: "AssetFormState \<Rightarrow> AssetFormMode \<Rightarrow> string" where
  "validateAssetForm form mode =
    (if trimmed (af_name form) = [] then ''Name is required.''
     else if mode = CreateAsset \<and> trimmed (af_type form) = [] then ''Type is required.''
     else [])"

section \<open>Paging\<close>

definition formatAssetRange :: "int \<Rightarrow> int \<Rightarrow> int \<Rightarrow> string" where
  "formatAssetRange tot offset count =
    (if tot \<le> 0 \<or> count \<le> 0 then ''0 assets''
     else int_str (offset + 1) @ ''-'' @ int_str (min (offset + count) tot) @ '' of '' @ int_str tot)"

definition previousAssetOffset :: "int \<Rightarrow> int \<Rightarrow> int" where
  "previousAssetOffset offset limit = max 0 (offset - limit)"

definition nextAssetOffset :: "int \<Rightarrow> int \<Rightarrow> int \<Rightarrow> int" where
  "nextAssetOffset offset limit tot =
    (if limit \<le> 0 then offset else if offset + limit \<ge> tot then offset else offset + limit)"

section \<open>Facts\<close>

lemma put_field_simps:
  "put_field (acreate_account_id_update, v) p = acreate_account_id_update (\<lambda>old. if trim v = [] then old else Some (trim v)) p"
  "put_field (acreate_business_unit_update, v) p = acreate_business_unit_update (\<lambda>old. if trim v = [] then old else Some (trim v)) p"
  "put_field (acreate_criticality_update, v) p = acreate_criticality_update (\<lambda>old. if trim v = [] then old else Some (trim v)) p"
  "put_field (acreate_env_update, v) p = acreate_env_update (\<lambda>old. if trim v = [] then old else Some (trim v)) p"
  "put_field (acreate_external_id_update, v) p = acreate_external_id_update (\<lambda>old. if trim v = [] then old else Some (trim v)) p"
  "put_field (acreate_instance_type_update, v) p = acreate_instance_type_update (\<lambda>old. if trim v = [] then old else Some (trim v)) p"
  "put_field (acreate_os_image_update, v) p = acreate_os_image_update (\<lambda>old. if trim v = [] then old else Some (trim v)) p"
  "put_field (acreate_owner_update, v) p = acreate_owner_update (\<lambda>old. if trim v = [] then old else Some (trim v)) p"
  "put_field (acreate_private_dns_update, v) p = acreate_private_dns_update (\<lambda>old. if trim v = [] then old else Some (trim v)) p"
  "put_field (acreate_private_ip_update, v) p = acreate_private_ip_update (\<lambda>old. if trim v = [] then old else Some (trim v)) p"
  "put_field (acreate_public_ip_update, v) p = acreate_public_ip_update (\<lambda>old. if trim v = [] then old else Some (trim v)) p"
  "put_field (acreate_region_update, v) p = acreate_region_update (\<lambda>old. if trim v = [] then old else Some (trim v)) p"
  "put_field (acreate_source_update, v) p = acreate_source_update (\<lambda>old. if trim v = [] then old else Some (trim v)) p"
  "put_field (acreate_status_update, v) p = acreate_status_update (\<lambda>old. if trim v = [] then old else Some (trim v)) p"
  "put_field (acreate_subnet_id_update, v) p = acreate_subnet_id_update (\<lambda>old. if trim v = [] then old else Some (trim v)) p"
  "put_field (acreate_vpc_id_update, v) p = acreate_vpc_id_update (\<lambda>old. if trim v = [] then old else Some (trim v)) p"
  "put_field (acreate_zone_update, v) p = acreate_zone_update (\<lambda>old. if trim v = [] then old else Some (trim v)) p"
  by (simp_all add: put_field_def trimmed_def Let_def)

lemma create_payload_fields [form_simps]:
  "acreate_account_id (assetFormToCreatePayload form) = nonblank (af_accountID form)"
  "acreate_business_unit (assetFormToCreatePayload form) = nonblank (af_businessUnit form)"
  "acreate_criticality (assetFormToCreatePayload form) = nonblank (af_criticality form)"
  "acreate_env (assetFormToCreatePayload form) = nonblank (af_env form)"
  "acreate_external_id (assetFormToCreatePayload form) = nonblank (af_externalID form)"
  "acreate_instance_type (assetFormToCreatePayload form) = nonblank (af_instanceType form)"
  "acreate_os_image (assetFormToCreatePayload form) = nonblank (af_osImage form)"
  "acreate_owner (assetFormToCreatePayload form) = nonblank (af_owner form)"
  "acreate_private_dns (assetFormToCreatePayload form) = nonblank (af_privateDNS form)"
  "acreate_private_ip (assetFormToCreatePayload form) = nonblank (af_privateIP form)"
  "acreate_public_ip (assetFormToCreatePayload form) = nonblank (af_publicIP form)"
  "acreate_region (assetFormToCreatePayload form) = nonblank (af_region form)"
  "acreate_source (assetFormToCreatePayload form) = nonblank (af_source form)"
  "acreate_status (assetFormToCreatePayload form) = nonblank (af_status form)"
  "acreate_subnet_id (assetFormToCreatePayload form) = nonblank (af_subnetID form)"
  "acreate_vpc_id (assetFormToCreatePayload form) = nonblank (af_vpcID form)"
  "acreate_zone (assetFormToCreatePayload form) = nonblank (af_zone form)"
  "acreate_name (assetFormToCreatePayload form) = trim (af_name form)"
  "acreate_type (assetFormToCreatePayload form) = trim (af_type form)"
  "acreate_labels (assetFormToCreatePayload form) = None"
  "acreate_expires_at (assetFormToCreatePayload form) = None"
  "acreate_external_arn (assetFormToCreatePayload form) = None"
  by (simp_all add: assetFormToCreatePayload_def create_optional_def required_payload_def put_field_simps
      trimmed_def nonblank_def)

definition clean_asset :: "Asset \<Rightarrow> bool" where
  "clean_asset a = (trimmed_text (asset_name a) \<and> trimmed_text (asset_env a) \<and> trimmed_text (asset_status a) \<and>
     list_all clean [asset_account_id a, asset_business_unit a, asset_criticality a, asset_instance_type a,
       asset_os_image a, asset_owner a, asset_private_dns a, asset_private_ip a, asset_public_ip a,
       asset_region a, asset_subnet_id a, asset_vpc_id a, asset_zone a])"

text \<open>
  Saving an asset form that nobody touched changes nothing: for a stored asset without stray
  white space the update payload has, for each of the sixteen editable fields, exactly the stored
  value (an absent optional field as the empty text), and it never touches labels or expiry.
\<close>

theorem untouched_asset_form:
  assumes "clean_asset a"
  shows "assetFormToUpdatePayload (assetToForm a) =
    \<lparr>aupd_account_id = Some (opt_or (asset_account_id a) []),
     aupd_business_unit = Some (opt_or (asset_business_unit a) []),
     aupd_criticality = Some (opt_or (asset_criticality a) []),
     aupd_env = Some (asset_env a), aupd_expires_at = None,
     aupd_instance_type = Some (opt_or (asset_instance_type a) []),
     aupd_labels = None, aupd_name = Some (asset_name a),
     aupd_os_image = Some (opt_or (asset_os_image a) []), aupd_owner = Some (opt_or (asset_owner a) []),
     aupd_private_dns = Some (opt_or (asset_private_dns a) []),
     aupd_private_ip = Some (opt_or (asset_private_ip a) []),
     aupd_public_ip = Some (opt_or (asset_public_ip a) []),
     aupd_region = Some (opt_or (asset_region a) []), aupd_status = Some (asset_status a),
     aupd_subnet_id = Some (opt_or (asset_subnet_id a) []), aupd_vpc_id = Some (opt_or (asset_vpc_id a) []),
     aupd_zone = Some (opt_or (asset_zone a) [])\<rparr>"
  using assms
  by (simp add: assetFormToUpdatePayload_def assetToForm_def trimmed_def clean_asset_def trim_clean trim_trimmed)

definition sample_stored_asset :: Asset where
  "sample_stored_asset = \<lparr>asset_id = ''a1'', asset_type = ''vm'', asset_name = ''web 1'', asset_status = ''active'',
     asset_env = ''prod'', asset_source = ''manual'', asset_external_id = None, asset_external_arn = None,
     asset_ami_name = None, asset_ami_owner_id = None, asset_public_ip = None, asset_private_ip = Some ''10.0.0.7'',
     asset_private_dns = None, asset_region = Some ''eu-west-1'', asset_zone = None, asset_account_id = None,
     asset_instance_type = None, asset_os_image = None, asset_os_family = None, asset_vpc_id = Some ''vpc-1'',
     asset_subnet_id = None, asset_key_name = None, asset_owner = None, asset_business_unit = None,
     asset_criticality = None, asset_expires_at = None, asset_is_vpc_proxy = None, asset_system_tags = None,
     asset_labels = None, asset_tags = None, asset_created_at = [], asset_updated_at = []\<rparr>"

theorem untouched_asset_form_witness:
  "aupd_private_ip (assetFormToUpdatePayload (assetToForm sample_stored_asset)) = Some ''10.0.0.7'' \<and>
   aupd_zone (assetFormToUpdatePayload (assetToForm sample_stored_asset)) = Some []"
proof -
  have "clean_asset sample_stored_asset"
    by (simp add: clean_asset_def clean_def sample_stored_asset_def trimmed_text_def is_ws_def)
  from untouched_asset_form [OF this] show ?thesis by (simp add: sample_stored_asset_def)
qed

text \<open>
  The create form sends what was typed and nothing else: the form is accepted exactly when the
  name and the type are not blank; the payload then has both without surrounding white space, each
  optional field exactly when it is not blank, and the request body reads back as that payload.
\<close>

theorem create_form_sends_typed:
  "(validateAssetForm form CreateAsset = [] \<longleftrightarrow> trim (af_name form) \<noteq> [] \<and> trim (af_type form) \<noteq> []) \<and>
   acreate_name (assetFormToCreatePayload form) = trim (af_name form) \<and>
   acreate_type (assetFormToCreatePayload form) = trim (af_type form) \<and>
   acreate_env (assetFormToCreatePayload form) = nonblank (af_env form) \<and>
   acreate_source (assetFormToCreatePayload form) = nonblank (af_source form) \<and>
   acreate_external_id (assetFormToCreatePayload form) = nonblank (af_externalID form) \<and>
   acreate_vpc_id (assetFormToCreatePayload form) = nonblank (af_vpcID form) \<and>
   acreate_private_ip (assetFormToCreatePayload form) = nonblank (af_privateIP form) \<and>
   (\<exists>b. opt_body (call_opts (createAsset (assetFormToCreatePayload form))) = Some (TextBody b) \<and>
     json_parse b = Some (CreateAssetPayload_json (assetFormToCreatePayload form)))"
proof -
  have "\<forall>l. acreate_labels (assetFormToCreatePayload form) = Some l \<longrightarrow> wf_unknown (UObj l)"
    by (simp add: form_simps)
  from asset_create_body.sent_reads_back [OF this, of "''POST''" "''/api/v1/cmdb/assets''"]
  show ?thesis by (auto simp: form_simps validateAssetForm_def trimmed_def createAsset_def)
qed

section \<open>Paging reaches everything\<close>

lemma nextAssetOffset_iter:
  assumes "0 < limit" "int n * limit < tot"
  shows "((\<lambda>o'. nextAssetOffset o' limit tot) ^^ n) 0 = int n * limit"
  using assms
proof (induction n)
  case (Suc n)
  have "int n * limit + limit = int (Suc n) * limit" by (simp add: algebra_simps)
  with Suc.prems have "int n * limit + limit < tot" by simp
  with Suc show ?case by (simp add: nextAssetOffset_def algebra_simps)
qed simp

text \<open>
  With the next button every asset can be reached, and the previous button goes back the same way.
  For a positive page size, asset number \<open>k\<close> of \<open>tot\<close> is on the page shown after \<open>k div limit\<close>
  presses from the start; pressing next never leaves the list, never moves backwards, and where it
  moves at all the previous button undoes it.
\<close>

theorem asset_paging:
  assumes "0 < limit" "0 \<le> k" "k < tot" "0 \<le> off" "off < tot"
  shows "let page = ((\<lambda>o'. nextAssetOffset o' limit tot) ^^ nat (k div limit)) 0 in
      page \<le> k \<and> k < page + limit \<and>
      off \<le> nextAssetOffset off limit tot \<and> nextAssetOffset off limit tot < tot \<and>
      (nextAssetOffset off limit tot \<noteq> off \<longrightarrow> previousAssetOffset (nextAssetOffset off limit tot) limit = off)"
proof -
  have d: "k div limit * limit \<le> k" "k < k div limit * limit + limit"
    using div_mult_mod_eq [of k limit] pos_mod_bound [of limit k] pos_mod_sign [of limit k] assms(1) by linarith+
  have "0 \<le> k div limit" using assms(1,2) by (simp add: pos_imp_zdiv_nonneg_iff)
  then have "((\<lambda>o'. nextAssetOffset o' limit tot) ^^ nat (k div limit)) 0 = k div limit * limit"
    using nextAssetOffset_iter [of limit "nat (k div limit)" tot] assms d(1) by simp
  with d assms show ?thesis by (auto simp: nextAssetOffset_def previousAssetOffset_def Let_def)
qed

theorem asset_paging_witness:
  "((\<lambda>o'. nextAssetOffset o' 50 120) ^^ 2) 0 \<le> 119 \<and> previousAssetOffset (nextAssetOffset 0 50 120) 50 = 0"
  using asset_paging [of 50 119 120 0] by (simp add: Let_def nextAssetOffset_def numeral_2_eq_2)

end
