(* ===== verification/AwsForms.thy ===== *)
theory AwsForms
  imports Forms
begin

text \<open>
  AWS accounts, \<open>src/web/src/lib/aws.ts\<close>: the account form with its payloads and validator, and the
  summary of the last runs per account. Dates are parsed by the language: \<open>date\<close> is
  \<open>new Date(text).getTime()\<close>, \<open>None\<close> for the \<open>NaN\<close> of an invalid date. The summary is a JavaScript
  object used as a dictionary; account identifiers that name a member of \<open>Object.prototype\<close> are not
  considered.
\<close>

datatype AwsAccountFormMode = CreateAccount | EditAccount

record AwsAccountFormState =
  wf_accessKeyID :: string
  wf_accountID :: string
  wf_authMode :: AwsAuthMode
  wf_displayName :: string
  wf_enabled :: bool
  wf_externalID :: string
  wf_regionAllowlist :: string
  wf_roleARN :: string
  wf_secretAccessKey :: string

record AwsSyncAccountSummary =
  sum_lastFailure :: "AwsSyncRun option"
  sum_lastRun :: "AwsSyncRun option"
  sum_lastSuccess :: "AwsSyncRun option"

definition emptyAwsAccountForm :: AwsAccountFormState where
  "emptyAwsAccountForm = \<lparr>wf_accessKeyID = [], wf_accountID = [], wf_authMode = AssumeRole, wf_displayName = [],
     wf_enabled = True, wf_externalID = [], wf_regionAllowlist = [], wf_roleARN = [], wf_secretAccessKey = []\<rparr>"

primrec region_loop :: "string list \<Rightarrow> string list \<Rightarrow> string list" where
  "region_loop [] seen = seen"
| "region_loop (item # items) seen = (let region = trim item
     in region_loop items (if region \<noteq> [] then set_add region seen else seen))"

definition parseRegionAllowlist :: "string \<Rightarrow> string list" where
  "parseRegionAllowlist value = region_loop (split_on CHR '','' value) []"

definition awsAccountToForm :: "AwsAccount option \<Rightarrow> AwsAccountFormState" where
  "awsAccountToForm account = (case account of
     None \<Rightarrow> emptyAwsAccountForm
   | Some a \<Rightarrow> \<lparr>wf_accessKeyID = opt_or (awsacc_access_key_id a) [], wf_accountID = awsacc_account_id a,
       wf_authMode = awsacc_auth_mode a, wf_displayName = awsacc_display_name a, wf_enabled = awsacc_enabled a,
       wf_externalID = opt_or (awsacc_external_id a) [],
       wf_regionAllowlist = join '', '' (awsacc_region_allowlist a),
       wf_roleARN = opt_or (awsacc_role_arn a) [], wf_secretAccessKey = []\<rparr>)"

definition compact :: "string \<Rightarrow> string option" where
  "compact value = (if trim value = [] then None else Some (trim value))"

definition awsFormToCreatePayload :: "AwsAccountFormState \<Rightarrow> CreateAwsAccountPayload" where
  "awsFormToCreatePayload form =
     \<lparr>awscreate_access_key_id = compact (wf_accessKeyID form), awscreate_account_id = trim (wf_accountID form),
      awscreate_auth_mode = wf_authMode form, awscreate_display_name = trim (wf_displayName form),
      awscreate_enabled = wf_enabled form, awscreate_external_id = compact (wf_externalID form),
      awscreate_region_allowlist = parseRegionAllowlist (wf_regionAllowlist form),
      awscreate_role_arn = compact (wf_roleARN form),
      awscreate_secret_access_key = compact (wf_secretAccessKey form)\<rparr>"

definition awsFormToUpdatePayload :: "AwsAccountFormState \<Rightarrow> UpdateAwsAccountPayload" where
  "awsFormToUpdatePayload form =
    (let payload = \<lparr>awsupd_access_key_id = Some (opt_or (compact (wf_accessKeyID form)) []),
           awsupd_display_name = Some (trim (wf_displayName form)), awsupd_enabled = Some (wf_enabled form),
           awsupd_external_id = Some (opt_or (compact (wf_externalID form)) []),
           awsupd_region_allowlist = Some (parseRegionAllowlist (wf_regionAllowlist form)),
           awsupd_role_arn = Some (opt_or (compact (wf_roleARN form)) []), awsupd_secret_access_key = None\<rparr>;
         secret = compact (wf_secretAccessKey form)
     in if truthy secret then payload\<lparr>awsupd_secret_access_key := secret\<rparr> else payload)"

definition validateAwsAccountForm :: "AwsAccountFormState \<Rightarrow> AwsAccountFormMode \<Rightarrow> string" where
  "validateAwsAccountForm form mode =
    (if mode = CreateAccount \<and> trim (wf_accountID form) = [] then ''Account ID is required.''
     else if trim (wf_displayName form) = [] then ''Display name is required.''
     else if wf_authMode form = AssumeRole \<and> trim (wf_roleARN form) = []
       then ''Role ARN is required for assume role mode.''
     else if wf_authMode form = StaticKeys \<and> trim (wf_accessKeyID form) = []
       then ''Access key ID is required for static mode.''
     else if mode = CreateAccount \<and> wf_authMode form = StaticKeys \<and> trim (wf_secretAccessKey form) = []
       then ''Secret access key is required for new static credentials.''
     else [])"

section \<open>The summary of runs\<close>

definition no_runs :: AwsSyncAccountSummary where
  "no_runs = \<lparr>sum_lastFailure = None, sum_lastRun = None, sum_lastSuccess = None\<rparr>"

text \<open>
  \<open>const lastTime = last ? getTime(last) : 0; if (time >= lastTime) last = run;\<close> where a comparison
  with \<open>NaN\<close> is false.
\<close>

definition keep_latest :: "(string \<Rightarrow> int option) \<Rightarrow> AwsSyncRun \<Rightarrow> AwsSyncRun option \<Rightarrow> AwsSyncRun option" where
  "keep_latest date run prev =
    (case (date (awsrun_started_at run), case prev of None \<Rightarrow> Some 0 | Some l \<Rightarrow> date (awsrun_started_at l)) of
       (Some time, Some prevTime) \<Rightarrow> if time \<ge> prevTime then Some run else prev
     | _ \<Rightarrow> prev)"

definition summarize_run :: "(string \<Rightarrow> int option) \<Rightarrow> AwsSyncRun \<Rightarrow> AwsSyncAccountSummary \<Rightarrow> AwsSyncAccountSummary" where
  "summarize_run date run summary =
    (let s1 = summary\<lparr>sum_lastRun := keep_latest date run (sum_lastRun summary)\<rparr>;
         s2 = (if awsrun_status run = RunSuccess
               then s1\<lparr>sum_lastSuccess := keep_latest date run (sum_lastSuccess s1)\<rparr> else s1)
     in if awsrun_status run = RunFailed
        then s2\<lparr>sum_lastFailure := keep_latest date run (sum_lastFailure s2)\<rparr> else s2)"

primrec summarize_loop :: "(string \<Rightarrow> int option) \<Rightarrow> AwsSyncRun list \<Rightarrow> (string, AwsSyncAccountSummary) jsmap
    \<Rightarrow> (string, AwsSyncAccountSummary) jsmap" where
  "summarize_loop date [] out = out"
| "summarize_loop date (run # runs) out =
    (let accountID = or_else (awsrun_account_id run) [] in
     if accountID = [] then summarize_loop date runs out
     else (let summary = (case map_of out accountID of None \<Rightarrow> no_runs | Some s \<Rightarrow> s)
       in summarize_loop date runs (AList.update accountID (summarize_run date run summary) out)))"

definition summarizeAwsSyncByAccount ::
  "(string \<Rightarrow> int option) \<Rightarrow> AwsSyncRun list \<Rightarrow> (string, AwsSyncAccountSummary) jsmap" where
  "summarizeAwsSyncByAccount date runs = summarize_loop date runs []"

section \<open>Facts\<close>

lemma region_loop_eq: "region_loop items seen = set_of seen (filter (\<lambda>t. t \<noteq> []) (map trim items))"
  by (induction items arbitrary: seen) (simp_all add: Let_def)

lemma parseRegionAllowlist_csv [form_simps]: "parseRegionAllowlist value = csv_items value"
  by (simp add: parseRegionAllowlist_def region_loop_eq csv_items_def)

lemma compact_or [form_simps]: "opt_or (compact v) [] = trim v"
  by (simp add: compact_def or_else_def)

lemma truthy_compact [form_simps]: "truthy (compact v) \<longleftrightarrow> trim v \<noteq> []"
  by (simp add: compact_def)

interpretation aws_secret: secret_form "\<lambda>a. awsAccountToForm (Some a)" wf_secretAccessKey
    awsFormToUpdatePayload awsupd_secret_access_key
proof (unfold_locales, goal_cases)
  case (3 f v)
  then show ?case
    by (auto simp: awsFormToUpdatePayload_def form_simps compact_def Let_def split: if_splits)
qed (simp_all add: awsAccountToForm_def awsFormToUpdatePayload_def form_simps compact_def Let_def)

text \<open>
  A region list survives the trip through its text field: the list shown as comma-separated text
  is parsed back to the same regions in the same order, provided they are distinct non-blank names
  without commas, which every parsed list satisfies; so parsing what was printed from a parsed
  list is the identity.
\<close>

theorem region_list_roundtrip:
  "parseRegionAllowlist (join '', '' (parseRegionAllowlist text)) = parseRegionAllowlist text \<and>
   distinct (parseRegionAllowlist text) \<and>
   (\<forall>r. r \<in> set (parseRegionAllowlist text) \<longrightarrow> r \<noteq> [] \<and> trim r = r \<and> CHR '','' \<notin> set r)"
proof -
  have ok: "csv_item_ok r" if "r \<in> set (csv_items text)" for r using that by (rule csv_items_ok)
  then have "csv_items (join '', '' (csv_items text)) = csv_items text"
    by (intro csv_items_join csv_items_distinct) blast
  with ok show ?thesis
    by (auto simp: form_simps csv_items_distinct csv_item_ok_def trim_trimmed)
qed

theorem region_list_roundtrip_witness:
  "parseRegionAllowlist (join '', '' [''eu-west-1'', ''us-east-1'']) = [''eu-west-1'', ''us-east-1'']"
proof -
  have "parseRegionAllowlist '' eu-west-1,,us-east-1,eu-west-1 '' = [''eu-west-1'', ''us-east-1'']"
    by (simp add: parseRegionAllowlist_def trim_def is_ws_def set_add_def Let_def)
  then show ?thesis using region_list_roundtrip [of "'' eu-west-1,,us-east-1,eu-west-1 ''"] by simp
qed

definition clean_account :: "AwsAccount \<Rightarrow> bool" where
  "clean_account a = (trimmed_text (awsacc_display_name a) \<and> trimmed_text (opt_or (awsacc_access_key_id a) []) \<and>
     trimmed_text (opt_or (awsacc_external_id a) []) \<and> trimmed_text (opt_or (awsacc_role_arn a) []) \<and>
     distinct (awsacc_region_allowlist a) \<and> list_all csv_item_ok (awsacc_region_allowlist a))"

text \<open>
  An untouched account form changes nothing and never reveals or overwrites the secret. For a
  stored account with clean texts the update has the stored values of every field and no secret;
  whatever else is edited, a secret is sent exactly when one was typed.
\<close>

theorem untouched_account_form:
  assumes "clean_account a"
  shows "awsFormToUpdatePayload (awsAccountToForm (Some a)) =
      \<lparr>awsupd_access_key_id = Some (opt_or (awsacc_access_key_id a) []),
       awsupd_display_name = Some (awsacc_display_name a), awsupd_enabled = Some (awsacc_enabled a),
       awsupd_external_id = Some (opt_or (awsacc_external_id a) []),
       awsupd_region_allowlist = Some (awsacc_region_allowlist a),
       awsupd_role_arn = Some (opt_or (awsacc_role_arn a) []), awsupd_secret_access_key = None\<rparr> \<and>
    awsupd_secret_access_key (awsFormToUpdatePayload (form\<lparr>wf_secretAccessKey := s\<rparr>)) = compact s \<and>
    awscreate_secret_access_key (awsFormToCreatePayload (form\<lparr>wf_secretAccessKey := s\<rparr>)) = compact s"
proof -
  have "csv_items (join '', '' (awsacc_region_allowlist a)) = awsacc_region_allowlist a"
    using assms by (intro csv_items_join) (simp_all add: clean_account_def list_all_iff)
  with assms show ?thesis
    by (simp add: awsFormToUpdatePayload_def awsFormToCreatePayload_def awsAccountToForm_def form_simps Let_def
        clean_account_def trim_trimmed) (simp add: compact_def)
qed

theorem untouched_account_form_witness:
  "awsFormToUpdatePayload (awsAccountToForm (Some
     \<lparr>awsacc_access_key_id = None, awsacc_account_id = ''123456789012'', awsacc_auth_mode = AssumeRole,
      awsacc_created_at = [], awsacc_display_name = ''prod'', awsacc_enabled = True, awsacc_external_id = None,
      awsacc_id = ''w1'', awsacc_region_allowlist = [''eu-west-1''], awsacc_role_arn = Some ''arn:x'',
      awsacc_updated_at = []\<rparr>)) =
   \<lparr>awsupd_access_key_id = Some [], awsupd_display_name = Some ''prod'', awsupd_enabled = Some True,
    awsupd_external_id = Some [], awsupd_region_allowlist = Some [''eu-west-1''], awsupd_role_arn = Some ''arn:x'',
    awsupd_secret_access_key = None\<rparr>"
  using untouched_account_form [of
     "\<lparr>awsacc_access_key_id = None, awsacc_account_id = ''123456789012'', awsacc_auth_mode = AssumeRole,
      awsacc_created_at = [], awsacc_display_name = ''prod'', awsacc_enabled = True, awsacc_external_id = None,
      awsacc_id = ''w1'', awsacc_region_allowlist = [''eu-west-1''], awsacc_role_arn = Some ''arn:x'',
      awsacc_updated_at = []\<rparr>"]
  by (simp add: clean_account_def trimmed_text_def csv_item_ok_def is_ws_def)

text \<open>
  An accepted account form yields usable credentials: when the validator has no complaint, the
  payload has a display name, an assumed role comes with its ARN, static keys come with the key
  identifier, and a new account also has its identifier and, for static keys, the secret.
\<close>

theorem valid_account_form:
  assumes "validateAwsAccountForm form mode = []"
  shows "awscreate_display_name (awsFormToCreatePayload form) \<noteq> [] \<and>
    (case awscreate_auth_mode (awsFormToCreatePayload form) of
       AssumeRole \<Rightarrow> awscreate_role_arn (awsFormToCreatePayload form) \<noteq> None \<and>
         truthy (awsupd_role_arn (awsFormToUpdatePayload form))
     | StaticKeys \<Rightarrow> awscreate_access_key_id (awsFormToCreatePayload form) \<noteq> None \<and>
         truthy (awsupd_access_key_id (awsFormToUpdatePayload form))) \<and>
    (mode = CreateAccount \<longrightarrow> awscreate_account_id (awsFormToCreatePayload form) \<noteq> [] \<and>
       (wf_authMode form = StaticKeys \<longrightarrow> awscreate_secret_access_key (awsFormToCreatePayload form) \<noteq> None))"
  using assms
  by (auto simp: validateAwsAccountForm_def awsFormToCreatePayload_def awsFormToUpdatePayload_def form_simps
      compact_def Let_def split: if_splits AwsAuthMode.splits)

theorem valid_account_form_witness:
  "awscreate_secret_access_key (awsFormToCreatePayload (emptyAwsAccountForm\<lparr>wf_accountID := ''1'', wf_displayName := ''d'',
     wf_authMode := StaticKeys, wf_accessKeyID := ''k'', wf_secretAccessKey := ''s''\<rparr>)) \<noteq> None"
  using valid_account_form [of "emptyAwsAccountForm\<lparr>wf_accountID := ''1'', wf_displayName := ''d'',
     wf_authMode := StaticKeys, wf_accessKeyID := ''k'', wf_secretAccessKey := ''s''\<rparr>" CreateAccount]
  by (simp add: validateAwsAccountForm_def trim_def is_ws_def emptyAwsAccountForm_def)

section \<open>The summary holds the latest runs\<close>

lemma summarize_loop_group:
  "summarize_loop date runs out =
     jsmap.group_loop awsrun_account_id (\<lambda>_. no_runs) (summarize_run date) (filter (\<lambda>r. awsrun_account_id r \<noteq> []) runs) out"
  by (induction runs arbitrary: out) (auto simp: Let_def)

text \<open>The field of a summary after a fold is the fold of the runs that may change it.\<close>

lemma summarize_fields:
  "sum_lastRun (fold (summarize_run date) rs s) = fold (keep_latest date) rs (sum_lastRun s)"
  "sum_lastSuccess (fold (summarize_run date) rs s) =
     fold (keep_latest date) (filter (\<lambda>r. awsrun_status r = RunSuccess) rs) (sum_lastSuccess s)"
  "sum_lastFailure (fold (summarize_run date) rs s) =
     fold (keep_latest date) (filter (\<lambda>r. awsrun_status r = RunFailed) rs) (sum_lastFailure s)"
  by (induction rs arbitrary: s) (auto simp: summarize_run_def Let_def)

text \<open>\<open>started\<close>: the start of a run that counts, a valid date not before the epoch.\<close>

definition started :: "(string \<Rightarrow> int option) \<Rightarrow> AwsSyncRun \<Rightarrow> int option" where
  "started date r = (case date (awsrun_started_at r) of Some t \<Rightarrow> if t \<ge> 0 then Some t else None | None \<Rightarrow> None)"

definition is_latest :: "(string \<Rightarrow> int option) \<Rightarrow> AwsSyncRun list \<Rightarrow> AwsSyncRun option \<Rightarrow> bool" where
  "is_latest date rs x = (case x of
     None \<Rightarrow> \<forall>r\<in>set rs. started date r = None
   | Some l \<Rightarrow> l \<in> set rs \<and> (\<exists>t. started date l = Some t \<and>
       (\<forall>r\<in>set rs. \<forall>t'. started date r = Some t' \<longrightarrow> t' \<le> t)))"

lemma keep_latest_None:
  "keep_latest date r None = (if started date r = None then None else Some r)"
  by (auto simp: keep_latest_def started_def split: option.splits)

lemma keep_latest_Some:
  assumes "started date l = Some t"
  shows "keep_latest date r (Some l) =
    (case started date r of Some t' \<Rightarrow> if t \<le> t' then Some r else Some l | None \<Rightarrow> Some l)"
  using assms by (auto simp: keep_latest_def started_def split: option.splits if_splits)

lemma is_latest_snoc:
  assumes "is_latest date rs x"
  shows "is_latest date (rs @ [r]) (keep_latest date r x)"
proof (cases x)
  case None
  with assms show ?thesis
    by (cases "started date r") (auto simp: is_latest_def keep_latest_None)
next
  case (Some l)
  with assms obtain t where l: "l \<in> set rs" "started date l = Some t"
    and max: "\<And>r t'. r \<in> set rs \<Longrightarrow> started date r = Some t' \<Longrightarrow> t' \<le> t"
    by (auto simp: is_latest_def)
  show ?thesis
  proof (cases "started date r")
    case None
    with l max Some show ?thesis by (auto simp: is_latest_def keep_latest_Some)
  next
    case (Some t')
    show ?thesis
    proof (cases "t \<le> t'")
      case True
      then have "\<And>r t''. r \<in> set rs \<Longrightarrow> started date r = Some t'' \<Longrightarrow> t'' \<le> t'" using max order_trans by blast
      with True l Some \<open>x = Some l\<close> show ?thesis by (auto simp: is_latest_def keep_latest_Some)
    next
      case False
      with l max Some \<open>x = Some l\<close> show ?thesis by (auto simp: is_latest_def keep_latest_Some)
    qed
  qed
qed

lemma is_latest_fold: "is_latest date rs (fold (keep_latest date) rs None)"
proof (induction rs rule: rev_induct)
  case (snoc r rs)
  then show ?case by (simp add: is_latest_snoc)
qed (simp add: is_latest_def)

text \<open>
  The summary of an account names its latest runs. Every account that some run mentions has an
  entry and no other has; its last run, last success and last failure are the run, successful run
  and failed run of that account with the greatest start time, and are missing exactly when no such
  run has a valid start time since 1970. The order in which the server lists the runs only decides
  between equal times.
\<close>

theorem summary_names_latest:
  "case map_of (summarizeAwsSyncByAccount date runs) acc of
     None \<Rightarrow> filter (\<lambda>r. awsrun_account_id r = acc \<and> acc \<noteq> []) runs = []
   | Some s \<Rightarrow> acc \<noteq> [] \<and> acc \<in> awsrun_account_id ` set runs \<and>
       (let own = filter (\<lambda>r. awsrun_account_id r = acc) runs in
        is_latest date own (sum_lastRun s) \<and>
        is_latest date (filter (\<lambda>r. awsrun_status r = RunSuccess) own) (sum_lastSuccess s) \<and>
        is_latest date (filter (\<lambda>r. awsrun_status r = RunFailed) own) (sum_lastFailure s))"
proof -
  let ?runs = "filter (\<lambda>r. awsrun_account_id r \<noteq> []) runs"
  let ?own = "filter (\<lambda>r. awsrun_account_id r = acc) runs"
  have own: "filter (\<lambda>r. awsrun_account_id r = acc) ?runs = ?own" if "acc \<in> awsrun_account_id ` set ?runs"
    using that by (auto intro!: filter_cong)
  have get: "map_of (summarizeAwsSyncByAccount date runs) acc =
      (if acc \<in> awsrun_account_id ` set ?runs then Some (fold (summarize_run date) ?own no_runs) else None)"
    unfolding summarizeAwsSyncByAccount_def summarize_loop_group
    by (subst jsmap.group_loop_get) (simp_all add: own del: filter_filter set_filter)
  show ?thesis
  proof (cases "acc \<noteq> [] \<and> acc \<in> awsrun_account_id ` set runs")
    case True
    then have "acc \<in> awsrun_account_id ` set ?runs" by auto
    with True show ?thesis
      by (simp add: get Let_def summarize_fields no_runs_def is_latest_fold del: filter_filter)
  next
    case False
    then have "acc \<notin> awsrun_account_id ` set ?runs" by auto
    with False show ?thesis by (auto simp: get filter_empty_conv)
  qed
qed

end
