(* ===== verification/OidcForms.thy ===== *)
theory OidcForms
  imports Forms
begin

text \<open>
  The OIDC settings form of \<open>src/web/src/lib/oidc.ts\<close>: scopes, loading, payload and validator.
\<close>

record OIDCSettingsFormState =
  of_authorizeURL :: string
  of_clientID :: string
  of_clientSecret :: string
  of_enabled :: bool
  of_issuerURL :: string
  of_redirectURL :: string
  of_scopes :: string
  of_tokenURL :: string
  of_userInfoURL :: string

definition defaultScopes :: "string list" where
  "defaultScopes = [''openid'', ''profile'', ''email'']"

primrec scope_loop :: "string list \<Rightarrow> string list \<Rightarrow> string list" where
  "scope_loop [] seen = seen"
| "scope_loop (item # items) seen = (let scope = trim item
     in scope_loop items (if scope \<noteq> [] then set_add scope seen else seen))"

definition parseScopes :: "string \<Rightarrow> string list" where
  "parseScopes value = (let raw = trim value
     in if raw = [] then defaultScopes else scope_loop (split_on CHR '','' raw) [])"

definition oidcSettingsToForm :: "OIDCSettings option \<Rightarrow> OIDCSettingsFormState" where
  "oidcSettingsToForm settings =
    (let text = (\<lambda>get. opt_or (map_option get settings) []);
         scopes = (case settings of None \<Rightarrow> [] | Some s \<Rightarrow> oidc_scopes s)
     in \<lparr>of_authorizeURL = text oidc_authorize_url, of_clientID = text oidc_client_id, of_clientSecret = [],
         of_enabled = (case settings of None \<Rightarrow> False | Some s \<Rightarrow> oidc_enabled s),
         of_issuerURL = text oidc_issuer_url, of_redirectURL = text oidc_redirect_url,
         of_scopes = join '', '' (if scopes \<noteq> [] then scopes else defaultScopes),
         of_tokenURL = text oidc_token_url, of_userInfoURL = text oidc_userinfo_url\<rparr>)"

definition oidcFormToPayload :: "OIDCSettingsFormState \<Rightarrow> UpdateOIDCSettingsPayload" where
  "oidcFormToPayload form =
    (let payload = \<lparr>oidcupd_authorize_url = trim (of_authorizeURL form), oidcupd_client_id = trim (of_clientID form),
           oidcupd_client_secret = None, oidcupd_enabled = of_enabled form,
           oidcupd_issuer_url = trim (of_issuerURL form), oidcupd_redirect_url = trim (of_redirectURL form),
           oidcupd_scopes = parseScopes (of_scopes form), oidcupd_token_url = trim (of_tokenURL form),
           oidcupd_userinfo_url = trim (of_userInfoURL form)\<rparr>;
         clientSecret = trim (of_clientSecret form)
     in if clientSecret \<noteq> [] then payload\<lparr>oidcupd_client_secret := Some clientSecret\<rparr> else payload)"

definition validateOIDCForm :: "OIDCSettingsFormState \<Rightarrow> string" where
  "validateOIDCForm form =
    (if \<not> of_enabled form then []
     else if trim (of_clientID form) = [] then ''Client ID is required when OIDC is enabled.''
     else if trim (of_redirectURL form) = [] then ''Redirect URL is required when OIDC is enabled.''
     else (let hasIssuer = (trim (of_issuerURL form) \<noteq> []) in
       if \<not> hasIssuer \<and> trim (of_authorizeURL form) = [] then ''Issuer URL or authorize URL is required.''
       else if \<not> hasIssuer \<and> trim (of_tokenURL form) = [] then ''Issuer URL or token URL is required.''
       else if \<not> hasIssuer \<and> trim (of_userInfoURL form) = [] then ''Issuer URL or userinfo URL is required.''
       else []))"

section \<open>Facts\<close>

lemma scope_loop_eq: "scope_loop items seen = set_of seen (filter (\<lambda>t. t \<noteq> []) (map trim items))"
  by (induction items arbitrary: seen) (simp_all add: Let_def)

lemma parseScopes_csv [form_simps]:
  "parseScopes value = (if trim value = [] then defaultScopes else csv_items (trim value))"
  by (simp add: parseScopes_def scope_loop_eq csv_items_def Let_def)

lemma defaultScopes_ok: "distinct defaultScopes" "\<forall>t\<in>set defaultScopes. csv_item_ok t" "defaultScopes \<noteq> []"
  by (simp_all add: defaultScopes_def csv_item_ok_def trimmed_text_def is_ws_def)

lemma join_trimmed:
  assumes "xs \<noteq> []" "\<forall>x\<in>set xs. csv_item_ok x"
  shows "join '', '' xs \<noteq> [] \<and> trimmed_text (join '', '' xs)"
proof -
  have "join '', '' xs \<noteq> [] \<and> hd (join '', '' xs) = hd (hd xs) \<and> last (join '', '' xs) = last (last xs)"
    using assms by (induction xs rule: induct_list012) (auto simp: csv_item_ok_def)
  moreover have "csv_item_ok (hd xs)" "csv_item_ok (last xs)" using assms by simp_all
  ultimately show ?thesis by (auto simp: csv_item_ok_def trimmed_text_def)
qed

lemma parseScopes_join:
  assumes "distinct xs" "\<forall>x\<in>set xs. csv_item_ok x" "xs \<noteq> []"
  shows "parseScopes (join '', '' xs) = xs"
  using join_trimmed [OF assms(3,2)] csv_items_join [OF assms(1,2)] by (simp add: form_simps trim_trimmed)

interpretation oidc_secret: secret_form "\<lambda>s. oidcSettingsToForm (Some s)" of_clientSecret
    oidcFormToPayload oidcupd_client_secret
proof (unfold_locales, goal_cases)
  case (3 f v)
  then show ?case by (auto simp: oidcFormToPayload_def Let_def split: if_splits)
qed (simp_all add: oidcSettingsToForm_def oidcFormToPayload_def Let_def)

definition clean_settings :: "OIDCSettings \<Rightarrow> bool" where
  "clean_settings s = (list_all trimmed_text [oidc_authorize_url s, oidc_client_id s, oidc_issuer_url s,
       oidc_redirect_url s, oidc_token_url s, oidc_userinfo_url s] \<and>
     distinct (oidc_scopes s) \<and> list_all csv_item_ok (oidc_scopes s))"

text \<open>
  An untouched OIDC form writes back what is stored, with the default scopes in place of an empty
  scope list, and sends no client secret; a client secret is sent exactly when one was typed.
\<close>

theorem untouched_oidc_form:
  assumes "clean_settings s"
  shows "oidcFormToPayload (oidcSettingsToForm (Some s)) =
      \<lparr>oidcupd_authorize_url = oidc_authorize_url s, oidcupd_client_id = oidc_client_id s,
       oidcupd_client_secret = None, oidcupd_enabled = oidc_enabled s, oidcupd_issuer_url = oidc_issuer_url s,
       oidcupd_redirect_url = oidc_redirect_url s,
       oidcupd_scopes = (if oidc_scopes s = [] then defaultScopes else oidc_scopes s),
       oidcupd_token_url = oidc_token_url s, oidcupd_userinfo_url = oidc_userinfo_url s\<rparr> \<and>
    (oidcupd_client_secret (oidcFormToPayload form) = None \<longleftrightarrow> trim (of_clientSecret form) = [])"
proof -
  have "or_else t [] = t" for t by (simp add: or_else_def)
  moreover have "parseScopes (join '', '' (if oidc_scopes s \<noteq> [] then oidc_scopes s else defaultScopes)) =
      (if oidc_scopes s = [] then defaultScopes else oidc_scopes s)"
    using assms defaultScopes_ok parseScopes_join by (simp add: clean_settings_def list_all_iff)
  ultimately show ?thesis
    using assms oidc_secret.sent_None [of form]
    by (simp add: oidcSettingsToForm_def oidcFormToPayload_def Let_def clean_settings_def trim_trimmed
        del: parseScopes_csv)
qed

theorem untouched_oidc_form_witness:
  "oidcupd_scopes (oidcFormToPayload (oidcSettingsToForm (Some
     \<lparr>oidc_authorize_url = [], oidc_client_id = ''ops'', oidc_enabled = True, oidc_has_client_secret = True,
      oidc_issuer_url = ''https://id.example'', oidc_redirect_url = ''/cb'', oidc_scopes = [''openid'', ''groups''],
      oidc_token_url = [], oidc_updated_at = None, oidc_userinfo_url = []\<rparr>))) = [''openid'', ''groups'']"
  using untouched_oidc_form [of
     "\<lparr>oidc_authorize_url = [], oidc_client_id = ''ops'', oidc_enabled = True, oidc_has_client_secret = True,
      oidc_issuer_url = ''https://id.example'', oidc_redirect_url = ''/cb'', oidc_scopes = [''openid'', ''groups''],
      oidc_token_url = [], oidc_updated_at = None, oidc_userinfo_url = []\<rparr>"]
  by (simp add: clean_settings_def trimmed_text_def csv_item_ok_def is_ws_def)

text \<open>
  The scope field and the validator. Parsed scopes are distinct; a text of only commas and white
  space around them is stored as an empty list, which the next load of the form replaces by the
  default scopes, every other list is shown and parsed back unchanged. The validator accepts a form
  exactly when OIDC is off or the client, the redirect and the endpoints (an issuer, or all three
  addresses) are given.
\<close>

theorem oidc_scopes_and_validation:
  "distinct (parseScopes text) \<and>
   parseScopes (join '', '' (parseScopes text)) = (if parseScopes text = [] then defaultScopes else parseScopes text) \<and>
   (parseScopes text = [] \<longleftrightarrow> trim text \<noteq> [] \<and> list_all (\<lambda>p. trim p = []) (split_on CHR '','' (trim text))) \<and>
   (validateOIDCForm form = [] \<longleftrightarrow> (if of_enabled form then
      trim (of_clientID form) \<noteq> [] \<and> trim (of_redirectURL form) \<noteq> [] \<and>
      (trim (of_issuerURL form) \<noteq> [] \<or> trim (of_authorizeURL form) \<noteq> [] \<and>
         trim (of_tokenURL form) \<noteq> [] \<and> trim (of_userInfoURL form) \<noteq> []) else True))"
proof -
  have d: "distinct (parseScopes text)" "\<forall>x\<in>set (parseScopes text). csv_item_ok x"
    using defaultScopes_ok csv_items_ok by (auto simp: form_simps csv_items_distinct)
  have e: "parseScopes [] = defaultScopes" by (simp add: form_simps)
  have "csv_items t = [] \<longleftrightarrow> set (csv_items t) = {}" for t by simp
  then have "csv_items t = [] \<longleftrightarrow> list_all (\<lambda>p. trim p = []) (split_on CHR '','' t)" for t
    by (auto simp: csv_items_def list_all_iff simp del: set_empty)
  then have "parseScopes text = [] \<longleftrightarrow>
      trim text \<noteq> [] \<and> list_all (\<lambda>p. trim p = []) (split_on CHR '','' (trim text))"
    using defaultScopes_ok(3) by (simp add: form_simps)
  moreover have "parseScopes (join '', '' (parseScopes text)) =
      (if parseScopes text = [] then defaultScopes else parseScopes text)"
    using e parseScopes_join [OF d] by (cases "parseScopes text = []") simp_all
  ultimately show ?thesis using d(1) by (auto simp: validateOIDCForm_def Let_def)
qed

end
