(* ===== verification/TextFilter.thy ===== *)
theory TextFilter
  imports JsText
begin

text \<open>
  Search boxes. Several lists of the portal are filtered by a typed text: the text is trimmed and
  lower-cased, a blank text shows everything, and an item is shown when one of its lower-cased
  fields contains the text. \<open>text_filter\<close> states the contract and what a user may expect of any such
  list; each list interprets it on its own filter.
\<close>

text \<open>\<open>[...].some((value) => (value || "").toLowerCase().includes(query))\<close>\<close>

definition any_includes :: "string option list \<Rightarrow> string \<Rightarrow> bool" where
  "any_includes values query = list_ex (\<lambda>v. str_includes (toLowerCase (opt_or v [])) query) values"

definition needle :: "string \<Rightarrow> string" where
  "needle q = toLowerCase (trim q)"

lemma is_ws_lower [simp]: "is_ws (lower_char c) = is_ws c"
  by (auto simp: is_ws_def lower_char_def Let_def of_char_of)

lemma trim_toLowerCase: "trim (toLowerCase s) = toLowerCase (trim s)"
proof -
  have "dropWhile is_ws (map lower_char xs) = map lower_char (dropWhile is_ws xs)" for xs
    by (induction xs) auto
  then show ?thesis by (simp add: trim_def toLowerCase_def rev_map)
qed

lemma needle_case [simp]: "needle (toLowerCase q) = needle q"
  by (simp add: needle_def trim_toLowerCase)

lemma needle_trim [simp]: "needle (trim q) = needle q"
  by (simp add: needle_def)

lemma needle_needle [simp]: "needle (needle q) = needle q"
  by (simp add: needle_def trim_toLowerCase)

lemma str_includes_trans: "str_includes a b \<Longrightarrow> str_includes b c \<Longrightarrow> str_includes a c"
  unfolding str_includes_iff by (metis append.assoc)

lemma any_includes_mono: "str_includes q' q \<Longrightarrow> any_includes vs q' \<Longrightarrow> any_includes vs q"
  by (auto simp: any_includes_def list_ex_iff intro: str_includes_trans)

locale text_filter =
  fixes filt :: "'i list \<Rightarrow> string \<Rightarrow> 'i list" and match :: "'i \<Rightarrow> string \<Rightarrow> bool"
  assumes filt_eq: "filt items q = (if needle q = [] then items else filter (\<lambda>i. match i (needle q)) items)"
    and match_mono: "str_includes q' q \<Longrightarrow> match i q' \<Longrightarrow> match i q"
begin

lemma filt_blank: "trim q = [] \<Longrightarrow> filt items q = items"
  by (simp add: filt_eq needle_def)

lemma filt_case: "filt items (toLowerCase q) = filt items q" "filt items (trim q) = filt items q"
  by (simp_all add: filt_eq)

lemma filt_subseq: "subseq (filt items q) items"
  by (simp add: filt_eq)

lemma filt_append: "filt (xs @ ys) q = filt xs q @ filt ys q"
  by (simp add: filt_eq)

lemma filt_idem: "filt (filt items q) q = filt items q"
  by (simp add: filt_eq)

text \<open>Typing more text never brings an item back.\<close>

lemma filt_narrow:
  assumes "str_includes (needle q') (needle q)"
  shows "filt items q' = filt (filt items q) q'"
proof (cases "needle q' = []")
  case True
  then have "needle q = []" using assms by simp
  with True show ?thesis by (simp add: filt_eq)
next
  case False
  have "match i (needle q') \<Longrightarrow> match i (needle q)" for i using assms match_mono by blast
  with False show ?thesis by (auto simp: filt_eq intro: filter_cong)
qed

end

end
