(* ===== verification/ConnectivityForms.thy ===== *)
theory ConnectivityForms
  imports Forms TextFilter
begin

text \<open>
  SSH proxies, key pairs and host keys, \<open>src/web/src/lib/connectivity.ts\<close>: the two forms with their
  payloads and validators, the list filters and the host key counters.
\<close>

datatype SSHProxyFormMode = CreateProxy | EditProxy

record SSHProxyFormState =
  pf_authType :: SSHProxyAuthType
  pf_description :: string
  pf_hasPassword :: bool
  pf_hasPassphrase :: bool
  pf_hasPrivateKey :: bool
  pf_host :: string
  pf_name :: string
  pf_networkZone :: string
  pf_passphrase :: string
  pf_password :: string
  pf_port :: string
  pf_privateKey :: string
  pf_username :: string

record HostKeyFilters =
  hkf_query :: string
  hkf_scope :: "HostKeyScope option"

record HostKeyCounts =
  hkc_mismatched :: nat
  hkc_pinned :: nat
  hkc_pending :: nat

record SSHKeypairFormState =
  kf_description :: string
  kf_name :: string
  kf_passphrase :: string
  kf_privateKey :: string

definition emptySSHProxyForm :: SSHProxyFormState where
  "emptySSHProxyForm = \<lparr>pf_authType = AuthPassword, pf_description = [], pf_hasPassword = False,
     pf_hasPassphrase = False, pf_hasPrivateKey = False, pf_host = [], pf_name = [], pf_networkZone = [],
     pf_passphrase = [], pf_password = [], pf_port = ''22'', pf_privateKey = [], pf_username = []\<rparr>"

definition emptySSHKeypairForm :: SSHKeypairFormState where
  "emptySSHKeypairForm = \<lparr>kf_description = [], kf_name = [], kf_passphrase = [], kf_privateKey = []\<rparr>"

text \<open>\<open>proxy.port || 22\<close> on a number.\<close>

definition port_or_22 :: "int \<Rightarrow> int" where
  "port_or_22 n = (if n = 0 then 22 else n)"

definition sshProxyToForm :: "SSHProxy option \<Rightarrow> SSHProxyFormState" where
  "sshProxyToForm proxy = (case proxy of
     None \<Rightarrow> emptySSHProxyForm
   | Some p \<Rightarrow> \<lparr>pf_authType = proxy_auth_type p, pf_description = opt_or (proxy_description p) [],
       pf_hasPassword = proxy_has_password p, pf_hasPassphrase = proxy_has_passphrase p,
       pf_hasPrivateKey = proxy_has_private_key p, pf_host = or_else (proxy_host p) [],
       pf_name = or_else (proxy_name p) [], pf_networkZone = opt_or (proxy_network_zone p) [],
       pf_passphrase = [], pf_password = [], pf_port = int_str (port_or_22 (proxy_port p)), pf_privateKey = [],
       pf_username = or_else (proxy_username p) []\<rparr>)"

text \<open>\<open>Number(text) || 22\<close>: zero and \<open>NaN\<close> are falsy.\<close>

definition port_number :: "string \<Rightarrow> jsnum" where
  "port_number t = (if num_truthy (Number t) then Number t else num_of_int 22)"

definition sshProxyFormToPayload :: "SSHProxyFormState \<Rightarrow> UpsertSSHProxyPayload" where
  "sshProxyFormToPayload form =
    (let payload = \<lparr>proxyup_auth_type = pf_authType form, proxyup_description = trim (pf_description form),
           proxyup_host = trim (pf_host form), proxyup_name = trim (pf_name form),
           proxyup_network_zone = trim (pf_networkZone form), proxyup_passphrase = None,
           proxyup_password = None, proxyup_port = port_number (pf_port form), proxyup_private_key = None,
           proxyup_username = trim (pf_username form)\<rparr>;
         payload = (if pf_authType form = AuthPassword \<and> trim (pf_password form) \<noteq> []
                    then payload\<lparr>proxyup_password := Some (pf_password form)\<rparr> else payload)
     in if pf_authType form = AuthKey
        then (let payload = (if trim (pf_privateKey form) \<noteq> []
                             then payload\<lparr>proxyup_private_key := Some (pf_privateKey form)\<rparr> else payload)
              in if trim (pf_passphrase form) \<noteq> []
                 then payload\<lparr>proxyup_passphrase := Some (pf_passphrase form)\<rparr> else payload)
        else payload)"

definition validateSSHProxyForm :: "SSHProxyFormState \<Rightarrow> SSHProxyFormMode \<Rightarrow> string" where
  "validateSSHProxyForm form mode =
    (if trim (pf_name form) = [] then ''Name is required.''
     else if trim (pf_host form) = [] then ''Host is required.''
     else if trim (pf_username form) = [] then ''Username is required.''
     else (let port = Number (pf_port form) in
       if \<not> is_finite port \<or> num_le port 0 then ''Port must be a positive number.''
       else if pf_authType form = AuthPassword \<and> \<not> (mode = EditProxy \<and> pf_hasPassword form) \<and>
         trim (pf_password form) = [] then ''Password is required for password auth.''
       else if pf_authType form = AuthKey \<and> \<not> (mode = EditProxy \<and> pf_hasPrivateKey form) \<and>
         trim (pf_privateKey form) = [] then ''Private key is required for key auth.''
       else []))"

definition sshProxyCredentialLabels :: "SSHProxy \<Rightarrow> string list" where
  "sshProxyCredentialLabels proxy = filter (\<lambda>t. t \<noteq> [])
     [if proxy_has_password proxy then ''password'' else [],
      if proxy_has_private_key proxy then ''private key'' else [],
      if proxy_has_passphrase proxy then ''passphrase'' else []]"

definition sshKeypairFormToPayload :: "SSHKeypairFormState \<Rightarrow> UpsertSSHKeypairPayload" where
  "sshKeypairFormToPayload form =
    (let payload = \<lparr>keypairup_description = trim (kf_description form), keypairup_name = trim (kf_name form),
           keypairup_passphrase = None, keypairup_private_key = kf_privateKey form\<rparr>
     in if trim (kf_passphrase form) \<noteq> [] then payload\<lparr>keypairup_passphrase := Some (kf_passphrase form)\<rparr>
        else payload)"

definition validateSSHKeypairForm :: "SSHKeypairFormState \<Rightarrow> string" where
  "validateSSHKeypairForm form =
    (if trim (kf_name form) = [] then ''Name is required.''
     else if trim (kf_privateKey form) = [] then ''Private key is required.''
     else [])"

definition filterSSHKeypairs :: "SSHKeypair list \<Rightarrow> string \<Rightarrow> SSHKeypair list" where
  "filterSSHKeypairs items queryValue =
    (let query = toLowerCase (trim queryValue) in
     if query = [] then items
     else filter (\<lambda>item. any_includes [Some (keypair_name item), Some (keypair_fingerprint item),
       keypair_description item, keypair_uploaded_by item] query) items)"

definition filterHostKeys :: "HostKeyRecord list \<Rightarrow> HostKeyFilters \<Rightarrow> HostKeyRecord list" where
  "filterHostKeys items filters =
    (let query = toLowerCase (trim (hkf_query filters)) in
     filter (\<lambda>item.
       if hkf_scope filters \<noteq> None \<and> Some (hostkey_scope item) \<noteq> hkf_scope filters then False
       else if query = [] then True
       else any_includes [hostkey_target_name item, Some (hostkey_target_id item), Some (hostkey_host item),
         Some (hostkey_fingerprint_sha256 item)] query) items)"

definition hostKeyCounts :: "HostKeyRecord list \<Rightarrow> HostKeyCounts" where
  "hostKeyCounts items =
     \<lparr>hkc_mismatched = length (filter (\<lambda>item. hostkey_status item = ''active'' \<and> truthy (hostkey_last_mismatch_at item)) items),
      hkc_pinned = length items,
      hkc_pending = length (filter (\<lambda>item. hostkey_status item = ''override_pending'') items)\<rparr>"

definition hostKeyStatusTone :: "HostKeyRecord \<Rightarrow> string" where
  "hostKeyStatusTone item =
    (if hostkey_status item = ''override_pending'' then ''info''
     else if hostkey_status item = ''active'' \<and> truthy (hostkey_last_mismatch_at item) then ''warn''
     else if hostkey_status item = ''active'' then ''ok''
     else [])"

section \<open>Facts\<close>

lemma port_text:
  assumes "0 < n" "n \<le> 2 ^ 53"
  shows "Number (int_str n) = num_of_int n"
proof -
  have "nat n \<le> 2 ^ 53" using assms by (simp add: nat_le_iff)
  then have "Number (nat_str (nat n)) = Fin (of_nat (nat n))" by (rule Number_nat_str)
  then show ?thesis using assms by (simp add: int_str_def)
qed

lemma proxy_payload_secrets [form_simps]:
  "proxyup_password (sshProxyFormToPayload form) =
     (if pf_authType form = AuthPassword \<and> trim (pf_password form) \<noteq> [] then Some (pf_password form) else None)"
  "proxyup_private_key (sshProxyFormToPayload form) =
     (if pf_authType form = AuthKey \<and> trim (pf_privateKey form) \<noteq> [] then Some (pf_privateKey form) else None)"
  "proxyup_passphrase (sshProxyFormToPayload form) =
     (if pf_authType form = AuthKey \<and> trim (pf_passphrase form) \<noteq> [] then Some (pf_passphrase form) else None)"
  by (simp_all add: sshProxyFormToPayload_def Let_def)

lemma proxy_payload_plain [form_simps]:
  "proxyup_auth_type (sshProxyFormToPayload form) = pf_authType form"
  "proxyup_description (sshProxyFormToPayload form) = trim (pf_description form)"
  "proxyup_host (sshProxyFormToPayload form) = trim (pf_host form)"
  "proxyup_name (sshProxyFormToPayload form) = trim (pf_name form)"
  "proxyup_network_zone (sshProxyFormToPayload form) = trim (pf_networkZone form)"
  "proxyup_port (sshProxyFormToPayload form) = port_number (pf_port form)"
  "proxyup_username (sshProxyFormToPayload form) = trim (pf_username form)"
  by (simp_all add: sshProxyFormToPayload_def Let_def)

abbreviation typed_for :: "SSHProxyAuthType \<Rightarrow> (SSHProxyFormState \<Rightarrow> string) \<Rightarrow> SSHProxyFormState \<Rightarrow> string" where
  "typed_for t field f \<equiv> (if pf_authType f = t then field f else [])"

interpretation proxy_password: secret_form "\<lambda>p. sshProxyToForm (Some p)" "typed_for AuthPassword pf_password"
    sshProxyFormToPayload proxyup_password
  by unfold_locales (auto simp: sshProxyToForm_def form_simps split: if_splits)

interpretation proxy_key: secret_form "\<lambda>p. sshProxyToForm (Some p)" "typed_for AuthKey pf_privateKey"
    sshProxyFormToPayload proxyup_private_key
  by unfold_locales (auto simp: sshProxyToForm_def form_simps split: if_splits)

interpretation proxy_passphrase: secret_form "\<lambda>p. sshProxyToForm (Some p)" "typed_for AuthKey pf_passphrase"
    sshProxyFormToPayload proxyup_passphrase
  by unfold_locales (auto simp: sshProxyToForm_def form_simps split: if_splits)

interpretation keypairs: text_filter filterSSHKeypairs
    "\<lambda>i. any_includes [Some (keypair_name i), Some (keypair_fingerprint i), keypair_description i, keypair_uploaded_by i]"
  by unfold_locales (simp_all add: filterSSHKeypairs_def needle_def Let_def any_includes_mono)

abbreviation in_scope :: "HostKeyScope option \<Rightarrow> HostKeyRecord list \<Rightarrow> HostKeyRecord list" where
  "in_scope sc items \<equiv> filter (\<lambda>i. sc = None \<or> sc = Some (hostkey_scope i)) items"

lemma filterHostKeys_scope:
  "filterHostKeys items \<lparr>hkf_query = q, hkf_scope = sc\<rparr> =
     (let n = needle q; xs = in_scope sc items in if n = [] then xs
      else filter (\<lambda>i. any_includes [hostkey_target_name i, Some (hostkey_target_id i), Some (hostkey_host i),
        Some (hostkey_fingerprint_sha256 i)] n) xs)"
  by (auto simp: filterHostKeys_def needle_def Let_def intro!: filter_cong)

interpretation hostkeys: text_filter "\<lambda>items q. filterHostKeys items \<lparr>hkf_query = q, hkf_scope = None\<rparr>"
    "\<lambda>i. any_includes [hostkey_target_name i, Some (hostkey_target_id i), Some (hostkey_host i),
        Some (hostkey_fingerprint_sha256 i)]"
  by unfold_locales (simp_all add: filterHostKeys_scope Let_def any_includes_mono)

lemma disjoint_counts:
  "(\<And>x. P x \<Longrightarrow> \<not> Q x) \<Longrightarrow> length (filter P xs) + length (filter Q xs) \<le> length xs"
  by (induction xs) (auto simp: le_SucI)

section \<open>Properties\<close>

definition clean_proxy :: "SSHProxy \<Rightarrow> bool" where
  "clean_proxy p = (trimmed_text (proxy_host p) \<and> trimmed_text (proxy_name p) \<and> trimmed_text (proxy_username p) \<and>
     clean (proxy_description p) \<and> clean (proxy_network_zone p) \<and> 0 < proxy_port p \<and> proxy_port p \<le> 65535)"

text \<open>
  An untouched proxy form is accepted exactly when the required texts are there and the proxy has
  the credential its authentication type needs, and saving it writes the stored settings back
  without any credential, so the stored credentials stay.
\<close>

theorem untouched_proxy_form:
  assumes "clean_proxy p"
  shows "sshProxyFormToPayload (sshProxyToForm (Some p)) =
      \<lparr>proxyup_auth_type = proxy_auth_type p, proxyup_description = opt_or (proxy_description p) [],
       proxyup_host = proxy_host p, proxyup_name = proxy_name p,
       proxyup_network_zone = opt_or (proxy_network_zone p) [], proxyup_passphrase = None,
       proxyup_password = None, proxyup_port = num_of_int (proxy_port p), proxyup_private_key = None,
       proxyup_username = proxy_username p\<rparr> \<and>
    (validateSSHProxyForm (sshProxyToForm (Some p)) EditProxy = [] \<longleftrightarrow>
       proxy_name p \<noteq> [] \<and> proxy_host p \<noteq> [] \<and> proxy_username p \<noteq> [] \<and>
       (case proxy_auth_type p of AuthPassword \<Rightarrow> proxy_has_password p | AuthKey \<Rightarrow> proxy_has_private_key p))"
proof -
  have o: "or_else t [] = t" for t by (simp add: or_else_def)
  have n: "Number (int_str (proxy_port p)) = num_of_int (proxy_port p)"
    using assms by (intro port_text) (simp_all add: clean_proxy_def)
  have "sshProxyFormToPayload (sshProxyToForm (Some p)) =
      \<lparr>proxyup_auth_type = proxy_auth_type p, proxyup_description = opt_or (proxy_description p) [],
       proxyup_host = proxy_host p, proxyup_name = proxy_name p,
       proxyup_network_zone = opt_or (proxy_network_zone p) [], proxyup_passphrase = None,
       proxyup_password = None, proxyup_port = num_of_int (proxy_port p), proxyup_private_key = None,
       proxyup_username = proxy_username p\<rparr>"
    using assms n by (simp add: sshProxyFormToPayload_def sshProxyToForm_def Let_def o clean_proxy_def
        trim_trimmed trim_clean port_or_22_def port_number_def)
  moreover have "validateSSHProxyForm (sshProxyToForm (Some p)) EditProxy = [] \<longleftrightarrow>
       proxy_name p \<noteq> [] \<and> proxy_host p \<noteq> [] \<and> proxy_username p \<noteq> [] \<and>
       (case proxy_auth_type p of AuthPassword \<Rightarrow> proxy_has_password p | AuthKey \<Rightarrow> proxy_has_private_key p)"
    using assms n by (auto simp: validateSSHProxyForm_def sshProxyToForm_def Let_def o clean_proxy_def
        trim_trimmed port_or_22_def split: SSHProxyAuthType.splits)
  ultimately show ?thesis by blast
qed

definition sample_proxy :: SSHProxy where
  "sample_proxy = \<lparr>proxy_auth_type = AuthKey, proxy_created_at = [], proxy_description = None,
     proxy_has_passphrase = False, proxy_has_password = False, proxy_has_private_key = True,
     proxy_host = ''10.0.0.1'', proxy_id = ''p1'', proxy_name = ''jump'', proxy_network_zone = Some ''dmz'',
     proxy_port = 22, proxy_updated_at = [], proxy_username = ''ops''\<rparr>"

theorem untouched_proxy_form_witness:
  "validateSSHProxyForm (sshProxyToForm (Some sample_proxy)) EditProxy = [] \<and>
   proxyup_port (sshProxyFormToPayload (sshProxyToForm (Some sample_proxy))) = num_of_int 22"
  using untouched_proxy_form [of sample_proxy]
  by (simp add: sample_proxy_def clean_proxy_def clean_def trimmed_text_def is_ws_def)

text \<open>
  An accepted proxy form produces a usable proxy: name, host and user name are not blank, the port
  is a finite number above zero (so the default of 22 never replaces a typed port), and for a new
  proxy the credential of the chosen authentication type is sent; credentials of the other type
  are never sent.
\<close>

theorem valid_proxy_form:
  assumes "validateSSHProxyForm form mode = []"
  shows "let p = sshProxyFormToPayload form in
    proxyup_name p \<noteq> [] \<and> proxyup_host p \<noteq> [] \<and> proxyup_username p \<noteq> [] \<and>
    proxyup_port p = Number (pf_port form) \<and> (\<exists>q. proxyup_port p = Fin q \<and> 0 < q) \<and>
    (case pf_authType form of
       AuthPassword \<Rightarrow> proxyup_private_key p = None \<and> proxyup_passphrase p = None \<and>
         (mode = CreateProxy \<longrightarrow> proxyup_password p = Some (pf_password form))
     | AuthKey \<Rightarrow> proxyup_password p = None \<and>
         (mode = CreateProxy \<longrightarrow> proxyup_private_key p = Some (pf_privateKey form)))"
proof -
  obtain q where q: "Number (pf_port form) = Fin q" "0 < q"
    using assms by (cases "Number (pf_port form)") (auto simp: validateSSHProxyForm_def Let_def split: if_splits)
  have "trim (pf_name form) \<noteq> []" "trim (pf_host form) \<noteq> []" "trim (pf_username form) \<noteq> []"
    using assms by (auto simp: validateSSHProxyForm_def split: if_splits)
  moreover have "pf_authType form = AuthPassword \<Longrightarrow> mode = CreateProxy \<Longrightarrow> trim (pf_password form) \<noteq> []"
    "pf_authType form = AuthKey \<Longrightarrow> mode = CreateProxy \<Longrightarrow> trim (pf_privateKey form) \<noteq> []"
    using assms by (auto simp: validateSSHProxyForm_def Let_def split: if_splits)
  ultimately show ?thesis
    using q by (cases "pf_authType form") (simp_all add: form_simps Let_def port_number_def)
qed

theorem valid_proxy_form_witness:
  "proxyup_port (sshProxyFormToPayload (emptySSHProxyForm\<lparr>pf_name := ''j'', pf_host := ''h'', pf_username := ''u'',
     pf_password := ''p'', pf_port := ''2222''\<rparr>)) = Number ''2222''"
proof -
  let ?f = "emptySSHProxyForm\<lparr>pf_name := ''j'', pf_host := ''h'', pf_username := ''u'', pf_password := ''p'', pf_port := ''2222''\<rparr>"
  have "''2222'' = int_str 2222" by code_simp
  then have "Number ''2222'' = num_of_int 2222" using port_text [of 2222] by simp
  then have "validateSSHProxyForm ?f CreateProxy = []"
    by (simp add: validateSSHProxyForm_def Let_def trim_def is_ws_def emptySSHProxyForm_def)
  from valid_proxy_form [OF this] show ?thesis by (simp add: Let_def)
qed

text \<open>
  The host key page counts what it shows: the mismatch counter is the number of rows in the
  warning tone, the pending counter the number of rows in the information tone, the two never
  overlap, and a filter with a scope shows exactly the matching rows of that scope, in order.
\<close>

theorem hostkey_counts_match_tones:
  "hkc_mismatched (hostKeyCounts items) = length (filter (\<lambda>i. hostKeyStatusTone i = ''warn'') items) \<and>
   hkc_pending (hostKeyCounts items) = length (filter (\<lambda>i. hostKeyStatusTone i = ''info'') items) \<and>
   hkc_mismatched (hostKeyCounts items) + hkc_pending (hostKeyCounts items) \<le> hkc_pinned (hostKeyCounts items) \<and>
   filterHostKeys items \<lparr>hkf_query = q, hkf_scope = Some sc\<rparr> =
     filter (\<lambda>i. hostkey_scope i = sc) (filterHostKeys items \<lparr>hkf_query = q, hkf_scope = None\<rparr>)"
proof -
  have warn: "(\<lambda>i. hostKeyStatusTone i = ''warn'') =
      (\<lambda>i. hostkey_status i = ''active'' \<and> truthy (hostkey_last_mismatch_at i))"
    and info: "(\<lambda>i. hostKeyStatusTone i = ''info'') = (\<lambda>i. hostkey_status i = ''override_pending'')"
    by (auto simp: fun_eq_iff hostKeyStatusTone_def)
  have "length (filter (\<lambda>i. hostkey_status i = ''active'' \<and> truthy (hostkey_last_mismatch_at i)) items) +
      length (filter (\<lambda>i. hostkey_status i = ''override_pending'') items) \<le> length items"
    by (rule disjoint_counts) auto
  moreover have "filterHostKeys items \<lparr>hkf_query = q, hkf_scope = Some sc\<rparr> =
     filter (\<lambda>i. hostkey_scope i = sc) (filterHostKeys items \<lparr>hkf_query = q, hkf_scope = None\<rparr>)"
    by (auto simp: filterHostKeys_scope Let_def intro!: filter_cong)
  ultimately show ?thesis unfolding warn info by (simp add: hostKeyCounts_def)
qed

end
