(* ===== verification/SessionsLib.thy ===== *)
theory SessionsLib
  imports ApiClient
begin

text \<open>
  Session records and recordings, \<open>src/web/src/lib/sessions.ts\<close>, and the time texts of
  \<open>src/web/src/lib/bastionGrants.ts\<close> and \<open>src/web/src/lib/bastionRequests.ts\<close>: the status of a
  session, the counters, the duration and byte texts, and the two readers of a recording (the kind
  detector and the asciicast preview, over code units as the API client returns them).
\<close>

section \<open>Status\<close>

datatype SessionStatus = SessionError | SessionClosed | SessionActive

definition sessionStatus :: "SessionAuditRecord \<Rightarrow> SessionStatus" where
  "sessionStatus session =
    (if truthy (sess_error session) then SessionError
     else if truthy (sess_ended_at session) then SessionClosed
     else SessionActive)"

definition sessionStatusTone :: "SessionAuditRecord \<Rightarrow> string" where
  "sessionStatusTone session = (let status = sessionStatus session in
     if status = SessionActive then ''info'' else if status = SessionClosed then ''ok'' else ''warn'')"

text \<open>The filter value \<open>"all"\<close> is \<open>None\<close>.\<close>

definition filterSessionsByStatus :: "SessionAuditRecord list \<Rightarrow> SessionStatus option \<Rightarrow> SessionAuditRecord list" where
  "filterSessionsByStatus items status = (case status of
     None \<Rightarrow> items
   | Some st \<Rightarrow> filter (\<lambda>item. sessionStatus item = st) items)"

record SessionCounts =
  cnt_active :: nat
  cnt_closed :: nat
  cnt_errors :: nat
  cnt_recordings :: nat
  cnt_total :: nat

definition sessionCounts :: "SessionAuditRecord list \<Rightarrow> SessionCounts" where
  "sessionCounts items =
     \<lparr>cnt_active = length (filter (\<lambda>item. sessionStatus item = SessionActive) items),
      cnt_closed = length (filter (\<lambda>item. sessionStatus item = SessionClosed) items),
      cnt_errors = length (filter (\<lambda>item. sessionStatus item = SessionError) items),
      cnt_recordings = length (filter sess_has_recording items),
      cnt_total = length items\<rparr>"

definition recordingLabel :: "SessionAuditRecord \<Rightarrow> string" where
  "recordingLabel session =
     or_else (sess_user_name session) (sess_user_id session) @ '' @ '' @
     or_else (sess_asset_name session) (sess_asset_id session)"

section \<open>Durations and sizes\<close>

definition formatDurationMs :: "jsnum option \<Rightarrow> string" where
  "formatDurationMs value = (case value of None \<Rightarrow> ''-'' | Some v \<Rightarrow>
    (if \<not> num_truthy v \<or> num_le v 0 then ''-''
     else (let totalSeconds = num_floor (num_div v 1000);
               hours = num_floor (num_div totalSeconds 3600);
               minutes = num_floor (num_div (num_mod totalSeconds 3600) 60);
               seconds = num_mod totalSeconds 60
           in if num_gt hours 0 then num_str hours @ ''h '' @ num_str minutes @ ''m''
              else if num_gt minutes 0 then num_str minutes @ ''m '' @ num_str seconds @ ''s''
              else num_str seconds @ ''s'')))"

fun num_ge :: "jsnum \<Rightarrow> rat \<Rightarrow> bool" where
  "num_ge (Fin a) b = (a \<ge> b)"
| "num_ge PInf b = True"
| "num_ge x b = False"

text \<open>The \<open>while\<close> loop of \<open>formatBytes\<close>; there are four units, so it runs at most three times.\<close>

function bytes_loop :: "jsnum \<Rightarrow> nat \<Rightarrow> jsnum \<times> nat" where
  "bytes_loop amount unitIndex =
    (if num_ge amount 1024 \<and> unitIndex < 3 then bytes_loop (num_div amount 1024) (Suc unitIndex)
     else (amount, unitIndex))"
  by pat_completeness auto
termination
  by (relation "measure (\<lambda>(amount, unitIndex). 3 - unitIndex)") auto

declare bytes_loop.simps [simp del]

definition num_fixed :: "jsnum \<Rightarrow> nat \<Rightarrow> string" where
  "num_fixed n f = (case n of Fin q \<Rightarrow> toFixed q f | _ \<Rightarrow> num_str n)"

definition formatBytes :: "jsnum option \<Rightarrow> string" where
  "formatBytes value =
    (let bytes = (case value of Some v \<Rightarrow> if num_truthy v then v else num_of_int 0 | None \<Rightarrow> num_of_int 0) in
     if num_lt bytes 1024 then num_str bytes @ '' B''
     else (let (amount, unitIndex) = bytes_loop (num_div bytes 1024) 0
           in num_fixed amount (if num_ge amount 10 then 1 else 2) @ '' '' @
              [''KB'', ''MB'', ''GB'', ''TB''] ! unitIndex))"

text \<open>
  \<open>formatGrantTimeRemaining(expiresAt, now)\<close>: the two instants in milliseconds, \<open>None\<close> for an invalid
  date. The difference of two time values is an integer and exact.
\<close>

definition formatGrantTimeRemaining :: "int option \<Rightarrow> int \<Rightarrow> string" where
  "formatGrantTimeRemaining expires now = (case expires of None \<Rightarrow> ''-'' | Some e \<Rightarrow>
    (let remainingSeconds = num_ceil (num_div (num_of_int (e - now)) 1000) in
     if num_le remainingSeconds 0 then ''expired''
     else (let days = num_floor (num_div remainingSeconds 86400);
               hours = num_floor (num_div (num_mod remainingSeconds 86400) 3600);
               minutes = num_floor (num_div (num_mod remainingSeconds 3600) 60)
           in if num_gt days 0 \<and> num_gt hours 0 then num_str days @ ''d '' @ num_str hours @ ''h left''
              else if num_gt days 0 then num_str days @ ''d left''
              else if num_gt hours 0 \<and> num_gt minutes 0 then num_str hours @ ''h '' @ num_str minutes @ ''m left''
              else if num_gt hours 0 then num_str hours @ ''h left''
              else if num_gt minutes 0 then num_str minutes @ ''m left''
              else num_str remainingSeconds @ ''s left'')))"

definition requestStatusTone :: "BastionRequestStatus \<Rightarrow> string" where
  "requestStatusTone status = (case status of
     ReqApproved \<Rightarrow> ''ok'' | ReqPending \<Rightarrow> ''info''
   | ReqRejected \<Rightarrow> ''warn'' | ReqCancelled \<Rightarrow> ''warn'' | ReqExpired \<Rightarrow> ''warn'')"

definition formatDurationSeconds :: "jsnum \<Rightarrow> string" where
  "formatDurationSeconds seconds =
    (if \<not> is_finite seconds \<or> num_le seconds 0 then ''-''
     else (let hours = num_floor (num_div seconds 3600);
               minutes = num_floor (num_div (num_mod seconds 3600) 60)
           in if num_gt hours 0 \<and> num_gt minutes 0 then num_str hours @ ''h '' @ num_str minutes @ ''m''
              else if num_gt hours 0 then num_str hours @ ''h''
              else if num_gt minutes 0 then num_str minutes @ ''m''
              else num_str seconds @ ''s''))"

section \<open>Recordings\<close>

text \<open>\<open>text.split(/\r?\n/)\<close>: pieces between line feeds, one carriage return before the feed dropped.\<close>

fun split_lines :: "units \<Rightarrow> units list" where
  "split_lines [] = [[]]"
| "split_lines (c # s) =
    (if c = 10 then [] # split_lines s
     else if c = 13 \<and> prefix [10] s then [] # split_lines (tl s)
     else (case split_lines s of [] \<Rightarrow> [[c]] | l # ls \<Rightarrow> (c # l) # ls))"

datatype RecordingKind = Asciicast | Guac

definition is_version2 :: "json \<Rightarrow> bool" where
  "is_version2 header = (json_prop header ''version'' = Some (JNum (Fin 2)))"

definition detectRecordingKind :: "units \<Rightarrow> RecordingKind" where
  "detectRecordingKind text =
    (let firstLine = trim_units (hd (split_lines text)) in
     if prefix (u16 ''{'') firstLine then
       (case json_parse firstLine of
          Some header \<Rightarrow> if is_version2 header then Asciicast else Guac
        | None \<Rightarrow> Guac)
     else Guac)"

datatype cast_error =
    CastEmpty
  | CastHeaderMalformed
  | CastHeaderNull
  | CastUnsupported "json option"

record RecordingPreview =
  pv_cols :: json
  pv_durationSeconds :: jsnum
  pv_frames :: nat
  pv_outputSample :: units
  pv_rows :: json
  pv_version :: json

record cast_acc =
  ca_frames :: nat
  ca_duration :: jsnum
  ca_sample :: units

text \<open>One line of the loop: a line that is not an output frame, or not JSON, changes nothing.\<close>

definition cast_line :: "nat \<Rightarrow> units \<Rightarrow> cast_acc \<Rightarrow> cast_acc" where
  "cast_line sampleLimit line acc = (case json_parse line of
     Some (JArr frame) \<Rightarrow>
       (if length frame < 3 \<or> frame ! 1 \<noteq> JStr (u16 ''o'') then acc
        else (let a1 = acc\<lparr>ca_frames := Suc (ca_frames acc)\<rparr>;
                  a2 = (case frame ! 0 of JNum t \<Rightarrow> a1\<lparr>ca_duration := t\<rparr> | _ \<Rightarrow> a1)
              in (case frame ! 2 of
                    JStr out \<Rightarrow> if length (ca_sample a2) < sampleLimit
                      then a2\<lparr>ca_sample := ca_sample a2 @ take (sampleLimit - length (ca_sample a2)) out\<rparr> else a2
                  | _ \<Rightarrow> a2)))
   | _ \<Rightarrow> acc)"

definition prop_or :: "json \<Rightarrow> string \<Rightarrow> int \<Rightarrow> json" where
  "prop_or header k d = (case json_prop header k of
     Some v \<Rightarrow> if json_truthy v then v else JNum (num_of_int d) | None \<Rightarrow> JNum (num_of_int d))"

definition parseAsciicast :: "units \<Rightarrow> nat \<Rightarrow> cast_error + RecordingPreview" where
  "parseAsciicast text sampleLimit =
    (case filter (\<lambda>l. l \<noteq> []) (split_lines text) of
       [] \<Rightarrow> Inl CastEmpty
     | first # rest \<Rightarrow>
         (case json_parse first of
            None \<Rightarrow> Inl CastHeaderMalformed
          | Some JNull \<Rightarrow> Inl CastHeaderNull
          | Some header \<Rightarrow>
              if \<not> is_version2 header then Inl (CastUnsupported (json_prop header ''version''))
              else (let acc = fold (cast_line sampleLimit) rest \<lparr>ca_frames = 0, ca_duration = num_of_int 0, ca_sample = []\<rparr>
                in Inr \<lparr>pv_cols = prop_or header ''width'' 80, pv_durationSeconds = ca_duration acc,
                     pv_frames = ca_frames acc, pv_outputSample = ca_sample acc,
                     pv_rows = prop_or header ''height'' 24, pv_version = JNum (Fin 2)\<rparr>)))"

section \<open>Facts about times\<close>

lemma num_gt_int [simp]: "num_gt (num_of_int i) 0 \<longleftrightarrow> 0 < i"
  by simp

lemma num_le_int [simp]: "num_le (num_of_int i) 0 \<longleftrightarrow> i \<le> 0"
  by simp

lemma floor_div [simp]:
  "0 \<le> n \<Longrightarrow> n < 2 ^ 53 \<Longrightarrow> num_floor (num_div (num_of_int n) 1000) = num_of_int (n div 1000)"
  "0 \<le> n \<Longrightarrow> n < 2 ^ 53 \<Longrightarrow> num_floor (num_div (num_of_int n) 3600) = num_of_int (n div 3600)"
  "0 \<le> n \<Longrightarrow> n < 2 ^ 53 \<Longrightarrow> num_floor (num_div (num_of_int n) 86400) = num_of_int (n div 86400)"
  "0 \<le> n \<Longrightarrow> n < 2 ^ 53 \<Longrightarrow> num_floor (num_div (num_of_int n) 60) = num_of_int (n div 60)"
  using num_floor_div_int [of n 1000] num_floor_div_int [of n 3600] num_floor_div_int [of n 86400]
    num_floor_div_int [of n 60] by (simp_all del: num_div.simps num_floor.simps)

lemma mod_pos [simp]:
  "0 \<le> n \<Longrightarrow> num_mod (num_of_int n) 3600 = num_of_int (n mod 3600)"
  "0 \<le> n \<Longrightarrow> num_mod (num_of_int n) 86400 = num_of_int (n mod 86400)"
  "0 \<le> n \<Longrightarrow> num_mod (num_of_int n) 60 = num_of_int (n mod 60)"
  using num_mod_int [of n 3600] num_mod_int [of n 86400] num_mod_int [of n 60]
  by (simp_all del: num_mod.simps)

lemmas time_ops = num_div.simps num_floor.simps num_mod.simps num_gt.simps num_le.simps num_ceil.simps

lemma div_less: "0 \<le> n \<Longrightarrow> n < 2 ^ 53 \<Longrightarrow> 0 < d \<Longrightarrow> n div d < (2 ^ 53 :: int)"
  using zdiv_mono2 [of n 1 d] by simp

lemma round64_nonpos:
  assumes "q \<le> 0"
  shows "round64 q = NInf \<or> (\<exists>r. round64 q = Fin r \<and> r \<le> 0)"
proof (cases "q = 0")
  case False
  have u: "0 < ulp q" by (simp add: ulp_def)
  then have "q / ulp q < 0" using assms False by (simp add: divide_neg_pos)
  then have "\<lfloor>q / ulp q\<rfloor> \<le> -1" by linarith
  moreover have "round_even x \<le> \<lfloor>x\<rfloor> + 1" for x by (simp add: round_even_def Let_def)
  then have "round_even (q / ulp q) \<le> \<lfloor>q / ulp q\<rfloor> + 1" .
  ultimately have "round_even (q / ulp q) \<le> 0" by linarith
  then have "of_int (round_even (q / ulp q)) * ulp q \<le> 0"
    using u by (simp add: mult_nonpos_nonneg)
  then show ?thesis using False by (auto simp: round64_def Let_def)
qed (simp add: round64_def)

section \<open>Properties\<close>

text \<open>
  Every session has exactly one status, so the three counters of the audit page add up to the
  number of sessions, each status filter shows as many rows as its counter says, and a failed
  session is counted as failed whether or not it has an end time.
\<close>

theorem session_counts_partition:
  "cnt_active (sessionCounts items) + cnt_closed (sessionCounts items) + cnt_errors (sessionCounts items) =
     cnt_total (sessionCounts items) \<and>
   length (filterSessionsByStatus items (Some SessionActive)) = cnt_active (sessionCounts items) \<and>
   length (filterSessionsByStatus items (Some SessionClosed)) = cnt_closed (sessionCounts items) \<and>
   length (filterSessionsByStatus items (Some SessionError)) = cnt_errors (sessionCounts items) \<and>
   filterSessionsByStatus items (Some SessionError) = filter (\<lambda>s. truthy (sess_error s)) items"
proof -
  have "length (filter (\<lambda>s. sessionStatus s = SessionActive) items) +
      length (filter (\<lambda>s. sessionStatus s = SessionClosed) items) +
      length (filter (\<lambda>s. sessionStatus s = SessionError) items) = length items"
  proof (induction items)
    case (Cons s items)
    then show ?case by (cases "sessionStatus s") auto
  qed simp
  moreover have "(\<lambda>s. sessionStatus s = SessionError) = (\<lambda>s. truthy (sess_error s))"
    by (simp add: sessionStatus_def fun_eq_iff)
  ultimately show ?thesis by (simp add: sessionCounts_def filterSessionsByStatus_def)
qed

text \<open>
  A duration text is the exact time in whole seconds, cut after the minutes from one hour on. For a
  positive number of milliseconds below \<open>2^53\<close> the shown hours, minutes and seconds are the
  quotients and remainders of integer division although the code computes in floating point, and
  minutes and seconds stay below sixty.
\<close>

theorem duration_text:
  assumes "0 < ms" "ms < 2 ^ 53"
  shows "let t = ms div 1000; h = t div 3600; m = t mod 3600 div 60; s = t mod 60 in
    formatDurationMs (Some (num_of_int ms)) =
      (if 0 < h then int_str h @ ''h '' @ int_str m @ ''m''
       else if 0 < m then int_str m @ ''m '' @ int_str s @ ''s'' else int_str s @ ''s'') \<and>
    t = 3600 * h + 60 * m + s \<and> m < 60 \<and> s < 60"
proof -
  define t where "t = ms div 1000"
  have t: "0 \<le> t" "t < 2 ^ 53" using assms div_less [of ms 1000] by (simp_all add: t_def)
  have h: "0 \<le> t div 3600" "t div 3600 < 2 ^ 53" using t div_less [of t 3600] by (simp_all add: pos_imp_zdiv_nonneg_iff)
  have m: "0 \<le> t mod 3600" "t mod 3600 < 3600" by simp_all
  have mm: "0 \<le> t mod 3600 div 60" "t mod 3600 div 60 < 60" using m by (simp_all add: div_less_iff_less_mult pos_imp_zdiv_nonneg_iff)
  have s: "0 \<le> t mod 60" "t mod 60 < 60" by simp_all
  have "t mod 3600 mod 60 = t mod 60" by (simp add: mod_mod_cancel)
  then have "t = 3600 * (t div 3600) + 60 * (t mod 3600 div 60) + t mod 60"
    using div_mult_mod_eq [of t 3600] div_mult_mod_eq [of "t mod 3600" 60] by linarith
  moreover have "formatDurationMs (Some (num_of_int ms)) =
      (if 0 < t div 3600 then int_str (t div 3600) @ ''h '' @ int_str (t mod 3600 div 60) @ ''m''
       else if 0 < t mod 3600 div 60 then int_str (t mod 3600 div 60) @ ''m '' @ int_str (t mod 60) @ ''s''
       else int_str (t mod 60) @ ''s'')"
    using assms t h m mm s
    by (simp add: formatDurationMs_def Let_def t_def [symmetric] del: time_ops num_str.simps)
  ultimately show ?thesis using mm s by (simp add: Let_def t_def [symmetric])
qed

theorem duration_text_witness:
  "formatDurationMs (Some (num_of_int 3723000)) = ''1h 2m''"
proof -
  have "int_str 1 @ ''h '' @ int_str 2 @ ''m'' = ''1h 2m''" by code_simp
  then show ?thesis using duration_text [of 3723000] by simp
qed

text \<open>
  A grant is shown as expired exactly when its end is not in the future: for a valid end less than
  \<open>2^53\<close> milliseconds ahead, the text is "expired" if and only if the end is at or before now, and a
  live grant shows at least one second.
\<close>

theorem grant_expired_iff:
  assumes "e - now < 2 ^ 53"
  shows "formatGrantTimeRemaining (Some e) now = ''expired'' \<longleftrightarrow> e \<le> now"
proof (cases "e \<le> now")
  case True
  then have "of_int (e - now) / 1000 \<le> (0 :: rat)" by (simp add: divide_nonpos_pos)
  from round64_nonpos [OF this] have "num_le (num_ceil (num_div (num_of_int (e - now)) 1000)) 0"
    by (auto simp: ceiling_le_iff)
  with True show ?thesis by (simp add: formatGrantTimeRemaining_def Let_def del: time_ops)
next
  case False
  define n where "n = e - now"
  have n: "0 < n" "n < 2 ^ 53" using False assms by (simp_all add: n_def)
  define r where "r = n div 1000 + (if n mod 1000 = 0 then 0 else 1)"
  have c: "num_ceil (num_div (num_of_int n) 1000) = num_of_int r"
    using num_ceil_div_int [of n 1000] n by (simp add: r_def del: time_ops)
  have "0 < r" using n div_mult_mod_eq [of n 1000] by (auto simp: r_def pos_imp_zdiv_nonneg_iff intro: add_nonneg_pos)
  moreover have ne: "xs @ ''left'' \<noteq> ''expired''" "xs @ '' left'' \<noteq> ''expired''" for xs
    using arg_cong [of "xs @ ''left''" "''expired''" last] arg_cong [of "xs @ '' left''" "''expired''" last] by auto
  have nd: "num_str x @ ''d '' @ num_str y @ ''h left'' \<noteq> ''expired''" "num_str x @ ''d left'' \<noteq> ''expired''"
    "num_str x @ ''h '' @ num_str y @ ''m left'' \<noteq> ''expired''" "num_str x @ ''h left'' \<noteq> ''expired''"
    "num_str x @ ''m left'' \<noteq> ''expired''" "num_str x @ ''s left'' \<noteq> ''expired''" for x y
    using ne(1) [of "num_str x @ ''d '' @ num_str y @ ''h ''"] ne(1) [of "num_str x @ ''d ''"]
      ne(1) [of "num_str x @ ''h '' @ num_str y @ ''m ''"] ne(1) [of "num_str x @ ''h ''"]
      ne(1) [of "num_str x @ ''m ''"] ne(1) [of "num_str x @ ''s ''"] by simp_all
  ultimately show ?thesis
    using False c nd by (simp add: formatGrantTimeRemaining_def Let_def n_def [symmetric] del: time_ops)
qed

theorem grant_expired_iff_witness:
  "formatGrantTimeRemaining (Some 1000) 1000 = ''expired'' \<and> formatGrantTimeRemaining (Some 1001) 1000 \<noteq> ''expired''"
  using grant_expired_iff [of 1000 1000] grant_expired_iff [of 1001 1000] by simp

section \<open>Recordings read as they were written\<close>

text \<open>The frame a line holds, when it is an output frame; the text it adds; the time it carries.\<close>

definition output_frame :: "units \<Rightarrow> json list option" where
  "output_frame line = (case json_parse line of
     Some (JArr frame) \<Rightarrow> if length frame \<ge> 3 \<and> frame ! 1 = JStr (u16 ''o'') then Some frame else None
   | _ \<Rightarrow> None)"

definition frame_text :: "json list \<Rightarrow> units" where
  "frame_text frame = (case frame ! 2 of JStr out \<Rightarrow> out | _ \<Rightarrow> [])"

definition frame_time :: "json list \<Rightarrow> jsnum option" where
  "frame_time frame = (case frame ! 0 of JNum t \<Rightarrow> Some t | _ \<Rightarrow> None)"

definition output_frames :: "units list \<Rightarrow> json list list" where
  "output_frames ls = List.map_filter output_frame ls"

lemma output_frames_snoc:
  "output_frames (ls @ [l]) = output_frames ls @ (case output_frame l of None \<Rightarrow> [] | Some f \<Rightarrow> [f])"
  by (simp add: output_frames_def List.map_filter_def split: option.splits)

lemma cast_line_eq:
  "cast_line limit line acc = (case output_frame line of
     None \<Rightarrow> acc
   | Some f \<Rightarrow> \<lparr>ca_frames = Suc (ca_frames acc),
       ca_duration = (case frame_time f of None \<Rightarrow> ca_duration acc | Some t \<Rightarrow> t),
       ca_sample = ca_sample acc @ take (limit - length (ca_sample acc)) (frame_text f)\<rparr>)"
  by (cases acc) (auto simp: cast_line_def output_frame_def frame_text_def frame_time_def Let_def
      split: option.splits json.splits)

lemma version2_obj: "is_version2 header \<Longrightarrow> \<exists>kvs. header = JObj kvs"
  by (cases header) (simp_all add: is_version2_def)

definition last_time :: "json list list \<Rightarrow> jsnum" where
  "last_time fs = (case rev (List.map_filter frame_time fs) of [] \<Rightarrow> num_of_int 0 | t # _ \<Rightarrow> t)"

lemma last_time_snoc:
  "last_time (fs @ [f]) = (case frame_time f of None \<Rightarrow> last_time fs | Some t \<Rightarrow> t)"
  by (simp add: last_time_def List.map_filter_def split: option.splits)

lemma cast_fold:
  "fold (cast_line limit) ls \<lparr>ca_frames = 0, ca_duration = num_of_int 0, ca_sample = []\<rparr> =
     \<lparr>ca_frames = length (output_frames ls), ca_duration = last_time (output_frames ls),
      ca_sample = take limit (concat (map frame_text (output_frames ls)))\<rparr>"
proof (induction ls rule: rev_induct)
  case Nil
  show ?case by (simp add: output_frames_def last_time_def List.map_filter_def)
next
  case (snoc l ls)
  then show ?case
    by (simp add: cast_line_eq output_frames_snoc last_time_snoc min_def split: option.splits)
qed

text \<open>The recording of the witnesses: its header line and one frame, read back from their printed form.\<close>

lemma sample_header: "json_parse (u16 (''{'' @ [CHR 0x22] @ ''version'' @ [CHR 0x22] @ '':2}'')) =
    Some (JObj [(u16 ''version'', JNum (Fin 2))])"
proof -
  have n: "rat_str 2 = ''2''" by code_simp
  have "json_stringify (JObj [(u16 ''version'', JNum (Fin 2))]) = u16 (''{'' @ [CHR 0x22] @ ''version'' @ [CHR 0x22] @ '':2}'')"
    by (simp add: n u16_def quote_str_def esc_def is_high_def is_low_def)
  moreover have "wf_json (JObj [(u16 ''version'', JNum (Fin 2))])" by (simp add: wf_units_def u16_def)
  ultimately show ?thesis using json_parse_stringify by metis
qed

lemma sample_frame: "json_parse (u16 (''[1,'' @ [CHR 0x22] @ ''o'' @ [CHR 0x22] @ '','' @ [CHR 0x22] @ ''hi'' @ [CHR 0x22] @ '']'')) =
    Some (JArr [JNum (Fin 1), JStr (u16 ''o''), JStr (u16 ''hi'')])"
proof -
  let ?f = "JArr [JNum (Fin 1), JStr (u16 ''o''), JStr (u16 ''hi'')]"
  have n: "rat_str 1 = ''1''" by code_simp
  have "json_stringify ?f = u16 (''[1,'' @ [CHR 0x22] @ ''o'' @ [CHR 0x22] @ '','' @ [CHR 0x22] @ ''hi'' @ [CHR 0x22] @ '']'')"
    by (simp add: n u16_def quote_str_def esc_def is_high_def is_low_def)
  moreover have "wf_json ?f" by (simp add: wf_units_def u16_def)
  ultimately show ?thesis using json_parse_stringify by metis
qed

text \<open>
  The preview of an asciicast is what was recorded. When the first non-empty line is a version 2
  header, the preview succeeds whatever the other lines hold; it counts the output frames, its
  duration is the time of the last output frame that has one, and its sample is the beginning, up to
  the limit, of the concatenated output. Lines that are not output frames, damaged lines included,
  contribute nothing.
\<close>

theorem asciicast_preview:
  assumes "filter (\<lambda>l. l \<noteq> []) (split_lines text) = first # rest"
    and "json_parse first = Some header" "is_version2 header"
  shows "parseAsciicast text limit = Inr
    \<lparr>pv_cols = prop_or header ''width'' 80, pv_durationSeconds = last_time (output_frames rest),
     pv_frames = length (output_frames rest),
     pv_outputSample = take limit (concat (map frame_text (output_frames rest))),
     pv_rows = prop_or header ''height'' 24, pv_version = JNum (Fin 2)\<rparr>"
proof -
  obtain kvs where "header = JObj kvs" using version2_obj [OF assms(3)] by blast
  then have "parseAsciicast text limit =
      (let acc = fold (cast_line limit) rest \<lparr>ca_frames = 0, ca_duration = num_of_int 0, ca_sample = []\<rparr>
       in Inr \<lparr>pv_cols = prop_or header ''width'' 80, pv_durationSeconds = ca_duration acc,
            pv_frames = ca_frames acc, pv_outputSample = ca_sample acc,
            pv_rows = prop_or header ''height'' 24, pv_version = JNum (Fin 2)\<rparr>)"
    using assms by (simp add: parseAsciicast_def)
  then show ?thesis unfolding cast_fold by simp
qed

theorem asciicast_preview_witness:
  "\<exists>p. parseAsciicast (u16 (''{'' @ [CHR 0x22] @ ''version'' @ [CHR 0x22] @ '':2}'' @ [CHR 0x0A] @ ''[1,'' @ [CHR 0x22] @
      ''o'' @ [CHR 0x22] @ '','' @ [CHR 0x22] @ ''hi'' @ [CHR 0x22] @ '']'')) 4000 = Inr p \<and>
     pv_frames p = 1 \<and> pv_outputSample p = u16 ''hi''"
proof -
  let ?h = "u16 (''{'' @ [CHR 0x22] @ ''version'' @ [CHR 0x22] @ '':2}'')"
  let ?f = "u16 (''[1,'' @ [CHR 0x22] @ ''o'' @ [CHR 0x22] @ '','' @ [CHR 0x22] @ ''hi'' @ [CHR 0x22] @ '']'')"
  have l: "filter (\<lambda>l. l \<noteq> []) (split_lines (?h @ [10] @ ?f)) = [?h, ?f]" by code_simp
  have h: "json_parse ?h = Some (JObj [(u16 ''version'', JNum (Fin 2))])" by (rule sample_header)
  have v: "is_version2 (JObj [(u16 ''version'', JNum (Fin 2))])" by (simp add: is_version2_def)
  have "json_parse ?f = Some (JArr [JNum (Fin 1), JStr (u16 ''o''), JStr (u16 ''hi'')])" by (rule sample_frame)
  then have "output_frames [?f] = [[JNum (Fin 1), JStr (u16 ''o''), JStr (u16 ''hi'')]]"
    by (simp add: output_frames_def List.map_filter_def output_frame_def)
  then show ?thesis
    using asciicast_preview [OF l h v, of 4000] by (simp add: frame_text_def) (simp add: u16_def)
qed

text \<open>
  A recording that is routed to the text preview can be previewed: when the detector calls it an
  asciicast and its first line has no surrounding white space, the parser accepts it, so the page
  never shows a parse error for a recording it has classified itself.
\<close>

theorem detected_cast_parses:
  assumes "detectRecordingKind text = Asciicast" "trim_units (hd (split_lines text)) = hd (split_lines text)"
  shows "\<exists>p. parseAsciicast text limit = Inr p \<and> pv_version p = JNum (Fin 2)"
proof -
  have ne: "split_lines text \<noteq> []" by (cases "text") (auto split: list.splits)
  then obtain l ls where l: "split_lines text = l # ls" by (cases "split_lines text") auto
  with assms obtain header where h: "json_parse l = Some header" "is_version2 header" "prefix (u16 ''{'') l"
    by (auto simp: detectRecordingKind_def Let_def split: if_splits option.splits)
  then have "l \<noteq> []" by (auto simp: u16_def)
  then have "filter (\<lambda>l. l \<noteq> []) (split_lines text) = l # filter (\<lambda>l. l \<noteq> []) ls" using l by simp
  from h this show ?thesis
    using version2_obj [OF h(2)] by (auto simp: parseAsciicast_def Let_def)
qed

theorem detected_cast_parses_witness:
  "\<exists>p. parseAsciicast (u16 (''{'' @ [CHR 0x22] @ ''version'' @ [CHR 0x22] @ '':2}'')) 10 = Inr p"
proof -
  let ?h = "u16 (''{'' @ [CHR 0x22] @ ''version'' @ [CHR 0x22] @ '':2}'')"
  have l: "split_lines ?h = [?h]" by code_simp
  have p: "json_parse ?h = Some (JObj [(u16 ''version'', JNum (Fin 2))])" by (rule sample_header)
  have t: "trim_units ?h = ?h" by (simp add: trim_units_def ws_unit_def u16_def)
  have "detectRecordingKind ?h = Asciicast"
    by (simp only: detectRecordingKind_def l list.sel t Let_def p) (simp add: u16_def is_version2_def)
  from detected_cast_parses [OF this, of 10] l t show ?thesis by auto
qed

end
