(* ===== verification/Collation.thy ===== *)
theory Collation
  imports Prelude "HOL-Library.Multiset"
begin

text \<open>
  \<open>Array.prototype.sort\<close> with a comparator. \<open>localeCompare\<close> depends on the locale data of the browser
  and is a parameter of the definitions that use it; \<open>collation\<close> is what its documentation promises,
  a total order up to texts that compare equal.
\<close>

section \<open>Sorting with a comparator\<close>

text \<open>
  \<open>Array.prototype.sort(compare)\<close> is stable; for a consistent comparator its result is the one of
  insertion.
\<close>

primrec insort_by :: "('a \<Rightarrow> 'a \<Rightarrow> int) \<Rightarrow> 'a \<Rightarrow> 'a list \<Rightarrow> 'a list" where
  "insort_by cmp x [] = [x]"
| "insort_by cmp x (y # ys) = (if cmp x y \<le> 0 then x # y # ys else y # insort_by cmp x ys)"

definition sort_by :: "('a \<Rightarrow> 'a \<Rightarrow> int) \<Rightarrow> 'a list \<Rightarrow> 'a list" where
  "sort_by cmp xs = foldr (insort_by cmp) xs []"

definition collation :: "('a \<Rightarrow> 'a \<Rightarrow> int) \<Rightarrow> bool" where
  "collation cmp = ((\<forall>a b. cmp a b \<le> 0 \<or> cmp b a \<le> 0) \<and>
     (\<forall>a b c. cmp a b \<le> 0 \<longrightarrow> cmp b c \<le> 0 \<longrightarrow> cmp a c \<le> 0))"

definition ordered_by :: "('a \<Rightarrow> 'a \<Rightarrow> int) \<Rightarrow> 'a list \<Rightarrow> bool" where
  "ordered_by cmp xs = sorted_wrt (\<lambda>a b. cmp a b \<le> 0) xs"

lemma mset_insort_by [simp]: "mset (insort_by cmp x xs) = add_mset x (mset xs)"
  by (induction xs) auto

lemma mset_sort_by [simp]: "mset (sort_by cmp xs) = mset xs"
  by (induction xs) (simp_all add: sort_by_def)

lemma set_sort_by [simp]: "set (sort_by cmp xs) = set xs"
  using mset_sort_by by (rule mset_eq_setD)

lemma length_sort_by [simp]: "length (sort_by cmp xs) = length xs"
  using mset_sort_by by (rule mset_eq_length)

lemma distinct_sort_by [simp]: "distinct (sort_by cmp xs) = distinct xs"
  using mset_sort_by [of cmp xs] by (metis mset_eq_imp_distinct_iff)

lemma set_insort_by [simp]: "set (insort_by cmp x xs) = insert x (set xs)"
  by (induction xs) auto

lemma ordered_insort_by:
  assumes "\<And>y. y \<in> set xs \<Longrightarrow> cmp x y \<le> 0 \<or> cmp y x \<le> 0"
    and "\<And>y z. y \<in> set xs \<Longrightarrow> z \<in> set xs \<Longrightarrow> cmp x y \<le> 0 \<Longrightarrow> cmp y z \<le> 0 \<Longrightarrow> cmp x z \<le> 0"
    and "ordered_by cmp xs"
  shows "ordered_by cmp (insort_by cmp x xs)"
  using assms
proof (induction xs)
  case (Cons y ys)
  then have IH: "ordered_by cmp (insort_by cmp x ys)" by (auto simp: ordered_by_def)
  show ?case
  proof (cases "cmp x y \<le> 0")
    case True
    have "\<forall>z\<in>set ys. cmp x z \<le> 0"
      using True Cons.prems by (auto simp: ordered_by_def)
    with True Cons.prems(3) show ?thesis by (simp add: ordered_by_def)
  next
    case False
    then have "cmp y x \<le> 0" using Cons.prems(1) by force
    with False IH Cons.prems(3) show ?thesis by (simp add: ordered_by_def)
  qed
qed (simp add: ordered_by_def)

lemma ordered_sort_by: "collation cmp \<Longrightarrow> ordered_by cmp (sort_by cmp xs)"
proof (induction xs)
  case (Cons x xs)
  then have IH: "ordered_by cmp (sort_by cmp xs)" by simp
  have total: "cmp x y \<le> 0 \<or> cmp y x \<le> 0" for y using Cons.prems by (simp add: collation_def)
  have trans: "cmp x y \<le> 0 \<Longrightarrow> cmp y z \<le> 0 \<Longrightarrow> cmp x z \<le> 0" for y z
    using Cons.prems unfolding collation_def by blast
  from ordered_insort_by [OF total trans IH] show ?case by (simp add: sort_by_def)
qed (simp add: sort_by_def ordered_by_def)

text \<open>Only the comparisons of different elements matter when no element is repeated.\<close>

lemma insort_by_cong:
  "(\<And>y. y \<in> set xs \<Longrightarrow> cmp x y = cmp' x y) \<Longrightarrow> insort_by cmp x xs = insort_by cmp' x xs"
  by (induction xs) auto

lemma sort_by_cong:
  "distinct xs \<Longrightarrow> (\<And>x y. x \<in> set xs \<Longrightarrow> y \<in> set xs \<Longrightarrow> x \<noteq> y \<Longrightarrow> cmp x y = cmp' x y) \<Longrightarrow>
     sort_by cmp xs = sort_by cmp' xs"
proof (induction xs)
  case (Cons x xs)
  then have "sort_by cmp xs = sort_by cmp' xs" by simp
  moreover have "insort_by cmp x (sort_by cmp' xs) = insort_by cmp' x (sort_by cmp' xs)"
    using Cons.prems by (intro insort_by_cong) auto
  ultimately show ?case by (simp add: sort_by_def)
qed (simp add: sort_by_def)

text \<open>A comparator by code units, the one a browser without locale data would use.\<close>

definition unit_compare :: "string \<Rightarrow> string \<Rightarrow> int" where
  "unit_compare a b = (if a = b then 0 else if a < b then - 1 else 1)"

lemma unit_compare_collation: "collation unit_compare"
  by (auto simp: collation_def unit_compare_def split: if_splits)

end
