(* ===== verification/Iam.thy ===== *)
theory Iam
  imports Collation ApiTypes JsJson
begin

text \<open>
  Users, roles and permissions, \<open>src/web/src/lib/iam.ts\<close>: scope labels, the roles that can still be
  bound, and the grouping of a role's permissions by resource.
\<close>

section \<open>Labels\<close>

definition formatScope :: "Scope option \<Rightarrow> units" where
  "formatScope scope = (case scope of
     None \<Rightarrow> u16 ''all''
   | Some s \<Rightarrow> if s = [] then u16 ''all''
       else join [32, 0xB7, 32] (map (\<lambda>c.
         let op = (if scope_op c = OpNotIn then [0x2260] else u16 ''='')
         in u16 (scope_dimension c) @ op @ u16 (join '','' (scope_values c))) s))"

definition iamUserLabel :: "IamUser option \<Rightarrow> string" where
  "iamUserLabel user = (case user of
     None \<Rightarrow> ''Unknown user''
   | Some u \<Rightarrow> opt_or (iamuser_name u) (opt_or (iamuser_email u) (or_else (iamuser_oidc_subject u) (iamuser_id u))))"

definition rolesAvailableToBind :: "IamRole list \<Rightarrow> string list \<Rightarrow> IamRole list" where
  "rolesAvailableToBind roles assignedRoles = filter (\<lambda>role. iamrole_name role \<notin> set assignedRoles) roles"

section \<open>Permissions by resource\<close>

record PermissionGroup =
  pg_actions :: "string list"
  pg_permissions :: "string list"
  pg_resource :: string

definition resource_of :: "RolePermission \<Rightarrow> string" where
  "resource_of p = or_else (roleperm_resource p) ''unknown''"

text \<open>\<open>if (value && !list.includes(value)) list.push(value)\<close>\<close>

definition push_new :: "string \<Rightarrow> string list \<Rightarrow> string list" where
  "push_new v xs = (if v \<noteq> [] \<and> v \<notin> set xs then xs @ [v] else xs)"

definition add_permission :: "RolePermission \<Rightarrow> PermissionGroup \<Rightarrow> PermissionGroup" where
  "add_permission p grp =
    (let g1 = grp\<lparr>pg_actions := push_new (roleperm_action p) (pg_actions grp)\<rparr>
     in g1\<lparr>pg_permissions := push_new (roleperm_permission p) (pg_permissions g1)\<rparr>)"

definition fresh_group :: "string \<Rightarrow> PermissionGroup" where
  "fresh_group resource = \<lparr>pg_actions = [], pg_permissions = [], pg_resource = resource\<rparr>"

primrec group_permissions :: "RolePermission list \<Rightarrow> (string, PermissionGroup) jsmap \<Rightarrow> (string, PermissionGroup) jsmap" where
  "group_permissions [] groups = groups"
| "group_permissions (p # ps) groups =
    (let resource = resource_of p;
         grp = (case map_of groups resource of None \<Rightarrow> fresh_group resource | Some g \<Rightarrow> g)
     in group_permissions ps (AList.update resource (add_permission p grp) groups))"

definition groupRolePermissions :: "(string \<Rightarrow> string \<Rightarrow> int) \<Rightarrow> RolePermission list \<Rightarrow> PermissionGroup list" where
  "groupRolePermissions localeCompare permissions =
     sort_by (\<lambda>l r. localeCompare (pg_resource l) (pg_resource r))
       (map (\<lambda>grp. grp\<lparr>pg_actions := js_sort (pg_actions grp), pg_permissions := js_sort (pg_permissions grp)\<rparr>)
         (map snd (group_permissions permissions [])))"

section \<open>Facts\<close>

lemma group_permissions_loop:
  "group_permissions ps groups = jsmap.group_loop resource_of fresh_group add_permission ps groups"
  by (induction ps arbitrary: groups) (simp_all add: Let_def)

lemma push_new_facts [simp]:
  "set (push_new v xs) = set xs \<union> ({v} - {[]})" "distinct xs \<Longrightarrow> distinct (push_new v xs)"
  by (auto simp: push_new_def)

lemma fold_add_permission:
  "pg_resource (fold add_permission ps g) = pg_resource g"
  "set (pg_actions (fold add_permission ps g)) = set (pg_actions g) \<union> (roleperm_action ` set ps - {[]})"
  "set (pg_permissions (fold add_permission ps g)) = set (pg_permissions g) \<union> (roleperm_permission ` set ps - {[]})"
  "distinct (pg_actions g) \<Longrightarrow> distinct (pg_actions (fold add_permission ps g))"
  "distinct (pg_permissions g) \<Longrightarrow> distinct (pg_permissions (fold add_permission ps g))"
  by (induction ps arbitrary: g) (auto simp: add_permission_def Let_def)

lemma jsmap_member: "distinct (jsmap_keys m) \<Longrightarrow> (k, v) \<in> set m \<longleftrightarrow> map_of m k = Some v"
  by (auto intro: map_of_SomeD)

lemma group_permissions_member:
  "(k, g) \<in> set (group_permissions ps []) \<longleftrightarrow>
     k \<in> resource_of ` set ps \<and> g = fold add_permission (filter (\<lambda>p. resource_of p = k) ps) (fresh_group k)"
proof -
  have "distinct (jsmap_keys (group_permissions ps []))"
    unfolding group_permissions_loop by (rule jsmap.group_loop_distinct)
  then show ?thesis
    by (subst jsmap_member, assumption, unfold group_permissions_loop, subst jsmap.group_loop_get) auto
qed

lemma group_permissions_keys: "jsmap_keys (group_permissions ps []) = set_of [] (map resource_of ps)"
  unfolding group_permissions_loop by (subst jsmap.group_loop_keys) simp_all

text \<open>
  The permission groups are a faithful, ordered partition. For any collation: there is exactly one
  group per resource named by some permission (a missing resource counts as "unknown"), in the
  order of the collation; a group lists exactly the non-empty actions and permission names of its
  resource, each once, in code unit order.
\<close>

theorem permission_groups:
  assumes "collation localeCompare"
  shows "let gs = groupRolePermissions localeCompare ps in
    distinct (map pg_resource gs) \<and> set (map pg_resource gs) = resource_of ` set ps \<and>
    ordered_by localeCompare (map pg_resource gs) \<and>
    (\<forall>g\<in>set gs.
       set (pg_actions g) = roleperm_action ` {p \<in> set ps. resource_of p = pg_resource g} - {[]} \<and>
       set (pg_permissions g) = roleperm_permission ` {p \<in> set ps. resource_of p = pg_resource g} - {[]} \<and>
       sorted (pg_actions g) \<and> distinct (pg_actions g) \<and> sorted (pg_permissions g) \<and> distinct (pg_permissions g))"
proof -
  let ?m = "group_permissions ps []"
  let ?fin = "\<lambda>g. g\<lparr>pg_actions := js_sort (pg_actions g), pg_permissions := js_sort (pg_permissions g)\<rparr>"
  let ?gs = "groupRolePermissions localeCompare ps"
  let ?cmp = "\<lambda>l r. localeCompare (pg_resource l) (pg_resource r)"
  have gs: "?gs = sort_by ?cmp (map ?fin (map snd ?m))" by (simp add: groupRolePermissions_def)
  have res: "pg_resource g = k" if "(k, g) \<in> set ?m" for k g
    using that by (simp add: group_permissions_member fold_add_permission fresh_group_def)
  then have keys: "map pg_resource (map ?fin (map snd ?m)) = jsmap_keys ?m"
    by (auto simp: comp_def intro!: map_cong)
  have mset: "mset (map pg_resource ?gs) = mset (jsmap_keys ?m)"
    unfolding keys [symmetric] by (simp add: gs del: map_map)
  have d: "distinct (map pg_resource ?gs)" "set (map pg_resource ?gs) = resource_of ` set ps"
    using mset_eq_imp_distinct_iff [OF mset] mset_eq_setD [OF mset] by (simp_all add: group_permissions_keys)
  have "collation ?cmp" using assms by (simp add: collation_def)
  then have "ordered_by ?cmp ?gs" unfolding gs by (rule ordered_sort_by)
  then have o: "ordered_by localeCompare (map pg_resource ?gs)" by (simp add: ordered_by_def sorted_wrt_map)
  have "set (pg_actions g) = roleperm_action ` {p \<in> set ps. resource_of p = pg_resource g} - {[]} \<and>
       set (pg_permissions g) = roleperm_permission ` {p \<in> set ps. resource_of p = pg_resource g} - {[]} \<and>
       sorted (pg_actions g) \<and> distinct (pg_actions g) \<and> sorted (pg_permissions g) \<and> distinct (pg_permissions g)"
    if "g \<in> set ?gs" for g
  proof -
    obtain k g0 where "(k, g0) \<in> set ?m" and g: "g = ?fin g0" using \<open>g \<in> set ?gs\<close> by (auto simp: gs)
    then have "g0 = fold add_permission (filter (\<lambda>p. resource_of p = k) ps) (fresh_group k)" "pg_resource g0 = k"
      using res by (simp_all add: group_permissions_member)
    then show ?thesis by (simp add: g fold_add_permission fresh_group_def)
  qed
  with d o show ?thesis by (simp add: Let_def)
qed

theorem permission_groups_witness:
  "map pg_resource (groupRolePermissions unit_compare
     [\<lparr>roleperm_action = ''write'', roleperm_permission = ''iam.user:write'', roleperm_resource = ''iam.user''\<rparr>,
      \<lparr>roleperm_action = ''read'', roleperm_permission = ''aws:read'', roleperm_resource = ''aws''\<rparr>]) = [''aws'', ''iam.user''] \<and>
   list_all (\<lambda>g. sorted (pg_actions g)) (groupRolePermissions unit_compare
     [\<lparr>roleperm_action = ''write'', roleperm_permission = ''iam.user:write'', roleperm_resource = ''iam.user''\<rparr>,
      \<lparr>roleperm_action = ''read'', roleperm_permission = ''aws:read'', roleperm_resource = ''aws''\<rparr>])"
proof -
  let ?ps = "[\<lparr>roleperm_action = ''write'', roleperm_permission = ''iam.user:write'', roleperm_resource = ''iam.user''\<rparr>,
      \<lparr>roleperm_action = ''read'', roleperm_permission = ''aws:read'', roleperm_resource = ''aws''\<rparr>]"
  have "map pg_resource (groupRolePermissions unit_compare ?ps) = [''aws'', ''iam.user'']" by code_simp
  with permission_groups [OF unit_compare_collation, of ?ps] show ?thesis by (simp only: Let_def list_all_iff) simp
qed

lemma join_contains: "xs \<noteq> [] \<Longrightarrow> x \<in> set (hd xs) \<Longrightarrow> x \<in> set (join sep xs)"
  by (cases "(sep, xs)" rule: join.cases) auto

text \<open>
  The label "all" is shown for an unscoped permission and for nothing else: a scope with at least
  one constraint always shows an operator sign, so a restricted permission never reads as
  unrestricted. The roles offered for binding are exactly those not yet assigned, and binding one
  removes it and nothing else from the offer.
\<close>

theorem scope_label_and_bindable_roles:
  "(formatScope sc = u16 ''all'' \<longleftrightarrow> sc = None \<or> sc = Some []) \<and>
   set (rolesAvailableToBind roles assigned) = {r \<in> set roles. iamrole_name r \<notin> set assigned} \<and>
   rolesAvailableToBind roles (n # assigned) = filter (\<lambda>r. iamrole_name r \<noteq> n) (rolesAvailableToBind roles assigned)"
proof -
  have "formatScope (Some (c # cs)) \<noteq> u16 ''all''" for c cs
  proof -
    have "\<exists>x \<in> {61, 0x2260}. x \<in> set (formatScope (Some (c # cs)))"
      by (cases "scope_op c = OpNotIn")
        (auto simp: formatScope_def Let_def u16_def intro!: join_contains)
    then show ?thesis by (auto simp: u16_def)
  qed
  moreover have "formatScope None = u16 ''all''" "formatScope (Some []) = u16 ''all''"
    by (simp_all add: formatScope_def)
  ultimately have "formatScope sc = u16 ''all'' \<longleftrightarrow> sc = None \<or> sc = Some []"
    by (cases sc rule: option.exhaust) (metis list.exhaust option.inject, metis list.exhaust)
  then show ?thesis by (auto simp: rolesAvailableToBind_def intro: filter_cong)
qed

end
