(* ===== verification/Basename.thy ===== *)
theory Basename
  imports ApiEndpoints
begin

text \<open>
  Mount prefixes and the URLs built from them: \<open>src/web/src/lib/basename.ts\<close>, the OIDC redirect of
  \<open>src/web/src/api/auth.ts\<close> and the audit redirect of \<open>src/web/src/app/router.tsx\<close>. \<open>BASE_URL\<close> is set
  by the build and therefore a parameter.
\<close>

text \<open>\<open>baseURL.replace(/\/+$/, "")\<close>: the run of slashes that ends the text is removed.\<close>

definition appBasename :: "string \<Rightarrow> string" where
  "appBasename baseURL = rev (dropWhile (\<lambda>c. c = CHR ''/'') (rev baseURL))"

definition fullPath :: "string \<Rightarrow> string \<Rightarrow> string" where
  "fullPath routerPath baseURL =
    (if routerPath = [] \<or> routerPath = ''/'' then or_else baseURL ''/''
     else appBasename baseURL @ (if startsWith routerPath ''/'' then routerPath else CHR ''/'' # routerPath))"

text \<open>The URL \<open>beginOidcLogin\<close> assigns to \<open>window.location.href\<close>.\<close>

definition beginOidcLogin :: "string \<Rightarrow> string \<Rightarrow> string" where
  "beginOidcLogin BASE_URL routerPath =
     ''/auth/oidc/login?next='' @ encodeURIComponent (fullPath routerPath BASE_URL)"

text \<open>\<open>SessionsRoute\<close>: the audit mode of the old sessions page is redirected to the audit page.\<close>

datatype sessions_route = RedirectTo string | ShowSessionsPage

definition SessionsRoute :: "search_params \<Rightarrow> sessions_route" where
  "SessionsRoute search =
    (if params_get search ''mode'' = Some ''audit'' then
       (let query = params_str (params_delete ''mode'' search)
        in RedirectTo (if query \<noteq> [] then ''/audit?'' @ query else ''/audit''))
     else ShowSessionsPage)"

section \<open>Facts\<close>

lemma appBasename_no_trailing: "appBasename b = [] \<or> last (appBasename b) \<noteq> CHR ''/''"
  using hd_dropWhile [of "\<lambda>c. c = CHR ''/''" "rev b"] by (auto simp: appBasename_def last_rev)

lemma appBasename_strip: "appBasename (b @ replicate n CHR ''/'') = appBasename b"
proof -
  have "dropWhile (\<lambda>c. c = CHR ''/'') (replicate n CHR ''/'' @ xs) = dropWhile (\<lambda>c. c = CHR ''/'') xs" for xs
    by (induction n) simp_all
  then show ?thesis by (simp add: appBasename_def)
qed

lemma pct_decode_head: "plus_space (encodeURIComponent s) = encodeURIComponent s"
  by (rule plus_space_id) (auto dest!: set_encodeURIComponent simp: uri_unreserved_def is_alnum_def)

lemma query_of_component:
  assumes "k \<noteq> []" "list_all is_alnum k"
  shows "params_parse (k @ CHR ''='' # encodeURIComponent v) = Some [(k, v)]"
proof -
  have k: "CHR ''='' \<notin> set k" "CHR ''&'' \<notin> set k" "CHR ''+'' \<notin> set k" "CHR ''%'' \<notin> set k"
    using assms(2) by (auto simp: list_all_iff is_alnum_def)
  have "pct_decode k = Some k" using k(4) by (induction k) (auto simp: pct_decode.simps(1) pct_decode.simps(2) [where s = "_"])
  then have fk: "form_dec k = Some k" using k(3) by (simp add: form_dec_def plus_space_id)
  have fv: "form_dec (encodeURIComponent v) = Some v"
    by (simp add: form_dec_def pct_decode_head pct_decode_encodeURIComponent)
  have "CHR ''&'' \<notin> set (k @ CHR ''='' # encodeURIComponent v)"
    using k encodeURIComponent_no_delim(4) by auto
  moreover have "cut_eq (k @ CHR ''='' # encodeURIComponent v) = (k, encodeURIComponent v)"
    using k(1) by (auto simp: cut_eq_def takeWhile_append dropWhile_append)
  ultimately show ?thesis
    using fk fv assms(1) by (simp add: params_parse_def split_on_no_sep pair_dec_def)
qed

text \<open>
  The mount prefix in front of a route can be taken off again: a slash-led route other than the
  root becomes the base without its trailing slashes followed by the route itself, so two
  different routes never get the same full path, and under the root mount the path is unchanged.
\<close>

theorem fullPath_route:
  assumes "startsWith route ''/''" "route \<noteq> ''/''"
  shows "fullPath route b = appBasename b @ route \<and>
    (appBasename b = [] \<or> last (appBasename b) \<noteq> CHR ''/'') \<and>
    fullPath route (b @ replicate n CHR ''/'') = fullPath route b \<and>
    fullPath route ''/'' = route"
proof -
  have "route \<noteq> []" using assms by (auto simp: startsWith_def)
  with assms have full: "fullPath route b = appBasename b @ route" for b
    by (simp add: fullPath_def)
  have "appBasename ''/'' = []" by (simp add: appBasename_def)
  then show ?thesis by (simp add: full appBasename_strip appBasename_no_trailing)
qed

theorem fullPath_route_witness:
  "fullPath ''/cmdb'' ''/portal//'' = ''/portal/cmdb'' \<and> fullPath ''/cmdb'' ''/'' = ''/cmdb''"
  using fullPath_route [of "''/cmdb''" "''/portal''" 2] fullPath_route [of "''/cmdb''" "''/''" 0]
  by (simp add: startsWith_def appBasename_def numeral_2_eq_2)

text \<open>
  The redirect target of an OIDC login survives the trip through the URL: the query of the
  address the browser is sent to is read back as exactly one parameter, \<open>next\<close>, with the full path
  of the requested route as its value, whatever characters the route has (an ampersand or a
  question mark in a deep link included).
\<close>

theorem beginOidcLogin_next:
  "\<exists>q. beginOidcLogin b route = ''/auth/oidc/login?'' @ q \<and>
       URLSearchParams (CHR ''?'' # q) = Some [(''next'', fullPath route b)]"
proof -
  let ?q = "''next'' @ CHR ''='' # encodeURIComponent (fullPath route b)"
  have "beginOidcLogin b route = ''/auth/oidc/login?'' @ ?q" by (simp add: beginOidcLogin_def)
  moreover have "params_parse ?q = Some [(''next'', fullPath route b)]"
    by (rule query_of_component) (simp_all add: is_alnum_def)
  then have "URLSearchParams (CHR ''?'' # ?q) = Some [(''next'', fullPath route b)]"
    by (simp add: URLSearchParams_def startsWith_def)
  ultimately show ?thesis by blast
qed

text \<open>
  The audit redirect keeps every parameter but the mode: a sessions URL whose mode is not
  audit shows the sessions page; one with the audit mode is sent to the audit page with a query
  that reads back as the other parameters, in their order.
\<close>

theorem SessionsRoute_keeps_params:
  "if params_get search ''mode'' = Some ''audit''
   then (\<exists>q. SessionsRoute search = RedirectTo (''/audit'' @ q) \<and>
          URLSearchParams q = Some (filter (\<lambda>p. fst p \<noteq> ''mode'') search))
   else SessionsRoute search = ShowSessionsPage"
proof (cases "params_get search ''mode'' = Some ''audit''")
  case True
  let ?ps = "params_delete ''mode'' search"
  let ?q = "if ?ps = [] then [] else CHR ''?'' # params_str ?ps"
  have "SessionsRoute search = RedirectTo (''/audit'' @ ?q)"
    using True by (simp add: SessionsRoute_def Let_def)
  moreover have "URLSearchParams ?q = Some ?ps"
    using URLSearchParams_str [of ?ps] params_parse_str [of "[]"]
    by (auto simp: URLSearchParams_def startsWith_def params_str_def)
  ultimately show ?thesis using True unfolding params_delete_def by auto
qed (simp add: SessionsRoute_def)

end
