(* ===== verification/Preferences.thy ===== *)
theory Preferences
  imports ApiEndpoints
begin

text \<open>
  Values the portal keeps in \<open>localStorage\<close>: the access token (\<open>readStoredToken\<close> and
  \<open>persistToken\<close> of \<open>AuthProvider.tsx\<close>), the asset view mode (\<open>src/web/src/lib/assetView.ts\<close>)
  and the theme store of \<open>src/web/src/hooks/useTheme.ts\<close>. Storage access can throw (restricted
  browser modes, a full store, no \<open>window\<close>); the program catches every such exception. The
  locale \<open>preference\<close> is the contract the three have in common, interpreted for each.
\<close>

section \<open>localStorage\<close>

text \<open>
  \<open>st_readable\<close>: \<open>getItem\<close> returns instead of throwing; \<open>st_writable\<close>: \<open>setItem\<close> and
  \<open>removeItem\<close> do. A thrown exception is \<open>None\<close>.
\<close>

record local_storage =
  st_readable :: bool
  st_writable :: bool
  st_items :: "string \<rightharpoonup> string"

definition getItem :: "local_storage \<Rightarrow> string \<Rightarrow> string option option" where
  "getItem st k = (if st_readable st then Some (st_items st k) else None)"

definition setItem :: "string \<Rightarrow> string \<Rightarrow> local_storage \<Rightarrow> local_storage option" where
  "setItem k v st = (if st_writable st then Some (st\<lparr>st_items := (st_items st)(k \<mapsto> v)\<rparr>) else None)"

definition removeItem :: "string \<Rightarrow> local_storage \<Rightarrow> local_storage option" where
  "removeItem k st = (if st_writable st then Some (st\<lparr>st_items := (st_items st)(k := None)\<rparr>) else None)"

text \<open>\<open>try { ... } catch { }\<close>: an exception leaves the store as it was.\<close>

definition best_effort :: "local_storage \<Rightarrow> local_storage option \<Rightarrow> local_storage" where
  "best_effort st r = (case r of None \<Rightarrow> st | Some st' \<Rightarrow> st')"

definition usable :: "local_storage \<Rightarrow> bool" where
  "usable st = (st_readable st \<and> st_writable st)"

text \<open>
  The contract of a stored preference: what is stored is what is loaded next, storing never
  makes the store unusable nor touches another key, and on an unusable store nothing changes.
\<close>

locale preference =
  fixes load :: "local_storage \<Rightarrow> 'a"
    and store :: "'a \<Rightarrow> local_storage \<Rightarrow> local_storage"
    and key :: string
    and valid :: "'a \<Rightarrow> bool"
  assumes load_store: "usable st \<Longrightarrow> valid v \<Longrightarrow> load (store v st) = v"
    and store_frame: "k \<noteq> key \<Longrightarrow> st_items (store v st) k = st_items st k"
    and store_flags: "st_readable (store v st) = st_readable st" "st_writable (store v st) = st_writable st"
    and store_unwritable: "\<not> st_writable st \<Longrightarrow> store v st = st"
begin

lemma store_usable: "usable (store v st) = usable st"
  by (simp add: usable_def store_flags)

lemma last_store_wins:
  assumes "usable st" "valid v"
  shows "load (store v (fold store vs st)) = v"
proof -
  have "usable (fold store vs st)"
    using assms(1) by (induction vs arbitrary: st) (simp_all add: store_usable)
  then show ?thesis using assms(2) by (rule load_store)
qed

lemma stores_frame: "k \<noteq> key \<Longrightarrow> st_items (fold store vs st) k = st_items st k"
  by (induction vs arbitrary: st) (simp_all add: store_frame)

end

lemmas storage_defs = getItem_def setItem_def removeItem_def best_effort_def usable_def

section \<open>The access token\<close>

definition readStoredToken :: "local_storage \<Rightarrow> string" where
  "readStoredToken st = (case getItem st TOKEN_STORAGE_KEY of None \<Rightarrow> [] | Some v \<Rightarrow> opt_or v [])"

definition persistToken :: "string \<Rightarrow> local_storage \<Rightarrow> local_storage" where
  "persistToken token st = best_effort st
     (if token \<noteq> [] then setItem TOKEN_STORAGE_KEY token st else removeItem TOKEN_STORAGE_KEY st)"

interpretation token_pref: preference readStoredToken persistToken TOKEN_STORAGE_KEY "\<lambda>_. True"
  by unfold_locales (auto simp: readStoredToken_def persistToken_def storage_defs or_else_def)

section \<open>The asset view mode\<close>

datatype AssetViewMode = ListView | TreeView

fun AssetViewMode_str :: "AssetViewMode \<Rightarrow> string" where
  "AssetViewMode_str ListView = ''list''"
| "AssetViewMode_str TreeView = ''tree''"

definition ASSET_VIEW_MODE_KEY :: string where
  "ASSET_VIEW_MODE_KEY = ''ops_platform_asset_view_mode''"

definition readAssetViewMode :: "local_storage \<Rightarrow> AssetViewMode" where
  "readAssetViewMode st = (case getItem st ASSET_VIEW_MODE_KEY of
     None \<Rightarrow> ListView
   | Some v \<Rightarrow> if v = Some ''tree'' then TreeView else ListView)"

definition writeAssetViewMode :: "AssetViewMode \<Rightarrow> local_storage \<Rightarrow> local_storage" where
  "writeAssetViewMode m st = best_effort st (setItem ASSET_VIEW_MODE_KEY (AssetViewMode_str m) st)"

interpretation view_pref: preference readAssetViewMode writeAssetViewMode ASSET_VIEW_MODE_KEY "\<lambda>_. True"
proof (unfold_locales, goal_cases)
  case (1 st v)
  then show ?case
    by (cases v) (simp_all add: readAssetViewMode_def writeAssetViewMode_def storage_defs)
qed (auto simp: writeAssetViewMode_def storage_defs)

section \<open>The theme store\<close>

datatype ThemeMode = SystemTheme | LightTheme | DarkTheme

fun ThemeMode_str :: "ThemeMode \<Rightarrow> string" where
  "ThemeMode_str SystemTheme = ''system''"
| "ThemeMode_str LightTheme = ''light''"
| "ThemeMode_str DarkTheme = ''dark''"

definition STORAGE_KEY :: string where
  "STORAGE_KEY = ''ops_platform_theme''"

definition SUPPORTED :: "ThemeMode list" where
  "SUPPORTED = [SystemTheme, LightTheme, DarkTheme]"

text \<open>\<open>isThemeMode\<close> narrows a stored string to a mode.\<close>

definition isThemeMode :: "string option \<Rightarrow> bool" where
  "isThemeMode v = (case v of None \<Rightarrow> False | Some s \<Rightarrow> s \<in> set (map ThemeMode_str SUPPORTED))"

definition as_mode :: "string \<Rightarrow> ThemeMode" where
  "as_mode s = (if s = ''light'' then LightTheme else if s = ''dark'' then DarkTheme else SystemTheme)"

definition readStored :: "local_storage \<Rightarrow> ThemeMode" where
  "readStored st = (case getItem st STORAGE_KEY of
     None \<Rightarrow> SystemTheme
   | Some raw \<Rightarrow> if isThemeMode raw then as_mode (the raw) else SystemTheme)"

text \<open>
  The module's state: the current mode, the \<open>data-theme\<close> attribute of the document element (absent
  or a value), the subscribed listeners in subscription order, and the store.
\<close>

record theme_state =
  theme_current :: ThemeMode
  theme_attr :: "string option"
  theme_document :: bool
  theme_listeners :: "nat list"
  theme_storage :: local_storage

definition applyThemeAttribute :: "ThemeMode \<Rightarrow> theme_state \<Rightarrow> theme_state" where
  "applyThemeAttribute mode s = (if \<not> theme_document s then s
     else s\<lparr>theme_attr := (if mode = SystemTheme then None else Some (ThemeMode_str mode))\<rparr>)"

definition persist_mode :: "ThemeMode \<Rightarrow> local_storage \<Rightarrow> local_storage" where
  "persist_mode mode st = best_effort st
     (if mode = SystemTheme then removeItem STORAGE_KEY st else setItem STORAGE_KEY (ThemeMode_str mode) st)"

text \<open>\<open>publish\<close> returns the new state and the listeners it calls, in order.\<close>

definition publish :: "ThemeMode \<Rightarrow> theme_state \<Rightarrow> theme_state \<times> nat list" where
  "publish mode s =
    (let s1 = applyThemeAttribute mode (s\<lparr>theme_current := mode\<rparr>);
         s2 = s1\<lparr>theme_storage := persist_mode mode (theme_storage s1)\<rparr>
     in (s2, theme_listeners s2))"

definition subscribe :: "nat \<Rightarrow> theme_state \<Rightarrow> theme_state" where
  "subscribe cb s = s\<lparr>theme_listeners := set_add cb (theme_listeners s)\<rparr>"

definition unsubscribe :: "nat \<Rightarrow> theme_state \<Rightarrow> theme_state" where
  "unsubscribe cb s = s\<lparr>theme_listeners := filter (\<lambda>x. x \<noteq> cb) (theme_listeners s)\<rparr>"

definition snapshot :: "theme_state \<Rightarrow> ThemeMode" where
  "snapshot s = theme_current s"

text \<open>Module load: \<open>current = readStored()\<close>, then the attribute is applied once.\<close>

definition theme_init :: "bool \<Rightarrow> local_storage \<Rightarrow> theme_state" where
  "theme_init doc st = applyThemeAttribute (readStored st)
     \<lparr>theme_current = readStored st, theme_attr = None, theme_document = doc, theme_listeners = [],
      theme_storage = st\<rparr>"

definition index_of :: "'a \<Rightarrow> 'a list \<Rightarrow> int" where
  "index_of x xs = (if x \<in> set xs then int (length (takeWhile (\<lambda>y. y \<noteq> x) xs)) else - 1)"

definition next_mode :: "ThemeMode \<Rightarrow> ThemeMode" where
  "next_mode m = (let order = [SystemTheme, LightTheme, DarkTheme]; idx = index_of m order
     in order ! nat ((idx + 1) mod int (length order)))"

definition cycleMode :: "theme_state \<Rightarrow> theme_state \<times> nat list" where
  "cycleMode s = publish (next_mode (snapshot s)) s"

text \<open>The media query answers, when \<open>matchMedia\<close> exists, whether the system prefers dark.\<close>

definition useResolvedTheme :: "bool option \<Rightarrow> ThemeMode \<Rightarrow> ThemeMode" where
  "useResolvedTheme prefers_dark mode =
    (if mode = LightTheme \<or> mode = DarkTheme then mode
     else (case prefers_dark of None \<Rightarrow> LightTheme | Some d \<Rightarrow> if d then DarkTheme else LightTheme))"

interpretation theme_pref: preference readStored persist_mode STORAGE_KEY "\<lambda>_. True"
proof (unfold_locales, goal_cases)
  case (1 st v)
  then show ?case
    by (cases v)
      (simp_all add: readStored_def persist_mode_def storage_defs isThemeMode_def SUPPORTED_def as_mode_def)
qed (auto simp: persist_mode_def storage_defs)

text \<open>The attribute always shows the mode: no attribute means "follow the system".\<close>

definition theme_inv :: "theme_state \<Rightarrow> bool" where
  "theme_inv s = (theme_document s \<longrightarrow> theme_attr s =
     (if theme_current s = SystemTheme then None else Some (ThemeMode_str (theme_current s))))"

datatype theme_op = SetMode ThemeMode | CycleMode | Subscribe nat | Unsubscribe nat

fun theme_step :: "theme_op \<Rightarrow> theme_state \<Rightarrow> theme_state" where
  "theme_step (SetMode m) s = fst (publish m s)"
| "theme_step CycleMode s = fst (cycleMode s)"
| "theme_step (Subscribe cb) s = subscribe cb s"
| "theme_step (Unsubscribe cb) s = unsubscribe cb s"

lemmas theme_defs = publish_def cycleMode_def subscribe_def unsubscribe_def snapshot_def
  applyThemeAttribute_def

lemma publish_fields [simp]:
  "theme_current (fst (publish m s)) = m"
  "theme_storage (fst (publish m s)) = persist_mode m (theme_storage s)"
  "theme_document (fst (publish m s)) = theme_document s"
  "theme_listeners (fst (publish m s)) = theme_listeners s"
  "snd (publish m s) = theme_listeners s"
  by (simp_all add: theme_defs Let_def)

lemma theme_inv_init: "theme_inv (theme_init doc st)"
  by (simp add: theme_inv_def theme_init_def applyThemeAttribute_def)

lemma theme_inv_publish: "theme_inv (fst (publish m s))"
  by (simp add: theme_inv_def theme_defs Let_def)

lemma theme_inv_step: "theme_inv s \<Longrightarrow> theme_inv (theme_step op s)"
  by (cases op) (simp_all add: theme_inv_publish cycleMode_def, simp_all add: theme_inv_def theme_defs)

lemma next_mode_simps [simp]:
  "next_mode SystemTheme = LightTheme" "next_mode LightTheme = DarkTheme" "next_mode DarkTheme = SystemTheme"
  by (simp_all add: next_mode_def index_of_def)

section \<open>Properties\<close>

text \<open>A reload reads back what is shown, as long as the store works.\<close>

definition theme_kept :: "theme_state \<Rightarrow> bool" where
  "theme_kept s = (usable (theme_storage s) \<longrightarrow> readStored (theme_storage s) = theme_current s)"

lemma theme_kept_publish: "theme_kept (fst (publish m s))"
  by (simp add: theme_kept_def theme_pref.load_store theme_pref.store_usable)

lemma theme_run_inv: "theme_inv s \<and> theme_kept s \<Longrightarrow> theme_inv (fold theme_step ops s) \<and> theme_kept (fold theme_step ops s)"
proof (induction ops arbitrary: s)
  case (Cons op ops)
  have "theme_kept (theme_step op s)"
    using Cons.prems theme_kept_publish by (cases op) (simp_all add: cycleMode_def, simp_all add: theme_kept_def theme_defs)
  then show ?case using Cons theme_inv_step by simp
qed simp

lemma theme_run_flags: "usable (theme_storage (fold theme_step ops s)) = usable (theme_storage s) \<and>
    theme_document (fold theme_step ops s) = theme_document s"
proof (induction ops arbitrary: s)
  case (Cons op ops)
  have "usable (theme_storage (theme_step op s)) = usable (theme_storage s) \<and>
      theme_document (theme_step op s) = theme_document s"
    by (cases op) (simp_all add: theme_pref.store_usable cycleMode_def, simp_all add: theme_defs)
  then show ?case using Cons [of "theme_step op s"] by simp
qed simp

text \<open>
  The theme shown is the theme chosen, also after a reload. From a fresh page, after any sequence
  of choices, cycles and subscriptions: the \<open>data-theme\<close> attribute is the current mode (absent for
  "system"), a reload on a working store starts in the same mode, every listener subscribed at the
  time of a choice is called, and three cycles lead back to the start.
\<close>

theorem theme_survives_reload:
  assumes "usable st"
  shows "let s = fold theme_step ops (theme_init True st) in
    theme_attr s = (if theme_current s = SystemTheme then None else Some (ThemeMode_str (theme_current s))) \<and>
    theme_current (theme_init True (theme_storage s)) = theme_current s \<and>
    theme_attr (theme_init True (theme_storage s)) = theme_attr s \<and>
    snd (publish m s) = theme_listeners s \<and>
    theme_current (fold theme_step [CycleMode, CycleMode, CycleMode] s) = theme_current s"
proof -
  let ?s = "fold theme_step ops (theme_init True st)"
  have start: "theme_inv (theme_init True st)" "theme_kept (theme_init True st)"
    by (simp_all add: theme_inv_init, simp add: theme_kept_def theme_init_def applyThemeAttribute_def)
  then have s: "theme_inv ?s" "theme_kept ?s" using theme_run_inv by blast+
  have fl: "usable (theme_storage ?s)" "theme_document ?s"
    using theme_run_flags [of ops "theme_init True st"] assms by (simp_all add: theme_init_def applyThemeAttribute_def)
  have "theme_current (fold theme_step [CycleMode, CycleMode, CycleMode] t) = theme_current t" for t
    by (cases "theme_current t") (simp_all add: cycleMode_def snapshot_def)
  then show ?thesis
    using s fl by (simp add: Let_def theme_inv_def theme_kept_def theme_init_def applyThemeAttribute_def)
qed

theorem theme_survives_reload_witness:
  "theme_current (theme_init True (theme_storage (fold theme_step [SetMode DarkTheme, CycleMode, CycleMode]
     (theme_init True \<lparr>st_readable = True, st_writable = True, st_items = Map.empty\<rparr>)))) = LightTheme"
  using theme_survives_reload [of "\<lparr>st_readable = True, st_writable = True, st_items = Map.empty\<rparr>"
      "[SetMode DarkTheme, CycleMode, CycleMode]"]
  by (simp add: usable_def Let_def cycleMode_def snapshot_def)

end
