(* ===== verification/Permissions.thy ===== *)
theory Permissions
  imports ApiTypes
begin

text \<open>
  Permission checks of the portal: \<open>src/web/src/lib/permissions.ts\<close> and the capability list of
  \<open>src/web/src/lib/access.ts\<close>. The super-permission \<open>system:admin\<close> grants everything; an absent
  permission list grants nothing.
\<close>

definition knownPermissions :: "string list" where
  "knownPermissions = [''system:admin'', ''cmdb.asset:read'', ''cmdb.asset:write'', ''aws.account:read'',
     ''aws.account:write'', ''iam.user:read'', ''iam.user:write'', ''bastion.grant:read'',
     ''bastion.grant:write'', ''bastion.request:read'', ''bastion.request:write'',
     ''bastion.session:connect'', ''bastion.session:read'']"

definition hasPermission :: "string list option \<Rightarrow> string \<Rightarrow> bool" where
  "hasPermission granted permission = (case granted of
     None \<Rightarrow> False
   | Some g \<Rightarrow> ''system:admin'' \<in> set g \<or> permission \<in> set g)"

definition createPermissionChecker :: "string list option \<Rightarrow> string \<Rightarrow> bool" where
  "createPermissionChecker granted = (\<lambda>permission. hasPermission granted permission)"

record AccessCapability =
  acap_id :: string
  acap_label :: string
  acap_permission :: string

definition accessCapabilities :: "AccessCapability list" where
  "accessCapabilities =
    [\<lparr>acap_id = ''view-requests'', acap_label = ''View requests'', acap_permission = ''bastion.request:read''\<rparr>,
     \<lparr>acap_id = ''request'', acap_label = ''Request access'', acap_permission = ''bastion.request:write''\<rparr>,
     \<lparr>acap_id = ''approve'', acap_label = ''Approve requests'', acap_permission = ''bastion.grant:write''\<rparr>,
     \<lparr>acap_id = ''review'', acap_label = ''Review grants'', acap_permission = ''bastion.grant:read''\<rparr>]"

text \<open>Each capability with its \<open>allowed\<close> flag.\<close>

definition accessCapabilityState :: "string list option \<Rightarrow> (AccessCapability \<times> bool) list" where
  "accessCapabilityState granted =
     map (\<lambda>c. (c, hasPermission granted (acap_permission c))) accessCapabilities"

text \<open>
  What the pages rely on in a permission check: it is monotone in the granted list, denies
  everything without a list, and an administrator passes every check.
\<close>

locale permission_check =
  fixes check :: "string list option \<Rightarrow> string \<Rightarrow> bool" and admin :: string
  assumes check_none: "\<not> check None p"
    and check_admin: "admin \<in> set g \<Longrightarrow> check (Some g) p"
    and check_member: "admin \<notin> set g \<Longrightarrow> check (Some g) p \<longleftrightarrow> p \<in> set g"
begin

lemma check_mono: "set g \<subseteq> set h \<Longrightarrow> check (Some g) p \<Longrightarrow> check (Some h) p"
  using check_admin [of h p] check_member [of g p] check_member [of h p] by blast

lemma check_cong: "set g = set h \<Longrightarrow> check (Some g) p = check (Some h) p"
  using check_mono [of g h p] check_mono [of h g p] by blast

text \<open>Only an administrator passes every check: permission names are unbounded, lists are finite.\<close>

lemma check_all_iff_admin: "(\<forall>p. check (Some g) p) \<longleftrightarrow> admin \<in> set g"
proof
  assume all: "\<forall>p. check (Some g) p"
  show "admin \<in> set g"
  proof (rule ccontr)
    assume "admin \<notin> set g"
    with all check_member have "set g = UNIV" by blast
    then show False using finite_set [of g] infinite_UNIV_listI by metis
  qed
qed (simp add: check_admin)

end

interpretation perm: permission_check hasPermission "''system:admin''"
  by unfold_locales (auto simp: hasPermission_def)

lemma accessCapabilities_known:
  "acap_permission ` set accessCapabilities \<subseteq> set knownPermissions"
  by (simp add: accessCapabilities_def knownPermissions_def)

lemma distinct_knownPermissions: "distinct knownPermissions"
  by (simp add: knownPermissions_def)

text \<open>
  Permission checks can only be widened by granting more. Adding granted permissions never
  removes an allowed capability; a visitor without a permission list is allowed nothing; and
  passing every conceivable check is the same as holding \<open>system:admin\<close>.
\<close>

theorem permission_rules:
  "(set g \<subseteq> set h \<longrightarrow>
      (\<forall>c. (c, True) \<in> set (accessCapabilityState (Some g)) \<longrightarrow> (c, True) \<in> set (accessCapabilityState (Some h)))) \<and>
   map snd (accessCapabilityState None) = replicate (length accessCapabilities) False \<and>
   ((\<forall>p. createPermissionChecker (Some g) p) \<longleftrightarrow> ''system:admin'' \<in> set g)"
  using perm.check_mono [of g h] perm.check_all_iff_admin [of g]
  by (auto simp: accessCapabilityState_def createPermissionChecker_def perm.check_none map_replicate_const comp_def)

theorem permission_rules_witness:
  "(accessCapabilities ! 3, True) \<in> set (accessCapabilityState (Some [''cmdb.asset:read'', ''bastion.grant:read'']))"
proof -
  have "(accessCapabilities ! 3, True) \<in> set (accessCapabilityState (Some [''bastion.grant:read'']))"
    by (simp add: accessCapabilityState_def accessCapabilities_def hasPermission_def)
  then show ?thesis
    using permission_rules [of "[''bastion.grant:read'']" "[''cmdb.asset:read'', ''bastion.grant:read'']"] by simp
qed

end
