(* ===== verification/Auth.thy ===== *)
theory Auth
  imports Basename ApiContracts Preferences Permissions
begin

text \<open>
  The sign-in state of the portal: \<open>src/web/src/features/auth/AuthProvider.tsx\<close> as a machine over
  the events that reach it (a login, a sign-out, the answer of a request in flight), with the
  guard \<open>src/web/src/app/layout/ProtectedRoute.tsx\<close> and the form of
  \<open>src/web/src/features/auth/LoginPage.tsx\<close>.

  One step is one event: the state updates of a callback are applied together, then, when the
  token changed, the two effects that depend on it run (the API client is reconfigured, the
  identity is restored). Requests in flight are part of the state: a restore carries the number
  of the effect run that sent it, which is how the \<open>active\<close> flag of that run is represented, and
  every request carries the token it was sent with.
\<close>

section \<open>State\<close>

datatype AuthStatus = Anonymous | Restoring | Authenticated

text \<open>
  The answer of \<open>/auth/me\<close> and of the login as it arrives: the two lists may be \<open>null\<close>, which is
  what \<open>identityFromResponse\<close> guards against.
\<close>

record IdentityResponse =
  idresp_user :: User
  idresp_roles :: "string list option"
  idresp_permissions :: "string list option"

record LoginResponse = IdentityResponse +
  lresp_access_token :: string

record auth_state =
  au_token :: string
  au_identity :: "Identity option"
  au_status :: AuthStatus
  au_storage :: local_storage
  au_cfg_token :: string
  au_run :: nat
  au_restores :: "(nat \<times> string) list"
  au_refreshes :: "string list"
  au_logins :: nat

definition identityFromResponse :: "'a IdentityResponse_scheme \<Rightarrow> Identity" where
  "identityFromResponse r =
     \<lparr>ident_user = idresp_user r,
      ident_roles = (case idresp_roles r of None \<Rightarrow> [] | Some rs \<Rightarrow> rs),
      ident_permissions = (case idresp_permissions r of None \<Rightarrow> [] | Some ps \<Rightarrow> ps)\<rparr>"

definition resetAuth :: "auth_state \<Rightarrow> auth_state" where
  "resetAuth s = s\<lparr>au_storage := persistToken [] (au_storage s), au_token := [], au_identity := None,
     au_status := Anonymous\<rparr>"

text \<open>
  The two effects with dependencies \<open>[resetAuth, token]\<close>: the client is given the new token, the
  previous restore becomes inactive, and either the identity is dropped or a new restore is sent
  (with the token the client was just given).
\<close>

definition token_effects :: "auth_state \<Rightarrow> auth_state" where
  "token_effects s =
    (let s1 = s\<lparr>au_cfg_token := au_token s, au_run := Suc (au_run s)\<rparr>
     in if au_token s = [] then s1\<lparr>au_identity := None, au_status := Anonymous\<rparr>
        else s1\<lparr>au_status := Restoring, au_restores := (Suc (au_run s), au_cfg_token s1) # au_restores s1\<rparr>)"

definition commit :: "auth_state \<Rightarrow> auth_state" where
  "commit s = (if au_token s = au_cfg_token s then s else token_effects s)"

definition auth_mount :: "local_storage \<Rightarrow> auth_state" where
  "auth_mount st = token_effects
     \<lparr>au_token = readStoredToken st, au_identity = None,
      au_status = (if readStoredToken st \<noteq> [] then Restoring else Anonymous),
      au_storage = st, au_cfg_token = [], au_run = 0, au_restores = [], au_refreshes = [],
      au_logins = 0\<rparr>"

definition auth_config :: "auth_state ApiAuthConfig" where
  "auth_config = configureApiClient (Some au_cfg_token) (Some (\<lambda>s. commit (resetAuth s))) authConfig"

section \<open>Events\<close>

definition is_unauthorized :: "call_error + 'a \<Rightarrow> bool" where
  "is_unauthorized r = (case r of Inl (ApiFailure e) \<Rightarrow> err_status e = 401 | _ \<Rightarrow> False)"

text \<open>What the API client itself does to the state when an authenticated call is answered.\<close>

definition client_effect :: "call_error + 'a \<Rightarrow> auth_state \<Rightarrow> auth_state" where
  "client_effect r s = (if is_unauthorized r then cfg_onUnauthorized auth_config s else s)"

datatype auth_event =
    LoginStart
  | LoginDone "call_error + LoginResponse"
  | Logout
  | RestoreDone nat "call_error + IdentityResponse"
  | RefreshStart
  | RefreshDone string "call_error + IdentityResponse"
  | OtherDone "call_error + payload"

definition login_start :: "auth_state \<Rightarrow> auth_state" where
  "login_start s = s\<lparr>au_status := Restoring, au_logins := Suc (au_logins s)\<rparr>"

definition login_done :: "call_error + LoginResponse \<Rightarrow> auth_state \<Rightarrow> auth_state" where
  "login_done r s =
    (if au_logins s = 0 then s
     else (let s0 = s\<lparr>au_logins := au_logins s - 1\<rparr> in
       (case r of
          Inr resp \<Rightarrow> commit (s0\<lparr>au_storage := persistToken (lresp_access_token resp) (au_storage s0),
             au_token := lresp_access_token resp, au_identity := Some (identityFromResponse resp),
             au_status := Authenticated\<rparr>)
        | Inl _ \<Rightarrow> s0\<lparr>au_status := Anonymous\<rparr>)))"

definition logout :: "auth_state \<Rightarrow> auth_state" where
  "logout s = commit (resetAuth s)"

definition restore_done :: "nat \<Rightarrow> call_error + IdentityResponse \<Rightarrow> auth_state \<Rightarrow> auth_state" where
  "restore_done n r s =
    (if n \<notin> fst ` set (au_restores s) then s
     else (let s1 = client_effect r (s\<lparr>au_restores := filter (\<lambda>p. fst p \<noteq> n) (au_restores s)\<rparr>) in
       if au_run s1 \<noteq> n then s1
       else (case r of
          Inr resp \<Rightarrow> s1\<lparr>au_identity := Some (identityFromResponse resp), au_status := Authenticated\<rparr>
        | Inl _ \<Rightarrow> if is_unauthorized r then commit (resetAuth s1) else s1\<lparr>au_status := Anonymous\<rparr>)))"

definition refresh_start :: "auth_state \<Rightarrow> auth_state" where
  "refresh_start s = (if au_token s = [] then commit (resetAuth s)
     else s\<lparr>au_refreshes := au_cfg_token s # au_refreshes s\<rparr>)"

definition refresh_done :: "string \<Rightarrow> call_error + IdentityResponse \<Rightarrow> auth_state \<Rightarrow> auth_state" where
  "refresh_done t r s =
    (if t \<notin> set (au_refreshes s) then s
     else (let s1 = client_effect r (s\<lparr>au_refreshes := remove1 t (au_refreshes s)\<rparr>) in
       (case r of
          Inr resp \<Rightarrow> s1\<lparr>au_identity := Some (identityFromResponse resp), au_status := Authenticated\<rparr>
        | Inl _ \<Rightarrow> s1)))"

fun auth_step :: "auth_event \<Rightarrow> auth_state \<Rightarrow> auth_state" where
  "auth_step LoginStart s = login_start s"
| "auth_step (LoginDone r) s = login_done r s"
| "auth_step Logout s = logout s"
| "auth_step (RestoreDone n r) s = restore_done n r s"
| "auth_step RefreshStart s = refresh_start s"
| "auth_step (RefreshDone t r) s = refresh_done t r s"
| "auth_step (OtherDone r) s = client_effect r s"

text \<open>States reachable from a mount by events that satisfy a predicate.\<close>

inductive auth_reach :: "(auth_event \<Rightarrow> auth_state \<Rightarrow> bool) \<Rightarrow> auth_state \<Rightarrow> bool"
  for ok :: "auth_event \<Rightarrow> auth_state \<Rightarrow> bool" where
  auth_mounted: "auth_reach ok (auth_mount st)"
| auth_stepped: "auth_reach ok s \<Longrightarrow> ok ev s \<Longrightarrow> auth_reach ok (auth_step ev s)"

section \<open>Views of the state\<close>

definition can :: "auth_state \<Rightarrow> string \<Rightarrow> bool" where
  "can s = createPermissionChecker (map_option ident_permissions (au_identity s))"

record location =
  loc_pathname :: string
  loc_search :: string

datatype protected_view = RestoringSession | NavigateLogin location | ProtectedChildren

definition ProtectedRoute :: "location \<Rightarrow> auth_state \<Rightarrow> protected_view" where
  "ProtectedRoute loc s =
    (if au_status s = Restoring then RestoringSession
     else if au_token s = [] \<or> au_status s = Anonymous then NavigateLogin loc
     else ProtectedChildren)"

definition routeFromState :: "location option \<Rightarrow> string" where
  "routeFromState from = (case from of None \<Rightarrow> ''/'' | Some l \<Rightarrow> loc_pathname l @ or_else (loc_search l) [])"

datatype login_view = LoginNavigate string | LoginForm

definition LoginPage :: "location option \<Rightarrow> auth_state \<Rightarrow> login_view" where
  "LoginPage from s = (if au_status s = Authenticated then LoginNavigate (routeFromState from) else LoginForm)"

definition oidc_button :: "string \<Rightarrow> location option \<Rightarrow> string" where
  "oidc_button BASE_URL from = (let nextPath = routeFromState from
     in beginOidcLogin BASE_URL (if nextPath = ''/login'' then ''/'' else nextPath))"

text \<open>
  The form: submitting either reports what is missing or hands the trimmed name to \<open>login\<close>; the
  answer clears the password and leaves for the requested route, or shows the error.
\<close>

record login_form =
  lf_username :: string
  lf_password :: string
  lf_error :: units
  lf_submitting :: bool

definition onSubmit :: "login_form \<Rightarrow> login_form \<times> LocalLoginRequest option" where
  "onSubmit f =
    (let f1 = f\<lparr>lf_error := []\<rparr> in
     if trim (lf_username f1) = [] \<or> lf_password f1 = []
     then (f1\<lparr>lf_error := u16 ''Username and password are required.''\<rparr>, None)
     else (f1\<lparr>lf_submitting := True\<rparr>,
           Some \<lparr>loginreq_username = trim (lf_username f1), loginreq_password = lf_password f1\<rparr>))"

definition onSubmit_answer :: "location option \<Rightarrow> call_error + LoginResponse \<Rightarrow> login_form \<Rightarrow>
    login_form \<times> string option" where
  "onSubmit_answer from r f = (case r of
     Inr _ \<Rightarrow> (f\<lparr>lf_password := [], lf_submitting := False\<rparr>, Some (routeFromState from))
   | Inl (ApiFailure e) \<Rightarrow> (f\<lparr>lf_error := err_message e, lf_submitting := False\<rparr>, None)
   | Inl (FetchRejected m) \<Rightarrow> (f\<lparr>lf_error := u16 ''Login failed.'', lf_submitting := False\<rparr>, None))"

section \<open>The invariant\<close>

definition signed_out :: "auth_state \<Rightarrow> bool" where
  "signed_out s = (au_token s = [] \<and> au_cfg_token s = [] \<and> au_identity s = None \<and> au_status s = Anonymous)"

text \<open>
  The client sends the token of the state; a restore in flight is from an earlier run of the
  effect or carries the current token; the identity is there once the status says so; the
  stored token is the current one as long as the browser's store works.
\<close>

definition auth_inv :: "auth_state \<Rightarrow> bool" where
  "auth_inv s = (au_cfg_token s = au_token s \<and>
     (\<forall>p\<in>set (au_restores s). fst p < au_run s \<or> (fst p = au_run s \<and> snd p = au_token s \<and> snd p \<noteq> [])) \<and>
     (au_status s = Authenticated \<longrightarrow> au_identity s \<noteq> None) \<and>
     (usable (au_storage s) \<longrightarrow> readStoredToken (au_storage s) = au_token s))"

lemma resetAuth_fields [simp]:
  "au_token (resetAuth s) = []" "au_identity (resetAuth s) = None" "au_status (resetAuth s) = Anonymous"
  "au_storage (resetAuth s) = persistToken [] (au_storage s)" "au_cfg_token (resetAuth s) = au_cfg_token s"
  "au_run (resetAuth s) = au_run s" "au_restores (resetAuth s) = au_restores s"
  "au_refreshes (resetAuth s) = au_refreshes s" "au_logins (resetAuth s) = au_logins s"
  by (simp_all add: resetAuth_def)

lemma commit_fields [simp]:
  "au_token (commit s) = au_token s" "au_cfg_token (commit s) = au_token s"
  "au_storage (commit s) = au_storage s" "au_refreshes (commit s) = au_refreshes s"
  "au_logins (commit s) = au_logins s"
  by (simp_all add: commit_def token_effects_def Let_def)

lemma commit_reset: "signed_out (commit (resetAuth s))"
  by (simp add: signed_out_def) (simp add: commit_def token_effects_def Let_def)

lemma commit_reset_fields [simp]:
  "au_identity (commit (resetAuth s)) = None" "au_status (commit (resetAuth s)) = Anonymous"
  using commit_reset [of s] by (simp_all add: signed_out_def)

lemma auth_config_fields [simp]:
  "cfg_getToken auth_config = au_cfg_token" "cfg_onUnauthorized auth_config = (\<lambda>s. commit (resetAuth s))"
  by (simp_all add: auth_config_def configureApiClient_def authConfig_def)

interpretation sign_out: unauthorized_handler "\<lambda>s. commit (resetAuth s)" signed_out
  by unfold_locales (rule commit_reset)

lemma usable_persist [simp]: "usable (persistToken t st) = usable st"
  by (rule token_pref.store_usable)

lemma auth_inv_commit:
  assumes "\<forall>p\<in>set (au_restores s). fst p < au_run s \<or> (fst p = au_run s \<and> (snd p = au_token s \<and> snd p \<noteq> [] \<or> au_token s \<noteq> au_cfg_token s))"
    and "au_status s = Authenticated \<longrightarrow> au_identity s \<noteq> None"
    and "usable (au_storage s) \<longrightarrow> readStoredToken (au_storage s) = au_token s"
  shows "auth_inv (commit s)"
  using assms by (auto simp: auth_inv_def commit_def token_effects_def Let_def)

lemma auth_inv_reset: "auth_inv s \<Longrightarrow> auth_inv (commit (resetAuth s))"
  by (rule auth_inv_commit) (auto simp: auth_inv_def token_pref.load_store)

lemma auth_inv_client: "auth_inv s \<Longrightarrow> auth_inv (client_effect r s)"
  by (simp add: client_effect_def auth_inv_reset)

lemma auth_inv_mount: "auth_inv (auth_mount st)"
  by (simp add: auth_inv_def auth_mount_def token_effects_def Let_def)

text \<open>Dropping answered requests and showing an identity keep the invariant.\<close>

lemma auth_inv_drop:
  "auth_inv s \<Longrightarrow> auth_inv (s\<lparr>au_restores := filter P (au_restores s)\<rparr>)"
  "auth_inv s \<Longrightarrow> auth_inv (s\<lparr>au_refreshes := xs\<rparr>)"
  "auth_inv s \<Longrightarrow> auth_inv (s\<lparr>au_logins := n\<rparr>)"
  by (auto simp: auth_inv_def)

lemma auth_inv_show:
  "auth_inv s \<Longrightarrow> auth_inv (s\<lparr>au_identity := Some i, au_status := Authenticated\<rparr>)"
  "auth_inv s \<Longrightarrow> st \<noteq> Authenticated \<Longrightarrow> auth_inv (s\<lparr>au_status := st\<rparr>)"
  by (auto simp: auth_inv_def)

lemmas auth_inv_intros = auth_inv_reset auth_inv_client auth_inv_drop auth_inv_show

lemma auth_inv_login_done: "auth_inv s \<Longrightarrow> auth_inv (login_done r s)"
proof (cases r)
  case (Inr resp)
  assume inv: "auth_inv s"
  let ?s = "s\<lparr>au_logins := au_logins s - 1,
    au_storage := persistToken (lresp_access_token resp) (au_storage s), au_token := lresp_access_token resp,
    au_identity := Some (identityFromResponse resp), au_status := Authenticated\<rparr>"
  have "auth_inv (commit ?s)"
    using inv by (intro auth_inv_commit) (auto simp: auth_inv_def token_pref.load_store)
  with inv show ?thesis by (simp add: login_done_def Inr Let_def)
qed (simp add: login_done_def Let_def auth_inv_intros)

lemma auth_inv_step: "auth_inv s \<Longrightarrow> auth_inv (auth_step ev s)"
proof (cases ev)
  case LoginStart
  then show "auth_inv s \<Longrightarrow> ?thesis" by (simp add: login_start_def auth_inv_def)
qed (auto simp: auth_inv_login_done logout_def restore_done_def refresh_start_def refresh_done_def
    auth_inv_intros Let_def split: sum.split)

lemma auth_reach_inv: "auth_reach ok s \<Longrightarrow> auth_inv s"
  by (induction rule: auth_reach.induct) (simp_all add: auth_inv_mount auth_inv_step)

section \<open>Whose identity is shown\<close>

text \<open>
  The server's promise: the answer to a request with token \<open>t\<close> describes the user of \<open>t\<close>, which
  is what \<open>belongs t\<close> stands for. The second conjunct of the refresh case says that the refresh
  is answered while the token it was sent with is still the current one.
\<close>

fun faithful :: "(string \<Rightarrow> Identity \<Rightarrow> bool) \<Rightarrow> auth_event \<Rightarrow> auth_state \<Rightarrow> bool" where
  "faithful belongs (LoginDone (Inr r)) s = belongs (lresp_access_token r) (identityFromResponse r)"
| "faithful belongs (RestoreDone n (Inr r)) s =
     (\<forall>p\<in>set (au_restores s). fst p = n \<longrightarrow> belongs (snd p) (identityFromResponse r))"
| "faithful belongs (RefreshDone t (Inr r)) s = (belongs t (identityFromResponse r) \<and> t = au_token s)"
| "faithful belongs _ s = True"

definition shows_own :: "(string \<Rightarrow> Identity \<Rightarrow> bool) \<Rightarrow> auth_state \<Rightarrow> bool" where
  "shows_own belongs s = (au_status s = Authenticated \<longrightarrow>
     (\<exists>i. au_identity s = Some i \<and> belongs (au_token s) i))"

lemma shows_own_other: "au_status s \<noteq> Authenticated \<Longrightarrow> shows_own B s"
  by (simp add: shows_own_def)

lemma shows_own_client: "shows_own B s \<Longrightarrow> shows_own B (client_effect r s)"
  by (simp add: client_effect_def shows_own_other)

lemma shows_own_login_done:
  assumes "shows_own B s" "faithful B (LoginDone r) s"
  shows "shows_own B (login_done r s)"
  using assms
  by (cases r) (auto simp: login_done_def shows_own_def Let_def commit_def token_effects_def)

lemma shows_own_restore_done:
  assumes "auth_inv s" "shows_own B s" "faithful B (RestoreDone n r) s"
  shows "shows_own B (restore_done n r s)"
proof (cases r)
  case (Inl e)
  with assms(2) show ?thesis
    by (auto simp: restore_done_def client_effect_def Let_def shows_own_def)
next
  case (Inr resp)
  have "snd p = au_token s" if "p \<in> set (au_restores s)" "fst p = au_run s" for p
    using assms(1) that by (auto simp: auth_inv_def)
  with assms Inr show ?thesis
    by (fastforce simp: restore_done_def client_effect_def is_unauthorized_def Let_def shows_own_def)
qed

lemma shows_own_refresh_done:
  assumes "shows_own B s" "faithful B (RefreshDone t r) s"
  shows "shows_own B (refresh_done t r s)"
  using assms
  by (cases r) (auto simp: refresh_done_def client_effect_def is_unauthorized_def Let_def shows_own_def)

lemma shows_own_step:
  assumes "auth_inv s" "shows_own B s" "faithful B ev s"
  shows "shows_own B (auth_step ev s)"
  using assms
proof (cases ev)
  case RefreshStart
  with assms(2) show ?thesis by (auto simp: refresh_start_def shows_own_def)
qed (simp_all add: shows_own_login_done shows_own_restore_done shows_own_refresh_done shows_own_client
    logout_def login_start_def shows_own_other)

lemma auth_reach_shows_own: "auth_reach (faithful B) s \<Longrightarrow> shows_own B s"
proof (induction rule: auth_reach.induct)
  case (auth_mounted st)
  show ?case by (simp add: shows_own_def auth_mount_def token_effects_def Let_def)
next
  case (auth_stepped s ev)
  then show ?case using shows_own_step auth_reach_inv by blast
qed

section \<open>Properties\<close>


definition sample_storage :: local_storage where
  "sample_storage = \<lparr>st_readable = True, st_writable = True, st_items = (\<lambda>_. None)\<rparr>"

definition sample_user :: User where
  "sample_user = \<lparr>usr_id = ''u1'', usr_oidc_subject = [], usr_email = ''a@b.c'', usr_name = ''Ada'',
     usr_created_at = [], usr_updated_at = [], usr_last_login_at = []\<rparr>"

definition sample_login :: "string \<Rightarrow> LoginResponse" where
  "sample_login t = \<lparr>idresp_user = sample_user, idresp_roles = None, idresp_permissions = Some [''aws.account:read''],
     lresp_access_token = t\<rparr>"

definition sample_me :: IdentityResponse where
  "sample_me = \<lparr>idresp_user = sample_user, idresp_roles = None, idresp_permissions = Some [''aws.account:read'']\<rparr>"

fun auth_run :: "auth_event list \<Rightarrow> auth_state \<Rightarrow> auth_state" where
  "auth_run [] s = s"
| "auth_run (ev # evs) s = auth_run evs (auth_step ev s)"

lemma auth_run_reach:
  "auth_reach ok s \<Longrightarrow> (\<And>ev s'. ev \<in> set evs \<Longrightarrow> ok ev s') \<Longrightarrow> auth_reach ok (auth_run evs s)"
  by (induction evs arbitrary: s) (simp_all add: auth_stepped)

lemmas auth_eval = auth_mount_def token_effects_def commit_def resetAuth_def login_start_def login_done_def
  restore_done_def refresh_start_def refresh_done_def logout_def client_effect_def is_unauthorized_def
  ProtectedRoute_def LoginPage_def can_def createPermissionChecker_def hasPermission_def
  identityFromResponse_def sample_storage_def sample_login_def sample_me_def sample_user_def
  readStoredToken_def persistToken_def storage_defs Let_def


text \<open>Answers that do not sign anybody in.\<close>

fun quiet :: "auth_event \<Rightarrow> bool" where
  "quiet LoginStart = False"
| "quiet (LoginDone r) = (\<exists>e. r = Inl e)"
| "quiet (RefreshDone t r) = (\<exists>e. r = Inl e)"
| "quiet _ = True"

lemma signed_out_client: "signed_out s \<Longrightarrow> signed_out (client_effect r s)"
  using commit_reset by (simp add: client_effect_def)

lemma signed_out_restore:
  assumes "auth_inv s" "signed_out s"
  shows "signed_out (restore_done n r s)"
proof (cases "n \<in> fst ` set (au_restores s)")
  case True
  let ?s = "s\<lparr>au_restores := filter (\<lambda>p. fst p \<noteq> n) (au_restores s)\<rparr>"
  have "n \<noteq> au_run s" using assms True by (auto simp: auth_inv_def signed_out_def)
  moreover have "au_run (client_effect r ?s) = au_run s"
    using assms(2) by (simp add: client_effect_def signed_out_def commit_def)
  moreover have "signed_out (client_effect r ?s)"
    using assms(2) by (intro signed_out_client) (simp add: signed_out_def)
  ultimately show ?thesis using True by (simp add: restore_done_def Let_def)
qed (simp add: restore_done_def assms)

lemma signed_out_quiet:
  assumes "auth_inv s" "signed_out s" "quiet ev"
  shows "signed_out (auth_step ev s)"
  using assms(3)
proof (cases ev)
  case (RefreshDone t r)
  then obtain e where "r = Inl e" using assms(3) by auto
  with RefreshDone assms(2) show ?thesis
    using signed_out_client [of "s\<lparr>au_refreshes := remove1 t (au_refreshes s)\<rparr>" r]
    by (simp add: refresh_done_def Let_def) (simp add: signed_out_def)
qed (use assms commit_reset in \<open>auto simp: login_done_def logout_def refresh_start_def signed_out_restore
    signed_out_client Let_def, auto simp: signed_out_def\<close>)

lemma signed_out_quiet_run:
  "auth_inv s \<Longrightarrow> signed_out s \<Longrightarrow> list_all quiet evs \<Longrightarrow> signed_out (auth_run evs s)"
  by (induction evs arbitrary: s) (simp_all add: signed_out_quiet auth_inv_step)

text \<open>
  C19: after any history of logins, sign-outs, restores and refreshes the three places that hold the
  token agree: an authenticated request without its own headers carries exactly the token of the
  state (and no credentials when there is none), and a reload of the page finds the same token in
  a working store. An authenticated status always comes with an identity.
\<close>

theorem token_copies_agree:
  assumes "auth_reach (\<lambda>_ _. True) s" "opt_headers opts = []" "\<not> opt_skipAuth opts"
  shows "headers_get (req_headers (build_request (cfg_getToken auth_config s) path opts)) ''Authorization'' =
      (if au_token s = [] then None else Some (''Bearer '' @ au_token s)) \<and>
    (usable (au_storage s) \<longrightarrow> au_token (auth_mount (au_storage s)) = au_token s) \<and>
    (au_status s = Authenticated \<longrightarrow> au_identity s \<noteq> None)"
  using auth_reach_inv [OF assms(1)] assms(2,3)
  by (simp add: build_request_def authorization_header auth_inv_def auth_mount_def token_effects_def Let_def)

theorem token_copies_agree_witness:
  "let s = auth_run [LoginStart, LoginDone (Inr (sample_login ''t1''))] (auth_mount sample_storage)
   in headers_get (req_headers (build_request (cfg_getToken auth_config s) ''/api/v1/iam/users'' no_options))
        ''Authorization'' = Some ''Bearer t1'' \<and> au_token (auth_mount (au_storage s)) = ''t1''"
proof -
  let ?s = "auth_run [LoginStart, LoginDone (Inr (sample_login ''t1''))] (auth_mount sample_storage)"
  have "auth_reach (\<lambda>_ _. True) ?s" by (intro auth_run_reach auth_mounted) simp
  from token_copies_agree [OF this, of no_options "''/api/v1/iam/users''"]
  have "headers_get (req_headers (build_request (cfg_getToken auth_config ?s) ''/api/v1/iam/users'' no_options))
      ''Authorization'' = (if au_token ?s = [] then None else Some (''Bearer '' @ au_token ?s))"
    "usable (au_storage ?s) \<longrightarrow> au_token (auth_mount (au_storage ?s)) = au_token ?s"
    by (simp_all add: no_options_def del: auth_run.simps)
  moreover have "au_token ?s = ''t1''" "usable (au_storage ?s)" by (simp_all add: auth_eval)
  ultimately show ?thesis by (simp only: Let_def) simp
qed



text \<open>
  C5: a rejected token ends the session whatever request met it: when the server answers 401 to a
  call that is not the login itself, the portal is signed out when the call returns, the caller
  gets the server's error, and the next request carries no credentials. A 401 of the login, and
  every other answer, leaves the sign-in state alone.
\<close>

theorem rejected_token_ends_session:
  assumes "fetch (build_request (au_cfg_token s) path opts) = Inr r"
  shows "let (res, s') = apiRequest auth_config fetch path opts s in
    (if res_status r = 401 \<and> \<not> opt_skipAuth opts
     then signed_out s' \<and> (\<exists>e. res = Inl (ApiFailure e) \<and> err_status e = 401) \<and>
       headers_get (request_headers (cfg_getToken auth_config s') no_options) ''Authorization'' = None
     else s' = s)"
proof (cases "response_ok r")
  case True
  with assms have "apiRequest auth_config fetch path opts s =
      (Inr (parseResponse (res_text r) (opt_responseType opts)), s)"
    by (intro apiRequest_ok) simp_all
  with True show ?thesis by (simp add: response_ok_def)
next
  case False
  with assms have "apiRequest auth_config fetch path opts s =
      (Inl (ApiFailure \<lparr>err_message = errorMessage (parseResponse (res_text r) None),
        err_status = res_status r, err_payload = parseResponse (res_text r) None\<rparr>),
       if res_status r = 401 \<and> \<not> opt_skipAuth opts then cfg_onUnauthorized auth_config s else s)"
    by (intro apiRequest_fail) simp_all
  then show ?thesis
    using commit_reset [of s] by (simp add: authorization_header no_options_def)
qed

theorem rejected_token_ends_session_witness:
  "signed_out (snd (apiRequest auth_config (\<lambda>_. Inr \<lparr>res_status = 401, res_text = []\<rparr>) ''/auth/me'' no_options
     (auth_run [LoginStart, LoginDone (Inr (sample_login ''t1''))] (auth_mount sample_storage))))"
  using rejected_token_ends_session [of "\<lambda>_. Inr \<lparr>res_status = 401, res_text = []\<rparr>"
      "auth_run [LoginStart, LoginDone (Inr (sample_login ''t1''))] (auth_mount sample_storage)"
      "''/auth/me''" no_options "\<lparr>res_status = 401, res_text = []\<rparr>"]
  by (simp add: case_prod_unfold Let_def no_options_def del: auth_run.simps)

text \<open>
  C34: a deep link survives the detour through the login page: the location the guard hands to the
  login page leads back to the same path and query, both when the login form succeeds and when the
  visitor turns out to be signed in, and the OIDC button asks the server for the same route.
\<close>

theorem deep_link_survives_login:
  assumes "ProtectedRoute loc s = NavigateLogin from"
  shows "routeFromState (Some from) = loc_pathname loc @ loc_search loc \<and>
    (au_status s' = Authenticated \<longrightarrow> LoginPage (Some from) s' = LoginNavigate (loc_pathname loc @ loc_search loc)) \<and>
    snd (onSubmit_answer (Some from) (Inr resp) f) = Some (loc_pathname loc @ loc_search loc) \<and>
    (loc_pathname loc @ loc_search loc \<noteq> ''/login'' \<longrightarrow>
       oidc_button b (Some from) = beginOidcLogin b (loc_pathname loc @ loc_search loc))"
proof -
  have "from = loc" using assms by (auto simp: ProtectedRoute_def split: if_splits)
  moreover have "or_else q [] = q" for q by (simp add: or_else_def)
  ultimately show ?thesis
    by (simp add: routeFromState_def LoginPage_def onSubmit_answer_def oidc_button_def Let_def)
qed

theorem deep_link_survives_login_witness:
  "routeFromState (Some \<lparr>loc_pathname = ''/sessions'', loc_search = ''?launch=a1''\<rparr>) = ''/sessions?launch=a1''"
  using deep_link_survives_login [of "\<lparr>loc_pathname = ''/sessions'', loc_search = ''?launch=a1''\<rparr>"
      "auth_mount sample_storage" "\<lparr>loc_pathname = ''/sessions'', loc_search = ''?launch=a1''\<rparr>"]
  by (simp add: auth_eval)

text \<open>
  The login form sends exactly what it should: nothing is sent while the trimmed user name or
  the password is empty (and the form says so), otherwise the request has the trimmed name and the
  password unchanged, goes to the login endpoint without any stored credentials, and its JSON body
  reads back as the two fields.
\<close>

theorem login_form_request:
  "(snd (onSubmit f) = None \<longleftrightarrow> trim (lf_username f) = [] \<or> lf_password f = []) \<and>
   (snd (onSubmit f) = None \<longrightarrow> lf_error (fst (onSubmit f)) \<noteq> [] \<and> lf_submitting (fst (onSubmit f)) = lf_submitting f) \<and>
   (\<forall>p. snd (onSubmit f) = Some p \<longrightarrow>
      headers_get (request_headers token (call_opts (loginLocal p))) ''Authorization'' = None \<and>
      (\<exists>b. opt_body (call_opts (loginLocal p)) = Some (TextBody b) \<and>
        json_parse b = Some (JObj [(u16 ''username'', JStr (u16 (trim (lf_username f)))),
                                   (u16 ''password'', JStr (u16 (lf_password f)))])))"
proof -
  have body: "json_parse (json_stringify (LocalLoginRequest_json p)) = Some (LocalLoginRequest_json p)" for p
    using login_body.sent_reads_back [where p = p] by simp
  have auth: "headers_get (request_headers token (call_opts (loginLocal p))) ''Authorization'' = None"
    "opt_body (call_opts (loginLocal p)) = Some (TextBody (json_stringify (LocalLoginRequest_json p)))" for p
    by (simp_all add: loginLocal_def call_send_def no_options_def Let_def authorization_header
        del: json_stringify.simps)
  have none: "snd (onSubmit f) = None \<longleftrightarrow> trim (lf_username f) = [] \<or> lf_password f = []"
    by (simp add: onSubmit_def Let_def)
  have err: "snd (onSubmit f) = None \<longrightarrow> lf_error (fst (onSubmit f)) \<noteq> [] \<and>
      lf_submitting (fst (onSubmit f)) = lf_submitting f"
    by (simp add: onSubmit_def Let_def)
  have some: "p = \<lparr>loginreq_username = trim (lf_username f), loginreq_password = lf_password f\<rparr>"
    if "snd (onSubmit f) = Some p" for p
    using that by (simp add: onSubmit_def Let_def split: if_splits)
  have "LocalLoginRequest_json \<lparr>loginreq_username = u, loginreq_password = w\<rparr> =
      JObj [(u16 ''username'', JStr (u16 u)), (u16 ''password'', JStr (u16 w))]" for u w
    by (simp add: LocalLoginRequest_json_def jmem_def jstr_def)
  with some body auth none err show ?thesis by metis
qed

theorem login_form_request_witness:
  "\<exists>b. opt_body (call_opts (loginLocal \<lparr>loginreq_username = ''ada'', loginreq_password = '' s3 ''\<rparr>)) = Some (TextBody b) \<and>
     json_parse b = Some (JObj [(u16 ''username'', JStr (u16 ''ada'')), (u16 ''password'', JStr (u16 '' s3 ''))])"
proof -
  let ?f = "\<lparr>lf_username = '' ada '', lf_password = '' s3 '', lf_error = [], lf_submitting = False\<rparr>"
  have t: "trim '' ada '' = ''ada''" by (simp add: trim_def is_ws_def)
  have "snd (onSubmit ?f) = Some \<lparr>loginreq_username = ''ada'', loginreq_password = '' s3 ''\<rparr>"
    by (simp add: onSubmit_def Let_def t)
  then show ?thesis using login_form_request [of ?f "[]"] t by simp
qed

text \<open>
  A refresh answered after a sign-out brings the portal into a state it cannot leave by itself.
  When a refresh is in flight, the user signs out and the refresh then succeeds, the status is
  authenticated while the token is empty: the guard sends every protected location to the login
  page and the login page sends it straight back, and the departed user's permissions are in force
  again.
\<close>

theorem refresh_after_logout_loops:
  assumes "t \<in> set (au_refreshes s)"
  shows "let s' = auth_step (RefreshDone t (Inr r)) (auth_step Logout s) in
    au_token s' = [] \<and> au_status s' = Authenticated \<and>
    au_identity s' = Some (identityFromResponse r) \<and>
    ProtectedRoute loc s' = NavigateLogin loc \<and>
    LoginPage (Some loc) s' = LoginNavigate (loc_pathname loc @ loc_search loc)"
proof -
  have "or_else q [] = q" for q by (simp add: or_else_def)
  with assms show ?thesis
    by (simp add: refresh_done_def logout_def client_effect_def is_unauthorized_def ProtectedRoute_def
        LoginPage_def routeFromState_def Let_def)
qed

theorem refresh_after_logout_loops_witness:
  "\<exists>s. auth_reach (\<lambda>_ _. True) s \<and> au_token s = [] \<and> can s ''aws.account:read'' \<and>
     ProtectedRoute \<lparr>loc_pathname = ''/profile'', loc_search = []\<rparr> s =
       NavigateLogin \<lparr>loc_pathname = ''/profile'', loc_search = []\<rparr> \<and>
     LoginPage (Some \<lparr>loc_pathname = ''/profile'', loc_search = []\<rparr>) s = LoginNavigate ''/profile''"
proof -
  let ?evs = "[LoginStart, LoginDone (Inr (sample_login ''t1'')), RestoreDone 2 (Inr sample_me), RefreshStart]"
  let ?s = "auth_run ?evs (auth_mount sample_storage)"
  let ?t = "auth_step (RefreshDone ''t1'' (Inr sample_me)) (auth_step Logout ?s)"
  have "auth_reach (\<lambda>_ _. True) ?s" by (intro auth_run_reach auth_mounted) simp
  then have "auth_reach (\<lambda>_ _. True) ?t" by (intro auth_stepped) simp_all
  moreover have "''t1'' \<in> set (au_refreshes ?s)" by (simp add: auth_eval)
  note refresh_after_logout_loops [OF this, of sample_me "\<lparr>loc_pathname = ''/profile'', loc_search = []\<rparr>"]
  moreover have "can x ''aws.account:read''" if "au_identity x = Some (identityFromResponse sample_me)" for x
    using that by (simp add: can_def createPermissionChecker_def hasPermission_def identityFromResponse_def sample_me_def)
  ultimately show ?thesis
    by (intro exI [of _ ?t]) (simp add: Let_def del: auth_run.simps auth_step.simps)
qed

text \<open>
  The answer to a superseded restore can end a newer session. The effect's own \<open>active\<close> flag keeps
  such an answer from changing the identity, but a 401 is also handled inside the API client, which
  knows nothing of the flag: when the restore of an earlier token is rejected after a new login, the
  new session is signed out and its stored token removed.
\<close>

theorem stale_restore_signs_out:
  assumes "(n, t) \<in> set (au_restores s)" "n \<noteq> au_run s"
  shows "(let s' = auth_step (RestoreDone n (Inl (ApiFailure e))) s in
      if err_status e = 401 then signed_out s' \<and> au_storage s' = persistToken [] (au_storage s)
      else au_token s' = au_token s \<and> au_identity s' = au_identity s \<and> au_status s' = au_status s) \<and>
    au_identity (auth_step (RestoreDone n (Inr r)) s) = au_identity s"
proof -
  have n: "n \<in> fst ` set (au_restores s)" using assms(1) by force
  let ?s = "s\<lparr>au_restores := filter (\<lambda>p. fst p \<noteq> n) (au_restores s)\<rparr>"
  have "signed_out (restore_done n (Inl (ApiFailure e)) s)" if "err_status e = 401"
    using that n commit_reset by (simp add: restore_done_def client_effect_def is_unauthorized_def Let_def)
  moreover have "au_storage (restore_done n (Inl (ApiFailure e)) s) = persistToken [] (au_storage s)"
    if "err_status e = 401"
    using that n
    by (simp add: restore_done_def client_effect_def is_unauthorized_def Let_def persistToken_def storage_defs)
  moreover have "restore_done n (Inl (ApiFailure e)) s = ?s" if "err_status e \<noteq> 401"
    using that n assms(2) by (simp add: restore_done_def client_effect_def is_unauthorized_def Let_def)
  moreover have "restore_done n (Inr r) s = ?s"
    using n assms(2) by (simp add: restore_done_def client_effect_def is_unauthorized_def Let_def)
  ultimately show ?thesis by (simp add: Let_def)
qed

theorem stale_restore_signs_out_witness:
  "let st = sample_storage\<lparr>st_items := [TOKEN_STORAGE_KEY \<mapsto> ''old'']\<rparr>;
       s = auth_run [LoginStart, LoginDone (Inr (sample_login ''new''))] (auth_mount st);
       s' = auth_step (RestoreDone 1 (Inl (ApiFailure \<lparr>err_message = [], err_status = 401, err_payload = PText []\<rparr>))) s
   in au_token s = ''new'' \<and> signed_out s'"
proof -
  let ?st = "sample_storage\<lparr>st_items := [TOKEN_STORAGE_KEY \<mapsto> ''old'']\<rparr>"
  let ?s = "auth_run [LoginStart, LoginDone (Inr (sample_login ''new''))] (auth_mount ?st)"
  let ?e = "\<lparr>err_message = [], err_status = 401, err_payload = PText []\<rparr>"
  have "(1, ''old'') \<in> set (au_restores ?s)" "1 \<noteq> au_run ?s" "au_token ?s = ''new''"
    by (simp_all add: auth_eval)
  then show ?thesis
    using stale_restore_signs_out [of 1 "''old''" ?s ?e] by (simp add: Let_def del: auth_run.simps auth_step.simps)
qed

end
