(* ===== verification/Launch.thy ===== *)
theory Launch
  imports Collation ApiTypes JsUrl TextFilter
begin

text \<open>
  Launching sessions from assets, \<open>src/web/src/lib/launch.ts\<close>: which assets can be connected to, the
  tree of environments and networks, the tag and text filters, and the deep links between the
  pages with the reader of the launch parameters.
\<close>

datatype LaunchProtocol = SSH | RDP | VNC | Telnet

fun LaunchProtocol_str :: "LaunchProtocol \<Rightarrow> string" where
  "LaunchProtocol_str SSH = ''ssh''"
| "LaunchProtocol_str RDP = ''rdp''"
| "LaunchProtocol_str VNC = ''vnc''"
| "LaunchProtocol_str Telnet = ''telnet''"

definition NON_CONNECTABLE_TYPES :: "string list" where
  "NON_CONNECTABLE_TYPES = [''aws_vpc'', ''vpc'', ''aws_subnet'', ''subnet'', ''aws_security_group'',
     ''security_group'', ''aws_route_table'', ''route_table'', ''aws_internet_gateway'', ''internet_gateway'',
     ''aws_nat_gateway'', ''nat_gateway'', ''aws_ebs_volume'', ''ebs_volume'', ''aws_elb'', ''elb'', ''alb'',
     ''nlb'', ''aws_s3_bucket'', ''s3_bucket'', ''aws_iam_role'', ''iam_role'', ''aws_iam_user'', ''iam_user'',
     ''aws_account'', ''aws_region'']"

definition isConnectableAsset :: "Asset option \<Rightarrow> bool" where
  "isConnectableAsset asset = (case asset of
     None \<Rightarrow> False
   | Some a \<Rightarrow> toLowerCase (or_else (asset_type a) []) \<notin> set NON_CONNECTABLE_TYPES)"

section \<open>The asset tree\<close>

record AssetTreeVPC =
  vpc_vpcKey :: string
  vpc_vpcLabel :: string
  vpc_bastions :: "Asset list"
  vpc_members :: "Asset list"
  vpc_count :: nat

record AssetTreeEnv =
  env_envName :: string
  env_total :: nat
  env_vpcs :: "AssetTreeVPC list"

record tree_bucket =
  bucket_bastions :: "Asset list"
  bucket_members :: "Asset list"

type_synonym vpc_map = "(string, tree_bucket) jsmap"

definition NO_VPC_KEY :: string where
  "NO_VPC_KEY = ''__no_vpc__''"

definition assetEnvKey :: "Asset \<Rightarrow> string" where
  "assetEnvKey asset = or_else (asset_env asset) ''default''"

definition asset_vpc_key :: "Asset \<Rightarrow> string" where
  "asset_vpc_key asset = opt_or (asset_vpc_id asset) NO_VPC_KEY"

definition empty_bucket :: tree_bucket where
  "empty_bucket = \<lparr>bucket_bastions = [], bucket_members = []\<rparr>"

definition push_asset :: "Asset \<Rightarrow> tree_bucket \<Rightarrow> tree_bucket" where
  "push_asset asset bucket =
    (if asset_is_vpc_proxy asset = Some True
     then bucket\<lparr>bucket_bastions := bucket_bastions bucket @ [asset]\<rparr>
     else bucket\<lparr>bucket_members := bucket_members bucket @ [asset]\<rparr>)"

text \<open>The inner step of the loop: the bucket of the asset's network is created on demand and filled.\<close>

definition push_vpc :: "Asset \<Rightarrow> vpc_map \<Rightarrow> vpc_map" where
  "push_vpc asset vpcs =
    (let vpcKey = asset_vpc_key asset;
         bucket = (case map_of vpcs vpcKey of None \<Rightarrow> empty_bucket | Some b \<Rightarrow> b)
     in AList.update vpcKey (push_asset asset bucket) vpcs)"

primrec tree_loop :: "Asset list \<Rightarrow> (string, vpc_map) jsmap \<Rightarrow> (string, vpc_map) jsmap" where
  "tree_loop [] envs = envs"
| "tree_loop (asset # assets) envs =
    (let envKey = assetEnvKey asset;
         vpcs = (case map_of envs envKey of None \<Rightarrow> [] | Some v \<Rightarrow> v)
     in tree_loop assets (AList.update envKey (push_vpc asset vpcs) envs))"

definition vpc_compare :: "(string \<Rightarrow> string \<Rightarrow> int) \<Rightarrow> string \<Rightarrow> string \<Rightarrow> int" where
  "vpc_compare localeCompare a b =
    (if a = NO_VPC_KEY then 1 else if b = NO_VPC_KEY then - 1 else localeCompare a b)"

definition vpc_entry :: "vpc_map \<Rightarrow> string \<Rightarrow> AssetTreeVPC" where
  "vpc_entry vpcs vpcKey =
    (let bucket = the (map_of vpcs vpcKey)
     in \<lparr>vpc_vpcKey = vpcKey, vpc_vpcLabel = (if vpcKey = NO_VPC_KEY then ''No VPC'' else vpcKey),
         vpc_bastions = bucket_bastions bucket, vpc_members = bucket_members bucket,
         vpc_count = length (bucket_bastions bucket) + length (bucket_members bucket)\<rparr>)"

definition env_entry :: "(string \<Rightarrow> string \<Rightarrow> int) \<Rightarrow> (string, vpc_map) jsmap \<Rightarrow> string \<Rightarrow> AssetTreeEnv" where
  "env_entry localeCompare envs envName =
    (let vpcs = the (map_of envs envName);
         vpcEntries = map (vpc_entry vpcs) (sort_by (vpc_compare localeCompare) (jsmap_keys vpcs))
     in \<lparr>env_envName = envName, env_total = foldl (\<lambda>sum vpc. sum + vpc_count vpc) 0 vpcEntries,
         env_vpcs = vpcEntries\<rparr>)"

definition buildAssetTree :: "(string \<Rightarrow> string \<Rightarrow> int) \<Rightarrow> Asset list \<Rightarrow> AssetTreeEnv list" where
  "buildAssetTree localeCompare assets =
    (let envs = tree_loop assets [] in map (env_entry localeCompare envs) (js_sort (jsmap_keys envs)))"

section \<open>Filters\<close>

text \<open>
  \<open>{...a, ...b, ...c}\<close>: later members replace earlier ones in place; \<open>Object.entries\<close> is only used to ask
  whether some entry matches, so its order does not matter.
\<close>

definition spread :: "((string \<times> unknown) list) option \<Rightarrow> (string, unknown) jsmap \<Rightarrow> (string, unknown) jsmap" where
  "spread part m = fold (\<lambda>(k, v). AList.update k v) (case part of None \<Rightarrow> [] | Some p \<Rightarrow> p) m"

definition merged_tags :: "Asset \<Rightarrow> (string, unknown) jsmap" where
  "merged_tags asset = spread (asset_tags asset) (spread (asset_labels asset) (spread (asset_system_tags asset) []))"

definition assetMatchesTag :: "Asset \<Rightarrow> string \<Rightarrow> bool" where
  "assetMatchesTag asset tag =
    (let q = toLowerCase (trim tag) in
     if q = [] then True
     else list_ex (\<lambda>(key, value).
       let v = (if value = UNull then [] else unknown_str value)
       in str_includes (toLowerCase key) q \<or> str_includes (toLowerCase v) q \<or>
          str_includes (toLowerCase (key @ '':'' @ v)) q) (merged_tags asset))"

definition haystack :: "Asset \<Rightarrow> string" where
  "haystack asset = toLowerCase (join '' '' (filter (\<lambda>t. t \<noteq> [])
     [asset_name asset, asset_id asset, asset_type asset, asset_env asset, opt_or (asset_public_ip asset) [],
      opt_or (asset_private_ip asset) [], opt_or (asset_private_dns asset) [], opt_or (asset_vpc_id asset) []]))"

definition filterConnectableAssets :: "Asset list \<Rightarrow> string \<Rightarrow> Asset list" where
  "filterConnectableAssets assets query =
    (let q = toLowerCase (trim query) in
     if q = [] then assets else filter (\<lambda>asset. str_includes (haystack asset) q) assets)"

section \<open>Deep links\<close>

record LaunchSpec =
  spec_assetID :: string
  spec_protocol :: LaunchProtocol

definition buildLaunchSearch :: "LaunchSpec \<Rightarrow> string" where
  "buildLaunchSearch spec =
     ''?'' @ params_str [(''launch'', spec_assetID spec), (''protocol'', LaunchProtocol_str (spec_protocol spec))]"

record AuditQuery =
  aq_assetID :: "string option"
  aq_userID :: "string option"
  aq_status :: "string option"

definition buildAuditSearch :: "AuditQuery \<Rightarrow> string" where
  "buildAuditSearch query =
    (let p1 = set_if (truthy (aq_assetID query)) ''asset'' (opt_or (aq_assetID query) []) [];
         p2 = set_if (truthy (aq_userID query)) ''user'' (opt_or (aq_userID query) []) p1;
         p3 = set_if (truthy (aq_status query) \<and> aq_status query \<noteq> Some ''all'') ''status''
                (opt_or (aq_status query) []) p2;
         search = params_str p3
     in if search \<noteq> [] then ''?'' @ search else [])"

definition parseLaunchParams :: "search_params \<Rightarrow> LaunchSpec option" where
  "parseLaunchParams search = (case params_get search ''launch'' of
     None \<Rightarrow> None
   | Some assetID \<Rightarrow>
       if assetID = [] then None
       else (let raw = toLowerCase (opt_or (params_get search ''protocol'') ''ssh'');
                 protocol = (if raw = ''rdp'' then RDP else if raw = ''vnc'' then VNC
                   else if raw = ''telnet'' then Telnet else SSH)
             in Some \<lparr>spec_assetID = assetID, spec_protocol = protocol\<rparr>))"

section \<open>Facts about the tree\<close>

lemma tree_loop_group: "tree_loop assets envs = jsmap.group_loop assetEnvKey (\<lambda>_. []) push_vpc assets envs"
  by (induction assets arbitrary: envs) (simp_all add: Let_def)

lemma fold_push_vpc: "fold push_vpc assets vpcs = jsmap.group_loop asset_vpc_key (\<lambda>_. empty_bucket) push_asset assets vpcs"
  by (induction assets arbitrary: vpcs) (simp_all add: push_vpc_def Let_def)

lemma fold_push_asset:
  "bucket_bastions (fold push_asset xs b) = bucket_bastions b @ filter (\<lambda>a. asset_is_vpc_proxy a = Some True) xs"
  "bucket_members (fold push_asset xs b) = bucket_members b @ filter (\<lambda>a. asset_is_vpc_proxy a \<noteq> Some True) xs"
  by (induction xs arbitrary: b) (auto simp: push_asset_def)

lemma tree_envs:
  "jsmap_keys (tree_loop assets []) = set_of [] (map assetEnvKey assets)"
  "e \<in> assetEnvKey ` set assets \<Longrightarrow>
     map_of (tree_loop assets []) e = Some (fold push_vpc (filter (\<lambda>a. assetEnvKey a = e) assets) [])"
  using jsmap.group_loop_keys [of "[]" assetEnvKey "\<lambda>_. []" push_vpc assets]
    jsmap.group_loop_get [of "[]" assetEnvKey "\<lambda>_. []" push_vpc assets e]
  unfolding tree_loop_group by simp_all

lemma tree_vpcs:
  "jsmap_keys (fold push_vpc xs []) = set_of [] (map asset_vpc_key xs)"
  "k \<in> asset_vpc_key ` set xs \<Longrightarrow>
     map_of (fold push_vpc xs []) k = Some (fold push_asset (filter (\<lambda>a. asset_vpc_key a = k) xs) empty_bucket)"
  using jsmap.group_loop_keys [of "[]" asset_vpc_key "\<lambda>_. empty_bucket" push_asset xs]
    jsmap.group_loop_get [of "[]" asset_vpc_key "\<lambda>_. empty_bucket" push_asset xs k]
  unfolding fold_push_vpc by simp_all

text \<open>The comparator of the tree behaves as a collation that puts the catch-all bucket last.\<close>

definition no_vpc_last :: "(string \<Rightarrow> string \<Rightarrow> int) \<Rightarrow> string \<Rightarrow> string \<Rightarrow> int" where
  "no_vpc_last cmp a b = (if a = NO_VPC_KEY \<and> b = NO_VPC_KEY then 0 else vpc_compare cmp a b)"

lemma no_vpc_last_collation:
  assumes "collation cmp"
  shows "collation (no_vpc_last cmp)"
proof -
  have tot: "no_vpc_last cmp a b \<le> 0 \<or> no_vpc_last cmp b a \<le> 0" for a b
    using assms by (simp add: collation_def no_vpc_last_def vpc_compare_def)
  have tr: "cmp a b \<le> 0 \<Longrightarrow> cmp b c \<le> 0 \<Longrightarrow> cmp a c \<le> 0" for a b c
    using assms unfolding collation_def by blast
  have "no_vpc_last cmp a c \<le> 0" if "no_vpc_last cmp a b \<le> 0" "no_vpc_last cmp b c \<le> 0" for a b c
    using that tr [of a b c]
    by (cases "a = NO_VPC_KEY"; cases "b = NO_VPC_KEY"; cases "c = NO_VPC_KEY")
      (simp_all add: no_vpc_last_def vpc_compare_def)
  with tot show ?thesis unfolding collation_def by blast
qed

lemma sort_vpc_keys:
  assumes "collation cmp" "distinct ks"
  shows "ordered_by (no_vpc_last cmp) (sort_by (vpc_compare cmp) ks)"
proof -
  have "sort_by (vpc_compare cmp) ks = sort_by (no_vpc_last cmp) ks"
    using assms(2) by (rule sort_by_cong) (auto simp: no_vpc_last_def)
  then show ?thesis using ordered_sort_by [OF no_vpc_last_collation [OF assms(1)]] by simp
qed

abbreviation in_env :: "string \<Rightarrow> Asset list \<Rightarrow> Asset list" where
  "in_env e assets \<equiv> filter (\<lambda>a. assetEnvKey a = e) assets"

abbreviation in_vpc :: "string \<Rightarrow> Asset list \<Rightarrow> Asset list" where
  "in_vpc k assets \<equiv> filter (\<lambda>a. asset_vpc_key a = k) assets"

lemma vpc_entry_eq:
  assumes "k \<in> asset_vpc_key ` set xs"
  shows "vpc_entry (fold push_vpc xs []) k =
    \<lparr>vpc_vpcKey = k, vpc_vpcLabel = (if k = NO_VPC_KEY then ''No VPC'' else k),
     vpc_bastions = filter (\<lambda>a. asset_is_vpc_proxy a = Some True) (in_vpc k xs),
     vpc_members = filter (\<lambda>a. asset_is_vpc_proxy a \<noteq> Some True) (in_vpc k xs),
     vpc_count = length (in_vpc k xs)\<rparr>"
  using tree_vpcs(2) [OF assms]
  by (simp add: vpc_entry_def Let_def fold_push_asset empty_bucket_def sum_length_filter_compl
      del: filter_filter)

lemma sum_by_key: "distinct ks \<Longrightarrow> f ` set xs \<subseteq> set ks \<Longrightarrow> (\<Sum>k\<leftarrow>ks. length (filter (\<lambda>x. f x = k) xs)) = length xs"
proof (induction ks arbitrary: xs)
  case (Cons k ks)
  let ?ys = "filter (\<lambda>x. f x \<noteq> k) xs"
  have "(\<Sum>k'\<leftarrow>ks. length (filter (\<lambda>x. f x = k') xs)) = (\<Sum>k'\<leftarrow>ks. length (filter (\<lambda>x. f x = k') ?ys))"
    using Cons.prems(1) by (intro arg_cong [where f = sum_list] map_cong arg_cong [where f = length]) (auto intro: filter_cong)
  also have "\<dots> = length ?ys" using Cons by (intro Cons.IH) auto
  finally show ?case using sum_length_filter_compl [of "\<lambda>x. f x = k" xs] by simp
qed auto

lemma foldl_count: "foldl (\<lambda>s v. s + vpc_count v) n vs = n + (\<Sum>v\<leftarrow>vs. vpc_count v)"
  by (induction vs arbitrary: n) simp_all

text \<open>What the entry of one environment looks like, in terms of its assets.\<close>

lemma env_entry_eq:
  fixes cmp :: "string \<Rightarrow> string \<Rightarrow> int"
  assumes "e \<in> assetEnvKey ` set assets"
  defines "xs \<equiv> in_env e assets"
  defines "ks \<equiv> sort_by (vpc_compare cmp) (set_of [] (map asset_vpc_key xs))"
  shows "env_entry cmp (tree_loop assets []) e =
    \<lparr>env_envName = e, env_total = length xs, env_vpcs = map (vpc_entry (fold push_vpc xs [])) ks\<rparr>"
proof -
  have k: "set ks = asset_vpc_key ` set xs" "distinct ks" by (simp_all add: ks_def)
  have "(\<Sum>v\<leftarrow>map (vpc_entry (fold push_vpc xs [])) ks. vpc_count v) = (\<Sum>k\<leftarrow>ks. length (in_vpc k xs))"
    unfolding map_map comp_def using k(1)
    by (intro arg_cong [where f = sum_list] map_cong refl) (simp add: vpc_entry_eq)
  also have "\<dots> = length xs" using k by (intro sum_by_key) auto
  finally show ?thesis
    using tree_envs(2) [OF assms(1)] tree_vpcs(1) [of xs]
    by (simp add: env_entry_def Let_def foldl_count xs_def [symmetric] ks_def del: map_map)
qed

interpretation connectable: text_filter filterConnectableAssets "\<lambda>a q. str_includes (haystack a) q"
  by unfold_locales (simp_all add: filterConnectableAssets_def needle_def Let_def str_includes_trans)

section \<open>Properties\<close>

text \<open>
  C13: the asset tree loses, duplicates and misplaces nothing. For any collation: there is one entry
  per environment that occurs, in code unit order; an environment counts exactly its assets; inside
  it there is one entry per network that occurs, in the order of the collation with the assets
  without a network last; and an entry lists the bastions and the other assets of that environment
  and network, each in the order of the input.
\<close>

theorem asset_tree_partition:
  assumes "collation localeCompare"
  shows "let tree = buildAssetTree localeCompare assets in
    sorted (map env_envName tree) \<and> distinct (map env_envName tree) \<and>
    set (map env_envName tree) = assetEnvKey ` set assets \<and>
    (\<forall>e\<in>set tree. env_total e = length (in_env (env_envName e) assets) \<and>
      distinct (map vpc_vpcKey (env_vpcs e)) \<and>
      set (map vpc_vpcKey (env_vpcs e)) = asset_vpc_key ` set (in_env (env_envName e) assets) \<and>
      ordered_by (no_vpc_last localeCompare) (map vpc_vpcKey (env_vpcs e)) \<and>
      (\<forall>v\<in>set (env_vpcs e).
        vpc_bastions v = filter (\<lambda>a. asset_is_vpc_proxy a = Some True) (in_vpc (vpc_vpcKey v) (in_env (env_envName e) assets)) \<and>
        vpc_members v = filter (\<lambda>a. asset_is_vpc_proxy a \<noteq> Some True) (in_vpc (vpc_vpcKey v) (in_env (env_envName e) assets)) \<and>
        vpc_count v = length (in_vpc (vpc_vpcKey v) (in_env (env_envName e) assets))))"
proof -
  let ?names = "js_sort (set_of [] (map assetEnvKey assets))"
  let ?tree = "buildAssetTree localeCompare assets"
  have tree: "?tree = map (env_entry localeCompare (tree_loop assets [])) ?names"
    by (simp add: buildAssetTree_def Let_def tree_envs(1))
  have names: "map env_envName ?tree = ?names"
    by (simp add: tree comp_def env_entry_def Let_def)
  have env: "env_total e = length (in_env (env_envName e) assets) \<and>
      distinct (map vpc_vpcKey (env_vpcs e)) \<and>
      set (map vpc_vpcKey (env_vpcs e)) = asset_vpc_key ` set (in_env (env_envName e) assets) \<and>
      ordered_by (no_vpc_last localeCompare) (map vpc_vpcKey (env_vpcs e)) \<and>
      (\<forall>v\<in>set (env_vpcs e).
        vpc_bastions v = filter (\<lambda>a. asset_is_vpc_proxy a = Some True) (in_vpc (vpc_vpcKey v) (in_env (env_envName e) assets)) \<and>
        vpc_members v = filter (\<lambda>a. asset_is_vpc_proxy a \<noteq> Some True) (in_vpc (vpc_vpcKey v) (in_env (env_envName e) assets)) \<and>
        vpc_count v = length (in_vpc (vpc_vpcKey v) (in_env (env_envName e) assets)))"
    if "e \<in> set ?tree" for e
  proof -
    obtain n where n: "n \<in> assetEnvKey ` set assets" and e: "e = env_entry localeCompare (tree_loop assets []) n"
      using \<open>e \<in> set ?tree\<close> by (auto simp: tree)
    define xs where "xs = in_env n assets"
    define ks where "ks = sort_by (vpc_compare localeCompare) (set_of [] (map asset_vpc_key xs))"
    have k: "set ks = asset_vpc_key ` set xs" "distinct ks" by (simp_all add: ks_def)
    have e': "e = \<lparr>env_envName = n, env_total = length xs, env_vpcs = map (vpc_entry (fold push_vpc xs [])) ks\<rparr>"
      unfolding e xs_def ks_def by (rule env_entry_eq [OF n])
    have "map vpc_vpcKey (env_vpcs e) = ks"
      by (simp add: e' comp_def vpc_entry_def Let_def)
    moreover have "ordered_by (no_vpc_last localeCompare) ks"
      unfolding ks_def using assms by (intro sort_vpc_keys) simp_all
    ultimately show ?thesis
      using k by (simp add: e' xs_def [symmetric] vpc_entry_eq del: filter_filter)
  qed
  have "sorted ?names" "distinct ?names" "set ?names = assetEnvKey ` set assets" by simp_all
  with env show ?thesis unfolding Let_def names by blast
qed

definition tree_asset :: "string \<Rightarrow> string \<Rightarrow> string option \<Rightarrow> bool option \<Rightarrow> Asset" where
  "tree_asset i e v b = \<lparr>asset_id = i, asset_type = ''vm'', asset_name = i, asset_status = [],
     asset_env = e, asset_source = [], asset_external_id = None, asset_external_arn = None,
     asset_ami_name = None, asset_ami_owner_id = None, asset_public_ip = None, asset_private_ip = None,
     asset_private_dns = None, asset_region = None, asset_zone = None, asset_account_id = None,
     asset_instance_type = None, asset_os_image = None, asset_os_family = None, asset_vpc_id = v,
     asset_subnet_id = None, asset_key_name = None, asset_owner = None, asset_business_unit = None,
     asset_criticality = None, asset_expires_at = None, asset_is_vpc_proxy = b, asset_system_tags = None,
     asset_labels = None, asset_tags = None, asset_created_at = [], asset_updated_at = []\<rparr>"

theorem asset_tree_partition_witness:
  "set (map env_envName (buildAssetTree unit_compare
     [tree_asset ''a'' ''prod'' None None, tree_asset ''b'' [] (Some ''vpc-1'') (Some True)])) = {''prod'', ''default''}"
  using asset_tree_partition [OF unit_compare_collation,
      of "[tree_asset ''a'' ''prod'' None None, tree_asset ''b'' [] (Some ''vpc-1'') (Some True)]"]
  by (simp add: Let_def assetEnvKey_def tree_asset_def)

lemma launch_link_params:
  "URLSearchParams (buildLaunchSearch spec) =
     Some [(''launch'', spec_assetID spec), (''protocol'', LaunchProtocol_str (spec_protocol spec))]"
  using URLSearchParams_str [of "[(''launch'', spec_assetID spec), (''protocol'', LaunchProtocol_str (spec_protocol spec))]"]
  by (simp add: buildLaunchSearch_def)

lemma launch_params_parse:
  "parseLaunchParams [(''launch'', spec_assetID spec), (''protocol'', LaunchProtocol_str (spec_protocol spec))] =
     (if spec_assetID spec = [] then None else Some spec)"
  by (cases spec; cases "spec_protocol spec")
    (simp_all add: parseLaunchParams_def Let_def toLowerCase_def lower_char_def)

text \<open>
  A launch link opens the session it was made for: reading the query of a link built for an asset
  with a non-empty identifier gives back the same asset and protocol, and the audit redirect of
  the sessions route never takes such a link. A link without asset, or with an empty one, launches
  nothing; an unknown protocol falls back to SSH.
\<close>

theorem launch_link_roundtrip:
  "(\<exists>ps. URLSearchParams (buildLaunchSearch spec) = Some ps \<and> params_get ps ''mode'' = None \<and>
     parseLaunchParams ps = (if spec_assetID spec = [] then None else Some spec)) \<and>
   (parseLaunchParams search = None \<longleftrightarrow> opt_or (params_get search ''launch'') [] = [])"
proof -
  have "parseLaunchParams search = None \<longleftrightarrow> opt_or (params_get search ''launch'') [] = []"
    by (cases "params_get search ''launch''") (simp_all add: parseLaunchParams_def Let_def or_else_def)
  then show ?thesis by (simp add: launch_link_params launch_params_parse)
qed

text \<open>
  An audit link carries exactly the filters that differ from the default: it is empty when there is
  nothing to filter, and otherwise its query reads back with the chosen asset, user and status,
  the status "all" and empty values left out.
\<close>

theorem audit_link_reads_back:
  "\<exists>ps. URLSearchParams (buildAuditSearch query) = Some ps \<and> distinct (map fst ps) \<and>
     params_get ps ''asset'' = (if truthy (aq_assetID query) then aq_assetID query else None) \<and>
     params_get ps ''user'' = (if truthy (aq_userID query) then aq_userID query else None) \<and>
     params_get ps ''status'' =
       (if truthy (aq_status query) \<and> aq_status query \<noteq> Some ''all'' then aq_status query else None) \<and>
     params_get ps ''launch'' = None \<and> (buildAuditSearch query = [] \<longleftrightarrow> ps = [])"
proof -
  define p3 where "p3 = set_if (truthy (aq_status query) \<and> aq_status query \<noteq> Some ''all'') ''status'' (opt_or (aq_status query) [])
    (set_if (truthy (aq_userID query)) ''user'' (opt_or (aq_userID query) [])
      (set_if (truthy (aq_assetID query)) ''asset'' (opt_or (aq_assetID query) []) []))"
  have b: "buildAuditSearch query = (if p3 = [] then [] else CHR ''?'' # params_str p3)"
    by (simp add: buildAuditSearch_def p3_def Let_def)
  have "URLSearchParams (buildAuditSearch query) = Some p3"
    using URLSearchParams_str [of p3] params_parse_str [of "[]"]
    by (auto simp: b URLSearchParams_def startsWith_def params_str_def)
  moreover have "distinct (map fst p3)"
    by (simp add: p3_def set_if_def distinct_params_set)
  moreover
  have some: "Some (opt_or v []) = v" if "truthy v" for v
    using that by (cases v) (simp_all add: or_else_def)
  have "params_get p3 ''asset'' = (if truthy (aq_assetID query) then aq_assetID query else None) \<and>
     params_get p3 ''user'' = (if truthy (aq_userID query) then aq_userID query else None) \<and>
     params_get p3 ''status'' =
       (if truthy (aq_status query) \<and> aq_status query \<noteq> Some ''all'' then aq_status query else None) \<and>
     params_get p3 ''launch'' = None"
    by (simp add: p3_def some)
  moreover have "buildAuditSearch query = [] \<longleftrightarrow> p3 = []" by (simp add: b)
  ultimately show ?thesis by blast
qed

text \<open>
  The asset search never hides a match and typing more never brings an asset back: upper and lower
  case and surrounding blanks of the text make no difference, the result keeps the order of the
  list, and refining a text by further characters equals searching within the earlier result.
\<close>

theorem asset_search_refines:
  assumes "str_includes (toLowerCase (trim q')) (toLowerCase (trim q))"
  shows "filterConnectableAssets assets q' = filterConnectableAssets (filterConnectableAssets assets q) q' \<and>
    filterConnectableAssets assets (toLowerCase q) = filterConnectableAssets assets q \<and>
    filterConnectableAssets assets (trim q) = filterConnectableAssets assets q \<and>
    subseq (filterConnectableAssets assets q) assets"
  using connectable.filt_narrow [of q' q assets] assms connectable.filt_case connectable.filt_subseq
  by (simp add: needle_def)

theorem asset_search_refines_witness:
  "filterConnectableAssets [tree_asset ''web-1'' ''prod'' None None] ''WEB'' =
     filterConnectableAssets (filterConnectableAssets [tree_asset ''web-1'' ''prod'' None None] ''we'') ''WEB''"
proof -
  have "str_includes (toLowerCase (trim ''WEB'')) (toLowerCase (trim ''we''))" by code_simp
  from asset_search_refines [OF this] show ?thesis by blast
qed

end
