(* ===== verification/RemoteAccess.thy ===== *)
theory RemoteAccess
  imports ApiContracts
begin

text \<open>
  The transport side of terminal and desktop sessions, \<open>src/web/src/lib/terminal.ts\<close> and
  \<open>src/web/src/lib/guacamole.ts\<close>: the WebSocket addresses, the connection parameters, and the
  loaders that inject the vendored client scripts once. The document head is the list of injected
  scripts with their state; a promise is absent, waiting for a script, fulfilled or rejected.
\<close>

section \<open>Addresses\<close>

record LocationLike =
  at_host :: string
  at_protocol :: string

definition asset_prefix :: "string \<Rightarrow> string" where
  "asset_prefix base = (if endsWith base ''/'' then base else base @ ''/'')"

definition terminalAssetPath :: "string \<Rightarrow> string \<Rightarrow> string" where
  "terminalAssetPath asset base = asset_prefix base @ ''vendor/xterm/'' @ asset"

definition guacamoleAssetPath :: "string \<Rightarrow> string" where
  "guacamoleAssetPath base = asset_prefix base @ ''vendor/guacamole/guacamole-common.min.js''"

definition buildTerminalWebSocketURL :: "string \<Rightarrow> string \<Rightarrow> LocationLike \<Rightarrow> string" where
  "buildTerminalWebSocketURL assetID ticket loc =
    (if at_protocol loc = ''https:'' then ''wss:'' else ''ws:'') @ ''//'' @ at_host loc @
    ''/ws/v1/cmdb/assets/'' @ encodeURIComponent assetID @ ''/terminal?'' @ params_str [(''ticket'', ticket)]"

definition buildRdpWebSocketURL :: "string \<Rightarrow> string \<Rightarrow> LocationLike \<Rightarrow> string" where
  "buildRdpWebSocketURL assetID ticket loc =
    (if at_protocol loc = ''https:'' then ''wss:'' else ''ws:'') @ ''//'' @ at_host loc @
    ''/ws/v1/cmdb/assets/'' @ encodeURIComponent assetID @ ''/rdp?'' @ params_str [(''ticket'', ticket)]"

record RdpConnectionParams =
  rdp_dpi :: int
  rdp_height :: int
  rdp_ticket :: string
  rdp_timezone :: string
  rdp_width :: int

definition buildRdpConnectionParams :: "RdpConnectionParams \<Rightarrow> string" where
  "buildRdpConnectionParams p = params_str [(''dpi'', int_str (rdp_dpi p)), (''height'', int_str (rdp_height p)),
     (''ticket'', rdp_ticket p), (''timezone'', rdp_timezone p), (''width'', int_str (rdp_width p))]"

section \<open>Script loading\<close>

datatype script_status = ScriptLoading | ScriptLoaded | ScriptFailed

datatype load_promise = AwaitScript nat | Fulfilled | Rejected string

record loader_state =
  lo_scripts :: "(string \<times> script_status) list"
  lo_styles :: "string list"
  lo_promise :: "load_promise option"

text \<open>
  \<open>loadScript\<close>: \<open>True\<close> when the returned promise is already resolved. A script that is present but not
  loaded is waited for, whatever became of it; an absent one is injected.
\<close>

definition loadScript :: "string \<Rightarrow> loader_state \<Rightarrow> bool \<times> loader_state" where
  "loadScript src s = (case map_of (lo_scripts s) src of
     Some st \<Rightarrow> (st = ScriptLoaded, s)
   | None \<Rightarrow> (False, s\<lparr>lo_scripts := lo_scripts s @ [(src, ScriptLoading)]\<rparr>))"

definition loadStyle :: "string \<Rightarrow> loader_state \<Rightarrow> loader_state" where
  "loadStyle href s = (if href \<in> set (lo_styles s) then s else s\<lparr>lo_styles := lo_styles s @ [href]\<rparr>)"

text \<open>
  The body of a load from its \<open>i\<close>-th script on: await the scripts in turn, then check that the
  globals the scripts define are there.
\<close>

function load_from :: "string list \<Rightarrow> bool \<Rightarrow> string \<Rightarrow> nat \<Rightarrow> loader_state \<Rightarrow> loader_state" where
  "load_from srcs globals missing i s =
    (if i < length srcs then
       (let (ready, s') = loadScript (srcs ! i) s in
        if ready then load_from srcs globals missing (Suc i) s' else s'\<lparr>lo_promise := Some (AwaitScript i)\<rparr>)
     else s\<lparr>lo_promise := Some (if globals then Fulfilled else Rejected missing)\<rparr>)"
  by pat_completeness auto
termination
  by (relation "measure (\<lambda>(srcs, globals, missing, i, s). length srcs - i)") auto

declare load_from.simps [simp del]

definition xterm_scripts :: "string \<Rightarrow> string list" where
  "xterm_scripts base = [terminalAssetPath ''xterm.js'' base, terminalAssetPath ''xterm-addon-fit.js'' base]"

definition xterm_missing :: string where
  "xterm_missing = ''Terminal assets loaded but xterm globals are missing.''"

definition loadXterm :: "string \<Rightarrow> bool \<Rightarrow> loader_state \<Rightarrow> loader_state" where
  "loadXterm base globals s =
    (if lo_promise s = None
     then load_from (xterm_scripts base) globals xterm_missing 0 (loadStyle (terminalAssetPath ''xterm.css'' base) s)
     else s)"

definition guacamole_scripts :: "string \<Rightarrow> string list" where
  "guacamole_scripts base = [guacamoleAssetPath base]"

definition guacamole_missing :: string where
  "guacamole_missing = ''Guacamole asset loaded but global client is missing.''"

definition loadGuacamole :: "string \<Rightarrow> bool \<Rightarrow> loader_state \<Rightarrow> loader_state" where
  "loadGuacamole base globals s =
    (if lo_promise s = None then load_from (guacamole_scripts base) globals guacamole_missing 0 s else s)"

text \<open>The browser's events: a script that was loading loads or fails; the awaiting load continues or rejects.\<close>

definition script_onload :: "string list \<Rightarrow> bool \<Rightarrow> string \<Rightarrow> string \<Rightarrow> loader_state \<Rightarrow> loader_state" where
  "script_onload srcs globals missing src s =
    (if map_of (lo_scripts s) src \<noteq> Some ScriptLoading then s
     else (let s1 = s\<lparr>lo_scripts := AList.update src ScriptLoaded (lo_scripts s)\<rparr> in
       (case lo_promise s of
          Some (AwaitScript i) \<Rightarrow> if i < length srcs \<and> srcs ! i = src
            then load_from srcs globals missing (Suc i) s1 else s1
        | _ \<Rightarrow> s1)))"

definition script_onerror :: "string list \<Rightarrow> string \<Rightarrow> loader_state \<Rightarrow> loader_state" where
  "script_onerror srcs src s =
    (if map_of (lo_scripts s) src \<noteq> Some ScriptLoading then s
     else (let s1 = s\<lparr>lo_scripts := AList.update src ScriptFailed (lo_scripts s)\<rparr> in
       (case lo_promise s of
          Some (AwaitScript i) \<Rightarrow> if i < length srcs \<and> srcs ! i = src
            then s1\<lparr>lo_promise := Some (Rejected (''Failed to load '' @ src))\<rparr> else s1
        | _ \<Rightarrow> s1)))"

datatype loader_event = LoadCall | OnLoad string | OnError string

fun loader_step :: "(loader_state \<Rightarrow> loader_state) \<Rightarrow> string list \<Rightarrow> bool \<Rightarrow> string \<Rightarrow> loader_event \<Rightarrow> loader_state
    \<Rightarrow> loader_state" where
  "loader_step load srcs globals missing LoadCall s = load s"
| "loader_step load srcs globals missing (OnLoad src) s = script_onload srcs globals missing src s"
| "loader_step load srcs globals missing (OnError src) s = script_onerror srcs src s"

definition no_scripts :: loader_state where
  "no_scripts = \<lparr>lo_scripts = [], lo_styles = [], lo_promise = None\<rparr>"

section \<open>The contract of a loader\<close>

text \<open>
  A loader starts its scripts on the first call only. The two loaders of the program differ in
  their scripts, a style sheet and a message.
\<close>

locale cached_loader =
  fixes load :: "loader_state \<Rightarrow> loader_state" and srcs :: "string list" and globals :: bool and missing :: string
  assumes load_cached: "lo_promise s \<noteq> None \<Longrightarrow> load s = s"
    and load_first: "lo_promise s = None \<Longrightarrow> \<exists>s0. lo_scripts s0 = lo_scripts s \<and> lo_promise s0 = None \<and>
      load s = load_from srcs globals missing 0 s0"
    and srcs_distinct: "distinct srcs"
begin

abbreviation step :: "loader_event \<Rightarrow> loader_state \<Rightarrow> loader_state" where
  "step \<equiv> loader_step load srcs globals missing"

lemma load_from_promise: "lo_promise (load_from srcs globals missing i s) \<noteq> None"
proof (induction "length srcs - i" arbitrary: i s rule: less_induct)
  case less
  show ?case
    using less [of "Suc i"] by (subst load_from.simps) (auto simp: Let_def split: prod.splits)
qed

lemma load_twice: "load (load s) = load s"
proof (cases "lo_promise s = None")
  case True
  then obtain s0 where "load s = load_from srcs globals missing 0 s0" using load_first by blast
  then have "lo_promise (load s) \<noteq> None" by (simp add: load_from_promise)
  then show ?thesis by (rule load_cached)
qed (simp add: load_cached)

text \<open>However often it is called, no script is injected twice.\<close>

lemma distinct_loadScript:
  "distinct (map fst (lo_scripts s)) \<Longrightarrow> distinct (map fst (lo_scripts (snd (loadScript src s))))"
  by (auto simp: loadScript_def map_of_eq_None_iff split: option.splits)

lemma distinct_load_from:
  "distinct (map fst (lo_scripts s)) \<Longrightarrow> distinct (map fst (lo_scripts (load_from srcs globals missing i s)))"
proof (induction "length srcs - i" arbitrary: i s rule: less_induct)
  case less
  have "distinct (map fst (lo_scripts (snd (loadScript (srcs ! i) s))))"
    using less.prems by (rule distinct_loadScript)
  then show ?case
    using less by (subst load_from.simps) (auto simp: Let_def split: prod.splits)
qed

lemma distinct_step:
  assumes "distinct (map fst (lo_scripts s))"
  shows "distinct (map fst (lo_scripts (step ev s)))"
proof (cases ev)
  case LoadCall
  show ?thesis
  proof (cases "lo_promise s = None")
    case True
    then obtain s0 where "lo_scripts s0 = lo_scripts s" "load s = load_from srcs globals missing 0 s0"
      using load_first by blast
    with LoadCall assms distinct_load_from [of s0 0] show ?thesis by simp
  qed (use LoadCall assms in \<open>simp add: load_cached\<close>)
next
  case (OnLoad src)
  let ?s = "s\<lparr>lo_scripts := AList.update src ScriptLoaded (lo_scripts s)\<rparr>"
  have "distinct (map fst (lo_scripts ?s))" using assms by (simp add: distinct_update)
  with OnLoad assms distinct_load_from [of ?s] show ?thesis
    by (auto simp: script_onload_def Let_def split: option.splits load_promise.splits)
next
  case (OnError src)
  with assms show ?thesis
    by (auto simp: script_onerror_def Let_def distinct_update split: option.splits load_promise.splits)
qed

lemma distinct_run:
  "distinct (map fst (lo_scripts s)) \<Longrightarrow> distinct (map fst (lo_scripts (fold step evs s)))"
  by (induction evs arbitrary: s) (simp_all add: distinct_step)

text \<open>A settled load stays settled: success is kept, and so is a failure.\<close>

lemma settled_step:
  assumes "lo_promise s = Some p" "\<And>i. p \<noteq> AwaitScript i"
  shows "lo_promise (step ev s) = Some p"
  using assms by (cases ev; cases p)
    (auto simp: load_cached script_onload_def script_onerror_def Let_def)

lemma settled_run:
  "lo_promise s = Some p \<Longrightarrow> (\<And>i. p \<noteq> AwaitScript i) \<Longrightarrow> lo_promise (fold step evs s) = Some p"
  by (induction evs arbitrary: s) (simp_all add: settled_step)

end

interpretation xterm: cached_loader "loadXterm base globals" "xterm_scripts base" globals xterm_missing for base globals
proof (unfold_locales, goal_cases)
  case (2 s)
  then show ?case
    by (intro exI [of _ "loadStyle (terminalAssetPath ''xterm.css'' base) s"])
      (simp add: loadXterm_def loadStyle_def)
qed (auto simp: loadXterm_def xterm_scripts_def terminalAssetPath_def)

interpretation guacamole: cached_loader "loadGuacamole base globals" "guacamole_scripts base" globals guacamole_missing
  for base globals
  by unfold_locales (auto simp: loadGuacamole_def guacamole_scripts_def)

section \<open>Properties\<close>

text \<open>
  A session socket reaches the right asset with the right ticket: the address is encrypted exactly
  when the page is, its path names the asset in one segment that decodes to the asset's identifier,
  its query reads back as the ticket alone, and a terminal address is never a desktop address.
\<close>

theorem websocket_address:
  "(\<exists>segs q. buildTerminalWebSocketURL a t loc = (if at_protocol loc = ''https:'' then ''wss://'' else ''ws://'') @
       at_host loc @ join ''/'' segs @ CHR ''?'' # q \<and>
     URLSearchParams (CHR ''?'' # q) = Some [(''ticket'', t)] \<and> segs = [[], ''ws'', ''v1'', ''cmdb'', ''assets'', segs ! 5, ''terminal''] \<and>
     pct_decode (segs ! 5) = Some a \<and> CHR ''/'' \<notin> set (segs ! 5) \<and> CHR ''?'' \<notin> set (segs ! 5)) \<and>
   (\<exists>segs q. buildRdpWebSocketURL a t loc = (if at_protocol loc = ''https:'' then ''wss://'' else ''ws://'') @
       at_host loc @ join ''/'' segs @ CHR ''?'' # q \<and>
     URLSearchParams (CHR ''?'' # q) = Some [(''ticket'', t)] \<and> segs = [[], ''ws'', ''v1'', ''cmdb'', ''assets'', segs ! 5, ''rdp''] \<and>
     pct_decode (segs ! 5) = Some a \<and> CHR ''/'' \<notin> set (segs ! 5) \<and> CHR ''?'' \<notin> set (segs ! 5)) \<and>
   buildTerminalWebSocketURL a t loc \<noteq> buildRdpWebSocketURL b u loc"
proof -
  let ?e = "encodeURIComponent a"
  have q: "URLSearchParams (CHR ''?'' # params_str [(''ticket'', t)]) = Some [(''ticket'', t)]"
    by (rule URLSearchParams_str)
  have e: "pct_decode ?e = Some a" "CHR ''/'' \<notin> set ?e" "CHR ''?'' \<notin> set ?e"
    by (simp_all add: pct_decode_encodeURIComponent encodeURIComponent_no_delim)
  have ne: "buildTerminalWebSocketURL a t loc \<noteq> buildRdpWebSocketURL b u loc"
  proof
    assume "buildTerminalWebSocketURL a t loc = buildRdpWebSocketURL b u loc"
    then have eq: "?e @ ''/terminal?'' @ params_str [(''ticket'', t)] =
        encodeURIComponent b @ ''/rdp?'' @ params_str [(''ticket'', u)]"
      by (simp add: buildTerminalWebSocketURL_def buildRdpWebSocketURL_def)
    have "''/terminal?'' @ params_str [(''ticket'', t)] = ''/rdp?'' @ params_str [(''ticket'', u)]"
      using encoded_prefix_unique [OF eq] by simp
    then show False by simp
  qed
  show ?thesis
  proof (intro conjI ne)
    show "\<exists>segs q. buildTerminalWebSocketURL a t loc = (if at_protocol loc = ''https:'' then ''wss://'' else ''ws://'') @
       at_host loc @ join ''/'' segs @ CHR ''?'' # q \<and>
     URLSearchParams (CHR ''?'' # q) = Some [(''ticket'', t)] \<and> segs = [[], ''ws'', ''v1'', ''cmdb'', ''assets'', segs ! 5, ''terminal''] \<and>
     pct_decode (segs ! 5) = Some a \<and> CHR ''/'' \<notin> set (segs ! 5) \<and> CHR ''?'' \<notin> set (segs ! 5)"
      by (rule exI [of _ "[[], ''ws'', ''v1'', ''cmdb'', ''assets'', ?e, ''terminal'']"],
          rule exI [of _ "params_str [(''ticket'', t)]"])
        (simp add: buildTerminalWebSocketURL_def q e)
    show "\<exists>segs q. buildRdpWebSocketURL a t loc = (if at_protocol loc = ''https:'' then ''wss://'' else ''ws://'') @
       at_host loc @ join ''/'' segs @ CHR ''?'' # q \<and>
     URLSearchParams (CHR ''?'' # q) = Some [(''ticket'', t)] \<and> segs = [[], ''ws'', ''v1'', ''cmdb'', ''assets'', segs ! 5, ''rdp''] \<and>
     pct_decode (segs ! 5) = Some a \<and> CHR ''/'' \<notin> set (segs ! 5) \<and> CHR ''?'' \<notin> set (segs ! 5)"
      by (rule exI [of _ "[[], ''ws'', ''v1'', ''cmdb'', ''assets'', ?e, ''rdp'']"],
          rule exI [of _ "params_str [(''ticket'', t)]"])
        (simp add: buildRdpWebSocketURL_def q e)
  qed
qed

text \<open>
  The terminal scripts are injected once and in order. Whatever the interleaving of load requests
  and browser events, no script occurs twice in the document; and when both scripts load and define
  their globals, every request is served by the one finished load.
\<close>

theorem xterm_loaded_once:
  "distinct (map fst (lo_scripts (fold (loader_step (loadXterm base g) (xterm_scripts base) g xterm_missing) evs no_scripts))) \<and>
   lo_promise (fold (loader_step (loadXterm base g) (xterm_scripts base) g xterm_missing)
      ([LoadCall, LoadCall, OnLoad (terminalAssetPath ''xterm.js'' base), LoadCall,
        OnLoad (terminalAssetPath ''xterm-addon-fit.js'' base)] @ evs) no_scripts) =
     Some (if g then Fulfilled else Rejected xterm_missing)"
proof -
  let ?step = "loader_step (loadXterm base g) (xterm_scripts base) g xterm_missing"
  let ?s = "fold ?step [LoadCall, LoadCall, OnLoad (terminalAssetPath ''xterm.js'' base), LoadCall,
        OnLoad (terminalAssetPath ''xterm-addon-fit.js'' base)] no_scripts"
  have "lo_promise ?s = Some (if g then Fulfilled else Rejected xterm_missing)"
    by (simp add: loadXterm_def no_scripts_def loadStyle_def load_from.simps loadScript_def xterm_scripts_def
        script_onload_def terminalAssetPath_def numeral_2_eq_2)
  then have "lo_promise (fold ?step evs ?s) = Some (if g then Fulfilled else Rejected xterm_missing)"
    by (rule xterm.settled_run) simp
  moreover have "distinct (map fst (lo_scripts (fold ?step evs no_scripts)))"
    by (rule xterm.distinct_run) (simp add: no_scripts_def)
  ultimately show ?thesis by simp
qed

text \<open>
  A failed load is never retried: once a script of the desktop client could not be fetched, every
  later request in the same page is rejected with the same error, whatever else happens, until the
  page is reloaded; no second attempt is made.
\<close>

theorem failed_load_is_cached:
  "lo_promise (fold (loader_step (loadGuacamole base g) (guacamole_scripts base) g guacamole_missing)
      ([LoadCall, OnError (guacamoleAssetPath base)] @ evs) no_scripts) =
     Some (Rejected (''Failed to load '' @ guacamoleAssetPath base))"
proof -
  let ?step = "loader_step (loadGuacamole base g) (guacamole_scripts base) g guacamole_missing"
  let ?s = "fold ?step [LoadCall, OnError (guacamoleAssetPath base)] no_scripts"
  have "lo_promise ?s = Some (Rejected (''Failed to load '' @ guacamoleAssetPath base))"
    by (simp add: loadGuacamole_def no_scripts_def load_from.simps loadScript_def guacamole_scripts_def script_onerror_def)
  then have "lo_promise (fold ?step evs ?s) = Some (Rejected (''Failed to load '' @ guacamoleAssetPath base))"
    by (rule guacamole.settled_run) simp
  then show ?thesis by simp
qed

end
