(* ===== verification/LivePanes.thy ===== *)
theory LivePanes
  imports RemoteAccess
begin

text \<open>
  The two live session panes, \<open>src/web/src/features/sessions/SshTerminalPane.tsx\<close> and
  \<open>src/web/src/features/sessions/RdpSessionPane.tsx\<close>, as machines over the events that reach their
  effect: the client library is loaded or fails, the socket or tunnel reports, the user types, the
  component is unmounted. The state has the variables of the effect (\<open>disposed\<close>, the references) and
  what the pane has done to the outside: frames sent, text written, status reports to the page.
  The contract \<open>live_pane\<close> says that a pane is silent once it is unmounted.
\<close>

datatype LiveStatus = StConnecting | StConnected | StClosed | StDisconnected | StError

fun LiveStatus_str :: "LiveStatus \<Rightarrow> string" where
  "LiveStatus_str StConnecting = ''connecting''"
| "LiveStatus_str StConnected = ''connected''"
| "LiveStatus_str StClosed = ''closed''"
| "LiveStatus_str StDisconnected = ''disconnected''"
| "LiveStatus_str StError = ''error''"

text \<open>A report to the page: \<open>onStatusChange(sessionID, status, message)\<close>.\<close>

record status_report =
  rep_session :: string
  rep_status :: LiveStatus
  rep_message :: units

section \<open>Values in messages\<close>

text \<open>A JSON value in a template literal.\<close>

fun json_text :: "json \<Rightarrow> units" where
  "json_text JNull = u16 ''null''"
| "json_text (JBool b) = u16 (if b then ''true'' else ''false'')"
| "json_text (JNum n) = u16 (num_str n)"
| "json_text (JStr s) = s"
| "json_text (JArr xs) = join [44] (map (\<lambda>x. if x = JNull then [] else json_text x) xs)"
| "json_text (JObj kvs) = u16 ''[object Object]''"

text \<open>\<open>value || text\<close> for a member of a frame.\<close>

definition text_or :: "json option \<Rightarrow> units \<Rightarrow> units" where
  "text_or v d = (case v of Some x \<Rightarrow> if json_truthy x then json_text x else d | None \<Rightarrow> d)"

text \<open>\<open>frame.code ?? 0\<close>\<close>

definition code_or_0 :: "json option \<Rightarrow> json" where
  "code_or_0 v = (case v of None \<Rightarrow> JNum (num_of_int 0) | Some JNull \<Rightarrow> JNum (num_of_int 0) | Some x \<Rightarrow> x)"

section \<open>The terminal pane\<close>

datatype socket_state = NoSocket | SocketConnecting | SocketOpen | SocketClosing | SocketClosed

text \<open>The data of a message event: a text or something else (a \<open>Blob\<close>).\<close>

datatype message_data = TextData units | BinaryData

definition frameFromMessage :: "message_data \<Rightarrow> json option" where
  "frameFromMessage d = (case d of TextData t \<Rightarrow> json_parse t | BinaryData \<Rightarrow> None)"

record ssh_pane =
  ssh_session :: string
  ssh_asset :: string
  ssh_ticket :: string
  ssh_assetName :: string
  ssh_disposed :: bool
  ssh_status :: LiveStatus
  ssh_message :: units
  ssh_terminal :: bool
  ssh_socket :: socket_state
  ssh_url :: "string option"
  ssh_output :: "units list"
  ssh_sent :: "json list"
  ssh_reports :: "status_report list"
  ssh_input :: bool
  ssh_ping :: bool

definition ssh_setStatus :: "LiveStatus \<Rightarrow> units \<Rightarrow> ssh_pane \<Rightarrow> ssh_pane" where
  "ssh_setStatus status nextMessage p = p\<lparr>ssh_status := status,
     ssh_message := (if nextMessage \<noteq> [] then nextMessage else u16 (LiveStatus_str status)),
     ssh_reports := ssh_reports p @ [\<lparr>rep_session = ssh_session p, rep_status = status, rep_message = nextMessage\<rparr>]\<rparr>"

definition ssh_write :: "units \<Rightarrow> ssh_pane \<Rightarrow> ssh_pane" where
  "ssh_write t p = p\<lparr>ssh_output := ssh_output p @ [t]\<rparr>"

text \<open>\<open>if (ws.readyState === WebSocket.OPEN) ws.send(...)\<close>\<close>

definition ssh_send :: "json \<Rightarrow> ssh_pane \<Rightarrow> ssh_pane" where
  "ssh_send f p = (if ssh_socket p = SocketOpen then p\<lparr>ssh_sent := ssh_sent p @ [f]\<rparr> else p)"

text \<open>\<open>fitAndResize\<close>: \<open>None\<close> when fitting throws, else the measured columns and rows.\<close>

definition fitAndResize :: "(int \<times> int) option \<Rightarrow> ssh_pane \<Rightarrow> ssh_pane" where
  "fitAndResize dims p = (if \<not> ssh_terminal p then p
     else (case dims of None \<Rightarrow> p
       | Some (cols, rows) \<Rightarrow> ssh_send (JObj [(u16 ''type'', JStr (u16 ''resize'')),
           (u16 ''cols'', JNum (num_of_int cols)), (u16 ''rows'', JNum (num_of_int rows))]) p))"

datatype ssh_event =
    XtermLoaded LocationLike "(int \<times> int) option"
  | XtermFailed units
  | WsOpen "(int \<times> int) option"
  | WsMessage message_data
  | WsError
  | WsClose
  | UserTyped units
  | WindowResized "(int \<times> int) option"
  | PingTick
  | SshUnmount

text \<open>Mounting: the status is reported once, then the client library is requested.\<close>

definition ssh_mount :: "string \<Rightarrow> string \<Rightarrow> string \<Rightarrow> string \<Rightarrow> ssh_pane" where
  "ssh_mount session asset ticket assetName = ssh_setStatus StConnecting (u16 ''Connecting'')
     \<lparr>ssh_session = session, ssh_asset = asset, ssh_ticket = ticket, ssh_assetName = assetName, ssh_disposed = False,
      ssh_status = StConnecting, ssh_message = u16 ''Connecting'', ssh_terminal = False, ssh_socket = NoSocket,
      ssh_url = None, ssh_output = [], ssh_sent = [], ssh_reports = [], ssh_input = False, ssh_ping = False\<rparr>"

text \<open>\<open>openTerminal\<close> after the library has loaded: the terminal and the socket are created.\<close>

definition openTerminal :: "LocationLike \<Rightarrow> (int \<times> int) option \<Rightarrow> ssh_pane \<Rightarrow> ssh_pane" where
  "openTerminal loc dims p =
    (if ssh_disposed p \<or> ssh_socket p \<noteq> NoSocket then p
     else (let p1 = ssh_write (u16 ''Connecting to '' @ u16 (or_else (ssh_assetName p) (ssh_asset p)) @ u16 ''...'' @ [13, 10])
                     (p\<lparr>ssh_terminal := True\<rparr>);
               p2 = p1\<lparr>ssh_socket := SocketConnecting,
                     ssh_url := Some (buildTerminalWebSocketURL (ssh_asset p) (ssh_ticket p) loc),
                     ssh_input := True, ssh_ping := True\<rparr>
           in fitAndResize dims p2))"

definition ws_onopen :: "(int \<times> int) option \<Rightarrow> ssh_pane \<Rightarrow> ssh_pane" where
  "ws_onopen dims p =
    (if ssh_socket p \<noteq> SocketConnecting then p
     else (let p0 = p\<lparr>ssh_socket := SocketOpen\<rparr> in
       if ssh_disposed p0 then p0
       else fitAndResize dims (ssh_setStatus StConnected (u16 ''Connected'')
         (ssh_write ([27] @ u16 ''[32mconnected'' @ [27] @ u16 ''[0m'' @ [13, 10]) p0))))"

definition ws_onmessage :: "message_data \<Rightarrow> ssh_pane \<Rightarrow> ssh_pane" where
  "ws_onmessage d p =
    (if ssh_disposed p \<or> ssh_socket p \<notin> {SocketOpen, SocketClosing} then p
     else (case frameFromMessage d of
        None \<Rightarrow> p
      | Some frame \<Rightarrow>
          if \<not> json_truthy frame then p
          else if json_prop frame ''type'' = Some (JStr (u16 ''data'')) then
            ssh_write (text_or (json_prop frame ''payload'') []) p
          else if json_prop frame ''type'' = Some (JStr (u16 ''error'')) then
            (let errorMessage = text_or (json_prop frame ''message'') (u16 ''Terminal error.'')
             in ssh_setStatus StError errorMessage
                  (ssh_write ([13, 10, 27] @ u16 ''[31m[error] '' @ errorMessage @ [27] @ u16 ''[0m'' @ [13, 10]) p))
          else if json_prop frame ''type'' = Some (JStr (u16 ''exit'')) then
            (let code = json_text (code_or_0 (json_prop frame ''code''))
             in ssh_setStatus StClosed (u16 ''Exited with code '' @ code)
                  (ssh_write ([13, 10, 27] @ u16 ''[33m[session exited code='' @ code @ u16 '']'' @ [27] @ u16 ''[0m'' @ [13, 10]) p))
          else p))"

definition ws_onerror :: "ssh_pane \<Rightarrow> ssh_pane" where
  "ws_onerror p = (if ssh_disposed p \<or> ssh_socket p = NoSocket then p
     else ssh_setStatus StError (u16 ''WebSocket connection error'') p)"

definition ws_onclose :: "ssh_pane \<Rightarrow> ssh_pane" where
  "ws_onclose p =
    (if ssh_socket p = NoSocket then p
     else (let p0 = p\<lparr>ssh_socket := SocketClosed\<rparr> in
       if ssh_disposed p0 then p0
       else if ssh_status p0 \<noteq> StError \<and> ssh_status p0 \<noteq> StClosed
         then ssh_setStatus StDisconnected (u16 ''Disconnected'') p0 else p0))"

text \<open>The cleanup of the effect.\<close>

definition ssh_cleanup :: "ssh_pane \<Rightarrow> ssh_pane" where
  "ssh_cleanup p = p\<lparr>ssh_disposed := True, ssh_ping := False, ssh_input := False, ssh_terminal := False,
     ssh_socket := (if ssh_socket p = NoSocket then NoSocket else if ssh_socket p = SocketClosed then SocketClosed
       else SocketClosing)\<rparr>"

fun ssh_step :: "ssh_event \<Rightarrow> ssh_pane \<Rightarrow> ssh_pane" where
  "ssh_step (XtermLoaded loc dims) p = openTerminal loc dims p"
| "ssh_step (XtermFailed msg) p = (if ssh_disposed p then p else ssh_setStatus StError msg p)"
| "ssh_step (WsOpen dims) p = ws_onopen dims p"
| "ssh_step (WsMessage d) p = ws_onmessage d p"
| "ssh_step WsError p = ws_onerror p"
| "ssh_step WsClose p = ws_onclose p"
| "ssh_step (UserTyped d) p = (if ssh_input p then ssh_send (JObj [(u16 ''type'', JStr (u16 ''data'')),
     (u16 ''payload'', JStr d)]) p else p)"
| "ssh_step (WindowResized dims) p = (if ssh_disposed p then p else fitAndResize dims p)"
| "ssh_step PingTick p = (if ssh_ping p then ssh_send (JObj [(u16 ''type'', JStr (u16 ''ping''))]) p else p)"
| "ssh_step SshUnmount p = ssh_cleanup p"

section \<open>The desktop pane\<close>

record GuacamoleMouseState =
  gm_down :: bool
  gm_left :: bool
  gm_middle :: bool
  gm_right :: bool
  gm_up :: bool
  gm_x :: jsnum
  gm_y :: jsnum

datatype client_op = OpConnect string | OpDisconnect | OpKey bool int | OpMouse GuacamoleMouseState

record rdp_pane =
  rdp_session :: string
  rdp_asset :: string
  rdp_pane_ticket :: string
  rdp_assetName :: string
  rdp_disposed :: bool
  rdp_status :: LiveStatus
  rdp_message :: units
  rdp_client :: bool
  rdp_url :: "string option"
  rdp_ops :: "client_op list"
  rdp_reports :: "status_report list"
  rdp_handlers :: bool

text \<open>\<open>displaySize\<close>: the measured height and width of the host element, with defaults and lower bounds.\<close>

definition displaySize :: "rat \<Rightarrow> rat \<Rightarrow> int \<times> int" where
  "displaySize height width = (max 600 \<lfloor>if height = 0 then 720 else height\<rfloor>,
     max 800 \<lfloor>if width = 0 then 1024 else width\<rfloor>)"

text \<open>\<open>Math.round((window.devicePixelRatio || 1) * 96)\<close>\<close>

definition display_dpi :: "rat \<Rightarrow> int" where
  "display_dpi ratio = (case round64 ((if ratio = 0 then 1 else ratio) * 96) of Fin q \<Rightarrow> \<lfloor>q + 1 / 2\<rfloor> | _ \<Rightarrow> 0)"

definition timezone_of :: "string \<Rightarrow> string" where
  "timezone_of tz = or_else tz ''UTC''"

definition rdp_setStatus :: "LiveStatus \<Rightarrow> units \<Rightarrow> rdp_pane \<Rightarrow> rdp_pane" where
  "rdp_setStatus status nextMessage p = p\<lparr>rdp_status := status,
     rdp_message := (if nextMessage \<noteq> [] then nextMessage else u16 (LiveStatus_str status)),
     rdp_reports := rdp_reports p @ [\<lparr>rep_session = rdp_session p, rep_status = status, rep_message = nextMessage\<rparr>]\<rparr>"

record browser_view =
  bv_location :: LocationLike
  bv_height :: rat
  bv_width :: rat
  bv_ratio :: rat
  bv_timezone :: string

datatype rdp_event =
    GuacamoleLoaded browser_view
  | GuacamoleFailed units
  | ClientState int
  | ClientError "units option"
  | MouseMoved GuacamoleMouseState rat
  | KeyPressed bool int
  | RdpUnmount

definition rdp_mount :: "string \<Rightarrow> string \<Rightarrow> string \<Rightarrow> string \<Rightarrow> rdp_pane" where
  "rdp_mount session asset ticket assetName = rdp_setStatus StConnecting (u16 ''Connecting'')
     \<lparr>rdp_session = session, rdp_asset = asset, rdp_pane_ticket = ticket, rdp_assetName = assetName,
      rdp_disposed = False, rdp_status = StConnecting, rdp_message = u16 ''Connecting'', rdp_client = False,
      rdp_url = None, rdp_ops = [], rdp_reports = [], rdp_handlers = False\<rparr>"

definition openRdp :: "browser_view \<Rightarrow> rdp_pane \<Rightarrow> rdp_pane" where
  "openRdp v p =
    (if rdp_disposed p \<or> rdp_client p then p
     else (let (height, width) = displaySize (bv_height v) (bv_width v);
               params = buildRdpConnectionParams \<lparr>rdp_dpi = display_dpi (bv_ratio v), rdp_height = height,
                 rdp_ticket = rdp_pane_ticket p, rdp_timezone = timezone_of (bv_timezone v), rdp_width = width\<rparr>
           in p\<lparr>rdp_client := True, rdp_url := Some (buildRdpWebSocketURL (rdp_asset p) (rdp_pane_ticket p) (bv_location v)),
                rdp_ops := rdp_ops p @ [OpConnect params], rdp_handlers := True,
                rdp_message := u16 (''Connecting to '' @ or_else (rdp_assetName p) (rdp_asset p))\<rparr>))"

definition client_onstatechange :: "int \<Rightarrow> rdp_pane \<Rightarrow> rdp_pane" where
  "client_onstatechange state p =
    (if rdp_disposed p \<or> \<not> rdp_client p then p
     else if state = 3 then rdp_setStatus StConnected (u16 ''Connected'') p
     else if state = 5 \<and> rdp_status p \<noteq> StError then rdp_setStatus StDisconnected (u16 ''Disconnected'') p
     else p)"

definition client_onerror :: "units option \<Rightarrow> rdp_pane \<Rightarrow> rdp_pane" where
  "client_onerror msg p =
    (if rdp_disposed p \<or> \<not> rdp_client p then p
     else rdp_setStatus StError (case msg of Some m \<Rightarrow> if m \<noteq> [] then m else u16 ''RDP connection error''
       | None \<Rightarrow> u16 ''RDP connection error'') p)"

text \<open>\<open>display.getScale() || 1\<close> divides the coordinates of every mouse event.\<close>

definition send_mouse :: "GuacamoleMouseState \<Rightarrow> rat \<Rightarrow> rdp_pane \<Rightarrow> rdp_pane" where
  "send_mouse m scale p =
    (if \<not> rdp_handlers p then p
     else (let sc = (if scale = 0 then 1 else scale)
           in p\<lparr>rdp_ops := rdp_ops p @ [OpMouse (m\<lparr>gm_x := num_div (gm_x m) sc, gm_y := num_div (gm_y m) sc\<rparr>)]\<rparr>))"

definition send_key :: "bool \<Rightarrow> int \<Rightarrow> rdp_pane \<Rightarrow> rdp_pane" where
  "send_key pressed keysym p =
    (if \<not> rdp_handlers p then p else p\<lparr>rdp_ops := rdp_ops p @ [OpKey pressed keysym]\<rparr>)"

definition rdp_cleanup :: "rdp_pane \<Rightarrow> rdp_pane" where
  "rdp_cleanup p = p\<lparr>rdp_disposed := True, rdp_handlers := False,
     rdp_ops := (if rdp_client p then rdp_ops p @ [OpDisconnect] else rdp_ops p), rdp_client := False\<rparr>"

fun rdp_step :: "rdp_event \<Rightarrow> rdp_pane \<Rightarrow> rdp_pane" where
  "rdp_step (GuacamoleLoaded v) p = openRdp v p"
| "rdp_step (GuacamoleFailed msg) p = (if rdp_disposed p then p else rdp_setStatus StError msg p)"
| "rdp_step (ClientState n) p = client_onstatechange n p"
| "rdp_step (ClientError m) p = client_onerror m p"
| "rdp_step (MouseMoved m scale) p = send_mouse m scale p"
| "rdp_step (KeyPressed b k) p = send_key b k p"
| "rdp_step RdpUnmount p = rdp_cleanup p"

section \<open>A pane is silent once it is gone\<close>

locale live_pane =
  fixes step :: "'e \<Rightarrow> 's \<Rightarrow> 's" and gone :: "'s \<Rightarrow> bool" and acts :: "'s \<Rightarrow> 'o"
  assumes gone_step: "gone s \<Longrightarrow> gone (step e s)"
    and gone_silent: "gone s \<Longrightarrow> acts (step e s) = acts s"
begin

lemma gone_run: "gone s \<Longrightarrow> gone (fold step es s) \<and> acts (fold step es s) = acts s"
proof (induction es arbitrary: s)
  case (Cons e es)
  then show ?case using Cons.IH [of "step e s"] by (simp add: gone_step gone_silent)
qed simp

end

text \<open>After the cleanup there is no terminal, no key or ping handler and no socket that could open.\<close>

definition ssh_gone :: "ssh_pane \<Rightarrow> bool" where
  "ssh_gone p = (ssh_disposed p \<and> \<not> ssh_input p \<and> \<not> ssh_ping p \<and> ssh_socket p \<in> {NoSocket, SocketClosing, SocketClosed})"

definition ssh_acts :: "ssh_pane \<Rightarrow> units list \<times> json list \<times> status_report list \<times> string option" where
  "ssh_acts p = (ssh_output p, ssh_sent p, ssh_reports p, ssh_url p)"

definition rdp_gone :: "rdp_pane \<Rightarrow> bool" where
  "rdp_gone p = (rdp_disposed p \<and> \<not> rdp_handlers p \<and> \<not> rdp_client p)"

definition rdp_acts :: "rdp_pane \<Rightarrow> client_op list \<times> status_report list \<times> string option" where
  "rdp_acts p = (rdp_ops p, rdp_reports p, rdp_url p)"

lemmas ssh_ops = openTerminal_def ws_onopen_def ws_onmessage_def ws_onerror_def ws_onclose_def ssh_cleanup_def
  fitAndResize_def ssh_send_def ssh_write_def ssh_setStatus_def

lemmas rdp_defs = openRdp_def client_onstatechange_def client_onerror_def send_mouse_def send_key_def rdp_cleanup_def
  rdp_setStatus_def

interpretation ssh: live_pane ssh_step ssh_gone ssh_acts
proof (unfold_locales, goal_cases)
  case (1 p e)
  then show ?case by (cases e) (auto simp: ssh_gone_def openTerminal_def ws_onopen_def ws_onmessage_def ws_onerror_def
      ws_onclose_def ssh_cleanup_def Let_def)
next
  case (2 p e)
  then show ?case by (cases e) (auto simp: ssh_gone_def ssh_acts_def openTerminal_def ws_onopen_def ws_onmessage_def
      ws_onerror_def ws_onclose_def ssh_cleanup_def Let_def)
qed

interpretation rdp: live_pane rdp_step rdp_gone rdp_acts
proof (unfold_locales, goal_cases)
  case (1 p e)
  then show ?case by (cases e) (auto simp: rdp_gone_def rdp_defs Let_def)
next
  case (2 p e)
  then show ?case by (cases e) (auto simp: rdp_gone_def rdp_acts_def rdp_defs Let_def)
qed

section \<open>Invariants of a pane's life\<close>

definition reports_ok :: "string \<Rightarrow> LiveStatus \<Rightarrow> status_report list \<Rightarrow> bool" where
  "reports_ok session status reports = (reports \<noteq> [] \<and> (\<forall>r\<in>set reports. rep_session r = session) \<and>
     rep_status (last reports) = status)"

definition ssh_inv :: "string \<Rightarrow> string \<Rightarrow> string \<Rightarrow> ssh_pane \<Rightarrow> bool" where
  "ssh_inv session asset ticket p =
    (ssh_session p = session \<and> ssh_asset p = asset \<and> ssh_ticket p = ticket \<and>
     reports_ok session (ssh_status p) (ssh_reports p) \<and>
     (ssh_url p = None \<longleftrightarrow> ssh_socket p = NoSocket) \<and>
     (\<forall>u. ssh_url p = Some u \<longrightarrow> (\<exists>loc. u = buildTerminalWebSocketURL asset ticket loc)) \<and>
     (ssh_disposed p \<longrightarrow> ssh_gone p) \<and>
     (ssh_socket p = SocketOpen \<or> ssh_sent p \<noteq> [] \<longrightarrow> StConnected \<in> rep_status ` set (ssh_reports p)))"

lemma ssh_inv_setStatus: "ssh_inv session asset ticket p \<Longrightarrow> ssh_inv session asset ticket (ssh_setStatus st m p)"
  by (auto simp: ssh_inv_def ssh_setStatus_def reports_ok_def ssh_gone_def)

lemma ssh_inv_write: "ssh_inv session asset ticket p \<Longrightarrow> ssh_inv session asset ticket (ssh_write t p)"
  by (simp add: ssh_inv_def ssh_write_def ssh_gone_def)

lemma ssh_inv_send: "ssh_inv session asset ticket p \<Longrightarrow> ssh_inv session asset ticket (ssh_send f p)"
  by (cases "ssh_socket p = SocketOpen") (simp_all add: ssh_inv_def ssh_send_def ssh_gone_def)

lemma ssh_inv_fit: "ssh_inv session asset ticket p \<Longrightarrow> ssh_inv session asset ticket (fitAndResize dims p)"
  by (auto simp: fitAndResize_def ssh_inv_send split: option.splits)

lemmas ssh_inv_ops = ssh_inv_setStatus ssh_inv_write ssh_inv_send ssh_inv_fit

lemma ssh_inv_socket:
  assumes "ssh_inv session asset ticket p" "\<not> ssh_disposed p" "ssh_socket p = NoSocket"
  shows "ssh_inv session asset ticket (p\<lparr>ssh_socket := SocketConnecting,
    ssh_url := Some (buildTerminalWebSocketURL (ssh_asset p) (ssh_ticket p) loc), ssh_input := True, ssh_ping := True\<rparr>)"
proof -
  have "\<exists>l. buildTerminalWebSocketURL asset ticket loc = buildTerminalWebSocketURL asset ticket l" by blast
  with assms show ?thesis by (simp add: ssh_inv_def)
qed

lemma ssh_inv_terminal: "ssh_inv session asset ticket p \<Longrightarrow> ssh_inv session asset ticket (p\<lparr>ssh_terminal := b\<rparr>)"
  by (simp add: ssh_inv_def ssh_gone_def)

lemma ssh_inv_open:
  assumes "ssh_inv session asset ticket p"
  shows "ssh_inv session asset ticket (openTerminal loc dims p)"
proof (cases "ssh_disposed p \<or> ssh_socket p \<noteq> NoSocket")
  case False
  let ?t = "u16 ''Connecting to '' @ u16 (or_else (ssh_assetName p) (ssh_asset p)) @ u16 ''...'' @ [13, 10]"
  let ?p = "ssh_write ?t (p\<lparr>ssh_terminal := True\<rparr>)"
  have "ssh_inv session asset ticket ?p" using assms by (intro ssh_inv_write ssh_inv_terminal)
  then have "ssh_inv session asset ticket (?p\<lparr>ssh_socket := SocketConnecting,
      ssh_url := Some (buildTerminalWebSocketURL (ssh_asset ?p) (ssh_ticket ?p) loc), ssh_input := True, ssh_ping := True\<rparr>)"
    using False by (intro ssh_inv_socket) (simp_all add: ssh_write_def)
  from ssh_inv_fit [OF this, of dims] show ?thesis using False
    unfolding openTerminal_def Let_def by (simp add: ssh_write_def)
qed (simp add: openTerminal_def assms)

lemma ssh_inv_onopen:
  assumes "ssh_inv session asset ticket p"
  shows "ssh_inv session asset ticket (ws_onopen dims p)"
proof (cases "ssh_socket p = SocketConnecting")
  case True
  then have "\<not> ssh_disposed p" using assms by (auto simp: ssh_inv_def ssh_gone_def)
  moreover have "ssh_inv session asset ticket
      (ssh_setStatus StConnected (u16 ''Connected'')
        (ssh_write ([27] @ u16 ''[32mconnected'' @ [27] @ u16 ''[0m'' @ [13, 10]) (p\<lparr>ssh_socket := SocketOpen\<rparr>)))"
    using assms True by (auto simp: ssh_inv_def ssh_setStatus_def ssh_write_def reports_ok_def ssh_gone_def)
  ultimately show ?thesis using True by (simp add: ws_onopen_def Let_def ssh_inv_fit)
qed (simp add: ws_onopen_def assms)

lemma ssh_inv_onclose: "ssh_inv session asset ticket p \<Longrightarrow> ssh_inv session asset ticket (ws_onclose p)"
proof -
  assume a: "ssh_inv session asset ticket p"
  have "ssh_inv session asset ticket (p\<lparr>ssh_socket := SocketClosed\<rparr>)" if "ssh_socket p \<noteq> NoSocket"
    using a that by (auto simp: ssh_inv_def ssh_gone_def)
  with a show ?thesis by (auto simp: ws_onclose_def Let_def ssh_inv_setStatus)
qed

lemma ssh_inv_step: "ssh_inv session asset ticket p \<Longrightarrow> ssh_inv session asset ticket (ssh_step e p)"
proof (cases e)
  case (WsMessage d)
  then show "ssh_inv session asset ticket p \<Longrightarrow> ?thesis"
    by (auto simp: ws_onmessage_def Let_def ssh_inv_ops split: option.splits)
next
  case SshUnmount
  then show "ssh_inv session asset ticket p \<Longrightarrow> ?thesis"
    by (auto simp: ssh_cleanup_def ssh_inv_def ssh_gone_def)
qed (auto simp: ssh_inv_ops ssh_inv_open ssh_inv_onopen ssh_inv_onclose ws_onerror_def)

lemma ssh_inv_mount: "ssh_inv session asset ticket (ssh_mount session asset ticket name)"
  by (simp add: ssh_mount_def ssh_inv_def ssh_setStatus_def reports_ok_def ssh_gone_def)

lemma ssh_inv_run: "ssh_inv session asset ticket p \<Longrightarrow> ssh_inv session asset ticket (fold ssh_step es p)"
  by (induction es arbitrary: p) (simp_all add: ssh_inv_step)

lemma ssh_unmount_gone: "ssh_gone (ssh_step SshUnmount p)"
  by (auto simp: ssh_cleanup_def ssh_gone_def)

lemma rdp_unmount_gone: "rdp_gone (rdp_step RdpUnmount p)"
  by (simp add: rdp_cleanup_def rdp_gone_def)

definition rdp_inv :: "string \<Rightarrow> string \<Rightarrow> string \<Rightarrow> rdp_pane \<Rightarrow> bool" where
  "rdp_inv session asset ticket p =
    (rdp_session p = session \<and> rdp_asset p = asset \<and> rdp_pane_ticket p = ticket \<and>
     reports_ok session (rdp_status p) (rdp_reports p) \<and>
     (\<forall>u. rdp_url p = Some u \<longrightarrow> (\<exists>loc. u = buildRdpWebSocketURL asset ticket loc)) \<and>
     (rdp_disposed p \<longrightarrow> rdp_gone p) \<and> (rdp_handlers p \<longrightarrow> rdp_client p) \<and>
     (if rdp_url p = None then rdp_ops p = [] \<and> \<not> rdp_client p
      else (\<exists>c. rdp_ops p \<noteq> [] \<and> hd (rdp_ops p) = OpConnect c) \<and>
        (rdp_client p \<longleftrightarrow> \<not> rdp_disposed p) \<and> (rdp_disposed p \<longleftrightarrow> OpDisconnect \<in> set (rdp_ops p))))"

lemma rdp_inv_step: "rdp_inv session asset ticket p \<Longrightarrow> rdp_inv session asset ticket (rdp_step e p)"
proof (cases e)
  case (GuacamoleLoaded v)
  then show "rdp_inv session asset ticket p \<Longrightarrow> ?thesis"
    by (cases "rdp_url p") (auto simp: rdp_inv_def openRdp_def rdp_gone_def Let_def split: prod.splits)
qed (auto simp: rdp_inv_def rdp_defs rdp_gone_def reports_ok_def Let_def)

lemma rdp_inv_mount: "rdp_inv session asset ticket (rdp_mount session asset ticket name)"
  by (simp add: rdp_mount_def rdp_inv_def rdp_setStatus_def reports_ok_def)

lemma rdp_inv_run: "rdp_inv session asset ticket p \<Longrightarrow> rdp_inv session asset ticket (fold rdp_step es p)"
  by (induction es arbitrary: p) (simp_all add: rdp_inv_step)

section \<open>Properties\<close>

text \<open>
  C35: a closed terminal tab stays closed: whatever happened before the tab was closed and whatever
  events still arrive afterwards (frames queued in the browser, a late open, keystrokes, timers, the
  client library finishing its load), nothing more is written, sent or reported, no socket is
  opened, and the socket that was there is closing or closed.
\<close>

theorem ssh_closed_tab_is_silent:
  "let p = fold ssh_step before (ssh_mount session asset ticket name);
       q = fold ssh_step after (ssh_step SshUnmount p)
   in ssh_output q = ssh_output p \<and> ssh_sent q = ssh_sent p \<and> ssh_reports q = ssh_reports p \<and>
      ssh_url q = ssh_url p \<and> (if ssh_url p = None then ssh_socket q = NoSocket
        else ssh_socket q \<in> {SocketClosing, SocketClosed})"
proof -
  let ?p = "fold ssh_step before (ssh_mount session asset ticket name)"
  let ?u = "ssh_step SshUnmount ?p"
  let ?q = "fold ssh_step after ?u"
  have run: "ssh_gone ?q \<and> ssh_acts ?q = ssh_acts ?u" by (rule ssh.gone_run [OF ssh_unmount_gone])
  have acts: "ssh_acts ?u = ssh_acts ?p" by (simp add: ssh_acts_def ssh_cleanup_def)
  have "ssh_inv session asset ticket ?q" by (intro ssh_inv_run ssh_inv_step ssh_inv_mount)
  then have "ssh_url ?q = None \<longleftrightarrow> ssh_socket ?q = NoSocket" by (simp add: ssh_inv_def)
  with run acts show ?thesis by (auto simp: Let_def ssh_acts_def ssh_gone_def)
qed

text \<open>
  The page learns the true state of a terminal, and the terminal talks to its own asset only. In
  every state a pane can reach: each report names the pane's own session, the last report is the
  status shown, the socket (if there is one) was opened for the pane's asset with its ticket, and
  nothing was sent before the connection was reported.
\<close>

theorem ssh_reports_are_true:
  "let p = fold ssh_step es (ssh_mount session asset ticket name) in
     ssh_reports p \<noteq> [] \<and> rep_status (last (ssh_reports p)) = ssh_status p \<and>
     rep_session ` set (ssh_reports p) = {session} \<and>
     (ssh_url p \<in> insert None (range (\<lambda>loc. Some (buildTerminalWebSocketURL asset ticket loc)))) \<and>
     (if StConnected \<in> rep_status ` set (ssh_reports p) then True else ssh_sent p = [])"
proof -
  let ?p = "fold ssh_step es (ssh_mount session asset ticket name)"
  have inv: "ssh_inv session asset ticket ?p" by (intro ssh_inv_run ssh_inv_mount)
  then have "ssh_url ?p \<in> insert None (range (\<lambda>loc. Some (buildTerminalWebSocketURL asset ticket loc)))"
    by (cases "ssh_url ?p") (auto simp: ssh_inv_def)
  moreover have "rep_session ` set (ssh_reports ?p) = {session}"
    using inv by (cases "ssh_reports ?p") (auto simp: ssh_inv_def reports_ok_def)
  ultimately show ?thesis using inv by (auto simp: Let_def ssh_inv_def reports_ok_def)
qed

text \<open>
  How a terminal ends is not forgotten when its socket closes: after an exit frame or an error the
  status stays as it is when the close event follows; only a terminal that was still connecting or
  connected is reported as disconnected. A frame that is no JSON text changes nothing.
\<close>

theorem ssh_end_is_kept:
  assumes "\<not> ssh_disposed p" "ssh_socket p \<noteq> NoSocket"
  shows "ssh_status (ssh_step WsClose p) =
      (if ssh_status p = StError \<or> ssh_status p = StClosed then ssh_status p else StDisconnected) \<and>
    (json_parse t = None \<longrightarrow> ssh_step (WsMessage (TextData t)) p = p) \<and>
    ssh_step (WsMessage BinaryData) p = p \<and>
    (json_parse t = Some (JObj [(u16 ''type'', JStr (u16 ''exit'')), (u16 ''code'', JNum (num_of_int c))]) \<longrightarrow>
      ssh_socket p = SocketOpen \<longrightarrow> ssh_status (ssh_step WsClose (ssh_step (WsMessage (TextData t)) p)) = StClosed)"
  using assms
  by (auto simp: ws_onclose_def ws_onmessage_def frameFromMessage_def ssh_setStatus_def ssh_write_def Let_def
      split: option.splits)

theorem ssh_end_is_kept_witness:
  "let p = fold ssh_step [XtermLoaded \<lparr>at_host = ''h'', at_protocol = ''https:''\<rparr> None, WsOpen None] (ssh_mount ''s'' ''a'' ''t'' ''n'')
   in ssh_status (ssh_step WsClose p) = StDisconnected"
proof -
  let ?p = "fold ssh_step [XtermLoaded \<lparr>at_host = ''h'', at_protocol = ''https:''\<rparr> None, WsOpen None] (ssh_mount ''s'' ''a'' ''t'' ''n'')"
  have "\<not> ssh_disposed ?p" "ssh_socket ?p \<noteq> NoSocket" "ssh_status ?p = StConnected"
    by (simp_all add: ssh_mount_def openTerminal_def ws_onopen_def fitAndResize_def ssh_setStatus_def ssh_write_def Let_def)
  with ssh_end_is_kept [of ?p] show ?thesis by (simp only: Let_def) simp
qed

definition data_frame :: "units \<Rightarrow> json" where
  "data_frame d = JObj [(u16 ''type'', JStr (u16 ''data'')), (u16 ''payload'', JStr d)]"

lemma typed_open:
  "ssh_input p \<Longrightarrow> ssh_socket p = SocketOpen \<Longrightarrow>
     fold ssh_step (map UserTyped ds) p = p\<lparr>ssh_sent := ssh_sent p @ map data_frame ds\<rparr>"
  by (induction ds arbitrary: p) (simp_all add: ssh_send_def data_frame_def)

text \<open>
  C8: keystrokes reach the server complete and in order: while the socket is open, typing a sequence of
  texts sends one data frame per text, in order, after what was sent before, and each frame's JSON
  text reads back as the typed text; while it is not open nothing is sent.
\<close>

theorem keystrokes_in_order:
  assumes "ssh_input p" "list_all wf_units ds"
  shows "ssh_sent (fold ssh_step (map UserTyped ds) p) =
      (if ssh_socket p = SocketOpen then ssh_sent p @ map data_frame ds else ssh_sent p) \<and>
    map (\<lambda>f. map_option (\<lambda>v. json_prop v ''payload'') (json_parse (json_stringify f))) (map data_frame ds) =
      map (\<lambda>d. Some (Some (JStr d))) ds"
proof -
  have "ssh_sent (fold ssh_step (map UserTyped ds) p) = ssh_sent p" if "ssh_socket p \<noteq> SocketOpen"
    using that by (induction ds) (simp_all add: ssh_send_def)
  moreover have "json_parse (json_stringify (data_frame d)) = Some (data_frame d)" if "wf_units d" for d
    using that by (intro json_parse_stringify) (simp add: data_frame_def)
  ultimately show ?thesis
    using assms typed_open [OF assms(1), of ds]
    by (auto simp: list_all_iff data_frame_def simp del: json_stringify.simps)
qed

theorem keystrokes_in_order_witness:
  "let p = fold ssh_step [XtermLoaded \<lparr>at_host = ''h'', at_protocol = ''https:''\<rparr> None, WsOpen None] (ssh_mount ''s'' ''a'' ''t'' ''n'')
   in ssh_sent (fold ssh_step [UserTyped (u16 ''ls''), UserTyped [13]] p) = [data_frame (u16 ''ls''), data_frame [13]]"
proof -
  let ?p = "fold ssh_step [XtermLoaded \<lparr>at_host = ''h'', at_protocol = ''https:''\<rparr> None, WsOpen None] (ssh_mount ''s'' ''a'' ''t'' ''n'')"
  have "ssh_input ?p" "ssh_socket ?p = SocketOpen" "ssh_sent ?p = []"
    by (simp_all add: ssh_mount_def openTerminal_def ws_onopen_def fitAndResize_def ssh_setStatus_def ssh_write_def Let_def)
  moreover have "list_all wf_units [u16 ''ls'', [13]]" by (simp add: wf_units_def u16_def)
  ultimately show ?thesis
    using keystrokes_in_order [of ?p "[u16 ''ls'', [13]]"] by (simp only: Let_def) simp
qed

text \<open>
  A closed desktop tab is disconnected and then silent: after the tab is closed no
  operation reaches the client and no report the page, whatever events still arrive; if a
  connection was made it was made for the pane's asset and ticket, its first operation is the
  connection and the disconnection is sent, and if none was made none is made later.
\<close>

theorem rdp_closed_tab_is_silent:
  "let p = fold rdp_step before (rdp_mount session asset ticket name);
       q = fold rdp_step after (rdp_step RdpUnmount p)
   in rdp_reports q = rdp_reports p \<and> rdp_url q = rdp_url p \<and>
      rdp_url q \<in> insert None (range (\<lambda>loc. Some (buildRdpWebSocketURL asset ticket loc))) \<and>
      (if rdp_url p = None then rdp_ops q = []
       else rdp_ops q = rdp_ops (rdp_step RdpUnmount p) \<and> OpDisconnect \<in> set (rdp_ops q) \<and>
         (\<exists>c. hd (rdp_ops q) = OpConnect c))"
proof -
  let ?p = "fold rdp_step before (rdp_mount session asset ticket name)"
  let ?u = "rdp_step RdpUnmount ?p"
  let ?q = "fold rdp_step after ?u"
  have run: "rdp_gone ?q \<and> rdp_acts ?q = rdp_acts ?u" by (rule rdp.gone_run [OF rdp_unmount_gone])
  have u: "rdp_reports ?u = rdp_reports ?p" "rdp_url ?u = rdp_url ?p" by (simp_all add: rdp_cleanup_def)
  have inv: "rdp_inv session asset ticket ?q" by (intro rdp_inv_run rdp_inv_step rdp_inv_mount)
  then have "rdp_url ?q \<in> insert None (range (\<lambda>loc. Some (buildRdpWebSocketURL asset ticket loc)))"
    by (cases "rdp_url ?q") (auto simp: rdp_inv_def)
  with run u inv show ?thesis
    by (auto simp: Let_def rdp_acts_def rdp_inv_def rdp_gone_def simp del: rdp_step.simps)
qed

end
