(* ===== verification/PageLib.thy ===== *)
theory PageLib
  imports ApiContracts Permissions
begin

text \<open>
  What the pages of \<open>src/web/src/features\<close> share: the feedback line of a mutation, the state of a
  query with the panel it shows (\<open>src/web/src/components/PanelState.tsx\<close>), and two contracts.
  \<open>mutation\<close> is the contract of the callbacks a page hands to \<open>useMutation\<close>; \<open>gated_page\<close> is the
  contract of the queries a page enables. Each page interprets both on its own definitions.
\<close>

section \<open>Feedback\<close>

datatype feedback_kind = FeedbackError | FeedbackSuccess

record ActionFeedback =
  fb_kind :: feedback_kind
  fb_message :: units

abbreviation success_feedback :: "units \<Rightarrow> ActionFeedback option" where
  "success_feedback m \<equiv> Some \<lparr>fb_kind = FeedbackSuccess, fb_message = m\<rparr>"

abbreviation error_feedback :: "units \<Rightarrow> ActionFeedback option" where
  "error_feedback m \<equiv> Some \<lparr>fb_kind = FeedbackError, fb_message = m\<rparr>"

section \<open>Panels\<close>

datatype PanelStateKind = PanelEmpty | PanelError | PanelLoading | PanelPermission | PanelSuccess

text \<open>The class names of a panel.\<close>

definition PanelState :: "PanelStateKind \<Rightarrow> string" where
  "PanelState kind =
    (let isWarning = (kind = PanelError \<or> kind = PanelPermission); isSuccess = (kind = PanelSuccess)
     in ''notice-row'' @ (if isWarning then '' warn'' else []) @ (if isSuccess then '' ok'' else []))"

text \<open>
  The state of a query as the pages read it: \<open>isLoading\<close>, the error of \<open>isError\<close>, the data of the last
  successful answer. A query that has not been enabled is neither loading nor failed.
\<close>

record 'a query =
  q_loading :: bool
  q_error :: "call_error option"
  q_data :: "'a option"

definition query_items :: "'a list query \<Rightarrow> 'a list" where
  "query_items q = (case q_data q of None \<Rightarrow> [] | Some xs \<Rightarrow> xs)"

text \<open>
  The panels above a list: missing permission, error, loading, empty. \<open>items\<close> are the rows shown below
  when there are any.
\<close>

definition list_panels :: "string \<Rightarrow> string \<Rightarrow> string \<Rightarrow> bool \<Rightarrow> 'a query \<Rightarrow> 'b list \<Rightarrow> (PanelStateKind \<times> units) list" where
  "list_panels permission_text loading_text empty_text can_read q items =
    (if \<not> can_read then [(PanelPermission, u16 permission_text)] else []) @
    (case q_error q of Some e \<Rightarrow> if can_read then [(PanelError, error_text e)] else [] | None \<Rightarrow> []) @
    (if can_read \<and> q_loading q then [(PanelLoading, u16 loading_text)] else []) @
    (if can_read \<and> \<not> q_loading q \<and> q_error q = None \<and> items = [] then [(PanelEmpty, u16 empty_text)] else [])"

text \<open>A list is never blank: there is a panel or there are rows; and a permission panel stands alone.\<close>

lemma list_panels_never_blank: "list_panels p l e can_read q items \<noteq> [] \<or> items \<noteq> []"
  by (auto simp: list_panels_def)

lemma list_panels_forbidden: "list_panels p l e False q items = [(PanelPermission, u16 p)]"
  by (simp add: list_panels_def split: option.splits)

lemma list_panels_one:
  "\<not> (q_loading q \<and> q_error q \<noteq> None) \<Longrightarrow> length (list_panels p l e can_read q items) \<le> 1"
  by (auto simp: list_panels_def split: option.splits)

section \<open>Mutations\<close>

text \<open>An answer is handed to \<open>onSuccess\<close> or \<open>onError\<close>.\<close>

definition settle :: "('r \<Rightarrow> 's \<Rightarrow> 's) \<Rightarrow> ('e \<Rightarrow> 's \<Rightarrow> 's) \<Rightarrow> 'e + 'r \<Rightarrow> 's \<Rightarrow> 's" where
  "settle on_success on_error r s = (case r of Inl e \<Rightarrow> on_error e s | Inr x \<Rightarrow> on_success x s)"

text \<open>
  The contract of a mutation: starting it clears the feedback line, success leaves a success line, a
  failure leaves the error's own text and nothing but the line changes.
\<close>

locale mutation =
  fixes on_mutate :: "'s \<Rightarrow> 's"
    and on_success :: "'r \<Rightarrow> 's \<Rightarrow> 's"
    and on_error :: "'e \<Rightarrow> 's \<Rightarrow> 's"
    and feedback :: "'s \<Rightarrow> ActionFeedback option"
    and text_of :: "'e \<Rightarrow> units"
    and rest :: "'s \<Rightarrow> 'v"
  assumes mutate_clears: "feedback (on_mutate s) = None"
    and mutate_keeps: "rest (on_mutate s) = rest s"
    and success_line: "\<exists>m. feedback (on_success r s) = success_feedback m"
    and error_line: "feedback (on_error e s) = error_feedback (text_of e)"
    and error_keeps: "rest (on_error e s) = rest s"
begin

lemma outcome_shown:
  "\<exists>fb. feedback (settle on_success on_error r (on_mutate s)) = Some fb \<and>
     (fb_kind fb = FeedbackError \<longleftrightarrow> (\<exists>e. r = Inl e \<and> fb_message fb = text_of e))"
proof (cases r)
  case (Inl e)
  then show ?thesis by (simp add: settle_def error_line)
next
  case (Inr x)
  then show ?thesis using success_line [of x "on_mutate s"] by (auto simp: settle_def)
qed

lemma failure_keeps: "rest (settle on_success on_error (Inl e) (on_mutate s)) = rest s"
  by (simp add: settle_def error_keeps mutate_keeps)

end

section \<open>Queries\<close>

text \<open>A list of queries with their \<open>enabled\<close> condition: the requests that are made.\<close>

definition enabled_calls :: "(bool \<times> api_call) list \<Rightarrow> api_call list" where
  "enabled_calls qs = map snd (filter fst qs)"

lemma enabled_calls_simps [simp]:
  "enabled_calls [] = []"
  "enabled_calls ((b, c) # qs) = (if b then c # enabled_calls qs else enabled_calls qs)"
  by (simp_all add: enabled_calls_def)

text \<open>
  The contract of a page's queries: without a signed-in user nothing is asked, and nothing without one
  of the page's reading permissions.
\<close>

locale gated_page =
  fixes queries :: "(string \<Rightarrow> bool) \<Rightarrow> string \<Rightarrow> 's \<Rightarrow> api_call list" and reads :: "string list"
  assumes no_user: "queries can [] s = []"
    and no_permission: "\<forall>p\<in>set reads. \<not> can p \<Longrightarrow> queries can u s = []"
begin

lemma no_identity: "queries (createPermissionChecker None) u s = []"
  by (rule no_permission) (simp add: createPermissionChecker_def perm.check_none)

lemma asks_only_with_permission: "c \<in> set (queries can u s) \<Longrightarrow> u \<noteq> [] \<and> (\<exists>p\<in>set reads. can p)"
  using no_user no_permission [of can u s] by (cases "u = []") force+

end

text \<open>\<open>permissions.filter((permission) => permission.startsWith(prefix))\<close>\<close>

definition permissions_with_prefix :: "string \<Rightarrow> string list option \<Rightarrow> string list" where
  "permissions_with_prefix pre ps = filter (\<lambda>p. take (length pre) p = pre) (case ps of None \<Rightarrow> [] | Some xs \<Rightarrow> xs)"

text \<open>\<open>value.trim() || undefined\<close>\<close>

definition trim_opt :: "string \<Rightarrow> string option" where
  "trim_opt s = (if trim s = [] then None else Some (trim s))"

text \<open>The options of a request with one or two members given.\<close>

definition no_asset_options :: ListAssetsOptions where
  "no_asset_options = \<lparr>assetopt_accountID = None, assetopt_criticality = None, assetopt_env = None,
     assetopt_isVPCProxy = None, assetopt_limit = None, assetopt_offset = None, assetopt_owner = None,
     assetopt_query = None, assetopt_region = None, assetopt_source = None, assetopt_status = None, assetopt_type = None\<rparr>"

text \<open>An asset in a selection list: the name with environment, region and address when known.\<close>

definition assetOptionLabel :: "Asset \<Rightarrow> string" where
  "assetOptionLabel asset =
    (let name = or_else (asset_name asset) (asset_id asset);
         detail = join '' / '' (filter (\<lambda>x. x \<noteq> []) [asset_env asset, opt_or (asset_region asset) [],
           or_else (opt_or (asset_private_ip asset) []) (opt_or (asset_public_ip asset) [])])
     in if detail \<noteq> [] then name @ '' ('' @ detail @ '')'' else name)"

end
