(* ===== verification/SessionsPage.thy ===== *)
theory SessionsPage
  imports Auth Launch LivePanes PageLib
begin

text \<open>
  The live workspace, \<open>src/web/src/features/sessions/SessionsPage.tsx\<close>, with the asset rail's filters
  (\<open>AssetRail.tsx\<close>) and the database access card (\<open>DbAccessCard.tsx\<close>): the launch of a session from
  an asset's connection profile, the list of live tabs with the active one, the status reports of
  the panes, and the automatic launch from a deep link. Answers of the server are arguments; a
  launch returns the requests it made besides its outcome.
\<close>

section \<open>Launching\<close>

datatype DbProtocol = Mysql | Postgres | Redis

fun DbProtocol_str :: "DbProtocol \<Rightarrow> string" where
  "DbProtocol_str Mysql = ''mysql''"
| "DbProtocol_str Postgres = ''postgres''"
| "DbProtocol_str Redis = ''redis''"

record DbAccessInfo =
  db_asset :: Asset
  db_protocol :: DbProtocol
  db_ticket :: string
  db_expiresAt :: string
  db_username :: string
  db_database :: string

record TerminalLaunchResult =
  tl_asset :: Asset
  tl_expiresAt :: string
  tl_kind :: LaunchProtocol
  tl_ticket :: string

datatype LaunchOutcome = LiveOutcome TerminalLaunchResult | DbOutcome DbAccessInfo

definition isDbProtocol :: "string \<Rightarrow> DbProtocol option" where
  "isDbProtocol p = (if p = ''mysql'' then Some Mysql else if p = ''postgres'' then Some Postgres
     else if p = ''redis'' then Some Redis else None)"

definition hasSSHCredentials :: "Asset \<Rightarrow> AssetConnectionProfile \<Rightarrow> bool" where
  "hasSSHCredentials asset profile = (conn_has_password profile \<or> conn_has_private_key profile \<or> truthy (asset_key_name asset))"

definition hasRDPCredentials :: "AssetConnectionProfile \<Rightarrow> bool" where
  "hasRDPCredentials profile = conn_has_password profile"

definition isNotFoundError :: "call_error \<Rightarrow> bool" where
  "isNotFoundError e = (case e of ApiFailure a \<Rightarrow> err_status a = 404 | FetchRejected m \<Rightarrow> False)"

definition live_protocol :: "string \<Rightarrow> LaunchProtocol option" where
  "live_protocol raw = (if raw = ''ssh'' then Some SSH else if raw = ''rdp'' then Some RDP
     else if raw = ''vnc'' then Some VNC else if raw = ''telnet'' then Some Telnet else None)"

definition upper_char :: "char \<Rightarrow> char" where
  "upper_char c = (let n = of_char c :: nat in if 97 \<le> n \<and> n \<le> 122 then char_of (n - 32) else c)"

text \<open>\<open>toUpperCase\<close>, used on the protocol names only.\<close>

definition toUpperCase :: "string \<Rightarrow> string" where
  "toUpperCase s = map upper_char s"

datatype launch_error = LaunchMessage string | LaunchCall call_error

text \<open>
  The mutation of a launch. \<open>assetR\<close>, \<open>profileR\<close> and \<open>ticketR\<close> are the answers of the server to the
  asset, the profile and whichever ticket request is made; the second component lists the requests
  in order.
\<close>

definition launch_live :: "Asset \<Rightarrow> AssetConnectionProfile \<Rightarrow> string \<Rightarrow> LaunchProtocol \<Rightarrow> call_error + SessionTicketResponse
    \<Rightarrow> (launch_error + LaunchOutcome) \<times> api_call list" where
  "launch_live asset profile assetID protocol ticketR =
    (let name = toUpperCase (LaunchProtocol_str protocol) in
     if protocol = SSH \<and> \<not> hasSSHCredentials asset profile
       then (Inl (LaunchMessage ''SSH connection has no saved credentials or EC2 KeyName.''), [])
     else if protocol \<noteq> SSH \<and> \<not> hasRDPCredentials profile
       then (Inl (LaunchMessage (name @ '' connection has no saved password.'')), [])
     else (case ticketR of
         Inl e \<Rightarrow> Inl (LaunchCall e)
       | Inr t \<Rightarrow> if ticket_ticket t = [] then Inl (LaunchMessage (''No '' @ name @ '' ticket returned.''))
           else Inr (LiveOutcome \<lparr>tl_asset = asset, tl_expiresAt = ticket_expires_at t, tl_kind = protocol,
             tl_ticket = ticket_ticket t\<rparr>),
       [if protocol = SSH then issueTerminalTicket assetID else issueRdpTicket assetID]))"

definition launch_db :: "Asset \<Rightarrow> AssetConnectionProfile \<Rightarrow> string \<Rightarrow> DbProtocol \<Rightarrow> call_error + SessionTicketResponse
    \<Rightarrow> (launch_error + LaunchOutcome) \<times> api_call list" where
  "launch_db asset profile assetID protocol ticketR =
    (let name = toUpperCase (DbProtocol_str protocol) in
     if \<not> conn_has_password profile then (Inl (LaunchMessage (name @ '' connection has no saved password.'')), [])
     else (case ticketR of
         Inl e \<Rightarrow> Inl (LaunchCall e)
       | Inr t \<Rightarrow> if ticket_ticket t = [] then Inl (LaunchMessage (''No '' @ name @ '' ticket returned.''))
           else Inr (DbOutcome \<lparr>db_asset = asset, db_protocol = protocol, db_ticket = ticket_ticket t,
             db_expiresAt = ticket_expires_at t, db_username = or_else (conn_username profile) [],
             db_database = opt_or (conn_database profile) []\<rparr>),
       [issueDbTicket assetID]))"

definition launchTerminal :: "string \<Rightarrow> call_error + Asset \<Rightarrow> call_error + AssetConnectionProfile
    \<Rightarrow> call_error + SessionTicketResponse \<Rightarrow> (launch_error + LaunchOutcome) \<times> api_call list" where
  "launchTerminal assetID assetR profileR ticketR =
    (case assetR of
       Inl e \<Rightarrow> (Inl (LaunchCall e), [getAsset assetID])
     | Inr asset \<Rightarrow>
         (let calls = [getAsset assetID, getAssetConnectionProfile assetID] in
          (case profileR of
             Inl e \<Rightarrow> (Inl (if isNotFoundError e
                 then LaunchMessage ''This asset has no connection profile. Configure it in CMDB first.''
                 else LaunchCall e), calls)
           | Inr profile \<Rightarrow>
               (let raw = toLowerCase (or_else (conn_protocol profile) ''ssh'') in
                (case isDbProtocol raw of
                   Some p \<Rightarrow> (let (r, cs) = launch_db asset profile assetID p ticketR in (r, calls @ cs))
                 | None \<Rightarrow>
                     (case live_protocol raw of
                        None \<Rightarrow> (Inl (LaunchMessage (''Unsupported session protocol '' @ [CHR 0x22] @ raw @ [CHR 0x22] @
                          '' on this asset'' @ [CHR 0x27] @ ''s connection profile.'')), calls)
                      | Some p \<Rightarrow> (let (r, cs) = launch_live asset profile assetID p ticketR in (r, calls @ cs))))))))"

section \<open>The page\<close>

record LiveSession =
  ls_asset :: Asset
  ls_expiresAt :: string
  ls_id :: string
  ls_kind :: LaunchProtocol
  ls_message :: "units option"
  ls_status :: LiveStatus
  ls_ticket :: string

record sessions_page =
  pg_liveSessions :: "LiveSession list"
  pg_activeLiveID :: string
  pg_feedback :: "ActionFeedback option"
  pg_dbAccess :: "DbAccessInfo option"
  pg_consumed :: string

definition sessions_mount :: sessions_page where
  "sessions_mount = \<lparr>pg_liveSessions = [], pg_activeLiveID = [], pg_feedback = None, pg_dbAccess = None, pg_consumed = []\<rparr>"

definition updateLiveSessionStatus :: "string \<Rightarrow> LiveStatus \<Rightarrow> units option \<Rightarrow> sessions_page \<Rightarrow> sessions_page" where
  "updateLiveSessionStatus sessionID status message s = s\<lparr>pg_liveSessions :=
     map (\<lambda>session. if ls_id session = sessionID then session\<lparr>ls_message := message, ls_status := status\<rparr> else session)
       (pg_liveSessions s)\<rparr>"

definition closeLiveSession :: "string \<Rightarrow> sessions_page \<Rightarrow> sessions_page" where
  "closeLiveSession sessionID s =
    (let rest = filter (\<lambda>session. ls_id session \<noteq> sessionID) (pg_liveSessions s)
     in s\<lparr>pg_liveSessions := rest,
          pg_activeLiveID := (if pg_activeLiveID s = sessionID then (case rest of [] \<Rightarrow> [] | x # _ \<Rightarrow> or_else (ls_id x) [])
            else pg_activeLiveID s)\<rparr>)"

definition asset_label :: "Asset \<Rightarrow> string" where
  "asset_label a = or_else (asset_name a) (asset_id a)"

text \<open>\<open>onSuccess\<close>, with the identifier \<open>createLiveSessionID\<close> returned.\<close>

definition launch_onSuccess :: "string \<Rightarrow> LaunchOutcome \<Rightarrow> sessions_page \<Rightarrow> sessions_page" where
  "launch_onSuccess sessionID outcome s = (case outcome of
     DbOutcome db \<Rightarrow> s\<lparr>pg_dbAccess := Some db, pg_feedback := Some \<lparr>fb_kind = FeedbackSuccess,
       fb_message = u16 (''DB access ready for '' @ asset_label (db_asset db) @ ''.'')\<rparr>\<rparr>
   | LiveOutcome live \<Rightarrow> s\<lparr>pg_liveSessions := pg_liveSessions s @ [\<lparr>ls_asset = tl_asset live, ls_expiresAt = tl_expiresAt live,
         ls_id = sessionID, ls_kind = tl_kind live, ls_message = None, ls_status = StConnecting, ls_ticket = tl_ticket live\<rparr>],
       pg_activeLiveID := sessionID, pg_feedback := Some \<lparr>fb_kind = FeedbackSuccess,
         fb_message = u16 (toUpperCase (LaunchProtocol_str (tl_kind live)) @ '' ticket issued for '' @ asset_label (tl_asset live) @ ''.'')\<rparr>\<rparr>)"

definition launch_onError :: "launch_error \<Rightarrow> sessions_page \<Rightarrow> sessions_page" where
  "launch_onError e s = s\<lparr>pg_feedback := Some \<lparr>fb_kind = FeedbackError, fb_message = (case e of
      LaunchMessage m \<Rightarrow> u16 m
    | LaunchCall c \<Rightarrow> error_text c)\<rparr>\<rparr>"

definition launch_onMutate :: "sessions_page \<Rightarrow> sessions_page" where
  "launch_onMutate s = s\<lparr>pg_feedback := None\<rparr>"

text \<open>\<open>launchSelectedAsset\<close>: the asset to launch, if any.\<close>

definition launchSelectedAsset :: "string \<Rightarrow> sessions_page \<Rightarrow> sessions_page \<times> string option" where
  "launchSelectedAsset selectedAssetID s =
    (let assetID = trim selectedAssetID in
     if assetID = [] then (s\<lparr>pg_feedback := Some \<lparr>fb_kind = FeedbackError,
       fb_message = u16 ''Select an asset before launching a session.''\<rparr>\<rparr>, None)
     else (launch_onMutate s, Some assetID))"

text \<open>The effect that launches from a deep link: the asset to launch and whether the query is cleared.\<close>

definition auto_launch :: "bool \<Rightarrow> string \<Rightarrow> search_params \<Rightarrow> sessions_page \<Rightarrow> sessions_page \<times> (string \<times> search_params) option" where
  "auto_launch canReadSessions userID searchParams s =
    (if \<not> canReadSessions \<or> userID = [] then (s, None)
     else (case parseLaunchParams searchParams of
        None \<Rightarrow> (s, None)
      | Some spec \<Rightarrow> if pg_consumed s = spec_assetID spec then (s, None)
          else (launch_onMutate (s\<lparr>pg_consumed := spec_assetID spec\<rparr>), Some (spec_assetID spec, []))))"

datatype page_event =
    Launched string LaunchOutcome
  | LaunchFailed launch_error
  | PaneReport status_report
  | CloseTab string
  | SelectTab string

fun page_step :: "page_event \<Rightarrow> sessions_page \<Rightarrow> sessions_page" where
  "page_step (Launched i r) s = launch_onSuccess i r s"
| "page_step (LaunchFailed e) s = launch_onError e s"
| "page_step (PaneReport r) s = updateLiveSessionStatus (rep_session r) (rep_status r) (Some (rep_message r)) s"
| "page_step (CloseTab i) s = closeLiveSession i s"
| "page_step (SelectTab i) s = (if i \<in> ls_id ` set (pg_liveSessions s) then s\<lparr>pg_activeLiveID := i\<rparr> else s)"

section \<open>The asset rail and the access card\<close>

definition rail_envOptions :: "Asset list \<Rightarrow> string list" where
  "rail_envOptions assets = js_sort (set_of [] (map assetEnvKey (filter (\<lambda>a. isConnectableAsset (Some a)) assets)))"

definition rail_tree :: "(string \<Rightarrow> string \<Rightarrow> int) \<Rightarrow> string \<Rightarrow> string \<Rightarrow> string \<Rightarrow> Asset list \<Rightarrow> AssetTreeEnv list" where
  "rail_tree localeCompare envFilter tagFilter search assets =
    (let connectableAssets = filter (\<lambda>a. isConnectableAsset (Some a)) assets;
         facetFiltered = filter (\<lambda>asset. (envFilter = [] \<or> assetEnvKey asset = envFilter) \<and> assetMatchesTag asset tagFilter)
           connectableAssets
     in buildAssetTree localeCompare (filterConnectableAssets facetFiltered search))"

definition DEFAULT_LOCAL_PORT :: "DbProtocol \<Rightarrow> int" where
  "DEFAULT_LOCAL_PORT p = (case p of Mysql \<Rightarrow> 13306 | Postgres \<Rightarrow> 15432 | Redis \<Rightarrow> 16379)"

definition wsBase :: "LocationLike \<Rightarrow> string" where
  "wsBase loc = (if at_protocol loc = ''https:'' then ''wss'' else ''ws'') @ ''://'' @ at_host loc"

definition clientCommand :: "DbProtocol \<Rightarrow> int \<Rightarrow> string \<Rightarrow> string \<Rightarrow> string" where
  "clientCommand protocol port username database =
    (let user = or_else username ''<user>'' in
     case protocol of
       Mysql \<Rightarrow> ''mysql -h 127.0.0.1 -P '' @ int_str port @ '' -u '' @ user @ '' -p''
     | Postgres \<Rightarrow> ''psql '' @ [CHR 0x22] @ ''host=127.0.0.1 port='' @ int_str port @ '' user='' @ user @ '' dbname='' @
         or_else database ''<db>'' @ [CHR 0x22]
     | Redis \<Rightarrow> ''redis-cli -h 127.0.0.1 -p '' @ int_str port)"

definition tunnelCmd :: "LocationLike \<Rightarrow> int \<Rightarrow> DbAccessInfo \<Rightarrow> string" where
  "tunnelCmd loc port info = ''websocat --binary tcp-listen:127.0.0.1:'' @ int_str port @ '' '' @ wsBase loc @
     ''/ws/v1/cmdb/assets/'' @ encodeURIComponent (asset_id (db_asset info)) @ ''/db?ticket='' @ db_ticket info"

section \<open>Facts\<close>

text \<open>The requests that issue a ticket for an asset, and the credentials each protocol needs.\<close>

definition ticket_calls :: "string \<Rightarrow> api_call list" where
  "ticket_calls a = [issueTerminalTicket a, issueRdpTicket a, issueDbTicket a]"

definition has_credentials :: "Asset \<Rightarrow> AssetConnectionProfile \<Rightarrow> bool" where
  "has_credentials asset profile = (case toLowerCase (or_else (conn_protocol profile) ''ssh'') of
     raw \<Rightarrow> if raw = ''ssh'' then hasSSHCredentials asset profile else conn_has_password profile)"

lemma get_not_ticket: "getAsset a \<notin> set (ticket_calls b)" "getAssetConnectionProfile a \<notin> set (ticket_calls b)"
  by (simp_all add: ticket_calls_def getAsset_def getAssetConnectionProfile_def issueTerminalTicket_def
      issueRdpTicket_def issueDbTicket_def call_get_def call_send_def no_options_def)

lemma live_protocol_str: "live_protocol raw = Some p \<longleftrightarrow> raw = LaunchProtocol_str p"
  by (cases p) (auto simp: live_protocol_def)

lemma isDbProtocol_str: "isDbProtocol raw = Some p \<longleftrightarrow> raw = DbProtocol_str p"
  by (cases p) (auto simp: isDbProtocol_def)

lemma launch_live_calls:
  "snd (launch_live asset profile i p t) = [] \<or>
   (if p = SSH then hasSSHCredentials asset profile else conn_has_password profile) \<and>
     snd (launch_live asset profile i p t) = [if p = SSH then issueTerminalTicket i else issueRdpTicket i]"
  by (simp add: launch_live_def Let_def hasRDPCredentials_def)

lemma launch_live_ok:
  "fst (launch_live asset profile i p t) = Inr out \<Longrightarrow> (\<exists>r. t = Inr r \<and> ticket_ticket r \<noteq> [] \<and>
     out = LiveOutcome \<lparr>tl_asset = asset, tl_expiresAt = ticket_expires_at r, tl_kind = p, tl_ticket = ticket_ticket r\<rparr>) \<and>
   snd (launch_live asset profile i p t) = [if p = SSH then issueTerminalTicket i else issueRdpTicket i]"
  by (auto simp: launch_live_def Let_def split: if_splits sum.splits)

lemma launch_db_calls:
  "snd (launch_db asset profile i p t) = [] \<or>
   conn_has_password profile \<and> snd (launch_db asset profile i p t) = [issueDbTicket i]"
  by (simp add: launch_db_def Let_def)

lemma launch_db_ok:
  "fst (launch_db asset profile i p t) = Inr out \<Longrightarrow> (\<exists>r info. t = Inr r \<and> ticket_ticket r \<noteq> [] \<and>
     out = DbOutcome info \<and> db_protocol info = p \<and> db_ticket info = ticket_ticket r \<and> db_asset info = asset) \<and>
   snd (launch_db asset profile i p t) = [issueDbTicket i]"
  by (auto simp: launch_db_def Let_def split: if_splits sum.splits)

lemma launch_split:
  "launchTerminal i (Inr asset) (Inr profile) t =
    (let raw = toLowerCase (or_else (conn_protocol profile) ''ssh''); calls = [getAsset i, getAssetConnectionProfile i] in
     case isDbProtocol raw of
       Some p \<Rightarrow> (fst (launch_db asset profile i p t), calls @ snd (launch_db asset profile i p t))
     | None \<Rightarrow> (case live_protocol raw of
         Some p \<Rightarrow> (fst (launch_live asset profile i p t), calls @ snd (launch_live asset profile i p t))
       | None \<Rightarrow> (Inl (LaunchMessage (''Unsupported session protocol '' @ [CHR 0x22] @ raw @ [CHR 0x22] @
                          '' on this asset'' @ [CHR 0x27] @ ''s connection profile.'')), calls)))"
  by (simp add: launchTerminal_def Let_def case_prod_unfold split: option.splits)

text \<open>
  C2: a session ticket is requested only for an asset that has the credentials its profile's protocol
  needs, and only after the asset and its profile were read: whenever a launch makes a ticket
  request at all, both reads succeeded and the credentials are stored.
\<close>

theorem ticket_needs_credentials:
  assumes "c \<in> set (snd (launchTerminal i assetR profileR ticketR))" "c \<in> set (ticket_calls j)"
  shows "\<exists>asset profile. assetR = Inr asset \<and> profileR = Inr profile \<and> has_credentials asset profile"
proof -
  have c: "c \<noteq> getAsset i" "c \<noteq> getAssetConnectionProfile i" using assms(2) get_not_ticket by blast+
  obtain asset where a: "assetR = Inr asset" using assms(1) c by (cases assetR) (auto simp: launchTerminal_def)
  obtain profile where p: "profileR = Inr profile"
    using assms(1) c a by (cases profileR) (auto simp: launchTerminal_def Let_def)
  let ?raw = "toLowerCase (or_else (conn_protocol profile) ''ssh'')"
  have "has_credentials asset profile"
  proof (cases "isDbProtocol ?raw")
    case (Some d)
    then have "conn_has_password profile"
      using assms(1) c launch_db_calls [of asset profile i d ticketR] by (auto simp: a p launch_split Let_def)
    moreover have "?raw \<noteq> ''ssh''" using Some by (cases d) (auto simp: isDbProtocol_str)
    ultimately show ?thesis by (simp add: has_credentials_def)
  next
    case None
    then obtain l where l: "live_protocol ?raw = Some l"
      using assms(1) c by (cases "live_protocol ?raw") (auto simp: a p launch_split Let_def)
    then have "if l = SSH then hasSSHCredentials asset profile else conn_has_password profile"
      using assms(1) c None launch_live_calls [of asset profile i l ticketR]
      by (auto simp: a p launch_split Let_def)
    moreover have "?raw = ''ssh'' \<longleftrightarrow> l = SSH" using l by (cases l) (auto simp: live_protocol_str)
    ultimately show ?thesis by (simp add: has_credentials_def split: if_splits)
  qed
  with a p show ?thesis by blast
qed

text \<open>
  A successful launch is what the asset's profile says: the outcome has the launched asset and the
  non-empty ticket the server issued; a database protocol gives an access card from a database
  ticket, SSH a terminal from a terminal ticket, and RDP, VNC and Telnet a desktop pane from a
  desktop ticket; exactly one ticket is requested.
\<close>

theorem launch_follows_profile:
  assumes "launchTerminal i (Inr asset) (Inr profile) (Inr t) = (Inr outcome, calls)"
  shows "let raw = toLowerCase (or_else (conn_protocol profile) ''ssh'') in ticket_ticket t \<noteq> [] \<and>
    (case outcome of
       DbOutcome info \<Rightarrow> raw = DbProtocol_str (db_protocol info) \<and> db_asset info = asset \<and> db_ticket info = ticket_ticket t \<and>
         calls = [getAsset i, getAssetConnectionProfile i, issueDbTicket i]
     | LiveOutcome live \<Rightarrow> raw = LaunchProtocol_str (tl_kind live) \<and> tl_asset live = asset \<and> tl_ticket live = ticket_ticket t \<and>
         calls = [getAsset i, getAssetConnectionProfile i,
           if tl_kind live = SSH then issueTerminalTicket i else issueRdpTicket i])"
proof -
  let ?raw = "toLowerCase (or_else (conn_protocol profile) ''ssh'')"
  show ?thesis
  proof (cases "isDbProtocol ?raw")
    case (Some d)
    with assms have "fst (launch_db asset profile i d (Inr t)) = Inr outcome"
      "calls = [getAsset i, getAssetConnectionProfile i] @ snd (launch_db asset profile i d (Inr t))"
      by (auto simp: launch_split Let_def)
    with launch_db_ok [OF this(1)] Some show ?thesis by (auto simp: Let_def isDbProtocol_str)
  next
    case None
    with assms obtain l where l: "live_protocol ?raw = Some l"
      by (cases "live_protocol ?raw") (auto simp: launch_split Let_def)
    with assms None have "fst (launch_live asset profile i l (Inr t)) = Inr outcome"
      "calls = [getAsset i, getAssetConnectionProfile i] @ snd (launch_live asset profile i l (Inr t))"
      by (auto simp: launch_split Let_def)
    with launch_live_ok [OF this(1)] l show ?thesis by (auto simp: Let_def live_protocol_str)
  qed
qed

definition sample_profile :: "string \<Rightarrow> bool \<Rightarrow> AssetConnectionProfile" where
  "sample_profile proto pw = \<lparr>conn_asset_id = ''a1'', conn_auth_type = ''password'', conn_bastion_enabled = True,
     conn_created_at = [], conn_database = None, conn_has_passphrase = False, conn_has_password = pw,
     conn_has_private_key = False, conn_host = ''10.0.0.7'', conn_last_probe_at = None, conn_last_probe_error = None,
     conn_last_probe_status = None, conn_port = 22, conn_protocol = proto, conn_proxy_id = None,
     conn_proxy_name = None, conn_proxy_zone = None, conn_updated_at = [], conn_username = ''ops''\<rparr>"

lemma sample_launch:
  "launchTerminal ''a1'' (Inr (tree_asset ''a1'' ''prod'' None None)) (Inr (sample_profile ''RDP'' True))
     (Inr \<lparr>ticket_expires_at = [], ticket_ticket = ''tk''\<rparr>) =
   (Inr (LiveOutcome \<lparr>tl_asset = tree_asset ''a1'' ''prod'' None None, tl_expiresAt = [], tl_kind = RDP, tl_ticket = ''tk''\<rparr>),
    [getAsset ''a1'', getAssetConnectionProfile ''a1'', issueRdpTicket ''a1''])"
proof -
  have "toLowerCase ''RDP'' = ''rdp''" by code_simp
  then show ?thesis
    by (simp add: launchTerminal_def sample_profile_def isDbProtocol_def live_protocol_def launch_live_def
        hasRDPCredentials_def)
qed

theorem ticket_needs_credentials_witness:
  "\<exists>asset profile. Inr (tree_asset ''a1'' ''prod'' None None) = (Inr asset :: call_error + Asset) \<and>
     Inr (sample_profile ''RDP'' True) = (Inr profile :: call_error + AssetConnectionProfile) \<and> has_credentials asset profile"
proof -
  have "issueRdpTicket ''a1'' \<in> set (snd (launchTerminal ''a1'' (Inr (tree_asset ''a1'' ''prod'' None None))
      (Inr (sample_profile ''RDP'' True)) (Inr \<lparr>ticket_expires_at = [], ticket_ticket = ''tk''\<rparr>)))"
    by (simp add: sample_launch)
  moreover have "issueRdpTicket ''a1'' \<in> set (ticket_calls ''a1'')" by (simp add: ticket_calls_def)
  ultimately show ?thesis by (rule ticket_needs_credentials)
qed

theorem launch_follows_profile_witness:
  "toLowerCase (or_else (conn_protocol (sample_profile ''RDP'' True)) ''ssh'') = LaunchProtocol_str RDP"
  using launch_follows_profile [OF sample_launch] by (simp add: Let_def)

section \<open>The tabs\<close>

definition page_inv :: "sessions_page \<Rightarrow> bool" where
  "page_inv s = (let ids = map ls_id (pg_liveSessions s) in
     distinct ids \<and> [] \<notin> set ids \<and> (if ids = [] then pg_activeLiveID s = [] else pg_activeLiveID s \<in> set ids))"

text \<open>A new tab gets an identifier that is not in use; \<open>createLiveSessionID\<close> returns random ones.\<close>

fun fresh_event :: "page_event \<Rightarrow> sessions_page \<Rightarrow> bool" where
  "fresh_event (Launched i (LiveOutcome r)) s = (i \<noteq> [] \<and> i \<notin> ls_id ` set (pg_liveSessions s))"
| "fresh_event _ s = True"

inductive page_reach :: "sessions_page \<Rightarrow> bool" where
  page_start: "page_reach sessions_mount"
| page_next: "page_reach s \<Longrightarrow> fresh_event ev s \<Longrightarrow> page_reach (page_step ev s)"

lemma update_ids [simp]: "map ls_id (pg_liveSessions (updateLiveSessionStatus i st m s)) = map ls_id (pg_liveSessions s)"
  by (simp add: updateLiveSessionStatus_def comp_def)

lemma page_inv_update: "page_inv s \<Longrightarrow> page_inv (updateLiveSessionStatus i st m s)"
  unfolding page_inv_def Let_def update_ids by (auto simp: updateLiveSessionStatus_def split: if_splits)

lemma page_inv_close:
  assumes "page_inv s"
  shows "page_inv (closeLiveSession i s)"
proof -
  let ?rest = "filter (\<lambda>x. ls_id x \<noteq> i) (pg_liveSessions s)"
  have ids: "distinct (map ls_id ?rest)" "[] \<notin> set (map ls_id ?rest)"
    using assms by (auto simp: page_inv_def Let_def distinct_map_filter)
  have act: "pg_activeLiveID s \<noteq> i \<Longrightarrow> pg_liveSessions s \<noteq> [] \<Longrightarrow> pg_activeLiveID s \<in> set (map ls_id ?rest)"
    using assms by (auto simp: page_inv_def Let_def)
  have "pg_liveSessions s = [] \<Longrightarrow> pg_activeLiveID s = []" using assms by (simp add: page_inv_def Let_def)
  then have none: "pg_activeLiveID s \<noteq> i \<Longrightarrow> ?rest = [] \<Longrightarrow> pg_activeLiveID s = []" using act by fastforce
  have some: "pg_activeLiveID s \<noteq> i \<Longrightarrow> ?rest \<noteq> [] \<Longrightarrow> pg_activeLiveID s \<in> set (map ls_id ?rest)"
    by (rule act) auto
  show ?thesis
  proof (cases ?rest)
    case Nil
    with none show ?thesis by (auto simp: page_inv_def closeLiveSession_def Let_def)
  next
    case (Cons a list)
    with some ids show ?thesis by (auto simp: page_inv_def closeLiveSession_def Let_def or_else_def)
  qed
qed

lemma page_inv_step: "page_inv s \<Longrightarrow> fresh_event ev s \<Longrightarrow> page_inv (page_step ev s)"
proof (cases ev)
  case (Launched i r)
  then show "page_inv s \<Longrightarrow> fresh_event ev s \<Longrightarrow> ?thesis"
    by (cases r) (auto simp: page_inv_def launch_onSuccess_def Let_def)
next
  case (SelectTab i)
  then show "page_inv s \<Longrightarrow> ?thesis" by (auto simp: page_inv_def Let_def)
qed (auto simp: page_inv_update page_inv_close, auto simp: page_inv_def launch_onError_def Let_def split: if_splits)

lemma page_reach_inv: "page_reach s \<Longrightarrow> page_inv s"
proof (induction rule: page_reach.induct)
  case page_start
  show ?case by (simp add: page_inv_def sessions_mount_def)
qed (rule page_inv_step)

text \<open>
  C4: exactly one tab is active as long as there are tabs. After any sequence of launches, failures,
  status reports, tab selections and closings: the tabs have distinct identifiers, the active
  identifier names one of them (or is empty when there is none), and closing a tab removes that tab
  only, keeping another active tab active.
\<close>

theorem active_tab_exists:
  assumes "page_reach s"
  shows "let ids = map ls_id (pg_liveSessions s) in
    distinct ids \<and> (if ids = [] then pg_activeLiveID s = [] else pg_activeLiveID s \<in> set ids) \<and>
    map ls_id (pg_liveSessions (closeLiveSession i s)) = filter (\<lambda>j. j \<noteq> i) ids \<and>
    (pg_activeLiveID s \<noteq> i \<longrightarrow> pg_activeLiveID (closeLiveSession i s) = pg_activeLiveID s)"
proof -
  have "map ls_id (pg_liveSessions (closeLiveSession i s)) = filter (\<lambda>j. j \<noteq> i) (map ls_id (pg_liveSessions s))"
    by (simp add: closeLiveSession_def Let_def filter_map comp_def)
  moreover have "pg_activeLiveID s \<noteq> i \<Longrightarrow> pg_activeLiveID (closeLiveSession i s) = pg_activeLiveID s"
    by (simp add: closeLiveSession_def Let_def)
  ultimately show ?thesis using page_reach_inv [OF assms] by (auto simp: page_inv_def Let_def split: if_splits)
qed

theorem active_tab_exists_witness:
  "let r = \<lparr>tl_asset = tree_asset ''a1'' ''prod'' None None, tl_expiresAt = [], tl_kind = RDP, tl_ticket = ''tk''\<rparr>;
       s = page_step (Launched ''s2'' (LiveOutcome r)) (page_step (Launched ''s1'' (LiveOutcome r)) sessions_mount)
   in pg_activeLiveID s = ''s2'' \<and> map ls_id (pg_liveSessions (closeLiveSession ''s1'' s)) = [''s2'']"
proof -
  let ?r = "LiveOutcome \<lparr>tl_asset = tree_asset ''a1'' ''prod'' None None, tl_expiresAt = [], tl_kind = RDP, tl_ticket = ''tk''\<rparr>"
  let ?s1 = "page_step (Launched ''s1'' ?r) sessions_mount"
  let ?s = "page_step (Launched ''s2'' ?r) ?s1"
  have "page_reach ?s1" by (rule page_next [OF page_start]) (simp add: sessions_mount_def)
  then have "page_reach ?s" by (rule page_next) (simp add: launch_onSuccess_def sessions_mount_def)
  from active_tab_exists [OF this, of "''s1''"]
  have "map ls_id (pg_liveSessions (closeLiveSession ''s1'' ?s)) = filter (\<lambda>j. j \<noteq> ''s1'') (map ls_id (pg_liveSessions ?s))"
    by (simp add: Let_def del: page_step.simps)
  moreover have "map ls_id (pg_liveSessions ?s) = [''s1'', ''s2'']" "pg_activeLiveID ?s = ''s2''"
    by (simp_all add: launch_onSuccess_def sessions_mount_def)
  ultimately show ?thesis by (simp only: Let_def) simp
qed

section \<open>Panes and page together\<close>

text \<open>The page after it received the reports of a pane, in order.\<close>

definition deliver :: "status_report list \<Rightarrow> sessions_page \<Rightarrow> sessions_page" where
  "deliver rs s = fold (\<lambda>r. page_step (PaneReport r)) rs s"

lemma deliver_snoc: "deliver (rs @ [r]) s = updateLiveSessionStatus (rep_session r) (rep_status r) (Some (rep_message r)) (deliver rs s)"
  by (simp add: deliver_def)

lemma deliver_tabs:
  assumes "\<forall>r\<in>set rs. rep_session r = i"
  shows "pg_liveSessions (deliver rs s) = map (\<lambda>t. if ls_id t = i \<and> rs \<noteq> []
      then t\<lparr>ls_message := Some (rep_message (last rs)), ls_status := rep_status (last rs)\<rparr> else t) (pg_liveSessions s)"
  using assms
proof (induction rs rule: rev_induct)
  case (snoc r rs)
  then show ?case
    by (simp add: deliver_snoc updateLiveSessionStatus_def comp_def)
qed (simp add: deliver_def map_idI)

text \<open>
  C18: a tab shows the state of its own pane. When the page has received the reports of a terminal pane
  that ran through any events, the tab of that session has exactly the pane's current status, every
  other tab is unchanged, and so are the order of the tabs and the active one.
\<close>

theorem tab_shows_pane_status:
  "let p = fold ssh_step es (ssh_mount session asset ticket name); s' = deliver (ssh_reports p) s in
    map ls_id (pg_liveSessions s') = map ls_id (pg_liveSessions s) \<and> pg_activeLiveID s' = pg_activeLiveID s \<and>
    map ls_status (filter (\<lambda>t. ls_id t = session) (pg_liveSessions s')) =
      map (\<lambda>_. ssh_status p) (filter (\<lambda>t. ls_id t = session) (pg_liveSessions s)) \<and>
    filter (\<lambda>t. ls_id t \<noteq> session) (pg_liveSessions s') = filter (\<lambda>t. ls_id t \<noteq> session) (pg_liveSessions s)"
proof -
  let ?p = "fold ssh_step es (ssh_mount session asset ticket name)"
  have "ssh_inv session asset ticket ?p" by (intro ssh_inv_run ssh_inv_mount)
  then have r: "\<forall>r\<in>set (ssh_reports ?p). rep_session r = session" "ssh_reports ?p \<noteq> []"
    "rep_status (last (ssh_reports ?p)) = ssh_status ?p"
    by (simp_all add: ssh_inv_def reports_ok_def)
  define f :: "LiveSession \<Rightarrow> LiveSession" where "f = (\<lambda>t. if ls_id t = session
      then t\<lparr>ls_message := Some (rep_message (last (ssh_reports ?p))), ls_status := ssh_status ?p\<rparr> else t)"
  have tabs: "pg_liveSessions (deliver (ssh_reports ?p) s) = map f (pg_liveSessions s)"
    unfolding f_def using deliver_tabs [OF r(1), of s] r(2,3) by simp
  have act: "pg_activeLiveID (deliver rs s) = pg_activeLiveID s" for rs
    by (induction rs rule: rev_induct) (simp_all add: deliver_snoc updateLiveSessionStatus_def, simp add: deliver_def)
  have f: "ls_id (f t) = ls_id t" "ls_id t = session \<Longrightarrow> ls_status (f t) = ssh_status ?p" "ls_id t \<noteq> session \<Longrightarrow> f t = t" for t
    by (simp_all add: f_def)
  have "map ls_status (filter (\<lambda>t. ls_id t = session) (map f ts)) = map (\<lambda>_. ssh_status ?p) (filter (\<lambda>t. ls_id t = session) ts)"
    "filter (\<lambda>t. ls_id t \<noteq> session) (map f ts) = filter (\<lambda>t. ls_id t \<noteq> session) ts"
    "map ls_id (map f ts) = map ls_id ts" for ts
    by (induction ts) (auto simp: f)
  with tabs act show ?thesis by (simp only: Let_def simp_thms)
qed

text \<open>
  A deep link launches at most once and never for a visitor who may not: without the permission or
  without a user nothing is launched; with both, a link for an asset is launched when it was not
  consumed before, the query is cleared, and seeing the same link again launches nothing.
\<close>

theorem deep_link_launches_once:
  "let (s1, r1) = auto_launch can_read user search s; (s2, r2) = auto_launch can_read user search s1 in
     r2 = None \<and> s2 = s1 \<and>
     (if can_read \<and> user \<noteq> [] \<and> parseLaunchParams search \<noteq> None \<and>
         pg_consumed s \<noteq> spec_assetID (the (parseLaunchParams search))
      then r1 = Some (spec_assetID (the (parseLaunchParams search)), []) \<and> pg_liveSessions s1 = pg_liveSessions s
      else r1 = None \<and> s1 = s)"
  by (auto simp: auto_launch_def launch_onMutate_def Let_def split: option.splits if_splits prod.splits)

end
