(* ===== verification/AccessPage.thy ===== *)
theory AccessPage
  imports PageLib SessionsLib
begin

text \<open>
  The bastion access page, \<open>src/web/src/features/access/AccessPage.tsx\<close>: the queries it enables, its
  three mutations (create, decide, cancel a request), the request dialog and the tab kept in the
  query of the URL. A handler returns the request it makes, if any.
\<close>

datatype BastionRequestDecision = DecideApprove | DecideReject

datatype access_tab = MineTab | ApproveTab

record access_page =
  ac_assetQuery :: string
  ac_selectedAssetID :: string
  ac_requestReason :: string
  ac_durationSeconds :: int
  ac_createFeedback :: "ActionFeedback option"
  ac_decisionFeedback :: "ActionFeedback option"
  ac_requestFeedback :: "ActionFeedback option"
  ac_requestModalOpen :: bool

definition requestDurationOptions :: "(string \<times> int) list" where
  "requestDurationOptions = [(''30 min'', 1800), (''1 hour'', 3600), (''2 hours'', 7200), (''4 hours'', 14400),
     (''8 hours'', 28800), (''12 hours'', 43200)]"

definition access_mount :: access_page where
  "access_mount = \<lparr>ac_assetQuery = [], ac_selectedAssetID = [], ac_requestReason = [], ac_durationSeconds = 3600,
     ac_createFeedback = None, ac_decisionFeedback = None, ac_requestFeedback = None, ac_requestModalOpen = False\<rparr>"

section \<open>Queries\<close>

definition access_queries :: "(string \<Rightarrow> bool) \<Rightarrow> string \<Rightarrow> access_page \<Rightarrow> api_call list" where
  "access_queries can userID s =
    (let canReadAssets = can ''cmdb.asset:read''; canReadRequests = can ''bastion.request:read'';
         canWriteRequests = can ''bastion.request:write''; canReadGrants = can ''bastion.grant:read'';
         canApproveRequests = can ''bastion.grant:write'' in
     enabled_calls
       [(canReadAssets \<and> canWriteRequests \<and> userID \<noteq> [],
           listAssets (no_asset_options\<lparr>assetopt_query := trim_opt (ac_assetQuery s), assetopt_status := Some ''active'',
             assetopt_limit := Some 20\<rparr>)),
        (canReadRequests \<and> userID \<noteq> [], listMyBastionRequests 50),
        (canReadGrants \<and> userID \<noteq> [], listMyActiveBastionGrants userID 50),
        (canReadRequests \<and> canApproveRequests \<and> userID \<noteq> [], listPendingBastionRequests 100)])"

definition requestPermissions :: "string list option \<Rightarrow> string list" where
  "requestPermissions ps = permissions_with_prefix ''bastion.request:'' ps"

definition grantPermissions :: "string list option \<Rightarrow> string list" where
  "grantPermissions ps = permissions_with_prefix ''bastion.grant:'' ps"

section \<open>Mutations\<close>

definition create_onMutate :: "access_page \<Rightarrow> access_page" where
  "create_onMutate s = s\<lparr>ac_createFeedback := None\<rparr>"

definition create_onSuccess :: "BastionRequest \<Rightarrow> access_page \<Rightarrow> access_page" where
  "create_onSuccess created s = s\<lparr>ac_selectedAssetID := [], ac_requestReason := [], ac_durationSeconds := 3600,
     ac_requestModalOpen := False, ac_createFeedback := success_feedback
       (u16 (''Request created for '' @ or_else (breq_asset_name created) (breq_asset_id created) @ ''.''))\<rparr>"

definition create_onError :: "call_error \<Rightarrow> access_page \<Rightarrow> access_page" where
  "create_onError e s = s\<lparr>ac_createFeedback := error_feedback (error_text e)\<rparr>"

definition decide_request :: "BastionRequestDecision \<Rightarrow> string \<Rightarrow> api_call" where
  "decide_request decision requestID =
    (if decision = DecideApprove then approveBastionRequest requestID \<lparr>bdecide_reason = None\<rparr>
     else rejectBastionRequest requestID \<lparr>bdecide_reason = None\<rparr>)"

definition decide_onMutate :: "access_page \<Rightarrow> access_page" where
  "decide_onMutate s = s\<lparr>ac_decisionFeedback := None\<rparr>"

definition decide_onSuccess :: "BastionRequestDecision \<Rightarrow> access_page \<Rightarrow> access_page" where
  "decide_onSuccess decision s = s\<lparr>ac_decisionFeedback := success_feedback
     (u16 (if decision = DecideApprove then ''Request approved.'' else ''Request rejected.''))\<rparr>"

definition decide_onError :: "call_error \<Rightarrow> access_page \<Rightarrow> access_page" where
  "decide_onError e s = s\<lparr>ac_decisionFeedback := error_feedback (error_text e)\<rparr>"

definition cancel_onMutate :: "access_page \<Rightarrow> access_page" where
  "cancel_onMutate s = s\<lparr>ac_requestFeedback := None\<rparr>"

definition cancel_onSuccess :: "access_page \<Rightarrow> access_page" where
  "cancel_onSuccess s = s\<lparr>ac_requestFeedback := success_feedback (u16 ''Request cancelled.'')\<rparr>"

definition cancel_onError :: "call_error \<Rightarrow> access_page \<Rightarrow> access_page" where
  "cancel_onError e s = s\<lparr>ac_requestFeedback := error_feedback (error_text e)\<rparr>"

section \<open>Tabs, dialog and handlers\<close>

definition accessTab :: "(string \<Rightarrow> bool) \<Rightarrow> search_params \<Rightarrow> access_tab" where
  "accessTab can searchParams =
    (if params_get searchParams ''tab'' = Some ''approve'' \<and> can ''bastion.grant:write'' then ApproveTab else MineTab)"

definition setAccessTab :: "access_tab \<Rightarrow> search_params \<Rightarrow> search_params" where
  "setAccessTab tab searchParams =
    (if tab = MineTab then params_delete ''tab'' searchParams else params_set ''tab'' ''approve'' searchParams)"

text \<open>Opening the dialog asks for the assets again when they may be read.\<close>

definition openRequestModal :: "(string \<Rightarrow> bool) \<Rightarrow> access_page \<Rightarrow> access_page \<times> bool" where
  "openRequestModal can s = (s\<lparr>ac_createFeedback := None, ac_requestModalOpen := True\<rparr>, can ''cmdb.asset:read'')"

definition closeRequestModal :: "access_page \<Rightarrow> access_page" where
  "closeRequestModal s = s\<lparr>ac_requestModalOpen := False\<rparr>"

datatype access_query = PendingApprovals | MyRequests | MyActiveGrants

definition refreshTab :: "access_tab \<Rightarrow> access_query list" where
  "refreshTab tab = (if tab = ApproveTab then [PendingApprovals] else [MyRequests, MyActiveGrants])"

definition createAccessRequest :: "access_page \<Rightarrow> access_page \<times> api_call option" where
  "createAccessRequest s =
    (let assetID = trim (ac_selectedAssetID s) in
     if assetID = [] then (s\<lparr>ac_createFeedback := error_feedback (u16 ''Select an asset before submitting.'')\<rparr>, None)
     else (create_onMutate s, Some (createBastionRequest \<lparr>bcreate_asset_id = assetID,
       bcreate_duration_seconds = Some (num_of_int (ac_durationSeconds s)),
       bcreate_reason = trim_opt (ac_requestReason s)\<rparr>)))"

text \<open>\<open>confirmed\<close> is the answer to the confirmation dialog.\<close>

definition decidePendingRequest :: "bool \<Rightarrow> string \<Rightarrow> BastionRequestDecision \<Rightarrow> access_page \<Rightarrow> access_page \<times> api_call option" where
  "decidePendingRequest confirmed requestID decision s =
    (if \<not> confirmed then (s, None) else (decide_onMutate s, Some (decide_request decision requestID)))"

definition cancelOwnRequest :: "bool \<Rightarrow> string \<Rightarrow> access_page \<Rightarrow> access_page \<times> api_call option" where
  "cancelOwnRequest confirmed requestID s =
    (if \<not> confirmed then (s, None) else (cancel_onMutate s, Some (cancelBastionRequest requestID)))"

text \<open>The rows of the two request lists and the buttons they offer.\<close>

definition my_requests_panels :: "(string \<Rightarrow> bool) \<Rightarrow> BastionRequest list query \<Rightarrow> (PanelStateKind \<times> units) list" where
  "my_requests_panels can q = list_panels ''Permission required: bastion.request:read'' ''Loading requests''
     ''No requests yet.'' (can ''bastion.request:read'') q (query_items q)"

definition cancel_offered :: "(string \<Rightarrow> bool) \<Rightarrow> BastionRequest \<Rightarrow> bool" where
  "cancel_offered can request = (breq_status request = ReqPending \<and> can ''bastion.request:write'')"

definition my_grants_panels :: "(string \<Rightarrow> bool) \<Rightarrow> BastionGrant list query \<Rightarrow> (PanelStateKind \<times> units) list" where
  "my_grants_panels can q = list_panels ''Permission required: bastion.grant:read'' ''Loading active grants''
     ''No active grants.'' (can ''bastion.grant:read'') q (query_items q)"

definition approvals_panels :: "(string \<Rightarrow> bool) \<Rightarrow> BastionRequest list query \<Rightarrow> (PanelStateKind \<times> units) list" where
  "approvals_panels can q =
    (if can ''bastion.request:read'' then list_panels ''Permission required: bastion.grant:write'' ''Loading pending approvals''
       ''No pending approvals.'' (can ''bastion.grant:write'') q (query_items q)
     else [(PanelPermission, u16 ''Permission required: bastion.request:read'')])"

definition submit_disabled :: "(string \<Rightarrow> bool) \<Rightarrow> bool \<Rightarrow> access_page \<Rightarrow> bool" where
  "submit_disabled can pending s =
    (\<not> can ''cmdb.asset:read'' \<or> \<not> can ''bastion.request:write'' \<or> pending \<or> ac_selectedAssetID s = [])"

section \<open>Contracts\<close>

text \<open>What a mutation leaves alone when it fails: everything but its feedback line.\<close>

definition create_rest :: "access_page \<Rightarrow> access_page" where
  "create_rest s = s\<lparr>ac_createFeedback := None\<rparr>"

definition decide_rest :: "access_page \<Rightarrow> access_page" where
  "decide_rest s = s\<lparr>ac_decisionFeedback := None\<rparr>"

definition cancel_rest :: "access_page \<Rightarrow> access_page" where
  "cancel_rest s = s\<lparr>ac_requestFeedback := None\<rparr>"

interpretation create_request: mutation create_onMutate create_onSuccess create_onError ac_createFeedback error_text create_rest
  by unfold_locales (simp_all add: create_onMutate_def create_onSuccess_def create_onError_def create_rest_def)

interpretation decide: mutation decide_onMutate decide_onSuccess decide_onError ac_decisionFeedback error_text decide_rest
  by unfold_locales (simp_all add: decide_onMutate_def decide_onSuccess_def decide_onError_def decide_rest_def)

interpretation cancel: mutation cancel_onMutate "\<lambda>_::unit. cancel_onSuccess" cancel_onError ac_requestFeedback error_text cancel_rest
  by unfold_locales (simp_all add: cancel_onMutate_def cancel_onSuccess_def cancel_onError_def cancel_rest_def)

interpretation access: gated_page access_queries
  "[''cmdb.asset:read'', ''bastion.request:read'', ''bastion.grant:read'']"
  by unfold_locales (simp_all add: access_queries_def Let_def)

section \<open>Properties\<close>

lemma action_str_plain: "split_on CHR ''/'' (CHR ''/'' # BastionRequestAction_str a) = [[], BastionRequestAction_str a]"
  by (cases a) simp_all

lemma action_str_inj: "BastionRequestAction_str a = BastionRequestAction_str b \<longleftrightarrow> a = b"
  by (cases a; cases b) simp_all

lemma action_path_inj:
  "buildBastionRequestActionPath r a = buildBastionRequestActionPath r' a' \<longleftrightarrow> r = r' \<and> a = a'"
proof
  assume "buildBastionRequestActionPath r a = buildBastionRequestActionPath r' a'"
  then have "split_on CHR ''/'' (buildBastionRequestActionPath r a) = split_on CHR ''/'' (buildBastionRequestActionPath r' a')"
    by simp
  then have "encodeURIComponent r = encodeURIComponent r'" "BastionRequestAction_str a = BastionRequestAction_str a'"
    by (simp_all only: bastion_action.build_segments action_str_plain append_same_eq same_append_eq list.sel list.inject)
  then show "r = r' \<and> a = a'" by (simp add: action_str_inj)
qed simp

lemma decision_path:
  "call_path (decide_request d r) = buildBastionRequestActionPath r (if d = DecideApprove then ActApprove else ActReject)"
  by (simp add: decide_request_def approveBastionRequest_def rejectBastionRequest_def call_send_def
      buildBastionRequestDecisionPath_def)

text \<open>
  A decision reaches the server only when it was confirmed, and it is the decision that was
  confirmed for the request that was shown. Declining the dialog makes no request and changes
  nothing; two confirmed actions (approve, reject or cancel) make the same request only if they are
  the same action on the same access request.
\<close>

theorem access_decisions:
  "decidePendingRequest False r d s = (s, None) \<and> cancelOwnRequest False r s = (s, None) \<and>
   (snd (decidePendingRequest True r d s) = snd (decidePendingRequest True r' d' s') \<longleftrightarrow> r = r' \<and> d = d') \<and>
   (snd (cancelOwnRequest True r s) = snd (cancelOwnRequest True r' s') \<longleftrightarrow> r = r') \<and>
   snd (cancelOwnRequest True r s) \<noteq> snd (decidePendingRequest True r' d' s')"
proof -
  have d: "decide_request d r = decide_request d' r' \<longleftrightarrow> r = r' \<and> d = d'"
  proof
    assume "decide_request d r = decide_request d' r'"
    then have "call_path (decide_request d r) = call_path (decide_request d' r')" by simp
    then show "r = r' \<and> d = d'" by (cases d; cases d') (auto simp: decision_path action_path_inj)
  qed simp
  have p: "call_path (cancelBastionRequest r) = buildBastionRequestActionPath r ActCancel" for r
    by (simp add: cancelBastionRequest_def call_send_def)
  then have c: "cancelBastionRequest r = cancelBastionRequest r' \<longleftrightarrow> r = r'"
    by (metis action_path_inj)
  have "call_path (cancelBastionRequest r) \<noteq> call_path (decide_request d' r')"
    unfolding p decision_path action_path_inj by (cases d') simp_all
  then have "cancelBastionRequest r \<noteq> decide_request d' r'" by metis
  with d c show ?thesis by (simp add: decidePendingRequest_def cancelOwnRequest_def)
qed

text \<open>
  Nothing typed into the request dialog is lost by a failure. Submitting makes a request exactly when
  an asset is selected, never closes the dialog by itself and keeps every field; a failed request
  shows the server's text and keeps them too; only a created request closes the dialog and empties
  the fields. The body that is sent carries the selected asset and duration, and a reason only when
  one was typed.
\<close>

theorem access_form_kept:
  "let (s', r) = createAccessRequest s in
     (r = None \<longleftrightarrow> trim (ac_selectedAssetID s) = []) \<and> create_rest s' = create_rest s \<and>
     create_rest (settle create_onSuccess create_onError (Inl e) s') = create_rest s \<and>
     ac_createFeedback (settle create_onSuccess create_onError (Inl e) s') = error_feedback (error_text e) \<and>
     create_rest (settle create_onSuccess create_onError (Inr b) s') =
       create_rest (s\<lparr>ac_selectedAssetID := [], ac_requestReason := [], ac_durationSeconds := 3600, ac_requestModalOpen := False\<rparr>) \<and>
     (case r of None \<Rightarrow> True | Some c \<Rightarrow> opt_body (call_opts c) = Some (TextBody (json_stringify (JObj
       (jmem ''asset_id'' (jstr (trim (ac_selectedAssetID s))) @
        jmem ''duration_seconds'' (JNum (num_of_int (ac_durationSeconds s))) @
        (if trim (ac_requestReason s) = [] then [] else jmem ''reason'' (jstr (trim (ac_requestReason s)))))))))"
  by (simp add: createAccessRequest_def Let_def create_rest_def settle_def create_onMutate_def create_onError_def
      create_onSuccess_def createBastionRequest_def call_send_def CreateBastionRequestPayload_json_def trim_opt_def
      jopt_def jmem_def del: json_stringify.simps)

text \<open>
  The tab survives in the URL: switching to a tab and reading it back gives that tab, the approval tab
  only with the permission to approve, and every other parameter of the query is kept.
\<close>

theorem access_tab_in_url:
  "accessTab can (setAccessTab t ps) = (if t = ApproveTab \<and> can ''bastion.grant:write'' then ApproveTab else MineTab) \<and>
   (k = ''tab'' \<or> params_get (setAccessTab t ps) k = params_get ps k)"
  by (cases t) (auto simp: accessTab_def setAccessTab_def params_get_set params_get_delete)

end
