(* ===== verification/ConnectPage.thy ===== *)
theory ConnectPage
  imports PageLib Launch SessionsLib
begin

text \<open>
  The connect page, \<open>src/web/src/features/connect/ConnectPage.tsx\<close>: its queries, what it shows about
  the effective access to the selected asset, the links it opens, and the search palette with its
  keyboard. The loaded assets are an argument of every palette step, since they can arrive or change
  while the palette is open.
\<close>

definition statusTone :: "string option \<Rightarrow> string" where
  "statusTone status =
    (let normalized = toLowerCase (opt_or status []) in
     if normalized = ''active'' then ''ok''
     else if normalized = ''inactive'' \<or> normalized = ''deleted'' then ''warn'' else ''info'')"

definition assetAddress :: "Asset \<Rightarrow> string" where
  "assetAddress asset = or_else (opt_or (asset_public_ip asset) []) (or_else (opt_or (asset_private_ip asset) [])
     (or_else (opt_or (asset_private_dns asset) []) (asset_id asset)))"

definition tagEntries :: "(string \<Rightarrow> string \<Rightarrow> int) \<Rightarrow> Asset option \<Rightarrow> (string \<times> string) list" where
  "tagEntries localeCompare asset = (case asset of None \<Rightarrow> []
   | Some a \<Rightarrow> map (\<lambda>(key, value). (key, if value = UNull then [] else unknown_str value))
       (sort_by (\<lambda>x y. localeCompare (fst x) (fst y)) (merged_tags a)))"

section \<open>State and queries\<close>

record connect_page =
  cp_railSearch :: string
  cp_selectedAssetID :: string
  cp_paletteOpen :: bool
  cp_paletteQuery :: string
  cp_paletteActive :: int

definition connect_mount :: connect_page where
  "connect_mount = \<lparr>cp_railSearch = [], cp_selectedAssetID = [], cp_paletteOpen = False, cp_paletteQuery = [],
     cp_paletteActive = 0\<rparr>"

definition connect_queries :: "(string \<Rightarrow> bool) \<Rightarrow> string \<Rightarrow> connect_page \<Rightarrow> api_call list" where
  "connect_queries can userID s =
    (let canReadAssets = can ''cmdb.asset:read''; canReadGrants = can ''bastion.grant:read''; sel = cp_selectedAssetID s in
     enabled_calls
       [(canReadAssets \<and> userID \<noteq> [], listAssets (no_asset_options\<lparr>assetopt_limit := Some 500\<rparr>)),
        (canReadAssets \<and> userID \<noteq> [] \<and> sel \<noteq> [], getAsset sel),
        (canReadAssets \<and> userID \<noteq> [] \<and> sel \<noteq> [], listSessions \<lparr>sessopt_assetID = Some sel, sessopt_limit = Some 5,
           sessopt_offset = None, sessopt_userID = None\<rparr>),
        (canReadGrants \<and> userID \<noteq> [] \<and> sel \<noteq> [], listAssetActiveGrants sel 50),
        (canReadAssets \<and> userID \<noteq> [] \<and> sel \<noteq> [], resolveCapability \<lparr>rreq_user_id = userID,
           rreq_capability = ''bastion.session:connect'', rreq_resource_ref = Some sel\<rparr>)])"

interpretation connect: gated_page connect_queries "[''cmdb.asset:read'', ''bastion.grant:read'']"
  by unfold_locales (simp_all add: connect_queries_def Let_def)

section \<open>Effective access\<close>

definition hasEffectiveAccess :: "ResolveResult query \<Rightarrow> bool" where
  "hasEffectiveAccess q = (case q_data q of None \<Rightarrow> False | Some r \<Rightarrow> rres_allowed r)"

text \<open>The answer when it allows access for a limited time.\<close>

definition grantBackedAccess :: "ResolveResult query \<Rightarrow> ResolveResult option" where
  "grantBackedAccess q = (case q_data q of None \<Rightarrow> None
     | Some r \<Rightarrow> if rres_allowed r \<and> truthy (rres_expires_at r) then Some r else None)"

text \<open>The live buttons stay usable while the decision is open: the server decides at the launch.\<close>

definition open_disabled :: "ResolveResult query \<Rightarrow> bool" where
  "open_disabled q = (\<not> hasEffectiveAccess q \<and> \<not> q_loading q \<and> q_error q = None)"

definition open_title :: "string \<Rightarrow> ResolveResult query \<Rightarrow> string" where
  "open_title protocol q =
    (if hasEffectiveAccess q then ''Open '' @ protocol
     else if q_loading q then ''Checking '' @ protocol @ '' access''
     else if q_error q \<noteq> None then ''Access state unavailable; server will decide on launch''
     else ''No effective '' @ protocol @ '' access'')"

definition access_heading :: "ResolveResult query \<Rightarrow> string" where
  "access_heading q =
    (if q_loading q then ''Checking access'' else if hasEffectiveAccess q then ''You can open this now''
     else if q_error q \<noteq> None then ''Access state unavailable'' else ''Request access'')"

datatype access_pill = TimeLeft string | RoleAccess | Checking | UnknownAccess | NoAccess

definition access_pill_of :: "ResolveResult query \<Rightarrow> access_pill" where
  "access_pill_of q = (case grantBackedAccess q of
     Some r \<Rightarrow> TimeLeft (the (rres_expires_at r))
   | None \<Rightarrow> if hasEffectiveAccess q then RoleAccess else if q_loading q then Checking
       else if q_error q \<noteq> None then UnknownAccess else NoAccess)"

text \<open>The address a live button opens.\<close>

definition openLive :: "LaunchProtocol \<Rightarrow> connect_page \<Rightarrow> string option" where
  "openLive protocol s = (if cp_selectedAssetID s = [] then None
     else Some (''/sessions'' @ buildLaunchSearch \<lparr>spec_assetID = cp_selectedAssetID s, spec_protocol = protocol\<rparr>))"

section \<open>The palette\<close>

definition paletteResults :: "Asset list \<Rightarrow> connect_page \<Rightarrow> Asset list" where
  "paletteResults items s = take 20 (filterConnectableAssets items (cp_paletteQuery s))"

definition activeIndex :: "Asset list \<Rightarrow> connect_page \<Rightarrow> int" where
  "activeIndex items s = (let n = length (paletteResults items s)
     in if n = 0 then - 1 else min (cp_paletteActive s) (int n - 1))"

text \<open>Opening resets the query and the highlighted row; opening an open palette does nothing.\<close>

definition setPaletteOpen :: "bool \<Rightarrow> connect_page \<Rightarrow> connect_page" where
  "setPaletteOpen b s =
    (if b \<and> \<not> cp_paletteOpen s then s\<lparr>cp_paletteOpen := True, cp_paletteQuery := [], cp_paletteActive := 0\<rparr>
     else s\<lparr>cp_paletteOpen := b\<rparr>)"

definition page_onKeyDown :: "string \<Rightarrow> bool \<Rightarrow> connect_page \<Rightarrow> connect_page" where
  "page_onKeyDown key modifier s =
    (if key = ''k'' \<and> modifier then setPaletteOpen True s
     else if key = ''Escape'' \<and> cp_paletteOpen s then setPaletteOpen False s else s)"

definition choosePaletteAsset :: "Asset \<Rightarrow> connect_page \<Rightarrow> connect_page" where
  "choosePaletteAsset asset s = setPaletteOpen False (s\<lparr>cp_selectedAssetID := asset_id asset\<rparr>)"

text \<open>\<open>paletteResults[activeIndex]\<close> is \<open>undefined\<close> outside the list.\<close>

definition result_at :: "Asset list \<Rightarrow> int \<Rightarrow> Asset option" where
  "result_at rs i = (if 0 \<le> i \<and> i < int (length rs) then Some (rs ! nat i) else None)"

definition onPaletteKeyDown :: "Asset list \<Rightarrow> string \<Rightarrow> connect_page \<Rightarrow> connect_page" where
  "onPaletteKeyDown items key s =
    (let rs = paletteResults items s in
     if key = ''ArrowDown'' then s\<lparr>cp_paletteActive := min (cp_paletteActive s + 1) (int (length rs) - 1)\<rparr>
     else if key = ''ArrowUp'' then s\<lparr>cp_paletteActive := max (cp_paletteActive s - 1) 0\<rparr>
     else if key = ''Enter'' then (case result_at rs (activeIndex items s) of
         None \<Rightarrow> s | Some choice \<Rightarrow> choosePaletteAsset choice s)
     else s)"

definition palette_typed :: "string \<Rightarrow> connect_page \<Rightarrow> connect_page" where
  "palette_typed v s = s\<lparr>cp_paletteQuery := v, cp_paletteActive := 0\<rparr>"

datatype connect_event =
    PageKey string bool
  | PaletteButton
  | PaletteBackdrop
  | PaletteTyped string
  | PaletteKey string
  | PaletteHover nat
  | PaletteClick nat
  | RailSelect string

fun connect_step :: "Asset list \<Rightarrow> connect_event \<Rightarrow> connect_page \<Rightarrow> connect_page" where
  "connect_step items (PageKey key m) s = page_onKeyDown key m s"
| "connect_step items PaletteButton s = setPaletteOpen True s"
| "connect_step items PaletteBackdrop s = setPaletteOpen False s"
| "connect_step items (PaletteTyped v) s = (if cp_paletteOpen s then palette_typed v s else s)"
| "connect_step items (PaletteKey key) s = (if cp_paletteOpen s then onPaletteKeyDown items key s else s)"
| "connect_step items (PaletteHover i) s = (if cp_paletteOpen s \<and> i < length (paletteResults items s)
     then s\<lparr>cp_paletteActive := int i\<rparr> else s)"
| "connect_step items (PaletteClick i) s = (if cp_paletteOpen s \<and> i < length (paletteResults items s)
     then choosePaletteAsset (paletteResults items s ! i) s else s)"
| "connect_step items (RailSelect a) s = s\<lparr>cp_selectedAssetID := a\<rparr>"

section \<open>Properties\<close>

lemmas palette_defs = page_onKeyDown_def setPaletteOpen_def choosePaletteAsset_def onPaletteKeyDown_def palette_typed_def

lemma palette_active_bound: "- 1 \<le> cp_paletteActive s \<Longrightarrow> - 1 \<le> cp_paletteActive (connect_step items ev s)"
  by (cases ev) (auto simp: palette_defs Let_def split: option.splits)

lemma palette_run_bound:
  "- 1 \<le> cp_paletteActive s \<Longrightarrow> - 1 \<le> cp_paletteActive (fold (\<lambda>(items, ev). connect_step items ev) evs s)"
  by (induction evs arbitrary: s) (auto simp: palette_active_bound)

lemma palette_results:
  "length (paletteResults items s) \<le> 20" "set (paletteResults items s) \<subseteq> set items"
  "paletteResults items (s\<lparr>cp_paletteActive := k\<rparr>) = paletteResults items s"
  by (auto simp: paletteResults_def filterConnectableAssets_def Let_def dest: in_set_takeD)

lemma palette_index:
  "- 1 \<le> cp_paletteActive s \<Longrightarrow> - 1 \<le> activeIndex items s \<and> activeIndex items s < int (length (paletteResults items s))"
  by (auto simp: activeIndex_def Let_def)

lemma palette_enter:
  "- 1 \<le> cp_paletteActive s \<Longrightarrow> onPaletteKeyDown items ''Enter'' s = (if 0 \<le> activeIndex items s
     then s\<lparr>cp_selectedAssetID := asset_id (paletteResults items s ! nat (activeIndex items s)), cp_paletteOpen := False\<rparr> else s)"
  using palette_index [of s items]
  by (simp add: onPaletteKeyDown_def Let_def result_at_def choosePaletteAsset_def setPaletteOpen_def)

lemma palette_arrows:
  "- 1 \<le> cp_paletteActive s \<Longrightarrow>
     activeIndex items (onPaletteKeyDown items ''ArrowDown'' s) = min (activeIndex items s + 1) (int (length (paletteResults items s)) - 1)"
  "activeIndex items (onPaletteKeyDown items ''ArrowUp'' s) = (if paletteResults items s = [] then - 1
     else max 0 (min (cp_paletteActive s - 1) (int (length (paletteResults items s)) - 1)))"
  by (cases "paletteResults items s"; auto simp: activeIndex_def onPaletteKeyDown_def Let_def palette_results min_def max_def)+

text \<open>
  The palette chooses what it highlights. After any sequence of keys, typing, pointer moves, clicks and
  arriving assets, the highlighted index is \<open>-1\<close> or a row of the current result list; Enter selects
  exactly the highlighted asset, one of the loaded assets, and closes the palette, and does nothing
  when no row is highlighted; the arrows never move past either end.
\<close>

theorem palette_chooses_highlighted:
  "let s = fold (\<lambda>(items, ev). connect_step items ev) evs connect_mount; rs = paletteResults items s; i = activeIndex items s in
    - 1 \<le> i \<and> i < int (length rs) \<and> length rs \<le> 20 \<and> set rs \<subseteq> set items \<and>
    onPaletteKeyDown items ''Enter'' s = (if 0 \<le> i
      then s\<lparr>cp_selectedAssetID := asset_id (rs ! nat i), cp_paletteOpen := False\<rparr> else s) \<and>
    activeIndex items (onPaletteKeyDown items ''ArrowDown'' s) = min (i + 1) (int (length rs) - 1) \<and>
    activeIndex items (onPaletteKeyDown items ''ArrowUp'' s) = (if rs = [] then - 1 else max 0 (min (cp_paletteActive s - 1) (int (length rs) - 1)))"
proof -
  have "- 1 \<le> cp_paletteActive (fold (\<lambda>(items, ev). connect_step items ev) evs connect_mount)"
    by (rule palette_run_bound) (simp add: connect_mount_def)
  then show ?thesis
    unfolding Let_def by (intro conjI palette_results palette_enter palette_arrows) (simp_all add: palette_index)
qed

text \<open>
  A key pressed too early switches the highlight off. When the palette is opened and the down arrow is
  pressed before any asset has arrived, no row is highlighted once the assets are there, and Enter
  then does nothing until another arrow, the pointer or typing sets a row.
\<close>

theorem early_arrow_drops_highlight:
  "let s = connect_step [] (PaletteKey ''ArrowDown'') (connect_step [] PaletteButton connect_mount) in
    paletteResults items s = take 20 items \<and> activeIndex items s = - 1 \<and> connect_step items (PaletteKey ''Enter'') s = s"
  by (simp add: Let_def connect_mount_def palette_defs paletteResults_def filterConnectableAssets_def trim_def activeIndex_def
      result_at_def)

text \<open>
  The page never promises access the server has not confirmed, and never blocks a launch it cannot
  judge. The access pill, heading and buttons agree: a button is disabled exactly when the server
  answered that there is no access; "role access" or a time window is shown exactly when it answered
  that there is; and the link a button opens is read back by the sessions page as this asset and
  protocol.
\<close>

theorem connect_access_consistent:
  "(open_disabled q \<longleftrightarrow> access_pill_of q = NoAccess) \<and>
   ((\<exists>t. access_pill_of q \<in> {TimeLeft t, RoleAccess}) \<longleftrightarrow> hasEffectiveAccess q) \<and>
   (hasEffectiveAccess q \<longleftrightarrow> (\<exists>r. q_data q = Some r \<and> rres_allowed r)) \<and>
   (access_heading q = ''Request access'' \<longleftrightarrow> open_disabled q) \<and>
   (openLive p s = None \<longleftrightarrow> cp_selectedAssetID s = []) \<and>
   (case openLive p s of None \<Rightarrow> True | Some url \<Rightarrow> take 9 url = ''/sessions'' \<and>
      (case URLSearchParams (drop 9 url) of None \<Rightarrow> False
       | Some ps \<Rightarrow> parseLaunchParams ps = Some \<lparr>spec_assetID = cp_selectedAssetID s, spec_protocol = p\<rparr>))"
proof -
  have a: "(open_disabled q \<longleftrightarrow> access_pill_of q = NoAccess)"
    "((\<exists>t. access_pill_of q \<in> {TimeLeft t, RoleAccess}) \<longleftrightarrow> hasEffectiveAccess q)"
    by (auto simp: open_disabled_def access_pill_of_def grantBackedAccess_def hasEffectiveAccess_def split: option.splits)
  have h: "hasEffectiveAccess q \<longleftrightarrow> (\<exists>r. q_data q = Some r \<and> rres_allowed r)"
    by (auto simp: hasEffectiveAccess_def split: option.splits)
  have t: "access_heading q = ''Request access'' \<longleftrightarrow> open_disabled q"
    by (simp add: access_heading_def open_disabled_def)
  have "drop 9 (''/sessions'' @ u) = u" "take 9 (''/sessions'' @ u) = ''/sessions''" for u by simp_all
  then show ?thesis
    using a h t launch_params_parse [of "\<lparr>spec_assetID = cp_selectedAssetID s, spec_protocol = p\<rparr>"]
    by (simp add: openLive_def launch_link_params)
qed

end
