(* ===== verification/RecordingPlayer.thy ===== *)
theory RecordingPlayer
  imports LivePanes SessionsLib
begin

text \<open>
  The player of recorded desktop sessions, \<open>src/web/src/features/audit/RdpRecordingPlayer.tsx\<close>, as a
  machine. Its effect runs again for every recording it is given: \<open>rp_gen\<close> numbers the runs, and a
  callback carries the number of the run that registered it, since each run has its own \<open>disposed\<close>
  flag. \<open>rp_ops\<close> lists what was done to which recording.
\<close>

definition formatClock :: "jsnum \<Rightarrow> string" where
  "formatClock ms =
    (if \<not> is_finite ms \<or> num_le ms 0 then ''0:00''
     else (let secs = num_floor (num_div ms 1000);
               minutes = num_floor (num_div secs 60);
               seconds = num_mod secs 60;
               t = num_str seconds
           in num_str minutes @ '':'' @ (if length t < 2 then replicate (2 - length t) CHR ''0'' @ t else t)))"

datatype PlayerState = PlayerLoading | PlayerReady | PlayerError

datatype recording_op = RecConnect | RecPlay | RecPause | RecSeek jsnum | RecDisconnect

record player =
  rp_gen :: nat
  rp_mounted :: bool
  rp_recording :: bool
  rp_state :: PlayerState
  rp_errorMessage :: units
  rp_playing :: bool
  rp_duration :: jsnum
  rp_position :: jsnum
  rp_ops :: "(nat \<times> recording_op) list"

definition player_mount :: player where
  "player_mount = \<lparr>rp_gen = 0, rp_mounted = True, rp_recording = False, rp_state = PlayerLoading, rp_errorMessage = [],
     rp_playing = False, rp_duration = num_of_int 0, rp_position = num_of_int 0, rp_ops = []\<rparr>"

text \<open>The run \<open>g\<close> of the effect is not disposed.\<close>

definition run_live :: "nat \<Rightarrow> player \<Rightarrow> bool" where
  "run_live g s = (rp_mounted s \<and> g = rp_gen s)"

definition rec_do :: "recording_op \<Rightarrow> player \<Rightarrow> player" where
  "rec_do op s = s\<lparr>rp_ops := rp_ops s @ [(rp_gen s, op)]\<rparr>"

text \<open>\<open>open\<close> after the library was loaded, and its error path.\<close>

definition player_open :: "nat \<Rightarrow> player \<Rightarrow> player" where
  "player_open g s = (if run_live g s \<and> \<not> rp_recording s then rec_do RecConnect (s\<lparr>rp_recording := True\<rparr>) else s)"

definition player_fail :: "nat \<Rightarrow> units \<Rightarrow> player \<Rightarrow> player" where
  "player_fail g m s = (if run_live g s then s\<lparr>rp_errorMessage := m, rp_state := PlayerError\<rparr> else s)"

definition rec_onload :: "nat \<Rightarrow> jsnum \<Rightarrow> player \<Rightarrow> player" where
  "rec_onload g d s = (if run_live g s \<and> rp_recording s then s\<lparr>rp_duration := d, rp_state := PlayerReady\<rparr> else s)"

definition rec_onerror :: "nat \<Rightarrow> units \<Rightarrow> player \<Rightarrow> player" where
  "rec_onerror g m s = (if run_live g s \<and> rp_recording s
     then s\<lparr>rp_errorMessage := (if m \<noteq> [] then m else u16 ''Failed to parse recording.''), rp_state := PlayerError\<rparr> else s)"

definition rec_onprogress :: "nat \<Rightarrow> jsnum \<Rightarrow> jsnum \<Rightarrow> player \<Rightarrow> player" where
  "rec_onprogress g d c s = (if run_live g s \<and> rp_recording s then s\<lparr>rp_duration := d, rp_position := c\<rparr> else s)"

definition rec_onplay :: "nat \<Rightarrow> bool \<Rightarrow> player \<Rightarrow> player" where
  "rec_onplay g b s = (if run_live g s \<and> rp_recording s then s\<lparr>rp_playing := b\<rparr> else s)"

definition rec_onseek :: "nat \<Rightarrow> jsnum \<Rightarrow> player \<Rightarrow> player" where
  "rec_onseek g p s = (if run_live g s \<and> rp_recording s then s\<lparr>rp_position := p\<rparr> else s)"

text \<open>The cleanup of a run; \<open>is_playing\<close> is what the recording answers.\<close>

definition player_cleanup :: "bool \<Rightarrow> player \<Rightarrow> player" where
  "player_cleanup is_playing s =
    (let s1 = (if rp_recording s then rec_do RecDisconnect (if is_playing then rec_do RecPause s else s) else s)
     in s1\<lparr>rp_recording := False\<rparr>)"

definition togglePlay :: "bool \<Rightarrow> player \<Rightarrow> player" where
  "togglePlay is_playing s =
    (if \<not> rp_recording s \<or> rp_state s \<noteq> PlayerReady then s else rec_do (if is_playing then RecPause else RecPlay) s)"

definition onSeek :: "jsnum \<Rightarrow> player \<Rightarrow> player" where
  "onSeek n s = (if \<not> rp_recording s \<or> rp_state s \<noteq> PlayerReady then s else rec_do (RecSeek n) (s\<lparr>rp_position := n\<rparr>))"

definition play_label :: "player \<Rightarrow> string" where
  "play_label s = (if rp_playing s then ''Pause'' else ''Play'')"

datatype player_event =
    PlayerLoaded nat
  | PlayerLoadFailed nat units
  | RecLoaded nat jsnum
  | RecFailed nat units
  | RecProgress nat jsnum jsnum
  | RecPlaying nat bool
  | RecSeeked nat jsnum
  | TogglePlay bool
  | SeekTo jsnum
  | NewRecording bool
  | PlayerUnmount bool

fun player_step :: "player_event \<Rightarrow> player \<Rightarrow> player" where
  "player_step (PlayerLoaded g) s = player_open g s"
| "player_step (PlayerLoadFailed g m) s = player_fail g m s"
| "player_step (RecLoaded g d) s = rec_onload g d s"
| "player_step (RecFailed g m) s = rec_onerror g m s"
| "player_step (RecProgress g d c) s = rec_onprogress g d c s"
| "player_step (RecPlaying g b) s = rec_onplay g b s"
| "player_step (RecSeeked g p) s = rec_onseek g p s"
| "player_step (TogglePlay b) s = togglePlay b s"
| "player_step (SeekTo n) s = onSeek n s"
| "player_step (NewRecording b) s = (if rp_mounted s then (player_cleanup b s)\<lparr>rp_gen := Suc (rp_gen s)\<rparr> else s)"
| "player_step (PlayerUnmount b) s = (if rp_mounted s then (player_cleanup b s)\<lparr>rp_mounted := False\<rparr> else s)"

lemmas player_defs = player_open_def player_fail_def rec_onload_def rec_onerror_def rec_onprogress_def rec_onplay_def
  rec_onseek_def player_cleanup_def togglePlay_def onSeek_def rec_do_def run_live_def

section \<open>A closed player is silent\<close>

definition player_gone :: "player \<Rightarrow> bool" where
  "player_gone s = (\<not> rp_mounted s \<and> \<not> rp_recording s)"

interpretation player: live_pane player_step player_gone "\<lambda>s. s"
proof (unfold_locales, goal_cases)
  case (1 s e)
  then show ?case by (cases e) (simp_all add: player_gone_def player_defs)
next
  case (2 s e)
  then show ?case by (cases e) (simp_all add: player_gone_def player_defs)
qed

section \<open>Every recording is released\<close>

text \<open>
  The current recording is connected and not released; every other recording that was connected has
  been released; no operation belongs to a later run.
\<close>

definition player_inv :: "player \<Rightarrow> bool" where
  "player_inv s =
    ((\<forall>g op. (g, op) \<in> set (rp_ops s) \<longrightarrow> g \<le> rp_gen s) \<and>
     (rp_recording s \<longrightarrow> rp_mounted s \<and> (rp_gen s, RecConnect) \<in> set (rp_ops s)) \<and>
     (\<forall>g. (g, RecConnect) \<in> set (rp_ops s) \<longrightarrow> (rp_recording s \<and> g = rp_gen s) \<or> (g, RecDisconnect) \<in> set (rp_ops s)))"

lemma player_inv_mount: "player_inv player_mount"
  by (simp add: player_inv_def player_mount_def)

lemma player_inv_cleanup:
  "player_inv s \<Longrightarrow> player_inv (player_cleanup b s) \<and> rp_gen (player_cleanup b s) = rp_gen s \<and>
     \<not> rp_recording (player_cleanup b s)"
  by (auto simp: player_inv_def player_cleanup_def rec_do_def Let_def)

lemma player_inv_step: "player_inv s \<Longrightarrow> player_inv (player_step e s)"
proof (cases e)
  case (NewRecording b)
  then show "player_inv s \<Longrightarrow> ?thesis" using player_inv_cleanup [of s b] by (auto simp: player_inv_def le_SucI)
next
  case (PlayerUnmount b)
  then show "player_inv s \<Longrightarrow> ?thesis" using player_inv_cleanup [of s b] by (auto simp: player_inv_def)
qed (auto simp: player_inv_def player_open_def player_fail_def rec_onload_def rec_onerror_def rec_onprogress_def
    rec_onplay_def rec_onseek_def togglePlay_def onSeek_def rec_do_def run_live_def)

lemma player_inv_run: "player_inv s \<Longrightarrow> player_inv (fold player_step es s)"
  by (induction es arbitrary: s) (auto simp: player_inv_step)

text \<open>
  Closing the player releases every recording it ever opened. Whatever recordings were shown one
  after the other and in whatever order the library, the recordings and the user acted, after the
  player is closed every recording that was connected has been disconnected, and no late callback
  changes anything any more.
\<close>

theorem recordings_released:
  "let s = player_step (PlayerUnmount b) (fold player_step es player_mount) in
    {g. (g, RecConnect) \<in> set (rp_ops s)} \<subseteq> {g. (g, RecDisconnect) \<in> set (rp_ops s)} \<and> fold player_step later s = s"
proof -
  let ?s = "player_step (PlayerUnmount b) (fold player_step es player_mount)"
  have i: "player_inv ?s" by (intro player_inv_step player_inv_run player_inv_mount)
  have "rp_recording (fold player_step es player_mount) \<Longrightarrow> rp_mounted (fold player_step es player_mount)"
    using player_inv_run [OF player_inv_mount, of es] by (simp add: player_inv_def)
  then have g: "player_gone ?s"
    by (auto simp: player_gone_def player_cleanup_def Let_def)
  then have "{g. (g, RecConnect) \<in> set (rp_ops ?s)} \<subseteq> {g. (g, RecDisconnect) \<in> set (rp_ops ?s)}"
    using i by (auto simp: player_inv_def player_gone_def simp del: player_step.simps)
  then show ?thesis using player.gone_run [OF g, of later] by (simp add: Let_def del: player_step.simps)
qed

text \<open>
  Switching recordings while one plays leaves a wrong button. When a recording is playing and the player
  is given another one, the old recording is paused, but its callbacks are already removed: the button
  still says "Pause" and the old state is shown, although nothing is playing.
\<close>

theorem switched_recording_label:
  "let s = fold player_step [PlayerLoaded 0, RecLoaded 0 d, TogglePlay False, RecPlaying 0 True, NewRecording True,
      RecPlaying 0 False, PlayerLoaded 1, RecLoaded 1 d'] player_mount in
    map snd (rp_ops s) = [RecConnect, RecPlay, RecPause, RecDisconnect, RecConnect] \<and> (1, RecPlay) \<notin> set (rp_ops s) \<and>
    play_label s = ''Pause''"
  by (simp add: Let_def player_mount_def player_defs play_label_def)

end
