(* ===== verification/AuditPage.thy ===== *)
theory AuditPage
  imports PageLib Launch RecordingPlayer
begin

text \<open>
  The audit page, \<open>src/web/src/features/audit/AuditPage.tsx\<close>: the filters with their draft and their
  seeding from a deep link, the session query, the two pickers, and the inspection of a recording.
\<close>

record SessionFilters =
  sf_assetID :: string
  sf_status :: "SessionStatus option"
  sf_userID :: string

definition emptyFilters :: SessionFilters where
  "emptyFilters = \<lparr>sf_assetID = [], sf_status = None, sf_userID = []\<rparr>"

datatype InspectedRecording =
    InspectedCast string RecordingPreview units string
  | InspectedGuac string units string

fun inspected_label :: "InspectedRecording \<Rightarrow> string" where
  "inspected_label (InspectedCast label preview rawText sessionID) = label"
| "inspected_label (InspectedGuac label blob sessionID) = label"

record audit_page =
  ap_filters :: SessionFilters
  ap_draftFilters :: SessionFilters
  ap_assetQuery :: string
  ap_recordingFeedback :: "ActionFeedback option"
  ap_inspected :: "InspectedRecording option"

definition audit_mount :: audit_page where
  "audit_mount = \<lparr>ap_filters = emptyFilters, ap_draftFilters = emptyFilters, ap_assetQuery = [],
     ap_recordingFeedback = None, ap_inspected = None\<rparr>"

definition assetPickerLabel :: "string \<Rightarrow> string \<Rightarrow> string \<Rightarrow> string" where
  "assetPickerLabel name env ip = (let detail = join '' / '' (filter (\<lambda>x. x \<noteq> []) [env, ip])
     in if detail \<noteq> [] then name @ '' ('' @ detail @ '')'' else name)"

definition trafficLabel :: "SessionAuditRecord \<Rightarrow> string" where
  "trafficLabel session = formatBytes (Some (num_of_int (sess_bytes_in session))) @ '' / '' @
     formatBytes (Some (num_of_int (sess_bytes_out session)))"

definition sessionPermissions :: "string list option \<Rightarrow> string list" where
  "sessionPermissions ps = filter (\<lambda>p. p = ''system:admin'' \<or> p = ''cmdb.asset:read'' \<or> p = ''bastion.session:read'')
     (case ps of None \<Rightarrow> [] | Some xs \<Rightarrow> xs)"

section \<open>Filters\<close>

definition status_of_param :: "string option \<Rightarrow> SessionStatus option" where
  "status_of_param p = (if p = Some ''active'' then Some SessionActive else if p = Some ''closed'' then Some SessionClosed
     else if p = Some ''error'' then Some SessionError else None)"

text \<open>The effect on a navigation: a link with any of the three parameters replaces the filters.\<close>

definition seed_filters :: "search_params \<Rightarrow> audit_page \<Rightarrow> audit_page" where
  "seed_filters searchParams s =
    (let asset = params_get searchParams ''asset''; user = params_get searchParams ''user'';
         statusParam = params_get searchParams ''status'' in
     if asset = None \<and> user = None \<and> statusParam = None then s
     else (let new = \<lparr>sf_assetID = opt_or asset [], sf_status = status_of_param statusParam, sf_userID = opt_or user []\<rparr>
           in s\<lparr>ap_filters := new, ap_draftFilters := new\<rparr>))"

definition applyFilters :: "(string \<Rightarrow> bool) \<Rightarrow> audit_page \<Rightarrow> audit_page" where
  "applyFilters can s = s\<lparr>ap_filters := \<lparr>sf_assetID = trim (sf_assetID (ap_draftFilters s)),
     sf_status = sf_status (ap_draftFilters s),
     sf_userID = (if can ''bastion.session:read'' then trim (sf_userID (ap_draftFilters s)) else [])\<rparr>\<rparr>"

definition resetFilters :: "audit_page \<Rightarrow> audit_page" where
  "resetFilters s = s\<lparr>ap_draftFilters := emptyFilters, ap_filters := emptyFilters\<rparr>"

definition audit_options :: "(string \<Rightarrow> bool) \<Rightarrow> audit_page \<Rightarrow> ListSessionsOptions" where
  "audit_options can s =
    (let effectiveUserID = (if can ''bastion.session:read'' then trim (sf_userID (ap_filters s)) else []);
         effectiveAssetID = trim (sf_assetID (ap_filters s))
     in \<lparr>sessopt_assetID = (if effectiveAssetID = [] then None else Some effectiveAssetID), sessopt_limit = Some 100,
         sessopt_offset = None, sessopt_userID = (if effectiveUserID = [] then None else Some effectiveUserID)\<rparr>)"

definition audit_queries :: "(string \<Rightarrow> bool) \<Rightarrow> string \<Rightarrow> audit_page \<Rightarrow> api_call list" where
  "audit_queries can userID s =
    (let canReadSessions = can ''cmdb.asset:read'' in enabled_calls
       [(canReadSessions \<and> userID \<noteq> [], listSessions (audit_options can s)),
        (canReadSessions \<and> userID \<noteq> [], listAssets (no_asset_options\<lparr>assetopt_limit := Some 30,
           assetopt_query := trim_opt (ap_assetQuery s)\<rparr>))])"

definition visibleSessions :: "SessionAuditRecord list \<Rightarrow> audit_page \<Rightarrow> SessionAuditRecord list" where
  "visibleSessions sessionItems s = filterSessionsByStatus sessionItems (sf_status (ap_filters s))"

section \<open>Pickers\<close>

definition assetPickerOptions :: "Asset list \<Rightarrow> audit_page \<Rightarrow> (string \<times> string) list" where
  "assetPickerOptions items s =
    (let opts = map (\<lambda>asset. (asset_id asset, assetPickerLabel (or_else (asset_name asset) (asset_id asset)) (asset_env asset)
           (or_else (opt_or (asset_private_ip asset) []) (opt_or (asset_public_ip asset) [])))) items;
         chosen = trim (sf_assetID (ap_draftFilters s))
     in if chosen \<noteq> [] \<and> \<not> list_ex (\<lambda>opt. fst opt = chosen) opts then (chosen, ''selected: '' @ chosen) # opts else opts)"

text \<open>The loop over the loaded sessions: the first name seen for a user is kept.\<close>

primrec seen_users :: "SessionAuditRecord list \<Rightarrow> (string, string) jsmap \<Rightarrow> (string, string) jsmap" where
  "seen_users [] seen = seen"
| "seen_users (session # rest) seen = seen_users rest
     (if sess_user_id session \<noteq> [] \<and> map_of seen (sess_user_id session) = None
      then AList.update (sess_user_id session) (or_else (sess_user_name session) (sess_user_id session)) seen else seen)"

definition userPickerOptions :: "(string \<Rightarrow> string \<Rightarrow> int) \<Rightarrow> SessionAuditRecord list \<Rightarrow> audit_page \<Rightarrow> (string \<times> string) list" where
  "userPickerOptions localeCompare sessionItems s =
    (let seen = seen_users sessionItems []; chosen = trim (sf_userID (ap_draftFilters s));
         seen' = (if chosen \<noteq> [] \<and> map_of seen chosen = None then AList.update chosen (''selected: '' @ chosen) seen else seen)
     in sort_by (\<lambda>a b. localeCompare (snd a) (snd b)) seen')"

section \<open>Inspecting a recording\<close>

text \<open>A parse error carries the parser's message; the message of a \<open>TypeError\<close> is the browser's.\<close>

datatype inspect_error = InspectCall call_error | InspectCast cast_error

fun cast_error_text :: "units \<Rightarrow> cast_error \<Rightarrow> units" where
  "cast_error_text type_error CastEmpty = u16 ''Recording is empty.''"
| "cast_error_text type_error CastHeaderMalformed = u16 ''Recording header is malformed and cannot be parsed.''"
| "cast_error_text type_error CastHeaderNull = type_error"
| "cast_error_text type_error (CastUnsupported v) = u16 ''Unsupported cast version '' @ text_or v (u16 ''unknown'') @ u16 ''.''"

fun inspect_error_text :: "units \<Rightarrow> inspect_error \<Rightarrow> units" where
  "inspect_error_text type_error (InspectCall c) = error_text c"
| "inspect_error_text type_error (InspectCast c) = cast_error_text type_error c"

definition inspectRecording :: "SessionAuditRecord \<Rightarrow> call_error + units \<Rightarrow> inspect_error + InspectedRecording" where
  "inspectRecording session answer = (case answer of
     Inl e \<Rightarrow> Inl (InspectCall e)
   | Inr rawText \<Rightarrow>
       (let label = recordingLabel session in
        if detectRecordingKind rawText = Asciicast then
          (case parseAsciicast rawText 4000 of
             Inl e \<Rightarrow> Inl (InspectCast e)
           | Inr preview \<Rightarrow> Inr (InspectedCast label preview rawText (sess_id session)))
        else Inr (InspectedGuac label rawText (sess_id session))))"

definition inspect_onMutate :: "audit_page \<Rightarrow> audit_page" where
  "inspect_onMutate s = s\<lparr>ap_recordingFeedback := None\<rparr>"

definition inspect_onSuccess :: "InspectedRecording \<Rightarrow> audit_page \<Rightarrow> audit_page" where
  "inspect_onSuccess recording s = s\<lparr>ap_inspected := Some recording, ap_recordingFeedback := success_feedback
     (u16 (''Recording loaded for '' @ inspected_label recording @ ''.''))\<rparr>"

definition inspect_onError :: "units \<Rightarrow> inspect_error \<Rightarrow> audit_page \<Rightarrow> audit_page" where
  "inspect_onError type_error e s = s\<lparr>ap_recordingFeedback := error_feedback (inspect_error_text type_error e)\<rparr>"

text \<open>The file a download writes: its name and content.\<close>

fun download_recording :: "InspectedRecording \<Rightarrow> string \<times> units" where
  "download_recording (InspectedCast label preview rawText sessionID) = (sessionID @ ''.cast'', rawText)"
| "download_recording (InspectedGuac label blob sessionID) = (sessionID @ ''.guac'', blob)"

section \<open>Contracts\<close>

definition audit_rest :: "audit_page \<Rightarrow> audit_page" where
  "audit_rest s = s\<lparr>ap_recordingFeedback := None\<rparr>"

interpretation inspect: mutation inspect_onMutate inspect_onSuccess "inspect_onError type_error" ap_recordingFeedback
    "inspect_error_text type_error" audit_rest for type_error
  by unfold_locales (simp_all add: inspect_onMutate_def inspect_onSuccess_def inspect_onError_def audit_rest_def)

interpretation audit: gated_page audit_queries "[''cmdb.asset:read'']"
  by unfold_locales (simp_all add: audit_queries_def Let_def)

section \<open>Properties\<close>

lemma opt_or_truthy: "opt_or (if truthy v then v else None) [] = opt_or v []"
  by (cases v) (auto simp: or_else_def)

text \<open>
  An audit link opens the view it was built for. Whatever asset, user and status a page puts into a
  link, following it sets both the applied filters and the draft to exactly these values, the default
  status standing for one that is unknown; a link without filters leaves the page as it is.
\<close>

theorem audit_link_seeds:
  "\<exists>ps. URLSearchParams (buildAuditSearch query) = Some ps \<and>
     seed_filters ps s = (if buildAuditSearch query = [] then s else
       (let f = \<lparr>sf_assetID = opt_or (aq_assetID query) [], sf_status = status_of_param (aq_status query),
          sf_userID = opt_or (aq_userID query) []\<rparr> in s\<lparr>ap_filters := f, ap_draftFilters := f\<rparr>))"
proof -
  obtain ps where ps: "URLSearchParams (buildAuditSearch query) = Some ps"
    and a: "params_get ps ''asset'' = (if truthy (aq_assetID query) then aq_assetID query else None)"
    and u: "params_get ps ''user'' = (if truthy (aq_userID query) then aq_userID query else None)"
    and st: "params_get ps ''status'' = (if truthy (aq_status query) \<and> aq_status query \<noteq> Some ''all'' then aq_status query else None)"
    and e: "buildAuditSearch query = [] \<longleftrightarrow> ps = []"
    using audit_link_reads_back [of query] by blast
  have status: "status_of_param (params_get ps ''status'') = status_of_param (aq_status query)"
    unfolding st by (cases "aq_status query") (auto simp: status_of_param_def)
  have none: "ps = [] \<longleftrightarrow> params_get ps ''asset'' = None \<and> params_get ps ''user'' = None \<and> params_get ps ''status'' = None"
    using e unfolding a u st
    by (cases "aq_assetID query"; cases "aq_userID query"; cases "aq_status query")
      (auto simp: buildAuditSearch_def Let_def set_if_def split: if_splits)
  show ?thesis
    using ps none e status
    by (auto simp: seed_filters_def Let_def a u opt_or_truthy)
qed

lemma trim_opt_truthy: "truthy (if trim v = [] then None else Some (trim v)) \<longleftrightarrow> trim v \<noteq> []"
  "opt_or (if trim v = [] then None else Some (trim v)) [] = trim v"
  by (auto simp: or_else_def)

lemma sessions_request_params:
  "\<exists>ps. URLSearchParams (drop 22 (call_path (listSessions opts))) = Some ps \<and>
     params_get ps ''user_id'' = (if truthy (sessopt_userID opts) then sessopt_userID opts else None) \<and>
     params_get ps ''asset_id'' = (if truthy (sessopt_assetID opts) then sessopt_assetID opts else None)"
proof -
  have some: "Some (opt_or v []) = v" if "truthy v" for v
    using that by (cases v) (simp_all add: or_else_def)
  let ?o = "opts\<lparr>sessopt_limit := (case sessopt_limit opts of None \<Rightarrow> Some 100 | Some l \<Rightarrow> Some l)\<rparr>"
  let ?p = "set_opt ''offset'' (sessopt_offset ?o) (set_opt ''limit'' (sessopt_limit ?o)
     (set_if (truthy (sessopt_assetID ?o)) ''asset_id'' (opt_or (sessopt_assetID ?o) [])
       (set_if (truthy (sessopt_userID ?o)) ''user_id'' (opt_or (sessopt_userID ?o) []) [])))"
  have "drop 22 (call_path (listSessions opts)) = CHR ''?'' # params_str ?p"
    by (simp add: listSessions_def call_get_def buildSessionsQuery_def Let_def)
  then have "URLSearchParams (drop 22 (call_path (listSessions opts))) = Some ?p"
    using URLSearchParams_str [of ?p] by simp
  moreover have "params_get ?p ''user_id'' = (if truthy (sessopt_userID opts) then sessopt_userID opts else None)"
    "params_get ?p ''asset_id'' = (if truthy (sessopt_assetID opts) then sessopt_assetID opts else None)"
    by (simp_all add: some)
  ultimately show ?thesis by blast
qed

text \<open>
  The audit page asks for other users' sessions only with the permission to see them. Whatever the
  filters are and wherever they come from (typed, applied or a deep link), the session request that
  reaches the server names a user only when the visitor holds \<open>bastion.session:read\<close>, then exactly the
  trimmed user filter, and always exactly the trimmed asset filter; without \<open>cmdb.asset:read\<close> nothing
  is asked at all.
\<close>

theorem audit_request_scope:
  "(\<exists>ps. URLSearchParams (drop 22 (call_path (listSessions (audit_options can s)))) = Some ps \<and>
     params_get ps ''user_id'' = (if can ''bastion.session:read'' then trim_opt (sf_userID (ap_filters s)) else None) \<and>
     params_get ps ''asset_id'' = trim_opt (sf_assetID (ap_filters s))) \<and>
   audit_queries (\<lambda>p. p \<noteq> ''cmdb.asset:read'' \<and> can p) userID s = []"
proof -
  have "audit_queries (\<lambda>p. p \<noteq> ''cmdb.asset:read'' \<and> can p) userID s = []" by (rule audit.no_permission) simp
  then show ?thesis
    using sessions_request_params [of "audit_options can s"]
    by (auto simp: audit_options_def Let_def trim_opt_def trim_opt_truthy split: if_splits)
qed

section \<open>Picker facts\<close>

lemma seen_users_keys:
  "distinct (jsmap_keys seen) \<Longrightarrow> distinct (jsmap_keys (seen_users ss seen)) \<and>
     set (jsmap_keys (seen_users ss seen)) = set (jsmap_keys seen) \<union> (sess_user_id ` set ss - {[]})"
proof (induction ss arbitrary: seen)
  case (Cons x ss)
  have "distinct (jsmap_keys (AList.update k v seen))" for k v
    using Cons.prems by (simp add: keys_update)
  moreover have "map_of seen k = None \<longleftrightarrow> k \<notin> set (jsmap_keys seen)" for k by (simp add: map_of_eq_None_iff)
  ultimately show ?case
    using Cons.IH [of seen] Cons.IH [of "AList.update (sess_user_id x) (or_else (sess_user_name x) (sess_user_id x)) seen"] Cons.prems
    by (auto simp: keys_update)
qed simp

text \<open>
  The pickers offer what can be filtered for, once each. The user picker lists exactly the users of
  the loaded sessions and the chosen one, each once and in the order of their labels; a chosen asset is
  offered even when the search did not find it, and no found asset is dropped.
\<close>

theorem audit_pickers:
  assumes "collation localeCompare"
  shows "let us = userPickerOptions localeCompare items s; chosen = trim (sf_userID (ap_draftFilters s));
      as = assetPickerOptions assets s; chosen_asset = trim (sf_assetID (ap_draftFilters s)) in
    distinct (map fst us) \<and> ordered_by localeCompare (map snd us) \<and>
    set (map fst us) = (sess_user_id ` set items \<union> {chosen}) - {[]} \<and>
    set (map fst as) = asset_id ` set assets \<union> ({chosen_asset} - {[]}) \<and>
    filter (\<lambda>x. x \<in> set (map asset_id assets)) (map fst as) = map asset_id assets"
proof -
  let ?seen = "seen_users items []" let ?c = "trim (sf_userID (ap_draftFilters s))"
  let ?seen' = "if ?c \<noteq> [] \<and> map_of ?seen ?c = None then AList.update ?c (''selected: '' @ ?c) ?seen else ?seen"
  let ?cmp = "\<lambda>a b. localeCompare (snd a) (snd b)"
  have us: "userPickerOptions localeCompare items s = sort_by ?cmp ?seen'"
    by (simp add: userPickerOptions_def Let_def)
  have k: "distinct (jsmap_keys ?seen)" "set (jsmap_keys ?seen) = sess_user_id ` set items - {[]}"
    using seen_users_keys [of "[]" items] by simp_all
  have mf: "map fst ?seen' = (if ?c \<noteq> [] then set_add ?c (jsmap_keys ?seen) else jsmap_keys ?seen)"
    by (simp add: keys_update map_of_eq_None_iff set_add_def image_set del: set_map)
  have d: "distinct (map fst ?seen')" "set (map fst ?seen') = (sess_user_id ` set items \<union> {?c}) - {[]}"
    unfolding mf using k by auto
  have m: "mset (map fst (sort_by ?cmp ?seen')) = mset (map fst ?seen')" by simp
  have "collation ?cmp" using assms by (simp add: collation_def)
  then have "ordered_by ?cmp (sort_by ?cmp ?seen')" by (rule ordered_sort_by)
  then have o: "ordered_by localeCompare (map snd (sort_by ?cmp ?seen'))" by (simp add: ordered_by_def sorted_wrt_map)
  have a: "set (map fst (assetPickerOptions assets s)) = asset_id ` set assets \<union> ({trim (sf_assetID (ap_draftFilters s))} - {[]})"
    by (force simp: assetPickerOptions_def Let_def list_ex_iff)
  have f: "filter (\<lambda>x. x \<in> set (map asset_id assets)) (map fst (assetPickerOptions assets s)) = map asset_id assets"
    by (auto simp: assetPickerOptions_def Let_def list_ex_iff comp_def filter_id_conv)
  have "distinct (map fst (userPickerOptions localeCompare items s))"
    "set (map fst (userPickerOptions localeCompare items s)) = (sess_user_id ` set items \<union> {?c}) - {[]}"
    unfolding us using d mset_eq_imp_distinct_iff [OF m] mset_eq_setD [OF m] by simp_all
  then show ?thesis using o a f us by (simp only: Let_def simp_thms)
qed

definition picker_session :: "string \<Rightarrow> string \<Rightarrow> SessionAuditRecord" where
  "picker_session u n = \<lparr>sess_asset_id = ''a1'', sess_asset_name = [], sess_bytes_in = 0, sess_bytes_out = 0, sess_client_ip = None,
     sess_duration_ms = None, sess_ended_at = None, sess_error = None, sess_exit_code = None, sess_has_recording = False,
     sess_id = ''s1'', sess_proxy_id = None, sess_proxy_name = None, sess_recording_bytes = None, sess_started_at = [],
     sess_user_id = u, sess_user_name = n\<rparr>"

theorem audit_pickers_witness:
  "distinct (map fst (userPickerOptions unit_compare [picker_session ''u2'' ''zoe'', picker_session ''u1'' ''amy''] audit_mount)) \<and>
   ordered_by unit_compare (map snd (userPickerOptions unit_compare [picker_session ''u2'' ''zoe'', picker_session ''u1'' ''amy''] audit_mount))"
  using audit_pickers [OF unit_compare_collation, of "[picker_session ''u2'' ''zoe'', picker_session ''u1'' ''amy'']" audit_mount "[]"]
  by (simp only: Let_def simp_thms)

text \<open>
  Every recording that arrives can be inspected and is saved unchanged. If the first line of the
  recording has no surrounding white space, inspecting it never fails, whatever the rest contains: it
  is shown as a text recording or handed to the player, under the label of its session, and a
  download writes exactly the text the server sent under a name made from the session.
\<close>

theorem recording_inspected:
  assumes "trim_units (hd (split_lines rawText)) = hd (split_lines rawText)"
  shows "\<exists>r. inspectRecording session (Inr rawText) = Inr r \<and> inspected_label r = recordingLabel session \<and>
    snd (download_recording r) = rawText \<and> take (length (sess_id session)) (fst (download_recording r)) = sess_id session \<and>
    ap_inspected (settle inspect_onSuccess (inspect_onError te) (inspectRecording session (Inr rawText)) s) = Some r"
proof (cases "detectRecordingKind rawText = Asciicast")
  case True
  then obtain p where "parseAsciicast rawText 4000 = Inr p" using detected_cast_parses [OF True assms, of 4000] by blast
  with True show ?thesis by (simp add: inspectRecording_def Let_def settle_def inspect_onSuccess_def)
qed (simp add: inspectRecording_def Let_def settle_def inspect_onSuccess_def)

theorem recording_inspected_witness:
  "\<exists>r. inspectRecording (picker_session ''u'' ''n'') (Inr (u16 ''4.size,1.0;'')) = Inr r \<and> snd (download_recording r) = u16 ''4.size,1.0;''"
proof -
  have "trim_units (hd (split_lines (u16 ''4.size,1.0;''))) = hd (split_lines (u16 ''4.size,1.0;''))"
    by (simp add: u16_def trim_units_def ws_unit_def)
  from recording_inspected [OF this, of "picker_session ''u'' ''n''"] show ?thesis by blast
qed

end
