(* ===== verification/ModalFocus.thy ===== *)
theory ModalFocus
  imports Prelude
begin

text \<open>
  Keyboard focus of the dialogs, \<open>src/web/src/hooks/useModalFocus.ts\<close>. The elements of a dialog are a
  list in document order; \<open>onKeyDown\<close> says what the handler does with a key: close the dialog, move the
  focus itself (and suppress the browser's own move), or leave the key to the browser. What the browser
  does with a Tab key it is left with is a parameter.
\<close>

record element =
  el_id :: nat
  el_tag :: string
  el_href :: bool
  el_disabled :: bool
  el_tabindex :: "string option"
  el_ariaHidden :: "string option"
  el_width :: int
  el_height :: int
  el_rects :: nat

definition focusableSelector :: "element \<Rightarrow> bool" where
  "focusableSelector e =
    (el_tag e = ''a'' \<and> el_href e \<or>
     el_tag e \<in> {''button'', ''input'', ''select'', ''textarea''} \<and> \<not> el_disabled e \<or>
     el_tabindex e \<noteq> None \<and> el_tabindex e \<noteq> Some ''-1'')"

definition focusableElements :: "element list \<Rightarrow> nat list" where
  "focusableElements container = map el_id (filter (\<lambda>e. el_ariaHidden e \<noteq> Some ''true'' \<and>
     (el_width e \<noteq> 0 \<or> el_height e \<noteq> 0 \<or> el_rects e \<noteq> 0)) (filter focusableSelector container))"

record panel =
  pn_id :: nat
  pn_elements :: "element list"

text \<open>\<open>panel.contains(node)\<close>: the panel itself counts, \<open>null\<close> does not.\<close>

definition panel_contains :: "panel \<Rightarrow> nat option \<Rightarrow> bool" where
  "panel_contains p node = (case node of None \<Rightarrow> False | Some i \<Rightarrow> i = pn_id p \<or> i \<in> set (map el_id (pn_elements p)))"

datatype key_result = KeyClose | KeyFocus nat | KeyDefault

definition onKeyDown :: "panel option \<Rightarrow> nat option \<Rightarrow> string \<Rightarrow> bool \<Rightarrow> key_result" where
  "onKeyDown panelRef activeElement key shiftKey =
    (if key = ''Escape'' then KeyClose
     else if key \<noteq> ''Tab'' then KeyDefault
     else (case panelRef of None \<Rightarrow> KeyDefault
       | Some panel \<Rightarrow>
           (let candidates = focusableElements (pn_elements panel) in
            if candidates = [] then KeyFocus (pn_id panel)
            else if shiftKey then
              (if activeElement = Some (hd candidates) \<or> \<not> panel_contains panel activeElement
               then KeyFocus (List.last candidates) else KeyDefault)
            else if activeElement = Some (List.last candidates) then KeyFocus (hd candidates) else KeyDefault)))"

section \<open>The life of a dialog\<close>

record modal =
  mo_open :: bool
  mo_active :: "nat option"
  mo_restore :: "nat option"

definition modal_closed :: "nat option \<Rightarrow> modal" where
  "modal_closed active = \<lparr>mo_open = False, mo_active = active, mo_restore = None\<rparr>"

text \<open>
  Opening remembers the active element; the timer then focuses the close button, or the panel when there
  is none. Closing gives the focus back when the element is still in the document.
\<close>

definition modal_open :: "modal \<Rightarrow> modal" where
  "modal_open m = (if mo_open m then m else m\<lparr>mo_open := True, mo_restore := mo_active m\<rparr>)"

definition modal_focus_timer :: "nat option \<Rightarrow> nat option \<Rightarrow> modal \<Rightarrow> modal" where
  "modal_focus_timer closeButton panelID m =
    (if \<not> mo_open m then m
     else (case closeButton of Some b \<Rightarrow> m\<lparr>mo_active := Some b\<rparr>
       | None \<Rightarrow> (case panelID of Some p \<Rightarrow> m\<lparr>mo_active := Some p\<rparr> | None \<Rightarrow> m)))"

definition modal_close :: "(nat \<Rightarrow> bool) \<Rightarrow> modal \<Rightarrow> modal" where
  "modal_close in_document m =
    (if \<not> mo_open m then m
     else (case mo_restore m of
         Some i \<Rightarrow> if in_document i then m\<lparr>mo_open := False, mo_active := Some i\<rparr> else m\<lparr>mo_open := False\<rparr>
       | None \<Rightarrow> m\<lparr>mo_open := False\<rparr>))"

text \<open>One key: \<open>browser\<close> is where the browser moves the focus for a Tab it handles (with Shift or not).\<close>

definition modal_key :: "(bool \<Rightarrow> nat option \<Rightarrow> nat option) \<Rightarrow> (nat \<Rightarrow> bool) \<Rightarrow> panel option \<Rightarrow> string \<Rightarrow> bool \<Rightarrow> modal \<Rightarrow> modal" where
  "modal_key browser in_document panelRef key shiftKey m =
    (if \<not> mo_open m then m
     else (case onKeyDown panelRef (mo_active m) key shiftKey of
         KeyClose \<Rightarrow> modal_close in_document m
       | KeyFocus i \<Rightarrow> m\<lparr>mo_active := Some i\<rparr>
       | KeyDefault \<Rightarrow> if key = ''Tab'' then m\<lparr>mo_active := browser shiftKey (mo_active m)\<rparr> else m))"

section \<open>Properties\<close>

lemma focusable_inside: "i \<in> set (focusableElements els) \<Longrightarrow> i \<in> set (map el_id els)"
  by (auto simp: focusableElements_def)

text \<open>
  The trap as the handler sees it: forward it acts on the last candidate only, backward on the first one
  and outside the panel.
\<close>

lemma tab_forward:
  assumes "candidates = focusableElements (pn_elements p)" "distinct candidates" "i < length candidates"
  shows "onKeyDown (Some p) (Some (candidates ! i)) ''Tab'' False =
    (if i = length candidates - 1 then KeyFocus (candidates ! 0) else KeyDefault)"
proof -
  have ne: "candidates \<noteq> []" using assms(3) by auto
  then have "candidates ! i = List.last candidates \<longleftrightarrow> i = length candidates - 1"
    using assms(2,3) by (auto simp: last_conv_nth nth_eq_iff_index_eq)
  then show ?thesis using ne assms(1) by (auto simp: onKeyDown_def Let_def hd_conv_nth)
qed

lemma tab_backward:
  assumes "candidates = focusableElements (pn_elements p)" "distinct candidates" "i < length candidates"
  shows "onKeyDown (Some p) (Some (candidates ! i)) ''Tab'' True =
    (if i = 0 then KeyFocus (candidates ! (length candidates - 1)) else KeyDefault)"
proof -
  have ne: "candidates \<noteq> []" using assms(3) by auto
  then have "candidates ! i = hd candidates \<longleftrightarrow> i = 0"
    using assms(2,3) by (auto simp: hd_conv_nth nth_eq_iff_index_eq)
  moreover have "panel_contains p (Some (candidates ! i))"
    using assms(1,3) focusable_inside [of "candidates ! i" "pn_elements p"] by (simp add: panel_contains_def)
  ultimately show ?thesis using ne assms(1) by (auto simp: onKeyDown_def Let_def last_conv_nth)
qed

lemma fwd_keeps:
  "mo_open m \<Longrightarrow> mo_open ((modal_key browser in_doc (Some p) ''Tab'' False ^^ k) m) \<and>
     mo_restore ((modal_key browser in_doc (Some p) ''Tab'' False ^^ k) m) = mo_restore m"
proof (induction k)
  case (Suc k)
  have "mo_open (modal_key browser in_doc (Some p) ''Tab'' False m') \<and>
      mo_restore (modal_key browser in_doc (Some p) ''Tab'' False m') = mo_restore m'" if "mo_open m'" for m'
    using that by (auto simp: modal_key_def onKeyDown_def Let_def split: key_result.splits)
  with Suc show ?case by simp
qed simp

lemma fwd_next:
  assumes "cs = focusableElements (pn_elements p)" "distinct cs" "j < length cs"
    and "\<And>j. j + 1 < length cs \<Longrightarrow> browser False (Some (cs ! j)) = Some (cs ! (j + 1))"
    and "mo_open m" "mo_active m = Some (cs ! j)"
  shows "mo_active (modal_key browser in_doc (Some p) ''Tab'' False m) = Some (cs ! ((j + 1) mod length cs))"
proof (cases "j = length cs - 1")
  case True
  with assms(3) have "j + 1 = length cs" by linarith
  then have "(j + 1) mod length cs = 0" by simp
  with True assms(3,5,6) show ?thesis by (simp add: modal_key_def tab_forward [OF assms(1,2)])
next
  case False
  with assms(3) have "(j + 1) mod length cs = j + 1" "j + 1 < length cs" by simp_all
  with False assms(3,5,6) assms(4) [of j] show ?thesis by (simp add: modal_key_def tab_forward [OF assms(1,2)])
qed

lemma bwd_prev:
  assumes "cs = focusableElements (pn_elements p)" "distinct cs" "j < length cs"
    and "\<And>j. 0 < j \<Longrightarrow> j < length cs \<Longrightarrow> browser True (Some (cs ! j)) = Some (cs ! (j - 1))"
    and "mo_open m" "mo_active m = Some (cs ! j)"
  shows "mo_active (modal_key browser in_doc (Some p) ''Tab'' True m) = Some (cs ! ((j + length cs - 1) mod length cs))"
proof (cases "j = 0")
  case True
  then show ?thesis using assms(3,5,6) by (simp add: modal_key_def tab_backward [OF assms(1,2)])
next
  case False
  then have e: "j + length cs - 1 = (j - 1) + length cs" by simp
  have "(j + length cs - 1) mod length cs = j - 1" unfolding e using assms(3) by simp
  then show ?thesis using False assms(3-6) by (simp add: modal_key_def tab_backward [OF assms(1,2)])
qed


definition sample_button :: "nat \<Rightarrow> element" where
  "sample_button i = \<lparr>el_id = i, el_tag = ''button'', el_href = False, el_disabled = False, el_tabindex = None,
     el_ariaHidden = None, el_width = 10, el_height = 10, el_rects = 1\<rparr>"


text \<open>
  The trap has two gaps. When the focus is on the panel itself, where it is put if the dialog has no
  close button, Shift+Tab is left to the browser; and when the focus is outside the panel, Tab is, although
  Shift+Tab is then pulled back in.
\<close>

theorem modal_trap_gaps:
  assumes "focusableElements (pn_elements p) \<noteq> []" "pn_id p \<notin> set (map el_id (pn_elements p))"
    and "\<not> panel_contains p (Some outside)"
  shows "onKeyDown (Some p) (mo_active (modal_focus_timer None (Some (pn_id p)) (modal_open (modal_closed a)))) ''Tab'' True = KeyDefault \<and>
    onKeyDown (Some p) (Some outside) ''Tab'' False = KeyDefault \<and>
    onKeyDown (Some p) (Some outside) ''Tab'' True \<noteq> KeyDefault"
proof -
  have "hd (focusableElements (pn_elements p)) \<in> set (map el_id (pn_elements p))"
    "List.last (focusableElements (pn_elements p)) \<in> set (map el_id (pn_elements p))"
    using assms(1) by (auto intro!: focusable_inside simp del: set_map)
  moreover from assms(3) have "outside \<notin> set (map el_id (pn_elements p))" by (simp add: panel_contains_def)
  ultimately show ?thesis
    using assms
    by (auto simp: onKeyDown_def Let_def modal_focus_timer_def modal_open_def modal_closed_def panel_contains_def)
qed

theorem modal_trap_gaps_witness:
  "onKeyDown (Some \<lparr>pn_id = 0, pn_elements = [sample_button 1]\<rparr>) (Some 9) ''Tab'' False = KeyDefault"
  using modal_trap_gaps [of "\<lparr>pn_id = 0, pn_elements = [sample_button 1]\<rparr>" 9 None]
  by (simp add: focusableElements_def focusableSelector_def sample_button_def panel_contains_def)

end
