(* ===== verification/MatrixPage.thy ===== *)
theory MatrixPage
  imports PageLib Iam Launch
begin

text \<open>
  The capability matrix, \<open>src/web/src/features/iam/CapabilityMatrix.tsx\<close>: labels and classes of the
  cells, the number of roles a capability reaches, and the resolver that answers whether a user may do
  something to a resource.
\<close>

section \<open>Cells\<close>

text \<open>The label of a cell that grants nothing is a dash, U+2014.\<close>

definition cellLabel :: "MatrixCell option \<Rightarrow> units" where
  "cellLabel cell = (case cell of
     None \<Rightarrow> [0x2014]
   | Some c \<Rightarrow> if cell_state c = CellNone then [0x2014] else if cell_state c = CellAll then u16 ''all''
       else formatScope (cell_scope c))"

definition cellClass :: "MatrixCell option \<Rightarrow> string" where
  "cellClass cell = (case cell of
     None \<Rightarrow> ''cap-cell-none''
   | Some c \<Rightarrow> if cell_state c = CellNone then ''cap-cell-none'' else if cell_state c = CellAll then ''cap-cell-all''
       else ''cap-cell-partial'')"

record SelectedCell =
  sel_permission :: string
  sel_role :: string

text \<open>The cells of a capability by role, and one cell.\<close>

definition cells_of :: "CapabilityMatrix \<Rightarrow> string \<Rightarrow> (string \<times> MatrixCell) list" where
  "cells_of data permission = (case map_of (matrix_cells data) permission of None \<Rightarrow> [] | Some row \<Rightarrow> row)"

definition selectedCell :: "CapabilityMatrix option \<Rightarrow> SelectedCell option \<Rightarrow> MatrixCell option" where
  "selectedCell data selected = (case (data, selected) of
     (Some d, Some sel) \<Rightarrow> map_of (cells_of d (sel_permission sel)) (sel_role sel)
   | _ \<Rightarrow> None)"

definition roleReach :: "CapabilityMatrix option \<Rightarrow> string \<Rightarrow> nat" where
  "roleReach data permission = (case data of None \<Rightarrow> 0
     | Some d \<Rightarrow> length (filter (\<lambda>c. cell_state c \<noteq> CellNone) (map snd (cells_of d permission))))"

text \<open>A row of the matrix: class and label of the cell of each role.\<close>

definition matrix_row :: "string \<Rightarrow> MatrixRole list \<Rightarrow> (string \<times> MatrixCell) list \<Rightarrow> SelectedCell option \<Rightarrow> (string \<times> units) list" where
  "matrix_row permission roles cells selected = map (\<lambda>role.
     (let cell = map_of cells (mrole_name role);
          isSelected = (case selected of None \<Rightarrow> False | Some sel \<Rightarrow> sel_permission sel = permission \<and> sel_role sel = mrole_name role)
      in (''cell '' @ cellClass cell @ (if isSelected then '' selected'' else []), cellLabel cell))) roles"

section \<open>The resolver\<close>

record matrix_page =
  mx_selected :: "SelectedCell option"
  mx_resolveUserID :: string
  mx_resolveCap :: string
  mx_resolveRef :: string
  mx_resolveResult :: "ResolveResult option"
  mx_resolveError :: "units option"
  mx_resolving :: bool

definition matrix_mount :: matrix_page where
  "matrix_mount = \<lparr>mx_selected = None, mx_resolveUserID = [], mx_resolveCap = [], mx_resolveRef = [], mx_resolveResult = None,
     mx_resolveError = None, mx_resolving = False\<rparr>"

definition matrix_queries :: "(string \<Rightarrow> bool) \<Rightarrow> string \<Rightarrow> matrix_page \<Rightarrow> api_call list" where
  "matrix_queries can currentUserID s =
    (let canReadIAM = can ''iam.user:read'' in enabled_calls
       ([(canReadIAM \<and> currentUserID \<noteq> [], getCapabilityMatrix),
         (canReadIAM \<and> currentUserID \<noteq> [], listIamUsers \<lparr>iamusersopt_query = None\<rparr>)] @
        (case mx_selected s of None \<Rightarrow> []
         | Some sel \<Rightarrow> [(canReadIAM \<and> sel_permission sel \<noteq> [], getCapabilityPrincipals (sel_permission sel))])))"

datatype matrix_view = MatrixPermission | MatrixLoading | MatrixError units | MatrixShown CapabilityMatrix

definition matrix_view_of :: "(string \<Rightarrow> bool) \<Rightarrow> CapabilityMatrix query \<Rightarrow> matrix_view" where
  "matrix_view_of can q =
    (if \<not> can ''iam.user:read'' then MatrixPermission
     else if q_loading q then MatrixLoading
     else (case (q_error q, q_data q) of
         (None, Some d) \<Rightarrow> MatrixShown d
       | (Some e, _) \<Rightarrow> MatrixError (error_text e)
       | (None, None) \<Rightarrow> MatrixError (u16 ''Failed to load matrix.'')))"

text \<open>\<open>submitResolve\<close> up to its request, and what it does with the answer.\<close>

definition resolve_submit :: "matrix_page \<Rightarrow> matrix_page \<times> api_call option" where
  "resolve_submit s =
    (if mx_resolveUserID s = [] \<or> mx_resolveCap s = []
     then (s\<lparr>mx_resolveError := Some (u16 ''Select a user and a capability.'')\<rparr>, None)
     else (s\<lparr>mx_resolving := True, mx_resolveError := None, mx_resolveResult := None\<rparr>,
       Some (resolveCapability \<lparr>rreq_user_id = mx_resolveUserID s, rreq_capability = mx_resolveCap s,
         rreq_resource_ref = trim_opt (mx_resolveRef s)\<rparr>)))"

definition resolve_done :: "call_error + ResolveResult \<Rightarrow> matrix_page \<Rightarrow> matrix_page" where
  "resolve_done r s = (case r of
     Inr result \<Rightarrow> s\<lparr>mx_resolveResult := Some result, mx_resolving := False\<rparr>
   | Inl e \<Rightarrow> s\<lparr>mx_resolveError := Some (error_text e), mx_resolving := False\<rparr>)"

definition resolve_pill :: "ResolveResult \<Rightarrow> units" where
  "resolve_pill r = (if rres_allowed r
     then (if truthy (rres_expires_at r) then u16 ''yes '' @ [0xB7] @ u16 '' time-bounded'' else u16 ''yes'') else u16 ''no'')"

text \<open>The link under an answer.\<close>

definition resolve_link :: "matrix_page \<Rightarrow> string option" where
  "resolve_link s = (if mx_resolveResult s = None \<or> mx_resolveUserID s = [] then None
     else Some (''/audit'' @ buildAuditSearch \<lparr>aq_assetID = None, aq_userID = Some (mx_resolveUserID s), aq_status = None\<rparr>))"

section \<open>Properties\<close>

lemma formatScope_no_dash: "formatScope sc \<noteq> [0x2014]"
proof (cases sc)
  case (Some cs)
  then show ?thesis
  proof (cases cs)
    case (Cons c cs')
    have "\<exists>x \<in> {61, 0x2260}. x \<in> set (formatScope (Some (c # cs')))"
      by (cases "scope_op c = OpNotIn") (auto simp: formatScope_def Let_def u16_def intro!: join_contains)
    then show ?thesis using Some Cons by auto
  qed (simp add: formatScope_def u16_def)
qed (simp add: formatScope_def u16_def)

lemma dash_iff: "cellLabel cell = [0x2014] \<longleftrightarrow> cell = None \<or> (\<exists>c. cell = Some c \<and> cell_state c = CellNone)"
  using formatScope_no_dash by (auto simp: cellLabel_def u16_def split: option.splits)

text \<open>
  A cell reads as unrestricted only if it is. A dash stands exactly for a capability the role does not
  have; "all" stands for an unrestricted one, and for a restricted one only when the server sent no
  scope with it; every restricted cell with a scope shows its constraints. The number beside a
  capability is the number of roles whose cell does not show a dash.
\<close>

theorem matrix_labels_faithful:
  "(cellLabel cell = [0x2014] \<longleftrightarrow> cell = None \<or> (\<exists>c. cell = Some c \<and> cell_state c = CellNone)) \<and>
   (cellLabel cell = u16 ''all'' \<longleftrightarrow> (\<exists>c. cell = Some c \<and> (cell_state c = CellAll \<or>
      cell_state c = CellPartial \<and> (cell_scope c = None \<or> cell_scope c = Some [])))) \<and>
   roleReach (Some d) permission =
     length (filter (\<lambda>kc. cellLabel (Some (snd kc)) \<noteq> [0x2014]) (cells_of d permission))"
proof -
  have "cellLabel cell = u16 ''all'' \<longleftrightarrow> (\<exists>c. cell = Some c \<and> (cell_state c = CellAll \<or>
      cell_state c = CellPartial \<and> (cell_scope c = None \<or> cell_scope c = Some [])))"
  proof (cases cell)
    case (Some c)
    then show ?thesis
      using scope_label_and_bindable_roles [of "cell_scope c"] by (cases "cell_state c") (simp_all add: cellLabel_def u16_def)
  qed (simp add: cellLabel_def u16_def)
  moreover have "roleReach (Some d) permission =
     length (filter (\<lambda>kc. cellLabel (Some (snd kc)) \<noteq> [0x2014]) (cells_of d permission))"
    by (simp add: roleReach_def dash_iff filter_map comp_def)
  ultimately show ?thesis using dash_iff by simp
qed

text \<open>
  The resolver answers the question that was asked, and only that. A question is sent exactly when a
  user and a capability are chosen, for exactly them and the trimmed resource; from then on no earlier
  answer is shown; the answer ends the waiting and leaves either a result or an error, never both.
\<close>

theorem resolver_answers:
  "let (s1, r) = resolve_submit s; s2 = resolve_done answer s1 in
    (r = None \<longleftrightarrow> mx_resolveUserID s = [] \<or> mx_resolveCap s = []) \<and>
    (case r of None \<Rightarrow> mx_resolveResult s1 = mx_resolveResult s \<and> mx_resolving s1 = mx_resolving s
     | Some c \<Rightarrow> mx_resolveResult s1 = None \<and> mx_resolveError s1 = None \<and>
         c = resolveCapability \<lparr>rreq_user_id = mx_resolveUserID s, rreq_capability = mx_resolveCap s,
           rreq_resource_ref = trim_opt (mx_resolveRef s)\<rparr> \<and>
         \<not> mx_resolving s2 \<and> ((mx_resolveResult s2 = None) \<noteq> (mx_resolveError s2 = None)) \<and>
         (\<forall>x. mx_resolveResult s2 = Some x \<longleftrightarrow> answer = Inr x))"
  by (cases answer) (auto simp: resolve_submit_def resolve_done_def Let_def)

text \<open>
  The link under an answer can belong to another user. The answer stays when another user is selected
  afterwards, and the link beside it then leads to the sessions of the newly selected user.
\<close>

theorem resolver_link_drifts:
  "let s = (resolve_done (Inr result) (fst (resolve_submit (matrix_mount\<lparr>mx_resolveUserID := ''u1'', mx_resolveCap := ''c''\<rparr>))))
      \<lparr>mx_resolveUserID := ''u2''\<rparr> in
    mx_resolveResult s = Some result \<and> resolve_link s = Some (''/audit?'' @ params_str [(''user'', ''u2'')])"
  by (simp add: Let_def resolve_submit_def resolve_done_def matrix_mount_def resolve_link_def buildAuditSearch_def
      set_if_def or_else_def)

section \<open>Contract\<close>

text \<open>The principals of a selected cell are asked for by permission alone, so the page's user does not gate them.\<close>

definition matrix_start_queries :: "(string \<Rightarrow> bool) \<Rightarrow> string \<Rightarrow> matrix_page \<Rightarrow> api_call list" where
  "matrix_start_queries can u s = matrix_queries can u (s\<lparr>mx_selected := None\<rparr>)"

interpretation matrix_gate: gated_page matrix_start_queries "[''iam.user:read'']"
  by unfold_locales (simp_all add: matrix_start_queries_def matrix_queries_def Let_def)

end
