(* ===== verification/IamPage.thy ===== *)
theory IamPage
  imports MatrixPage
begin

text \<open>
  The identity page, \<open>src/web/src/features/iam/IamPage.tsx\<close>: the two views with the deep link to a
  user, the queries of the directory, the roles of the selected user, and binding and removing roles.
\<close>

datatype IamView = CapabilitiesView | DirectoryView

record iam_page =
  im_view :: IamView
  im_userSearch :: string
  im_selectedUserID :: string
  im_selectedRoleName :: string
  im_roleToBind :: string
  im_feedback :: "ActionFeedback option"

definition rolePermissionCount :: "IamRole \<Rightarrow> nat" where
  "rolePermissionCount role = (case iamrole_permissions role of None \<Rightarrow> 0 | Some ps \<Rightarrow> length ps)"

definition roleNames :: "IamUser \<Rightarrow> string list" where
  "roleNames user = (case iamuser_roles user of None \<Rightarrow> [] | Some rs \<Rightarrow> rs)"

definition deepLinkUserID :: "search_params \<Rightarrow> string" where
  "deepLinkUserID searchParams = opt_or (params_get searchParams ''user'') []"

text \<open>The state before the first effect, and the effect that follows the link.\<close>

definition iam_mount :: "string \<Rightarrow> iam_page" where
  "iam_mount link = \<lparr>im_view = (if link \<noteq> [] then DirectoryView else CapabilitiesView), im_userSearch = [],
     im_selectedUserID = link, im_selectedRoleName = [], im_roleToBind = [], im_feedback = None\<rparr>"

definition follow_link :: "string \<Rightarrow> iam_page \<Rightarrow> iam_page" where
  "follow_link link s =
    (if link \<noteq> [] then s\<lparr>im_view := DirectoryView, im_selectedUserID := link, im_feedback := None\<rparr>
     else s\<lparr>im_view := CapabilitiesView, im_selectedUserID := [], im_feedback := None\<rparr>)"

definition iam_queries :: "(string \<Rightarrow> bool) \<Rightarrow> string \<Rightarrow> iam_page \<Rightarrow> api_call list" where
  "iam_queries can currentUserID s =
    (let canReadIAM = can ''iam.user:read'' in enabled_calls
       [(canReadIAM \<and> currentUserID \<noteq> [], listIamUsers \<lparr>iamusersopt_query = Some (im_userSearch s)\<rparr>),
        (canReadIAM \<and> currentUserID \<noteq> [], listIamRoles \<lparr>iamrolesopt_includePermissions = Some True\<rparr>),
        (canReadIAM \<and> currentUserID \<noteq> [] \<and> im_selectedUserID s \<noteq> [], getIamUserIdentity (im_selectedUserID s)),
        (canReadIAM \<and> currentUserID \<noteq> [] \<and> im_selectedRoleName s \<noteq> [], getIamRolePermissions (im_selectedRoleName s))])"

section \<open>The selected user\<close>

definition selectedUser :: "IamUserIdentity option \<Rightarrow> IamUser list \<Rightarrow> iam_page \<Rightarrow> IamUser option" where
  "selectedUser identity userItems s = (case identity of
     Some i \<Rightarrow> Some (iamid_user i)
   | None \<Rightarrow> find (\<lambda>user. iamuser_id user = im_selectedUserID s) userItems)"

definition selectedUserRoles :: "IamUserIdentity option \<Rightarrow> IamUser list \<Rightarrow> iam_page \<Rightarrow> string list" where
  "selectedUserRoles identity userItems s = (case identity of
     Some i \<Rightarrow> iamid_roles i
   | None \<Rightarrow> (case selectedUser identity userItems s of Some u \<Rightarrow> roleNames u | None \<Rightarrow> []))"

definition availableRoles :: "IamRole list \<Rightarrow> IamUserIdentity option \<Rightarrow> IamUser list \<Rightarrow> iam_page \<Rightarrow> IamRole list" where
  "availableRoles roleItems identity userItems s = rolesAvailableToBind roleItems (selectedUserRoles identity userItems s)"

section \<open>Mutations and handlers\<close>

definition role_onMutate :: "iam_page \<Rightarrow> iam_page" where
  "role_onMutate s = s\<lparr>im_feedback := None\<rparr>"

definition bind_onSuccess :: "IamUser option \<Rightarrow> string \<Rightarrow> iam_page \<Rightarrow> iam_page" where
  "bind_onSuccess user roleName s = s\<lparr>im_roleToBind := [], im_feedback := success_feedback
     (u16 (''Role '' @ roleName @ '' bound to '' @ iamUserLabel user @ ''.''))\<rparr>"

definition unbind_onSuccess :: "IamUser option \<Rightarrow> string \<Rightarrow> iam_page \<Rightarrow> iam_page" where
  "unbind_onSuccess user roleName s = s\<lparr>im_feedback := success_feedback
     (u16 (''Role '' @ roleName @ '' removed from '' @ iamUserLabel user @ ''.''))\<rparr>"

definition role_onError :: "call_error \<Rightarrow> iam_page \<Rightarrow> iam_page" where
  "role_onError e s = s\<lparr>im_feedback := error_feedback (error_text e)\<rparr>"

definition submitBindRole :: "iam_page \<Rightarrow> iam_page \<times> api_call option" where
  "submitBindRole s =
    (let roleName = trim (im_roleToBind s) in
     if im_selectedUserID s = [] then (s\<lparr>im_feedback := error_feedback (u16 ''Select a user before binding a role.'')\<rparr>, None)
     else if roleName = [] then (s\<lparr>im_feedback := error_feedback (u16 ''Select a role before binding.'')\<rparr>, None)
     else (role_onMutate s, Some (bindRoleToUser (im_selectedUserID s) roleName)))"

definition removeRole :: "bool \<Rightarrow> string \<Rightarrow> iam_page \<Rightarrow> iam_page \<times> api_call option" where
  "removeRole confirmed roleName s =
    (if \<not> confirmed then (s, None) else (role_onMutate s, Some (unbindRoleFromUser (im_selectedUserID s) roleName)))"

datatype iam_query = UsersQuery | RolesQuery | IdentityQuery | RolePermissionsQuery

definition refreshIam :: "iam_page \<Rightarrow> iam_query list" where
  "refreshIam s = [UsersQuery, RolesQuery] @ (if im_selectedUserID s \<noteq> [] then [IdentityQuery] else []) @
     (if im_selectedRoleName s \<noteq> [] then [RolePermissionsQuery] else [])"

definition select_user :: "string \<Rightarrow> iam_page \<Rightarrow> iam_page" where
  "select_user i s = s\<lparr>im_selectedUserID := i, im_feedback := None\<rparr>"

section \<open>Contracts\<close>

definition iam_rest :: "iam_page \<Rightarrow> iam_page" where
  "iam_rest s = s\<lparr>im_feedback := None\<rparr>"

interpretation bind_role: mutation role_onMutate "bind_onSuccess user" role_onError im_feedback error_text iam_rest for user
  by unfold_locales (simp_all add: role_onMutate_def bind_onSuccess_def role_onError_def iam_rest_def)

interpretation unbind_role: mutation role_onMutate "unbind_onSuccess user" role_onError im_feedback error_text iam_rest for user
  by unfold_locales (simp_all add: role_onMutate_def unbind_onSuccess_def role_onError_def iam_rest_def)

interpretation iam: gated_page iam_queries "[''iam.user:read'']"
  by unfold_locales (simp_all add: iam_queries_def Let_def)

section \<open>Properties\<close>

text \<open>
  A role change is sent for the selected user and the chosen role, and nothing else. A removal that
  was not confirmed and an incomplete form send nothing; the paths of two removals agree only if user
  and role do, so an identifier cannot reach into another user's roles; a role already held is not
  offered; and whatever the answer is, the page says how it ended.
\<close>

theorem role_changes_targeted:
  "removeRole False r s = (s, None) \<and>
   (snd (submitBindRole s) = None \<longleftrightarrow> im_selectedUserID s = [] \<or> trim (im_roleToBind s) = []) \<and>
   (snd (removeRole True r s) = snd (removeRole True r' s') \<longleftrightarrow> im_selectedUserID s = im_selectedUserID s' \<and> r = r') \<and>
   set (availableRoles roles identity users s) =
     {x \<in> set roles. iamrole_name x \<notin> set (selectedUserRoles identity users s)} \<and>
   (\<exists>fb. im_feedback (settle (bind_onSuccess user) role_onError answer (fst (removeRole True r s))) = Some fb \<and>
      (fb_kind fb = FeedbackError \<longleftrightarrow> (\<exists>e. answer = Inl e \<and> fb_message fb = error_text e)))"
proof -
  have "unbindRoleFromUser u r = unbindRoleFromUser u' r' \<longleftrightarrow> u = u' \<and> r = r'" for u u'
    using unbind_role_segments [of u r] unbind_role_segments [of u' r'] by (auto simp: Let_def)
  moreover have "\<exists>fb. im_feedback (settle (bind_onSuccess user) role_onError answer (fst (removeRole True r s))) = Some fb \<and>
      (fb_kind fb = FeedbackError \<longleftrightarrow> (\<exists>e. answer = Inl e \<and> fb_message fb = error_text e))"
    using bind_role.outcome_shown [of user answer s] by (simp add: removeRole_def)
  ultimately show ?thesis
    by (auto simp: removeRole_def submitBindRole_def Let_def availableRoles_def rolesAvailableToBind_def)
qed

text \<open>
  The page follows its address: opening a user link selects that user in the directory, following a link
  without a user returns to the matrix with no user selected, whatever was done in between.
\<close>

theorem iam_follows_link:
  "follow_link link (iam_mount link) = iam_mount link \<and>
   im_selectedUserID (follow_link link s) = link \<and> (im_view (follow_link link s) = DirectoryView \<longleftrightarrow> link \<noteq> []) \<and>
   im_feedback (follow_link link s) = None"
  by (simp add: follow_link_def iam_mount_def)

end
