(* ===== verification/FormDialog.thy ===== *)
theory FormDialog
  imports PageLib
begin

text \<open>
  The contract of the pages that edit one record in a dialog (\<open>AwsPage.tsx\<close>, \<open>ConnectivityPage.tsx\<close>,
  \<open>AssetsPage.tsx\<close>): a button opens the dialog empty or on a stored record, the fields are typed into a
  form, and submitting validates the form and sends it to the record that is open.
\<close>

locale form_dialog =
  fixes open_new :: "'s \<Rightarrow> 's"
    and open_edit :: "'e \<Rightarrow> 's \<Rightarrow> 's"
    and typed :: "('f \<Rightarrow> 'f) \<Rightarrow> 's \<Rightarrow> 's"
    and submit :: "'s \<Rightarrow> 's \<times> api_call option"
    and form :: "'s \<Rightarrow> 'f"
    and editing :: "'s \<Rightarrow> string option"
    and complaint :: "'s \<Rightarrow> string"
    and blank :: 'f
    and to_form :: "'e \<Rightarrow> 'f"
    and ident :: "'e \<Rightarrow> string"
    and check_new :: "'f \<Rightarrow> string"
    and check_edit :: "'f \<Rightarrow> string"
    and create_call :: "'f \<Rightarrow> api_call"
    and update_call :: "string \<Rightarrow> 'f \<Rightarrow> api_call"
  assumes new_opened: "form (open_new s) = blank" "editing (open_new s) = None" "complaint (open_new s) = []"
    and edit_opened: "form (open_edit e s) = to_form e" "editing (open_edit e s) = Some (ident e)" "complaint (open_edit e s) = []"
    and typed_form: "form (typed f s) = f (form s)" "editing (typed f s) = editing s"
    and submit_keeps: "form (fst (submit s)) = form s" "editing (fst (submit s)) = editing s"
    and submit_new: "editing s = None \<Longrightarrow> complaint (fst (submit s)) = check_new (form s) \<and>
       snd (submit s) = (if check_new (form s) = [] then Some (create_call (form s)) else None)"
    and submit_edit: "editing s = Some i \<Longrightarrow> i \<noteq> [] \<Longrightarrow> complaint (fst (submit s)) = check_edit (form s) \<and>
       snd (submit s) = (if check_edit (form s) = [] then Some (update_call i (form s)) else None)"
begin

lemma typed_run: "form (fold typed fs s) = fold (\<lambda>f. f) fs (form s)" "editing (fold typed fs s) = editing s"
  by (induction fs arbitrary: s) (simp_all add: typed_form)

text \<open>What a dialog sends: the typed form, to the record it was opened for, exactly when the form is accepted.\<close>

lemma edited_record_saved:
  assumes "ident e \<noteq> []"
  shows "let r = submit (fold typed fs (open_edit e s)); f = fold (\<lambda>f. f) fs (to_form e) in
    form (fst r) = f \<and> editing (fst r) = Some (ident e) \<and> complaint (fst r) = check_edit f \<and>
    snd r = (if check_edit f = [] then Some (update_call (ident e) f) else None)"
  using submit_edit [of "fold typed fs (open_edit e s)" "ident e"] assms
  by (simp add: Let_def submit_keeps typed_run edit_opened)

lemma new_record_created:
  "let r = submit (fold typed fs (open_new s)); f = fold (\<lambda>f. f) fs blank in
    form (fst r) = f \<and> editing (fst r) = None \<and> complaint (fst r) = check_new f \<and>
    snd r = (if check_new f = [] then Some (create_call f) else None)"
  using submit_new [of "fold typed fs (open_new s)"]
  by (simp add: Let_def submit_keeps typed_run new_opened)

text \<open>A rejected form is kept, and correcting it in place sends the corrected form to the same record.\<close>

lemma corrected_record_saved:
  assumes "ident e \<noteq> []"
  shows "let s1 = fst (submit (fold typed fs (open_edit e s))); f = fold (\<lambda>f. f) (fs @ gs) (to_form e) in
    snd (submit (fold typed gs s1)) = (if check_edit f = [] then Some (update_call (ident e) f) else None)"
proof -
  let ?s1 = "fst (submit (fold typed fs (open_edit e s)))"
  have "editing (fold typed gs ?s1) = Some (ident e)" "form (fold typed gs ?s1) = fold (\<lambda>f. f) (fs @ gs) (to_form e)"
    by (simp_all add: typed_run submit_keeps edit_opened)
  then show ?thesis using submit_edit [of "fold typed gs ?s1" "ident e"] assms by (simp add: Let_def)
qed

end

end
