(* ===== verification/AwsPage.thy ===== *)
theory AwsPage
  imports FormDialog AwsForms
begin

text \<open>
  The AWS accounts page, \<open>src/web/src/features/aws/AwsPage.tsx\<close>: texts of the tables, queries, the four
  mutations (create, update, test an account, run the synchronisation), the account dialog with its
  validation, and the warning about unsaved edits.
\<close>

section \<open>Texts\<close>

fun num_round :: "jsnum \<Rightarrow> jsnum" where
  "num_round (Fin q) = Fin (of_int \<lfloor>q + 1 / 2\<rfloor>)"
| "num_round x = x"

text \<open>
  \<open>formatRelative\<close>: \<open>date\<close> is the time of the text in milliseconds, \<open>None\<close> when it is not a date.
\<close>

definition formatRelative :: "string option \<Rightarrow> int option \<Rightarrow> int \<Rightarrow> string" where
  "formatRelative value date now =
    (if \<not> truthy value then ''-''
     else (case date of
         None \<Rightarrow> opt_or value []
       | Some t \<Rightarrow>
           (let diffMs = now - t in
            if diffMs < 60000 then ''just now''
            else (let minutes = num_round (num_div (num_of_int diffMs) 60000) in
              if num_lt minutes 60 then num_str minutes @ ''m ago''
              else (let hours = num_round (num_div minutes 60) in
                if num_lt hours 48 then num_str hours @ ''h ago''
                else num_str (num_round (num_div hours 24)) @ ''d ago'')))))"

definition aws_statusTone :: "string option \<Rightarrow> string" where
  "aws_statusTone status =
    (if status = Some ''success'' \<or> status = Some ''ok'' then ''ok'' else if status = Some ''failed'' then ''warn''
     else if status = Some ''running'' then ''info'' else [])"

definition syncStatusLabel :: "AwsSyncStatus option \<Rightarrow> string" where
  "syncStatusLabel status = (case status of
     None \<Rightarrow> ''not run''
   | Some s \<Rightarrow> if awssync_running s then ''running'' else if truthy (awssync_last_error s) then ''failed'' else ''idle'')"

definition accountCredentialLabel :: "AwsAccount \<Rightarrow> string" where
  "accountCredentialLabel account =
    (if awsacc_auth_mode account = AssumeRole then opt_or (awsacc_role_arn account) ''-''
     else opt_or (awsacc_access_key_id account) ''-'')"

section \<open>State and queries\<close>

record TestFeedback = ActionFeedback +
  tf_result :: "AwsConnectionTestResult option"

record aws_page =
  aw_formMode :: AwsAccountFormMode
  aw_form :: AwsAccountFormState
  aw_selectedAccountID :: string
  aw_validationError :: string
  aw_formFeedback :: "ActionFeedback option"
  aw_testFeedback :: "TestFeedback option"
  aw_syncFeedback :: "ActionFeedback option"
  aw_syncRunStatus :: "AwsSyncRunStatus option"
  aw_accountModalOpen :: bool

definition aws_mount :: aws_page where
  "aws_mount = \<lparr>aw_formMode = CreateAccount, aw_form = emptyAwsAccountForm, aw_selectedAccountID = [], aw_validationError = [],
     aw_formFeedback = None, aw_testFeedback = None, aw_syncFeedback = None, aw_syncRunStatus = None,
     aw_accountModalOpen = False\<rparr>"

definition aws_queries :: "(string \<Rightarrow> bool) \<Rightarrow> string \<Rightarrow> aws_page \<Rightarrow> api_call list" where
  "aws_queries can userID s = (let canReadAws = can ''aws.account:read'' in enabled_calls
     [(canReadAws \<and> userID \<noteq> [], listAwsAccounts),
      (canReadAws \<and> userID \<noteq> [], getAwsSyncStatus),
      (canReadAws \<and> userID \<noteq> [], listAwsSyncRuns \<lparr>awsrunopt_limit = Some 120\<rparr>)])"

definition selectedAccount :: "AwsAccount list \<Rightarrow> aws_page \<Rightarrow> AwsAccount option" where
  "selectedAccount accountItems s = find (\<lambda>account. awsacc_id account = aw_selectedAccountID s) accountItems"

definition filteredRuns :: "AwsSyncRun list \<Rightarrow> aws_page \<Rightarrow> AwsSyncRun list" where
  "filteredRuns runItems s = filter (\<lambda>run. aw_syncRunStatus s = None \<or> Some (awsrun_status run) = aw_syncRunStatus s) runItems"

definition syncTone :: "AwsSyncStatus option \<Rightarrow> string" where
  "syncTone status = (case status of None \<Rightarrow> ''ok''
     | Some s \<Rightarrow> if awssync_running s then ''info'' else if truthy (awssync_last_error s) then ''warn'' else ''ok'')"

section \<open>Mutations\<close>

definition account_onMutate :: "aws_page \<Rightarrow> aws_page" where
  "account_onMutate s = s\<lparr>aw_formFeedback := None\<rparr>"

definition account_onError :: "call_error \<Rightarrow> aws_page \<Rightarrow> aws_page" where
  "account_onError e s = s\<lparr>aw_formFeedback := error_feedback (error_text e)\<rparr>"

definition createAccount_onSuccess :: "AwsAccount \<Rightarrow> aws_page \<Rightarrow> aws_page" where
  "createAccount_onSuccess account s = s\<lparr>aw_form := emptyAwsAccountForm, aw_selectedAccountID := awsacc_id account,
     aw_formMode := EditAccount, aw_accountModalOpen := False,
     aw_formFeedback := success_feedback (u16 (''AWS account added: '' @ awsacc_account_id account @ ''.''))\<rparr>"

definition updateAccount_onSuccess :: "AwsAccount \<Rightarrow> aws_page \<Rightarrow> aws_page" where
  "updateAccount_onSuccess account s = s\<lparr>aw_form := awsAccountToForm (Some account),
     aw_formFeedback := success_feedback (u16 (''AWS account updated: '' @ awsacc_account_id account @ ''.''))\<rparr>"

definition test_onMutate :: "aws_page \<Rightarrow> aws_page" where
  "test_onMutate s = s\<lparr>aw_testFeedback := None\<rparr>"

definition test_onSuccess :: "AwsConnectionTestResult \<Rightarrow> aws_page \<Rightarrow> aws_page" where
  "test_onSuccess result s = s\<lparr>aw_testFeedback := Some \<lparr>fb_kind = FeedbackSuccess,
     fb_message = u16 (''AWS connection OK: '' @
       or_else (awstest_arn result) (or_else (awstest_account_id result) (awstest_region result)) @ ''.''),
     tf_result = Some result\<rparr>\<rparr>"

definition test_onError :: "call_error \<Rightarrow> aws_page \<Rightarrow> aws_page" where
  "test_onError e s = s\<lparr>aw_testFeedback := Some \<lparr>fb_kind = FeedbackError, fb_message = error_text e, tf_result = None\<rparr>\<rparr>"

definition sync_onMutate :: "aws_page \<Rightarrow> aws_page" where
  "sync_onMutate s = s\<lparr>aw_syncFeedback := None\<rparr>"

definition sync_onSuccess :: "AwsSyncTriggerResponse \<Rightarrow> aws_page \<Rightarrow> aws_page" where
  "sync_onSuccess result s = s\<lparr>aw_syncFeedback := success_feedback (u16 (awstrig_message result))\<rparr>"

definition sync_onError :: "call_error \<Rightarrow> aws_page \<Rightarrow> aws_page" where
  "sync_onError e s = s\<lparr>aw_syncFeedback := error_feedback (error_text e)\<rparr>"

section \<open>The account dialog\<close>

definition startCreate :: "aws_page \<Rightarrow> aws_page" where
  "startCreate s = s\<lparr>aw_formMode := CreateAccount, aw_selectedAccountID := [], aw_form := emptyAwsAccountForm,
     aw_validationError := [], aw_formFeedback := None, aw_testFeedback := None, aw_accountModalOpen := True\<rparr>"

definition editAccount :: "AwsAccount \<Rightarrow> aws_page \<Rightarrow> aws_page" where
  "editAccount account s = s\<lparr>aw_formMode := EditAccount, aw_selectedAccountID := awsacc_id account,
     aw_form := awsAccountToForm (Some account), aw_validationError := [], aw_formFeedback := None, aw_testFeedback := None,
     aw_accountModalOpen := True\<rparr>"

definition closeAccountModal :: "aws_page \<Rightarrow> aws_page" where
  "closeAccountModal s = s\<lparr>aw_accountModalOpen := False, aw_formFeedback := None, aw_validationError := [], aw_testFeedback := None\<rparr>"

text \<open>\<open>updateForm\<close>: one field of the form is replaced.\<close>

definition aws_updateForm :: "(AwsAccountFormState \<Rightarrow> AwsAccountFormState) \<Rightarrow> aws_page \<Rightarrow> aws_page" where
  "aws_updateForm f s = s\<lparr>aw_form := f (aw_form s)\<rparr>"

text \<open>Two forms have the same JSON text exactly when they have the same fields.\<close>

definition isFormDirty :: "AwsAccount list \<Rightarrow> aws_page \<Rightarrow> bool" where
  "isFormDirty accountItems s = (case (aw_formMode s, selectedAccount accountItems s) of
     (EditAccount, Some account) \<Rightarrow> aw_form s \<noteq> awsAccountToForm (Some account)
   | _ \<Rightarrow> False)"

definition submitAccount :: "aws_page \<Rightarrow> aws_page \<times> api_call option" where
  "submitAccount s =
    (let error = validateAwsAccountForm (aw_form s) (aw_formMode s); s1 = s\<lparr>aw_validationError := error\<rparr> in
     if error \<noteq> [] then (s1, None)
     else if aw_formMode s = CreateAccount then (account_onMutate s1, Some (createAwsAccount (awsFormToCreatePayload (aw_form s))))
     else if aw_selectedAccountID s = [] then (s1\<lparr>aw_validationError := ''Select an account before updating.''\<rparr>, None)
     else (account_onMutate s1, Some (updateAwsAccount (aw_selectedAccountID s) (awsFormToUpdatePayload (aw_form s)))))"

definition testSelectedOrAccount :: "string \<Rightarrow> aws_page \<Rightarrow> aws_page \<times> api_call option" where
  "testSelectedOrAccount accountID s = (if accountID = [] then (s, None) else (test_onMutate s, Some (testAwsAccount accountID)))"

definition sync_disabled :: "(string \<Rightarrow> bool) \<Rightarrow> bool \<Rightarrow> AwsSyncStatus option \<Rightarrow> bool" where
  "sync_disabled can pending status = (\<not> can ''aws.account:write'' \<or> pending \<or> (case status of None \<Rightarrow> False | Some s \<Rightarrow> awssync_running s))"

section \<open>Contracts\<close>

definition account_rest :: "aws_page \<Rightarrow> aws_page" where
  "account_rest s = s\<lparr>aw_formFeedback := None\<rparr>"

definition test_rest :: "aws_page \<Rightarrow> aws_page" where
  "test_rest s = s\<lparr>aw_testFeedback := None\<rparr>"

definition sync_rest :: "aws_page \<Rightarrow> aws_page" where
  "sync_rest s = s\<lparr>aw_syncFeedback := None\<rparr>"

definition test_line :: "aws_page \<Rightarrow> ActionFeedback option" where
  "test_line s = map_option ActionFeedback.truncate (aw_testFeedback s)"

interpretation create_account: mutation account_onMutate createAccount_onSuccess account_onError aw_formFeedback error_text account_rest
  by unfold_locales (simp_all add: account_onMutate_def createAccount_onSuccess_def account_onError_def account_rest_def)

interpretation update_account: mutation account_onMutate updateAccount_onSuccess account_onError aw_formFeedback error_text account_rest
  by unfold_locales (simp_all add: account_onMutate_def updateAccount_onSuccess_def account_onError_def account_rest_def)

interpretation test_account: mutation test_onMutate test_onSuccess test_onError test_line error_text test_rest
  by unfold_locales (simp_all add: test_onMutate_def test_onSuccess_def test_onError_def test_line_def test_rest_def
      ActionFeedback.truncate_def)

interpretation run_sync: mutation sync_onMutate sync_onSuccess sync_onError aw_syncFeedback error_text sync_rest
  by unfold_locales (simp_all add: sync_onMutate_def sync_onSuccess_def sync_onError_def sync_rest_def)

interpretation aws: gated_page aws_queries "[''aws.account:read'']"
  by unfold_locales (simp_all add: aws_queries_def Let_def)

section \<open>Properties\<close>

definition aws_editing :: "aws_page \<Rightarrow> string option" where
  "aws_editing s = (if aw_formMode s = CreateAccount then None else Some (aw_selectedAccountID s))"

interpretation account_dialog: form_dialog startCreate editAccount aws_updateForm submitAccount aw_form aws_editing
  aw_validationError emptyAwsAccountForm "\<lambda>a. awsAccountToForm (Some a)" awsacc_id
  "\<lambda>f. validateAwsAccountForm f CreateAccount" "\<lambda>f. validateAwsAccountForm f EditAccount"
  "\<lambda>f. createAwsAccount (awsFormToCreatePayload f)" "\<lambda>i f. updateAwsAccount i (awsFormToUpdatePayload f)"
proof unfold_locales
  fix s i
  show "aws_editing s = None \<Longrightarrow> aw_validationError (fst (submitAccount s)) = validateAwsAccountForm (aw_form s) CreateAccount \<and>
     snd (submitAccount s) = (if validateAwsAccountForm (aw_form s) CreateAccount = []
       then Some (createAwsAccount (awsFormToCreatePayload (aw_form s))) else None)"
    by (auto simp: submitAccount_def aws_editing_def Let_def account_onMutate_def split: if_splits)
  show "aws_editing s = Some i \<Longrightarrow> i \<noteq> [] \<Longrightarrow> aw_validationError (fst (submitAccount s)) = validateAwsAccountForm (aw_form s) EditAccount \<and>
     snd (submitAccount s) = (if validateAwsAccountForm (aw_form s) EditAccount = []
       then Some (updateAwsAccount i (awsFormToUpdatePayload (aw_form s))) else None)"
    by (cases "aw_formMode s") (auto simp: submitAccount_def aws_editing_def Let_def account_onMutate_def split: if_splits)
qed (simp_all add: startCreate_def editAccount_def aws_updateForm_def aws_editing_def submitAccount_def Let_def account_onMutate_def)


definition sample_account :: "string \<Rightarrow> string \<Rightarrow> AwsAccount" where
  "sample_account i name = \<lparr>awsacc_access_key_id = None, awsacc_account_id = ''1'', awsacc_auth_mode = AssumeRole,
     awsacc_created_at = [], awsacc_display_name = name, awsacc_enabled = True, awsacc_external_id = None, awsacc_id = i,
     awsacc_region_allowlist = [], awsacc_role_arn = Some ''arn'', awsacc_updated_at = []\<rparr>"


text \<open>
  A late answer can put one account's data into another account's form. When an update of the first account
  is still under way, the dialog is closed and a second account is opened, the answer replaces the form
  by the first account's data while the second stays selected: saving again then writes the first
  account's data to the second.
\<close>

theorem late_update_mixes_accounts:
  assumes "validateAwsAccountForm (awsAccountToForm (Some a)) EditAccount = []" "awsacc_id a \<noteq> []" "awsacc_id b \<noteq> []"
  shows "let (s1, r1) = submitAccount (editAccount a s);
      s2 = editAccount b (closeAccountModal s1);
      (s3, r2) = submitAccount (updateAccount_onSuccess a s2) in
    r1 = Some (updateAwsAccount (awsacc_id a) (awsFormToUpdatePayload (awsAccountToForm (Some a)))) \<and>
    aw_form s2 = awsAccountToForm (Some b) \<and>
    r2 = Some (updateAwsAccount (awsacc_id b) (awsFormToUpdatePayload (awsAccountToForm (Some a))))"
  using assms
  by (simp add: submitAccount_def editAccount_def closeAccountModal_def updateAccount_onSuccess_def account_onMutate_def Let_def)

theorem late_update_mixes_accounts_witness:
  "snd (submitAccount (updateAccount_onSuccess (sample_account ''w1'' ''prod'') (editAccount (sample_account ''w2'' ''dev'')
     (closeAccountModal (fst (submitAccount (editAccount (sample_account ''w1'' ''prod'') aws_mount))))))) =
   Some (updateAwsAccount ''w2'' (awsFormToUpdatePayload (awsAccountToForm (Some (sample_account ''w1'' ''prod'')))))"
proof -
  have "validateAwsAccountForm (awsAccountToForm (Some (sample_account ''w1'' ''prod''))) EditAccount = []"
    by (simp add: validateAwsAccountForm_def awsAccountToForm_def sample_account_def trim_def is_ws_def or_else_def)
  from late_update_mixes_accounts [OF this, of "sample_account ''w2'' ''dev''" aws_mount] show ?thesis
    by (simp add: Let_def case_prod_unfold) (simp add: sample_account_def)
qed

end
