(* ===== verification/ConnectivityPage.thy ===== *)
theory ConnectivityPage
  imports FormDialog ConnectivityForms
begin

text \<open>
  The connectivity page, \<open>src/web/src/features/connectivity/ConnectivityPage.tsx\<close>: SSH proxies, key pairs and
  pinned host keys with their queries, seven mutations, two dialogs and the confirmation questions,
  as a machine over the events of the user and the answers of the server. The answer of
  \<open>window.confirm\<close>, of the clipboard and of the file reader are parts of the events.
\<close>

section \<open>Rows\<close>

definition proxyEndpoint :: "SSHProxy \<Rightarrow> string" where
  "proxyEndpoint proxy = proxy_host proxy @ '':'' @ int_str (port_or_22 (proxy_port proxy))"

definition hostKeyEndpoint :: "HostKeyRecord \<Rightarrow> string" where
  "hostKeyEndpoint r = hostkey_host r @ '':'' @ int_str (port_or_22 (hostkey_port r))"

definition hostKeyTargetLabel :: "HostKeyRecord \<Rightarrow> string" where
  "hostKeyTargetLabel r = opt_or (hostkey_target_name r) (hostkey_target_id r)"

definition credentialChips :: "SSHProxy \<Rightarrow> string list" where
  "credentialChips proxy = (let labels = sshProxyCredentialLabels proxy in if labels = [] then [''none''] else labels)"

text \<open>The row of a host key: its status text, the offered fingerprint, and whether an override can be approved.\<close>

definition isOverridePending :: "HostKeyRecord \<Rightarrow> bool" where
  "isOverridePending r = (hostkey_status r = ''override_pending'')"

definition hostkey_status_text :: "HostKeyRecord \<Rightarrow> string" where
  "hostkey_status_text r = (if isOverridePending r then ''override pending''
     else if truthy (hostkey_last_mismatch_at r) \<and> hostkey_status r = ''active'' then ''mismatch'' else hostkey_status r)"

definition hostkey_offered :: "HostKeyRecord \<Rightarrow> string option" where
  "hostkey_offered r = (if truthy (hostkey_last_mismatch_at r) \<and> hostkey_status r = ''active''
     then Some (opt_or (hostkey_last_mismatch_fingerprint r) ''-'') else None)"

definition approve_offered :: "HostKeyRecord \<Rightarrow> bool" where
  "approve_offered r = (\<not> isOverridePending r)"

section \<open>State and queries\<close>

datatype ConnectivityTab = TabProxies | TabHostkeys | TabKeypairs

record connectivity_page =
  cn_formMode :: SSHProxyFormMode
  cn_form :: SSHProxyFormState
  cn_keypairForm :: SSHKeypairFormState
  cn_activeTab :: ConnectivityTab
  cn_hostKeyScope :: "HostKeyScope option"
  cn_hostKeyQuery :: string
  cn_keypairQuery :: string
  cn_selectedProxyID :: string
  cn_validationError :: string
  cn_keypairValidationError :: string
  cn_formFeedback :: "ActionFeedback option"
  cn_deleteFeedback :: "ActionFeedback option"
  cn_hostKeyFeedback :: "ActionFeedback option"
  cn_keypairFeedback :: "ActionFeedback option"
  cn_proxyModalOpen :: bool
  cn_keypairModalOpen :: bool

definition connectivity_mount :: connectivity_page where
  "connectivity_mount = \<lparr>cn_formMode = CreateProxy, cn_form = emptySSHProxyForm, cn_keypairForm = emptySSHKeypairForm,
     cn_activeTab = TabProxies, cn_hostKeyScope = None, cn_hostKeyQuery = [], cn_keypairQuery = [], cn_selectedProxyID = [],
     cn_validationError = [], cn_keypairValidationError = [], cn_formFeedback = None, cn_deleteFeedback = None,
     cn_hostKeyFeedback = None, cn_keypairFeedback = None, cn_proxyModalOpen = False, cn_keypairModalOpen = False\<rparr>"

definition connectivity_queries :: "(string \<Rightarrow> bool) \<Rightarrow> string \<Rightarrow> connectivity_page \<Rightarrow> api_call list" where
  "connectivity_queries can userID s = (let canReadAssets = can ''cmdb.asset:read'' in enabled_calls
     [(canReadAssets \<and> userID \<noteq> [], listSSHProxies),
      (canReadAssets \<and> userID \<noteq> [], listSSHKeypairs),
      (canReadAssets \<and> userID \<noteq> [], listHostKeys)])"

definition selectedProxy :: "SSHProxy list \<Rightarrow> connectivity_page \<Rightarrow> SSHProxy option" where
  "selectedProxy proxyItems s = find (\<lambda>proxy. proxy_id proxy = cn_selectedProxyID s) proxyItems"

text \<open>The number of distinct non-empty zones, and of proxies with key authentication.\<close>

definition zoneCount :: "SSHProxy list \<Rightarrow> nat" where
  "zoneCount proxyItems = length (set_of [] (filter truthy (map proxy_network_zone proxyItems)))"

definition keyAuthCount :: "SSHProxy list \<Rightarrow> nat" where
  "keyAuthCount proxyItems = length (filter (\<lambda>proxy. proxy_auth_type proxy = AuthKey) proxyItems)"

definition filteredKeypairs :: "SSHKeypair list \<Rightarrow> connectivity_page \<Rightarrow> SSHKeypair list" where
  "filteredKeypairs keypairItems s = filterSSHKeypairs keypairItems (cn_keypairQuery s)"

definition filteredHostKeys :: "HostKeyRecord list \<Rightarrow> connectivity_page \<Rightarrow> HostKeyRecord list" where
  "filteredHostKeys hostKeyItems s =
     filterHostKeys hostKeyItems \<lparr>hkf_query = cn_hostKeyQuery s, hkf_scope = cn_hostKeyScope s\<rparr>"

definition refreshConnectivity :: "api_call list" where
  "refreshConnectivity = [listSSHProxies, listSSHKeypairs, listHostKeys]"

section \<open>Mutations of proxies\<close>

definition proxy_onMutate :: "connectivity_page \<Rightarrow> connectivity_page" where
  "proxy_onMutate s = s\<lparr>cn_formFeedback := None\<rparr>"

definition createProxy_onSuccess :: "SSHProxy \<Rightarrow> connectivity_page \<Rightarrow> connectivity_page" where
  "createProxy_onSuccess proxy s = s\<lparr>cn_form := sshProxyToForm (Some proxy), cn_formMode := EditProxy,
     cn_selectedProxyID := proxy_id proxy, cn_proxyModalOpen := False,
     cn_formFeedback := success_feedback (u16 (''SSH proxy created: '' @ proxy_name proxy @ ''.''))\<rparr>"

definition proxy_onError :: "call_error \<Rightarrow> connectivity_page \<Rightarrow> connectivity_page" where
  "proxy_onError e s = s\<lparr>cn_formFeedback := error_feedback (error_text e)\<rparr>"

definition updateProxy_onSuccess :: "SSHProxy \<Rightarrow> connectivity_page \<Rightarrow> connectivity_page" where
  "updateProxy_onSuccess proxy s = s\<lparr>cn_form := sshProxyToForm (Some proxy),
     cn_formFeedback := success_feedback (u16 (''SSH proxy updated: '' @ proxy_name proxy @ ''.''))\<rparr>"

definition removeProxy_onMutate :: "connectivity_page \<Rightarrow> connectivity_page" where
  "removeProxy_onMutate s = s\<lparr>cn_deleteFeedback := None\<rparr>"

definition removeProxy_onSuccess :: "connectivity_page \<Rightarrow> connectivity_page" where
  "removeProxy_onSuccess s = s\<lparr>cn_formMode := CreateProxy, cn_selectedProxyID := [], cn_form := emptySSHProxyForm,
     cn_validationError := [], cn_formFeedback := None, cn_proxyModalOpen := False,
     cn_deleteFeedback := success_feedback (u16 ''SSH proxy deleted.'')\<rparr>"

definition removeProxy_onError :: "call_error \<Rightarrow> connectivity_page \<Rightarrow> connectivity_page" where
  "removeProxy_onError e s = s\<lparr>cn_deleteFeedback := error_feedback (error_text e)\<rparr>"

section \<open>Mutations of key pairs and host keys\<close>

definition keypair_onMutate :: "connectivity_page \<Rightarrow> connectivity_page" where
  "keypair_onMutate s = s\<lparr>cn_keypairFeedback := None\<rparr>"

definition uploadKeypair_onSuccess :: "SSHKeypair \<Rightarrow> connectivity_page \<Rightarrow> connectivity_page" where
  "uploadKeypair_onSuccess keypair s = s\<lparr>cn_keypairForm := emptySSHKeypairForm, cn_keypairValidationError := [],
     cn_keypairModalOpen := False,
     cn_keypairFeedback := success_feedback (u16 (''SSH keypair saved: '' @ keypair_name keypair @ ''.''))\<rparr>"

definition keypair_onError :: "call_error \<Rightarrow> connectivity_page \<Rightarrow> connectivity_page" where
  "keypair_onError e s = s\<lparr>cn_keypairFeedback := error_feedback (error_text e)\<rparr>"

definition removeKeypair_onSuccess :: "connectivity_page \<Rightarrow> connectivity_page" where
  "removeKeypair_onSuccess s = s\<lparr>cn_keypairFeedback := success_feedback (u16 ''SSH keypair deleted.'')\<rparr>"

definition hostkey_onMutate :: "connectivity_page \<Rightarrow> connectivity_page" where
  "hostkey_onMutate s = s\<lparr>cn_hostKeyFeedback := None\<rparr>"

definition approveOverride_onSuccess :: "ApproveHostKeyOverrideResponse \<Rightarrow> connectivity_page \<Rightarrow> connectivity_page" where
  "approveOverride_onSuccess result s = s\<lparr>cn_hostKeyFeedback := success_feedback (u16 (''Host key override approved for '' @
     int_str (if hkover_ttl_minute result = 0 then 10 else hkover_ttl_minute result) @ '' minutes.''))\<rparr>"

definition hostkey_onError :: "call_error \<Rightarrow> connectivity_page \<Rightarrow> connectivity_page" where
  "hostkey_onError e s = s\<lparr>cn_hostKeyFeedback := error_feedback (error_text e)\<rparr>"

definition forgetHostKey_onSuccess :: "connectivity_page \<Rightarrow> connectivity_page" where
  "forgetHostKey_onSuccess s = s\<lparr>cn_hostKeyFeedback := success_feedback (u16 ''Host key forgotten.'')\<rparr>"

section \<open>The dialogs\<close>

definition proxy_startCreate :: "connectivity_page \<Rightarrow> connectivity_page" where
  "proxy_startCreate s = s\<lparr>cn_formMode := CreateProxy, cn_selectedProxyID := [], cn_form := emptySSHProxyForm,
     cn_validationError := [], cn_formFeedback := None, cn_proxyModalOpen := True\<rparr>"

definition editProxy :: "SSHProxy \<Rightarrow> connectivity_page \<Rightarrow> connectivity_page" where
  "editProxy proxy s = s\<lparr>cn_formMode := EditProxy, cn_selectedProxyID := proxy_id proxy, cn_form := sshProxyToForm (Some proxy),
     cn_validationError := [], cn_formFeedback := None, cn_proxyModalOpen := True\<rparr>"

definition closeProxyModal :: "connectivity_page \<Rightarrow> connectivity_page" where
  "closeProxyModal s = s\<lparr>cn_proxyModalOpen := False, cn_formFeedback := None, cn_validationError := []\<rparr>"

definition openKeypairModal :: "connectivity_page \<Rightarrow> connectivity_page" where
  "openKeypairModal s = s\<lparr>cn_keypairForm := emptySSHKeypairForm, cn_keypairValidationError := [], cn_keypairFeedback := None,
     cn_keypairModalOpen := True\<rparr>"

definition closeKeypairModal :: "connectivity_page \<Rightarrow> connectivity_page" where
  "closeKeypairModal s = s\<lparr>cn_keypairModalOpen := False, cn_keypairValidationError := []\<rparr>"

definition proxy_updateForm :: "(SSHProxyFormState \<Rightarrow> SSHProxyFormState) \<Rightarrow> connectivity_page \<Rightarrow> connectivity_page" where
  "proxy_updateForm f s = s\<lparr>cn_form := f (cn_form s)\<rparr>"

definition updateKeypairForm :: "(SSHKeypairFormState \<Rightarrow> SSHKeypairFormState) \<Rightarrow> connectivity_page \<Rightarrow> connectivity_page" where
  "updateKeypairForm f s = s\<lparr>cn_keypairForm := f (cn_keypairForm s)\<rparr>"

definition submitProxy :: "connectivity_page \<Rightarrow> connectivity_page \<times> api_call option" where
  "submitProxy s =
    (let error = validateSSHProxyForm (cn_form s) (cn_formMode s); s1 = s\<lparr>cn_validationError := error\<rparr> in
     if error \<noteq> [] then (s1, None)
     else (let payload = sshProxyFormToPayload (cn_form s) in
       if cn_formMode s = CreateProxy then (proxy_onMutate s1, Some (createSSHProxy payload))
       else if cn_selectedProxyID s = [] then (s1\<lparr>cn_validationError := ''Select a proxy before updating.''\<rparr>, None)
       else (proxy_onMutate s1, Some (updateSSHProxy (cn_selectedProxyID s) payload))))"

definition submitKeypair :: "connectivity_page \<Rightarrow> connectivity_page \<times> api_call option" where
  "submitKeypair s =
    (let error = validateSSHKeypairForm (cn_keypairForm s); s1 = s\<lparr>cn_keypairValidationError := error\<rparr> in
     if error \<noteq> [] then (s1, None)
     else (keypair_onMutate s1, Some (upsertSSHKeypair (sshKeypairFormToPayload (cn_keypairForm s)))))"

text \<open>
  \<open>readKeypairFile\<close>: the name of the file without its extension stands in for a missing name. The result of
  the reader is the text, or nothing when it is not a string.
\<close>

definition key_file_stem :: "string \<Rightarrow> string" where
  "key_file_stem name = (if \<exists>e\<in>set [''.pem'', ''.key'', ''.txt'']. endsWith (toLowerCase name) e
     then take (length name - 4) name else name)"

definition file_onload :: "string \<Rightarrow> string option \<Rightarrow> connectivity_page \<Rightarrow> connectivity_page" where
  "file_onload name result s =
    (let privateKey = (case result of Some t \<Rightarrow> t | None \<Rightarrow> []) in
     s\<lparr>cn_keypairForm := (cn_keypairForm s)\<lparr>kf_name := or_else (kf_name (cn_keypairForm s)) (key_file_stem name),
         kf_privateKey := privateKey\<rparr>, cn_keypairValidationError := []\<rparr>)"

definition file_onerror :: "string \<Rightarrow> connectivity_page \<Rightarrow> connectivity_page" where
  "file_onerror name s = s\<lparr>cn_keypairFeedback := error_feedback (u16 (''Failed to read '' @ name @ ''.''))\<rparr>"

section \<open>Row actions\<close>

definition deleteSelectedProxy :: "bool \<Rightarrow> SSHProxy \<Rightarrow> connectivity_page \<Rightarrow> connectivity_page \<times> api_call option" where
  "deleteSelectedProxy confirmed proxy s =
    (if \<not> confirmed then (s, None) else (removeProxy_onMutate s, Some (deleteSSHProxy (proxy_id proxy))))"

definition deleteKeypair :: "bool \<Rightarrow> SSHKeypair \<Rightarrow> connectivity_page \<Rightarrow> connectivity_page \<times> api_call option" where
  "deleteKeypair confirmed keypair s =
    (if \<not> confirmed then (s, None) else (keypair_onMutate s, Some (deleteSSHKeypair (keypair_id keypair))))"

definition copyKeypairFingerprint :: "bool \<Rightarrow> connectivity_page \<Rightarrow> connectivity_page" where
  "copyKeypairFingerprint copied s = s\<lparr>cn_keypairFeedback :=
     (if copied then success_feedback (u16 ''Fingerprint copied.'') else error_feedback (u16 ''Failed to copy fingerprint.''))\<rparr>"

definition copyFingerprint :: "bool \<Rightarrow> connectivity_page \<Rightarrow> connectivity_page" where
  "copyFingerprint copied s = s\<lparr>cn_hostKeyFeedback :=
     (if copied then success_feedback (u16 ''Fingerprint copied.'') else error_feedback (u16 ''Failed to copy fingerprint.''))\<rparr>"

definition approveHostKey :: "bool \<Rightarrow> HostKeyRecord \<Rightarrow> connectivity_page \<Rightarrow> connectivity_page \<times> api_call option" where
  "approveHostKey confirmed r s =
    (if \<not> confirmed then (s, None)
     else (hostkey_onMutate s, Some (approveHostKeyOverride (hostkey_scope r) (hostkey_target_id r))))"

definition deleteHostKeyRecord :: "bool \<Rightarrow> HostKeyRecord \<Rightarrow> connectivity_page \<Rightarrow> connectivity_page \<times> api_call option" where
  "deleteHostKeyRecord confirmed r s =
    (if \<not> confirmed then (s, None)
     else (hostkey_onMutate s, Some (deleteHostKey (hostkey_scope r) (hostkey_target_id r))))"

section \<open>The page as a machine\<close>

datatype conn_event =
    NewProxyClicked
  | EditProxyClicked SSHProxy
  | ProxyTyped "SSHProxyFormState \<Rightarrow> SSHProxyFormState"
  | ProxyClosed
  | ProxySubmitted
  | ProxyCreated "call_error + SSHProxy"
  | ProxyUpdated "call_error + SSHProxy"
  | DeleteProxyClicked bool SSHProxy
  | ProxyDeleted "call_error + unit"
  | UploadClicked
  | KeypairTyped "SSHKeypairFormState \<Rightarrow> SSHKeypairFormState"
  | KeypairFileRead string "string option"
  | KeypairFileFailed string
  | KeypairClosed
  | KeypairSubmitted
  | KeypairSaved "call_error + SSHKeypair"
  | DeleteKeypairClicked bool SSHKeypair
  | KeypairDeleted "call_error + unit"
  | ApproveClicked bool HostKeyRecord
  | Approved "call_error + ApproveHostKeyOverrideResponse"
  | ForgetClicked bool HostKeyRecord
  | Forgotten "call_error + unit"
  | FingerprintCopied bool
  | KeypairFingerprintCopied bool
  | TabClicked ConnectivityTab

fun conn_step :: "conn_event \<Rightarrow> connectivity_page \<Rightarrow> connectivity_page \<times> api_call option" where
  "conn_step NewProxyClicked s = (proxy_startCreate s, None)"
| "conn_step (EditProxyClicked p) s = (editProxy p s, None)"
| "conn_step (ProxyTyped f) s = (proxy_updateForm f s, None)"
| "conn_step ProxyClosed s = (closeProxyModal s, None)"
| "conn_step ProxySubmitted s = submitProxy s"
| "conn_step (ProxyCreated r) s = (settle createProxy_onSuccess proxy_onError r s, None)"
| "conn_step (ProxyUpdated r) s = (settle updateProxy_onSuccess proxy_onError r s, None)"
| "conn_step (DeleteProxyClicked ok p) s = deleteSelectedProxy ok p s"
| "conn_step (ProxyDeleted r) s = (settle (\<lambda>_. removeProxy_onSuccess) removeProxy_onError r s, None)"
| "conn_step UploadClicked s = (openKeypairModal s, None)"
| "conn_step (KeypairTyped f) s = (updateKeypairForm f s, None)"
| "conn_step (KeypairFileRead name result) s = (file_onload name result s, None)"
| "conn_step (KeypairFileFailed name) s = (file_onerror name s, None)"
| "conn_step KeypairClosed s = (closeKeypairModal s, None)"
| "conn_step KeypairSubmitted s = submitKeypair s"
| "conn_step (KeypairSaved r) s = (settle uploadKeypair_onSuccess keypair_onError r s, None)"
| "conn_step (DeleteKeypairClicked ok k) s = deleteKeypair ok k s"
| "conn_step (KeypairDeleted r) s = (settle (\<lambda>_. removeKeypair_onSuccess) keypair_onError r s, None)"
| "conn_step (ApproveClicked ok h) s = approveHostKey ok h s"
| "conn_step (Approved r) s = (settle approveOverride_onSuccess hostkey_onError r s, None)"
| "conn_step (ForgetClicked ok h) s = deleteHostKeyRecord ok h s"
| "conn_step (Forgotten r) s = (settle (\<lambda>_. forgetHostKey_onSuccess) hostkey_onError r s, None)"
| "conn_step (FingerprintCopied ok) s = (copyFingerprint ok s, None)"
| "conn_step (KeypairFingerprintCopied ok) s = (copyKeypairFingerprint ok s, None)"
| "conn_step (TabClicked tab) s = (s\<lparr>cn_activeTab := tab\<rparr>, None)"

text \<open>The proxies of the server have identifiers.\<close>

fun identified :: "conn_event \<Rightarrow> bool" where
  "identified (EditProxyClicked p) = (proxy_id p \<noteq> [])"
| "identified (ProxyCreated (Inr p)) = (proxy_id p \<noteq> [])"
| "identified _ = True"

inductive conn_reach :: "connectivity_page \<Rightarrow> bool" where
  conn_start: "conn_reach connectivity_mount"
| conn_next: "conn_reach s \<Longrightarrow> identified ev \<Longrightarrow> conn_reach (fst (conn_step ev s))"

section \<open>Contracts\<close>

definition proxy_editing :: "connectivity_page \<Rightarrow> string option" where
  "proxy_editing s = (if cn_formMode s = CreateProxy then None else Some (cn_selectedProxyID s))"

interpretation proxy_dialog: form_dialog proxy_startCreate editProxy proxy_updateForm submitProxy cn_form proxy_editing
  cn_validationError emptySSHProxyForm "\<lambda>p. sshProxyToForm (Some p)" proxy_id
  "\<lambda>f. validateSSHProxyForm f CreateProxy" "\<lambda>f. validateSSHProxyForm f EditProxy"
  "\<lambda>f. createSSHProxy (sshProxyFormToPayload f)" "\<lambda>i f. updateSSHProxy i (sshProxyFormToPayload f)"
proof unfold_locales
  fix s i
  show "proxy_editing s = None \<Longrightarrow> cn_validationError (fst (submitProxy s)) = validateSSHProxyForm (cn_form s) CreateProxy \<and>
     snd (submitProxy s) = (if validateSSHProxyForm (cn_form s) CreateProxy = []
       then Some (createSSHProxy (sshProxyFormToPayload (cn_form s))) else None)"
    by (auto simp: submitProxy_def proxy_editing_def Let_def proxy_onMutate_def split: if_splits)
  show "proxy_editing s = Some i \<Longrightarrow> i \<noteq> [] \<Longrightarrow> cn_validationError (fst (submitProxy s)) = validateSSHProxyForm (cn_form s) EditProxy \<and>
     snd (submitProxy s) = (if validateSSHProxyForm (cn_form s) EditProxy = []
       then Some (updateSSHProxy i (sshProxyFormToPayload (cn_form s))) else None)"
    by (cases "cn_formMode s") (auto simp: submitProxy_def proxy_editing_def Let_def proxy_onMutate_def split: if_splits)
qed (simp_all add: proxy_startCreate_def editProxy_def proxy_updateForm_def proxy_editing_def submitProxy_def Let_def proxy_onMutate_def)

definition form_rest :: "connectivity_page \<Rightarrow> connectivity_page" where
  "form_rest s = s\<lparr>cn_formFeedback := None\<rparr>"

definition delete_rest :: "connectivity_page \<Rightarrow> connectivity_page" where
  "delete_rest s = s\<lparr>cn_deleteFeedback := None\<rparr>"

definition keypair_rest :: "connectivity_page \<Rightarrow> connectivity_page" where
  "keypair_rest s = s\<lparr>cn_keypairFeedback := None\<rparr>"

definition hostkey_rest :: "connectivity_page \<Rightarrow> connectivity_page" where
  "hostkey_rest s = s\<lparr>cn_hostKeyFeedback := None\<rparr>"

interpretation create_proxy: mutation proxy_onMutate createProxy_onSuccess proxy_onError cn_formFeedback error_text form_rest
  by unfold_locales (simp_all add: proxy_onMutate_def createProxy_onSuccess_def proxy_onError_def form_rest_def)

interpretation update_proxy: mutation proxy_onMutate updateProxy_onSuccess proxy_onError cn_formFeedback error_text form_rest
  by unfold_locales (simp_all add: proxy_onMutate_def updateProxy_onSuccess_def proxy_onError_def form_rest_def)

interpretation remove_proxy: mutation removeProxy_onMutate "\<lambda>_::unit. removeProxy_onSuccess" removeProxy_onError
    cn_deleteFeedback error_text delete_rest
  by unfold_locales (simp_all add: removeProxy_onMutate_def removeProxy_onSuccess_def removeProxy_onError_def delete_rest_def)

interpretation upload_keypair: mutation keypair_onMutate uploadKeypair_onSuccess keypair_onError cn_keypairFeedback error_text keypair_rest
  by unfold_locales (simp_all add: keypair_onMutate_def uploadKeypair_onSuccess_def keypair_onError_def keypair_rest_def)

interpretation remove_keypair: mutation keypair_onMutate "\<lambda>_::unit. removeKeypair_onSuccess" keypair_onError
    cn_keypairFeedback error_text keypair_rest
  by unfold_locales (simp_all add: keypair_onMutate_def removeKeypair_onSuccess_def keypair_onError_def keypair_rest_def)

interpretation approve_override: mutation hostkey_onMutate approveOverride_onSuccess hostkey_onError cn_hostKeyFeedback error_text hostkey_rest
  by unfold_locales (simp_all add: hostkey_onMutate_def approveOverride_onSuccess_def hostkey_onError_def hostkey_rest_def)

interpretation forget_hostkey: mutation hostkey_onMutate "\<lambda>_::unit. forgetHostKey_onSuccess" hostkey_onError
    cn_hostKeyFeedback error_text hostkey_rest
  by unfold_locales (simp_all add: hostkey_onMutate_def forgetHostKey_onSuccess_def hostkey_onError_def hostkey_rest_def)

interpretation connectivity: gated_page connectivity_queries "[''cmdb.asset:read'']"
  by unfold_locales (simp_all add: connectivity_queries_def Let_def)

section \<open>Properties\<close>

lemmas conn_defs = proxy_startCreate_def editProxy_def proxy_updateForm_def closeProxyModal_def createProxy_onSuccess_def
  updateProxy_onSuccess_def proxy_onError_def proxy_onMutate_def removeProxy_onMutate_def removeProxy_onSuccess_def
  removeProxy_onError_def openKeypairModal_def closeKeypairModal_def updateKeypairForm_def file_onload_def file_onerror_def
  keypair_onMutate_def uploadKeypair_onSuccess_def keypair_onError_def removeKeypair_onSuccess_def hostkey_onMutate_def
  approveOverride_onSuccess_def hostkey_onError_def forgetHostKey_onSuccess_def copyFingerprint_def copyKeypairFingerprint_def
  deleteSelectedProxy_def deleteKeypair_def approveHostKey_def deleteHostKeyRecord_def submitKeypair_def

text \<open>A proxy is selected exactly while the form is in its update mode.\<close>

definition mode_selects :: "connectivity_page \<Rightarrow> bool" where
  "mode_selects s = (cn_formMode s = EditProxy \<longleftrightarrow> cn_selectedProxyID s \<noteq> [])"

lemma mode_selects_submit: "mode_selects (fst (submitProxy s)) = mode_selects s"
  by (simp add: mode_selects_def submitProxy_def Let_def proxy_onMutate_def)

lemma mode_selects_step: "mode_selects s \<Longrightarrow> identified ev \<Longrightarrow> mode_selects (fst (conn_step ev s))"
proof (cases ev)
  case ProxySubmitted
  then show "mode_selects s \<Longrightarrow> ?thesis" by (simp add: mode_selects_submit)
next
  case (ProxyCreated r)
  then show "mode_selects s \<Longrightarrow> identified ev \<Longrightarrow> ?thesis" by (cases r) (simp_all add: mode_selects_def conn_defs settle_def)
qed (simp_all add: mode_selects_def conn_defs settle_def Let_def split: sum.splits)

lemma conn_reach_mode: "conn_reach s \<Longrightarrow> mode_selects s"
proof (induction rule: conn_reach.induct)
  case conn_start
  then show ?case by (simp add: mode_selects_def connectivity_mount_def)
qed (rule mode_selects_step)

text \<open>
  C10: the proxy form always knows where it is saved. However the page was used before, submitting the form
  shows exactly the validator's complaint and sends nothing, or sends the form: to the selected proxy
  while one is selected, as a new proxy otherwise. The complaint that no proxy is selected is never
  reached.
\<close>

theorem proxy_form_has_target:
  assumes "conn_reach s"
  shows "let r = submitProxy s; error = validateSSHProxyForm (cn_form s) (cn_formMode s); payload = sshProxyFormToPayload (cn_form s) in
    cn_validationError (fst r) = error \<and> cn_form (fst r) = cn_form s \<and>
    snd r = (if error \<noteq> [] then None
      else Some (if cn_selectedProxyID s = [] then createSSHProxy payload else updateSSHProxy (cn_selectedProxyID s) payload))"
  using conn_reach_mode [OF assms]
  by (cases "cn_formMode s") (simp_all add: mode_selects_def submitProxy_def Let_def proxy_onMutate_def)

theorem proxy_form_has_target_witness:
  "conn_reach (fst (conn_step (EditProxyClicked sample_proxy) connectivity_mount)) \<and>
   snd (submitProxy (editProxy sample_proxy connectivity_mount)) =
     Some (updateSSHProxy ''p1'' (sshProxyFormToPayload (sshProxyToForm (Some sample_proxy))))"
proof -
  have r: "conn_reach (fst (conn_step (EditProxyClicked sample_proxy) connectivity_mount))"
    by (intro conn_next conn_start) (simp add: sample_proxy_def)
  have v: "validateSSHProxyForm (sshProxyToForm (Some sample_proxy)) EditProxy = []"
    using port_text [of 22] by (simp add: validateSSHProxyForm_def sshProxyToForm_def sample_proxy_def Let_def port_or_22_def is_ws_def trim_def)
  show ?thesis
    using r v proxy_form_has_target [OF r] by (simp add: Let_def editProxy_def) (simp add: sample_proxy_def)
qed

lemma host_key_path_inj: "buildHostKeyPath sc i = buildHostKeyPath sc' j \<longleftrightarrow> sc = sc' \<and> i = j"
proof
  assume "buildHostKeyPath sc i = buildHostKeyPath sc' j"
  then have "HostKeyScope_str sc = HostKeyScope_str sc' \<and> CHR ''/'' # encodeURIComponent i = CHR ''/'' # encodeURIComponent j"
    by (intro encoded_prefix_unique) (simp_all add: buildHostKeyPath_def)
  then show "sc = sc' \<and> i = j" by (cases sc; cases sc') simp_all
qed simp

lemma submits_not_destructive:
  assumes "snd (submitProxy s) = Some c \<or> snd (submitKeypair s) = Some c"
  shows "c \<noteq> approveHostKeyOverride a b" "opt_method (call_opts c) \<noteq> Some ''DELETE''"
  using assms
  by (auto simp: submitProxy_def submitKeypair_def Let_def createSSHProxy_def updateSSHProxy_def upsertSSHKeypair_def
      approveHostKeyOverride_def call_send_def no_options_def buildHostKeyOverridePath_def buildHostKeyPath_def split: if_splits)

text \<open>
  C11: Nothing is deleted and no changed host key is accepted without a confirmed question about that very
  record: whatever the page state, a request to delete or to override comes only from the click on a
  row whose question was answered with yes, and it names that row; a question answered with no changes
  nothing. Host keys of different scopes or targets never share a path.
\<close>

theorem destructive_needs_confirmation:
  "(case snd (conn_step ev s) of None \<Rightarrow> True
    | Some c \<Rightarrow> opt_method (call_opts c) = Some ''DELETE'' \<or> (\<exists>sc t. c = approveHostKeyOverride sc t) \<longrightarrow>
        (\<exists>p. ev = DeleteProxyClicked True p \<and> c = deleteSSHProxy (proxy_id p)) \<or>
        (\<exists>k. ev = DeleteKeypairClicked True k \<and> c = deleteSSHKeypair (keypair_id k)) \<or>
        (\<exists>h. ev = ForgetClicked True h \<and> c = deleteHostKey (hostkey_scope h) (hostkey_target_id h)) \<or>
        (\<exists>h. ev = ApproveClicked True h \<and> c = approveHostKeyOverride (hostkey_scope h) (hostkey_target_id h))) \<and>
   list_all (\<lambda>e. conn_step e s = (s, None)) [DeleteProxyClicked False p, DeleteKeypairClicked False k, ForgetClicked False h, ApproveClicked False h] \<and>
   (buildHostKeyPath sc i = buildHostKeyPath sc' j \<longleftrightarrow> sc = sc' \<and> i = j)"
proof (cases ev)
  case ProxySubmitted
  then show ?thesis
    using submits_not_destructive [of s] by (auto simp: host_key_path_inj conn_defs split: option.splits)
next
  case KeypairSubmitted
  then show ?thesis
    using submits_not_destructive [of s]
    by (auto simp: host_key_path_inj deleteSelectedProxy_def deleteKeypair_def approveHostKey_def deleteHostKeyRecord_def split: option.splits)
qed (auto simp: conn_defs host_key_path_inj)

definition sample_keypair :: SSHKeypair where
  "sample_keypair = \<lparr>keypair_created_at = [], keypair_description = None, keypair_fingerprint = ''SHA256:k'', keypair_has_passphrase = False,
     keypair_id = ''k1'', keypair_name = ''deploy'', keypair_updated_at = [], keypair_uploaded_by = None\<rparr>"

definition sample_hostkey :: HostKeyRecord where
  "sample_hostkey = \<lparr>hostkey_created_at = [], hostkey_fingerprint_sha256 = ''SHA256:h'', hostkey_first_seen_at = [], hostkey_host = ''10.0.0.1'',
     hostkey_id = ''h1'', hostkey_key_type = ''ssh-ed25519'', hostkey_last_mismatch_at = None, hostkey_last_mismatch_fingerprint = None,
     hostkey_last_seen_at = [], hostkey_override_at = None, hostkey_override_by = None, hostkey_override_expires_at = None,
     hostkey_port = 22, hostkey_scope = ScopeAsset, hostkey_status = ''active'', hostkey_target_id = ''a1'', hostkey_target_name = None,
     hostkey_updated_at = []\<rparr>"

theorem destructive_needs_confirmation_witness:
  "snd (conn_step (DeleteProxyClicked True sample_proxy) connectivity_mount) = Some (deleteSSHProxy ''p1'') \<and>
   conn_step (ForgetClicked False sample_hostkey) connectivity_mount = (connectivity_mount, None)"
  using destructive_needs_confirmation [of "DeleteProxyClicked True sample_proxy" connectivity_mount sample_proxy sample_keypair sample_hostkey]
  by (auto simp: deleteSelectedProxy_def sample_proxy_def)

text \<open>
  A key file is uploaded as it is. After the dialog was opened, reading a file with a text that is not blank
  and submitting sends exactly the text of the file, not trimmed, under the typed name or else under
  the file's name without its extension; a file that cannot be read leaves the form alone and says so.
\<close>

theorem key_file_uploaded:
  assumes "trim (or_else name (key_file_stem file)) \<noteq> []" "trim key \<noteq> []"
  shows "let s1 = file_onload file (Some key) (updateKeypairForm (kf_name_update (\<lambda>_. name)) (openKeypairModal s)); (s2, r) = submitKeypair s1 in
    r = Some (upsertSSHKeypair \<lparr>keypairup_description = [], keypairup_name = trim (or_else name (key_file_stem file)),
          keypairup_passphrase = None, keypairup_private_key = key\<rparr>) \<and>
    cn_keypairForm (uploadKeypair_onSuccess saved s2) = emptySSHKeypairForm \<and>
    cn_keypairForm (keypair_onError e s2) = cn_keypairForm s1 \<and>
    cn_keypairForm (file_onerror file s1) = cn_keypairForm s1 \<and>
    cn_keypairFeedback (file_onerror file s1) = error_feedback (u16 (''Failed to read '' @ file @ ''.''))"
  using assms
  by (simp add: conn_defs Let_def sshKeypairFormToPayload_def validateSSHKeypairForm_def emptySSHKeypairForm_def)

theorem key_file_uploaded_witness:
  "snd (submitKeypair (file_onload ''prod.PEM'' (Some ''KEY '') (updateKeypairForm (kf_name_update (\<lambda>_. [])) (openKeypairModal connectivity_mount)))) =
     Some (upsertSSHKeypair \<lparr>keypairup_description = [], keypairup_name = ''prod'', keypairup_passphrase = None,
       keypairup_private_key = ''KEY ''\<rparr>)"
proof -
  have stem: "key_file_stem ''prod.PEM'' = ''prod''"
    by code_simp
  show ?thesis
    using key_file_uploaded [of "[]" "''prod.PEM''" "''KEY ''" connectivity_mount]
    by (simp add: stem or_else_def trim_def is_ws_def Let_def case_prod_unfold)
qed

text \<open>
  The host key table agrees with the counters above it: the mismatch counter counts the rows that show an offered
  fingerprint, which are the rows with the warning tone and the text "mismatch"; the rows with a
  pending override are those without the approve button, in the information tone.
\<close>

theorem hostkey_rows_consistent:
  "hkc_mismatched (hostKeyCounts items) = length (filter (\<lambda>r. hostkey_offered r \<noteq> None) items) \<and>
   hkc_pending (hostKeyCounts items) = length (filter (\<lambda>r. \<not> approve_offered r) items) \<and>
   (hostkey_offered r \<noteq> None \<longleftrightarrow> hostKeyStatusTone r = ''warn'') \<and>
   (approve_offered r \<longleftrightarrow> hostKeyStatusTone r \<noteq> ''info'') \<and>
   (hostkey_status_text r = (if hostKeyStatusTone r = ''warn'' then ''mismatch'' else if hostKeyStatusTone r = ''info'' then ''override pending''
      else hostkey_status r))"
  by (auto simp: hostKeyCounts_def hostkey_offered_def approve_offered_def isOverridePending_def hostKeyStatusTone_def
      hostkey_status_text_def intro!: arg_cong [where f = length] filter_cong)

text \<open>
  Late answers reach the wrong form. When an update of one proxy is still under way and a second proxy is opened,
  the answer replaces the form by the first proxy's data while the second stays selected, and saving
  writes the first proxy's settings to the second. The answer of a deletion clears and closes whatever
  form is open.
\<close>

theorem late_proxy_answers:
  assumes "validateSSHProxyForm (sshProxyToForm (Some a)) EditProxy = []" "proxy_id b \<noteq> []"
  shows "snd (submitProxy (updateProxy_onSuccess a (editProxy b s))) =
      Some (updateSSHProxy (proxy_id b) (sshProxyFormToPayload (sshProxyToForm (Some a)))) \<and>
    cn_form (removeProxy_onSuccess (fold proxy_updateForm fs (editProxy b s))) = emptySSHProxyForm \<and>
    \<not> cn_proxyModalOpen (removeProxy_onSuccess (fold proxy_updateForm fs (editProxy b s)))"
  using assms by (simp add: submitProxy_def Let_def conn_defs)

theorem late_proxy_answers_witness:
  "snd (submitProxy (updateProxy_onSuccess sample_proxy (editProxy (sample_proxy\<lparr>proxy_id := ''p2'', proxy_host := ''h2''\<rparr>) connectivity_mount))) =
     Some (updateSSHProxy ''p2'' (sshProxyFormToPayload (sshProxyToForm (Some sample_proxy))))"
proof -
  have v: "validateSSHProxyForm (sshProxyToForm (Some sample_proxy)) EditProxy = []"
    using port_text [of 22] by (simp add: validateSSHProxyForm_def sshProxyToForm_def sample_proxy_def Let_def port_or_22_def is_ws_def trim_def)
  then show ?thesis
    using late_proxy_answers [of sample_proxy "sample_proxy\<lparr>proxy_id := ''p2'', proxy_host := ''h2''\<rparr>" connectivity_mount] by simp
qed

end
