(* ===== verification/OidcPage.thy ===== *)
theory OidcPage
  imports PageLib OidcForms
begin

text \<open>
  The OIDC settings page, \<open>src/web/src/features/oidc/OidcPage.tsx\<close>: the settings query with the effect that
  loads the form, saving and testing, as a machine over the user's actions and the answers. The
  query keeps the value it has when a new answer is equal to it (structural sharing of the query
  library), so the effect runs only for a changed value.
\<close>

section \<open>State\<close>

record oidc_page =
  op_data :: "OIDCSettings option"
  op_form :: OIDCSettingsFormState
  op_feedback :: "ActionFeedback option"
  op_validationError :: string
  op_test :: "OIDCConnectionTestResult option"

definition oidc_mount :: oidc_page where
  "oidc_mount = \<lparr>op_data = None, op_form = oidcSettingsToForm None, op_feedback = None, op_validationError = [], op_test = None\<rparr>"

definition oidc_queries :: "(string \<Rightarrow> bool) \<Rightarrow> string \<Rightarrow> oidc_page \<Rightarrow> api_call list" where
  "oidc_queries can userID s = (let canReadIAM = can ''iam.user:read'' in enabled_calls [(canReadIAM \<and> userID \<noteq> [], getOIDCSettings)])"

definition oidcPermissions :: "string list option \<Rightarrow> string list" where
  "oidcPermissions ps = permissions_with_prefix ''iam.user:'' ps"

text \<open>The effect on \<open>settings.data\<close>.\<close>

definition load_settings :: "OIDCSettings \<Rightarrow> oidc_page \<Rightarrow> oidc_page" where
  "load_settings settings s = (if op_data s = Some settings then s
     else s\<lparr>op_data := Some settings, op_form := oidcSettingsToForm (Some settings), op_validationError := []\<rparr>)"

definition oidc_updateForm :: "(OIDCSettingsFormState \<Rightarrow> OIDCSettingsFormState) \<Rightarrow> oidc_page \<Rightarrow> oidc_page" where
  "oidc_updateForm f s = s\<lparr>op_form := f (op_form s)\<rparr>"

text \<open>\<open>formatDateTime\<close> depends on the locale and is a parameter.\<close>

definition testSummary :: "(string \<Rightarrow> string) \<Rightarrow> OIDCConnectionTestResult option \<Rightarrow> string" where
  "testSummary formatDateTime result = (case result of None \<Rightarrow> []
     | Some r \<Rightarrow> or_else (oidctest_http_status r) (oidctest_status r) @ '' at '' @ formatDateTime (oidctest_checked_at r))"

section \<open>Saving and testing\<close>

definition settings_onMutate :: "oidc_page \<Rightarrow> oidc_page" where
  "settings_onMutate s = s\<lparr>op_feedback := None\<rparr>"

definition save_onSuccess :: "OIDCSettings \<Rightarrow> oidc_page \<Rightarrow> oidc_page" where
  "save_onSuccess saved s = s\<lparr>op_form := oidcSettingsToForm (Some saved),
     op_feedback := success_feedback (u16 ''OIDC configuration saved.'')\<rparr>"

definition settings_onError :: "call_error \<Rightarrow> oidc_page \<Rightarrow> oidc_page" where
  "settings_onError e s = s\<lparr>op_feedback := error_feedback (error_text e)\<rparr>"

definition testConnection_onSuccess :: "OIDCConnectionTestResult \<Rightarrow> oidc_page \<Rightarrow> oidc_page" where
  "testConnection_onSuccess result s = s\<lparr>op_test := Some result, op_feedback := success_feedback (u16 (''OIDC connection OK: '' @
     or_else (oidctest_http_status result) (oidctest_status result) @ ''.''))\<rparr>"

definition formPayload :: "oidc_page \<Rightarrow> oidc_page \<times> UpdateOIDCSettingsPayload option" where
  "formPayload s = (let error = validateOIDCForm (op_form s); s1 = s\<lparr>op_validationError := error\<rparr> in
     if error \<noteq> [] then (s1, None) else (s1, Some (oidcFormToPayload (op_form s))))"

definition submitSettings :: "oidc_page \<Rightarrow> oidc_page \<times> api_call option" where
  "submitSettings s = (case formPayload s of (s1, None) \<Rightarrow> (s1, None)
     | (s1, Some payload) \<Rightarrow> (settings_onMutate s1, Some (updateOIDCSettings payload)))"

text \<open>Starting a mutation drops the data of its previous run.\<close>

definition runConnectionTest :: "oidc_page \<Rightarrow> oidc_page \<times> api_call option" where
  "runConnectionTest s = (case formPayload s of (s1, None) \<Rightarrow> (s1, None)
     | (s1, Some payload) \<Rightarrow> (settings_onMutate (s1\<lparr>op_test := None\<rparr>), Some (testOIDCSettings payload)))"

definition save_disabled :: "(string \<Rightarrow> bool) \<Rightarrow> bool \<Rightarrow> bool" where
  "save_disabled can pending = (\<not> can ''iam.user:write'' \<or> pending)"

section \<open>Contracts\<close>

definition oidc_rest :: "oidc_page \<Rightarrow> oidc_page" where
  "oidc_rest s = s\<lparr>op_feedback := None\<rparr>"

interpretation save_settings: mutation settings_onMutate save_onSuccess settings_onError op_feedback error_text oidc_rest
  by unfold_locales (simp_all add: settings_onMutate_def save_onSuccess_def settings_onError_def oidc_rest_def)

interpretation test_connection: mutation settings_onMutate testConnection_onSuccess settings_onError op_feedback error_text oidc_rest
  by unfold_locales (simp_all add: settings_onMutate_def testConnection_onSuccess_def settings_onError_def oidc_rest_def)

interpretation oidc: gated_page oidc_queries "[''iam.user:read'']"
  by unfold_locales (simp_all add: oidc_queries_def Let_def)

section \<open>Properties\<close>

lemma oidc_typed: "op_form (fold oidc_updateForm fs s) = fold (\<lambda>f. f) fs (op_form s)"
  "op_data (fold oidc_updateForm fs s) = op_data s"
  by (induction fs arbitrary: s) (simp_all add: oidc_updateForm_def)

text \<open>
  Testing tests what saving would save. After the settings were loaded and any fields edited, both buttons show the
  same complaint and send nothing, or send the same payload, one to the test and one to the
  configuration; the client secret is in it exactly when one was typed since the settings were
  loaded. A failure of either keeps the form; after saving, the form shows the saved settings and
  the typed secret is gone. An unchanged answer to a refresh keeps what was typed.
\<close>

theorem oidc_test_like_save:
  assumes "op_data s0 \<noteq> Some settings"
  shows "let s = fold oidc_updateForm fs (load_settings settings s0); form = fold (\<lambda>f. f) fs (oidcSettingsToForm (Some settings));
      (s1, r1) = submitSettings s; (s2, r2) = runConnectionTest s in
    op_validationError s1 = validateOIDCForm form \<and> op_validationError s2 = validateOIDCForm form \<and>
    (if validateOIDCForm form = []
     then r1 = Some (updateOIDCSettings (oidcFormToPayload form)) \<and> r2 = Some (testOIDCSettings (oidcFormToPayload form))
     else r1 = None \<and> r2 = None) \<and>
    (oidcupd_client_secret (oidcFormToPayload form) = None \<longleftrightarrow> trim (of_clientSecret form) = []) \<and>
    op_form (settings_onError e s1) = form \<and> op_form (settings_onError e s2) = form \<and>
    of_clientSecret (op_form (save_onSuccess saved s1)) = [] \<and>
    load_settings settings s = s"
proof -
  let ?s = "fold oidc_updateForm fs (load_settings settings s0)"
  have f: "op_form ?s = fold (\<lambda>f. f) fs (oidcSettingsToForm (Some settings))" "op_data ?s = Some settings"
    using assms by (simp_all add: oidc_typed load_settings_def)
  show ?thesis
    using f oidc_secret.sent_None [of "fold (\<lambda>f. f) fs (oidcSettingsToForm (Some settings))"]
    by (simp add: submitSettings_def runConnectionTest_def formPayload_def Let_def settings_onMutate_def settings_onError_def
        save_onSuccess_def load_settings_def oidcSettingsToForm_def)
qed

theorem oidc_test_like_save_witness:
  "let settings = \<lparr>oidc_authorize_url = [], oidc_client_id = ''ops'', oidc_enabled = False, oidc_has_client_secret = True,
      oidc_issuer_url = ''https://id.example'', oidc_redirect_url = ''/cb'', oidc_scopes = [''openid''],
      oidc_token_url = [], oidc_updated_at = None, oidc_userinfo_url = []\<rparr> in
   snd (submitSettings (load_settings settings oidc_mount)) =
     Some (updateOIDCSettings (oidcFormToPayload (oidcSettingsToForm (Some settings))))"
  using oidc_test_like_save [of oidc_mount "\<lparr>oidc_authorize_url = [], oidc_client_id = ''ops'', oidc_enabled = False, oidc_has_client_secret = True,
      oidc_issuer_url = ''https://id.example'', oidc_redirect_url = ''/cb'', oidc_scopes = [''openid''],
      oidc_token_url = [], oidc_updated_at = None, oidc_userinfo_url = []\<rparr>" "[]"]
  by (simp add: Let_def case_prod_unfold oidc_mount_def validateOIDCForm_def oidcSettingsToForm_def)

text \<open>
  The form can be saved before the settings are known. While the settings are loading, or after loading them
  failed, the save button is enabled for everyone who may write, the blank form passes the
  validator, and the request switches OIDC login off and blanks every address.
\<close>

theorem blank_settings_can_be_saved:
  "\<not> save_disabled (\<lambda>_. True) False \<and>
   snd (submitSettings oidc_mount) = Some (updateOIDCSettings \<lparr>oidcupd_authorize_url = [], oidcupd_client_id = [],
     oidcupd_client_secret = None, oidcupd_enabled = False, oidcupd_issuer_url = [], oidcupd_redirect_url = [],
     oidcupd_scopes = [''openid'', ''profile'', ''email''], oidcupd_token_url = [], oidcupd_userinfo_url = []\<rparr>)"
proof -
  have "parseScopes (join '', '' defaultScopes) = defaultScopes"
    by (rule parseScopes_join) (use defaultScopes_ok in auto)
  then show ?thesis
    by (simp add: save_disabled_def submitSettings_def formPayload_def oidc_mount_def validateOIDCForm_def oidcSettingsToForm_def
        oidcFormToPayload_def Let_def defaultScopes_def del: parseScopes_csv)
qed

end
