(* ===== verification/AssetViews.thy ===== *)
theory AssetViews
  imports PageLib Launch SessionsLib
begin

text \<open>
  What the asset pages show of an asset, from \<open>src/web/src/features/cmdb/AssetsPage.tsx\<close>: the cells of the table and
  the tree, the options of the filters, the texts of a probe and of relations, and the panels of the
  drawer's sections.
\<close>

section \<open>Cells\<close>

definition asset_statusTone :: "string \<Rightarrow> string" where
  "asset_statusTone status = (let normalized = toLowerCase status in
     if normalized = ''active'' then ''ok'' else if normalized = ''inactive'' \<or> normalized = ''deleted'' then ''warn'' else ''info'')"

definition sourceTone :: "string \<Rightarrow> string" where
  "sourceTone source = (if toLowerCase source = ''aws'' then ''info'' else [])"

definition networkText :: "Asset \<Rightarrow> string" where
  "networkText asset = or_else (join '' / '' (filter (\<lambda>t. t \<noteq> []) [opt_or (asset_public_ip asset) [], opt_or (asset_private_ip asset) []])) ''-''"

definition FRIENDLY_TYPES :: "(string \<times> string) list" where
  "FRIENDLY_TYPES = [(''aws_ec2_instance'', ''EC2 instance''), (''aws_rds_instance'', ''RDS instance''), (''aws_vpc'', ''VPC''),
     (''aws_security_group'', ''Security group''), (''aws_subnet'', ''Subnet''), (''aws_elb'', ''Load balancer''),
     (''aws_s3_bucket'', ''S3 bucket''), (''aws_iam_role'', ''IAM role''), (''aws_iam_user'', ''IAM user''),
     (''aws_account'', ''AWS account''), (''manual'', ''Manual host'')]"

text \<open>
  A lookup in an object literal also finds the members every object inherits. Of their names only
  these are in lower case; what is found there is no text, which is the result \<open>None\<close>.
\<close>

definition inherited_names :: "string list" where
  "inherited_names = [''constructor'', ''__proto__'']"

definition friendlyType :: "Asset \<Rightarrow> string option" where
  "friendlyType asset = (let raw = toLowerCase (or_else (asset_type asset) ''manual'') in
     if raw \<in> set inherited_names then None
     else Some (case map_of FRIENDLY_TYPES raw of Some label \<Rightarrow> label | None \<Rightarrow> or_else (asset_type asset) ''Manual host''))"

definition supportsTerminal :: "Asset \<Rightarrow> bool" where
  "supportsTerminal asset = (let t = toLowerCase (or_else (asset_type asset) []) in
     t \<in> {''aws_ec2_instance'', ''manual'', ''host'', ''vm'', []})"

definition is_proxy :: "Asset \<Rightarrow> bool" where
  "is_proxy asset = (asset_is_vpc_proxy asset = Some True)"

text \<open>The label, empty where the page shows a dash, and the tone.\<close>

definition connectivityHint :: "Asset \<Rightarrow> string \<times> string" where
  "connectivityHint asset =
    (if is_proxy asset then (''Bastion'', ''ok'')
     else if \<not> isConnectableAsset (Some asset) then ([], [])
     else (let t = toLowerCase (or_else (asset_type asset) []) in
       if t = ''aws_rds_instance'' then (''DB target'', ''info'') else (''Connectable'', [])))"

definition facetOptions :: "string list option \<Rightarrow> string \<Rightarrow> string list" where
  "facetOptions values selected =
    (let s = set_of [] (case values of None \<Rightarrow> [] | Some vs \<Rightarrow> vs); s1 = (if selected \<noteq> [] then set_add selected s else s)
     in js_sort (filter (\<lambda>v. v \<noteq> []) s1))"

section \<open>Details\<close>

definition metadataEntries :: "(string \<Rightarrow> string \<Rightarrow> int) \<Rightarrow> (string \<times> unknown) list option \<Rightarrow> (string \<times> unknown) list" where
  "metadataEntries localeCompare values = sort_by (\<lambda>x y. localeCompare (fst x) (fst y)) (case values of None \<Rightarrow> [] | Some vs \<Rightarrow> vs)"

definition formatMetadataValue :: "unknown \<Rightarrow> units" where
  "formatMetadataValue value = (case value of
     UNull \<Rightarrow> u16 ''null'' | UStr s \<Rightarrow> u16 s | UNum n \<Rightarrow> u16 (num_str n) | UBool b \<Rightarrow> u16 (if b then ''true'' else ''false'')
   | v \<Rightarrow> json_stringify (unknown_json v))"

text \<open>\<open>(value / 1024).toFixed(1)\<close>: the quotient is exact, and the nearer tenth is shown, the larger one of two.\<close>

definition formatMemoryMB :: "int option \<Rightarrow> string" where
  "formatMemoryMB value = (case value of None \<Rightarrow> ''-''
   | Some v \<Rightarrow> if v = 0 then ''-''
       else if v \<ge> 1024 then (let n = \<lfloor>(of_int v :: rat) * 10 / 1024 + 1 / 2\<rfloor> in int_str (n div 10) @ ''.'' @ int_str (n mod 10) @ '' GB'')
       else int_str v @ '' MB'')"

definition formatUptimeSeconds :: "jsnum option \<Rightarrow> string" where
  "formatUptimeSeconds value = (case value of None \<Rightarrow> ''-'' | Some v \<Rightarrow>
    (if \<not> num_truthy v then ''-''
     else (let days = num_floor (num_div v 86400);
               hours = num_floor (num_div (num_mod v 86400) 3600);
               minutes = num_floor (num_div (num_mod v 3600) 60);
               parts = filter (\<lambda>t. t \<noteq> [])
                 [if num_truthy days then num_str days @ ''d'' else [],
                  if num_truthy hours then num_str hours @ ''h'' else [],
                  if num_truthy minutes \<or> \<not> num_truthy days \<and> \<not> num_truthy hours then num_str minutes @ ''m'' else []]
           in join '' '' parts)))"

definition softwarePreview :: "string list \<Rightarrow> string list \<times> nat" where
  "softwarePreview software = (let visible = take 12 software in (visible, length software - length visible))"

text \<open>Title and detail of one end of a relation.\<close>

definition relationAssetLabel :: "string option \<Rightarrow> string \<Rightarrow> string option \<Rightarrow> string \<times> string" where
  "relationAssetLabel name i type = (opt_or name i, opt_or type i)"

section \<open>Panels of the drawer\<close>

definition isNotFound :: "call_error \<Rightarrow> bool" where
  "isNotFound e = (case e of ApiFailure a \<Rightarrow> err_status a = 404 | FetchRejected m \<Rightarrow> False)"

definition load_panels :: "string \<Rightarrow> string \<Rightarrow> 'a query \<Rightarrow> (PanelStateKind \<times> units) list" where
  "load_panels loading_text missing_text q =
    (if q_loading q then [(PanelLoading, u16 loading_text)] else []) @
    (case q_error q of None \<Rightarrow> []
     | Some e \<Rightarrow> if isNotFound e then [(PanelEmpty, u16 missing_text)] else [(PanelError, error_text e)])"

definition relations_panels :: "AssetRelation list query \<Rightarrow> call_error option \<Rightarrow> (PanelStateKind \<times> units) list" where
  "relations_panels q deleteError = load_panels ''Loading asset relations'' ''No relations found.'' q @
     (case deleteError of Some e \<Rightarrow> [(PanelError, error_text e)] | None \<Rightarrow> []) @
     (if \<not> q_loading q \<and> q_error q = None \<and> query_items q = [] then [(PanelEmpty, u16 ''No relations.'')] else [])"

definition probe_panels :: "AssetProbeSnapshot query \<Rightarrow> call_error option \<Rightarrow> (PanelStateKind \<times> units) list" where
  "probe_panels q runError = load_panels ''Loading latest probe'' ''No probe snapshot collected.'' q @
     (case runError of Some e \<Rightarrow> [(PanelError, error_text e)] | None \<Rightarrow> [])"

definition vpc_control :: "bool \<Rightarrow> Asset \<Rightarrow> string option" where
  "vpc_control canWrite asset = (if \<not> canWrite then None else if is_proxy asset then Some ''Demote'' else Some ''Promote'')"

section \<open>Properties\<close>

text \<open>
  The filter lists always offer what is selected. The options of a filter are the non-empty facet values together with
  the selected value, sorted and without duplicates, also while the facets are not loaded.
\<close>

theorem facet_options_complete:
  "set (facetOptions values selected) = {v. v \<noteq> [] \<and> (v = selected \<or> v \<in> set (case values of None \<Rightarrow> [] | Some vs \<Rightarrow> vs))} \<and>
   sorted (facetOptions values selected) \<and> distinct (facetOptions values selected)"
proof -
  have "distinct (set_of [] (case values of None \<Rightarrow> [] | Some vs \<Rightarrow> vs))" by (rule distinct_set_of) simp
  then show ?thesis
    by (auto simp: facetOptions_def Let_def set_set_of distinct_set_add)
qed

text \<open>
  The cells of a row agree. A row offers terminal sessions only for an asset that can be connected to; a database target
  or a network primitive never offers them, and a row without a connectivity label is exactly one that
  is neither a bastion nor connectable.
\<close>

theorem asset_row_consistent:
  "(supportsTerminal asset \<longrightarrow> isConnectableAsset (Some asset)) \<and>
   (fst (connectivityHint asset) = ''DB target'' \<longrightarrow> \<not> supportsTerminal asset) \<and>
   (fst (connectivityHint asset) = [] \<longleftrightarrow> \<not> is_proxy asset \<and> \<not> isConnectableAsset (Some asset)) \<and>
   (fst (connectivityHint asset) = [] \<longrightarrow> \<not> supportsTerminal asset) \<and>
   (friendlyType asset = None \<longleftrightarrow> toLowerCase (asset_type asset) \<in> {''constructor'', ''__proto__''})"
proof -
  have nil: "toLowerCase [] = []" by (simp add: toLowerCase_def)
  have s: "supportsTerminal asset \<longrightarrow> isConnectableAsset (Some asset)"
    by (auto simp: nil supportsTerminal_def isConnectableAsset_def NON_CONNECTABLE_TYPES_def Let_def)
  moreover have "fst (connectivityHint asset) = ''DB target'' \<longrightarrow> \<not> supportsTerminal asset"
    by (auto simp: nil connectivityHint_def supportsTerminal_def Let_def split: if_splits)
  moreover have "fst (connectivityHint asset) = [] \<longleftrightarrow> \<not> is_proxy asset \<and> \<not> isConnectableAsset (Some asset)"
    by (simp add: connectivityHint_def Let_def)
  moreover have "friendlyType asset = None \<longleftrightarrow> toLowerCase (asset_type asset) \<in> {''constructor'', ''__proto__''}"
  proof (cases "asset_type asset = []")
    case True
    moreover have "toLowerCase ''manual'' = ''manual''" by code_simp
    ultimately show ?thesis by (simp add: friendlyType_def inherited_names_def or_else_def toLowerCase_def)
  qed (auto simp: friendlyType_def inherited_names_def or_else_def Let_def)
  ultimately show ?thesis by blast
qed

text \<open>
  The shown uptime is the exact time in whole minutes: for a positive number of seconds below \<open>2^53\<close>, days, hours and
  minutes are the quotients and remainders of integer division, zero parts are left out, and at
  least one part is shown.
\<close>

theorem uptime_text:
  assumes "0 < v" "v < 2 ^ 53"
  shows "let d = v div 86400; h = v mod 86400 div 3600; m = v mod 3600 div 60 in
    formatUptimeSeconds (Some (num_of_int v)) = join '' ''
      ((if d = 0 then [] else [int_str d @ ''d'']) @ (if h = 0 then [] else [int_str h @ ''h'']) @
       (if m = 0 \<and> \<not> (d = 0 \<and> h = 0) then [] else [int_str m @ ''m''])) \<and>
    v = 86400 * d + 3600 * h + 60 * m + v mod 60 \<and> h < 24 \<and> m < 60"
proof -
  define d h m where "d = v div 86400" and "h = v mod 86400 div 3600" and "m = v mod 3600 div 60"
  have b: "0 \<le> d" "d < 2 ^ 53" "0 \<le> h" "h < 24" "0 \<le> m" "m < 60"
    using assms div_less [of v 86400]
    by (simp_all add: d_def h_def m_def pos_imp_zdiv_nonneg_iff div_less_iff_less_mult)
  have "v mod 86400 mod 3600 = v mod 3600" "v mod 3600 mod 60 = v mod 60" by (simp_all add: mod_mod_cancel)
  then have v: "v = 86400 * d + 3600 * h + 60 * m + v mod 60"
    using div_mult_mod_eq [of v 86400] div_mult_mod_eq [of "v mod 86400" 3600] div_mult_mod_eq [of "v mod 3600" 60]
    unfolding d_def h_def m_def by linarith
  have q: "num_floor (num_div (num_of_int v) 86400) = num_of_int d"
    "num_floor (num_div (num_mod (num_of_int v) 86400) 3600) = num_of_int h"
    "num_floor (num_div (num_mod (num_of_int v) 3600) 60) = num_of_int m"
    using assms by (simp_all add: d_def h_def m_def del: time_ops num_str.simps)
  have t: "num_truthy (num_of_int x) \<longleftrightarrow> x \<noteq> 0" for x by simp
  have n: "num_str (num_of_int x) = int_str x" if "0 \<le> x" "x < 2 ^ 53" for x
    using that by (simp del: num_str.simps)
  have nh: "num_str (num_of_int h) = int_str h" and nm: "num_str (num_of_int m) = int_str m"
    using b by (simp_all add: n del: num_str.simps)
  have "formatUptimeSeconds (Some (num_of_int v)) = join '' '' (filter (\<lambda>t. t \<noteq> [])
      [if d \<noteq> 0 then int_str d @ ''d'' else [], if h \<noteq> 0 then int_str h @ ''h'' else [],
       if m \<noteq> 0 \<or> \<not> d \<noteq> 0 \<and> \<not> h \<noteq> 0 then int_str m @ ''m'' else []])"
    unfolding formatUptimeSeconds_def option.case Let_def q t n [OF b(1,2)] nh nm using assms(1) by (simp split del: if_split)
  also have "\<dots> = join '' '' ((if d = 0 then [] else [int_str d @ ''d'']) @ (if h = 0 then [] else [int_str h @ ''h'']) @
       (if m = 0 \<and> \<not> (d = 0 \<and> h = 0) then [] else [int_str m @ ''m'']))"
    by simp
  finally have "formatUptimeSeconds (Some (num_of_int v)) = join '' ''
      ((if d = 0 then [] else [int_str d @ ''d'']) @ (if h = 0 then [] else [int_str h @ ''h'']) @
       (if m = 0 \<and> \<not> (d = 0 \<and> h = 0) then [] else [int_str m @ ''m'']))" .
  with v b show ?thesis unfolding Let_def d_def [symmetric] h_def [symmetric] m_def [symmetric] by blast
qed

end
