(* ===== verification/ConnectionSection.thy ===== *)
theory ConnectionSection
  imports SessionsPage ConnectivityForms AssetForms
begin

text \<open>
  The connection profile of an asset, \<open>ConnectionSection\<close> of \<open>src/web/src/features/cmdb/AssetsPage.tsx\<close> with its
  form: loading a profile, the payload, the protocol switch, validation, and the section as a machine
  over editing, saving and changes of the shown asset.
\<close>

section \<open>The form\<close>

record ConnectionFormState =
  cf_authType :: string
  cf_bastionEnabled :: bool
  cf_database :: string
  cf_host :: string
  cf_passphrase :: string
  cf_password :: string
  cf_port :: string
  cf_privateKey :: string
  cf_protocol :: string
  cf_proxyID :: string
  cf_username :: string

definition defaultConnectionPort :: "string \<Rightarrow> int" where
  "defaultConnectionPort protocol = (if protocol = ''postgres'' then 5432 else if protocol = ''rdp'' then 3389 else 22)"

definition connectionFormFromProfile :: "AssetConnectionProfile option \<Rightarrow> Asset \<Rightarrow> ConnectionFormState" where
  "connectionFormFromProfile profile asset =
    (let text = (\<lambda>get. opt_or (map_option get profile) []);
         protocol = or_else (text conn_protocol) ''ssh''
     in \<lparr>cf_authType = or_else (text conn_auth_type) ''password'',
         cf_bastionEnabled = (case profile of Some p \<Rightarrow> conn_bastion_enabled p | None \<Rightarrow> True),
         cf_database = (case profile of Some p \<Rightarrow> opt_or (conn_database p) [] | None \<Rightarrow> []),
         cf_host = or_else (text conn_host) (opt_or (asset_private_ip asset) (opt_or (asset_public_ip asset) (opt_or (asset_private_dns asset) []))),
         cf_passphrase = [], cf_password = [],
         cf_port = int_str (case profile of Some p \<Rightarrow> if conn_port p \<noteq> 0 then conn_port p else defaultConnectionPort protocol
           | None \<Rightarrow> defaultConnectionPort protocol),
         cf_privateKey = [], cf_protocol = protocol,
         cf_proxyID = (case profile of Some p \<Rightarrow> opt_or (conn_proxy_id p) [] | None \<Rightarrow> []),
         cf_username = text conn_username\<rparr>)"

text \<open>A secret is added to a payload when it is typed and belongs to the authentication type.\<close>

definition add_secrets :: "string \<Rightarrow> ConnectionFormState \<Rightarrow> UpdateAssetConnectionProfilePayload \<Rightarrow> UpdateAssetConnectionProfilePayload" where
  "add_secrets authType form payload =
    (let p1 = (if authType = ''password'' \<and> cf_password form \<noteq> [] then payload\<lparr>connupd_password := Some (cf_password form)\<rparr> else payload)
     in if authType = ''key'' then
          (let p2 = (if cf_privateKey form \<noteq> [] then p1\<lparr>connupd_private_key := Some (cf_privateKey form)\<rparr> else p1)
           in if cf_passphrase form \<noteq> [] then p2\<lparr>connupd_passphrase := Some (cf_passphrase form)\<rparr> else p2)
        else p1)"

definition connectionFormToPayload :: "ConnectionFormState \<Rightarrow> UpdateAssetConnectionProfilePayload" where
  "connectionFormToPayload form =
    (let protocol = or_else (cf_protocol form) ''ssh'';
         authType = (if protocol = ''postgres'' \<or> protocol = ''rdp'' then ''password'' else or_else (cf_authType form) ''password'');
         payload = \<lparr>connupd_auth_type = authType, connupd_bastion_enabled = cf_bastionEnabled form,
           connupd_database = Some (if protocol = ''postgres'' then trim (cf_database form) else []),
           connupd_host = trim (cf_host form), connupd_passphrase = None, connupd_password = None,
           connupd_port = (if num_truthy (Number (cf_port form)) then Number (cf_port form) else num_of_int (defaultConnectionPort protocol)),
           connupd_private_key = None, connupd_protocol = protocol, connupd_proxy_id = Some (trim (cf_proxyID form)),
           connupd_username = trim (cf_username form)\<rparr>
     in add_secrets authType form payload)"

definition updateProtocol :: "string \<Rightarrow> ConnectionFormState \<Rightarrow> ConnectionFormState" where
  "updateProtocol protocol form = form\<lparr>
     cf_authType := (if protocol = ''postgres'' \<or> protocol = ''rdp'' then ''password'' else or_else (cf_authType form) ''password''),
     cf_database := (if protocol = ''postgres'' then cf_database form else []),
     cf_port := int_str (defaultConnectionPort protocol), cf_protocol := protocol\<rparr>"

definition isPasswordOnlyProtocol :: "ConnectionFormState \<Rightarrow> bool" where
  "isPasswordOnlyProtocol form = (cf_protocol form = ''postgres'' \<or> cf_protocol form = ''rdp'')"

definition credentialLabels :: "AssetConnectionProfile \<Rightarrow> string list" where
  "credentialLabels profile = filter (\<lambda>t. t \<noteq> [])
     [if conn_has_password profile then ''password'' else [], if conn_has_private_key profile then ''private key'' else [],
      if conn_has_passphrase profile then ''passphrase'' else []]"

section \<open>The section\<close>

record conn_section =
  cs_editing :: bool
  cs_form :: ConnectionFormState
  cs_validationError :: string

definition section_mount :: "AssetConnectionProfile option \<Rightarrow> Asset \<Rightarrow> conn_section" where
  "section_mount profile asset = \<lparr>cs_editing = False, cs_form = connectionFormFromProfile profile asset, cs_validationError = []\<rparr>"

text \<open>The effect on the asset, the profile's asset and its time of change.\<close>

definition section_effect :: "AssetConnectionProfile option \<Rightarrow> Asset \<Rightarrow> conn_section \<Rightarrow> conn_section" where
  "section_effect profile asset s = s\<lparr>cs_form := connectionFormFromProfile profile asset, cs_validationError := [], cs_editing := False\<rparr>"

definition section_toggle :: "AssetConnectionProfile option \<Rightarrow> Asset \<Rightarrow> conn_section \<Rightarrow> conn_section" where
  "section_toggle profile asset s = s\<lparr>cs_form := connectionFormFromProfile profile asset, cs_validationError := [],
     cs_editing := \<not> cs_editing s\<rparr>"

definition section_cancel :: "AssetConnectionProfile option \<Rightarrow> Asset \<Rightarrow> conn_section \<Rightarrow> conn_section" where
  "section_cancel profile asset s = s\<lparr>cs_form := connectionFormFromProfile profile asset, cs_validationError := [], cs_editing := False\<rparr>"

definition section_updateForm :: "(ConnectionFormState \<Rightarrow> ConnectionFormState) \<Rightarrow> conn_section \<Rightarrow> conn_section" where
  "section_updateForm f s = s\<lparr>cs_form := f (cs_form s)\<rparr>"

definition submitConnection :: "conn_section \<Rightarrow> conn_section \<times> UpdateAssetConnectionProfilePayload option" where
  "submitConnection s =
    (let payload = connectionFormToPayload (cs_form s) in
     if connupd_host payload = [] then (s\<lparr>cs_validationError := ''Host is required.''\<rparr>, None)
     else if connupd_username payload = [] then (s\<lparr>cs_validationError := ''Username is required.''\<rparr>, None)
     else if (case connupd_port payload of Fin q \<Rightarrow> q \<le> 0 | _ \<Rightarrow> True)
     then (s\<lparr>cs_validationError := ''Port must be a positive number.''\<rparr>, None)
     else (s\<lparr>cs_validationError := []\<rparr>, Some payload))"

text \<open>The answer of the save: the form shows the saved profile; after a failure it stays open.\<close>

definition connection_saved :: "Asset \<Rightarrow> call_error + AssetConnectionProfile \<Rightarrow> conn_section \<Rightarrow> conn_section" where
  "connection_saved asset r s = (case r of
     Inr saved \<Rightarrow> s\<lparr>cs_form := connectionFormFromProfile (Some saved) asset, cs_editing := False\<rparr>
   | Inl _ \<Rightarrow> s)"

datatype section_event =
    AssetShown "AssetConnectionProfile option" Asset
  | EditToggled "AssetConnectionProfile option" Asset
  | EditCancelled "AssetConnectionProfile option" Asset
  | FieldTyped "ConnectionFormState \<Rightarrow> ConnectionFormState"
  | ProtocolChosen string
  | ConnectionSubmitted
  | ConnectionSaved Asset "call_error + AssetConnectionProfile"

text \<open>The fields are on the page only while editing.\<close>

fun section_step :: "section_event \<Rightarrow> conn_section \<Rightarrow> conn_section" where
  "section_step (AssetShown p a) s = section_effect p a s"
| "section_step (EditToggled p a) s = section_toggle p a s"
| "section_step (EditCancelled p a) s = (if cs_editing s then section_cancel p a s else s)"
| "section_step (FieldTyped f) s = (if cs_editing s then section_updateForm f s else s)"
| "section_step (ProtocolChosen pr) s = (if cs_editing s then section_updateForm (updateProtocol pr) s else s)"
| "section_step ConnectionSubmitted s = (if cs_editing s then fst (submitConnection s) else s)"
| "section_step (ConnectionSaved a r) s = connection_saved a r s"

section \<open>Facts\<close>

lemma add_secrets_fields [simp]:
  "connupd_auth_type (add_secrets a f p) = connupd_auth_type p" "connupd_bastion_enabled (add_secrets a f p) = connupd_bastion_enabled p"
  "connupd_database (add_secrets a f p) = connupd_database p" "connupd_host (add_secrets a f p) = connupd_host p"
  "connupd_port (add_secrets a f p) = connupd_port p" "connupd_protocol (add_secrets a f p) = connupd_protocol p"
  "connupd_proxy_id (add_secrets a f p) = connupd_proxy_id p" "connupd_username (add_secrets a f p) = connupd_username p"
  "connupd_password (add_secrets a f p) = (if a = ''password'' \<and> cf_password f \<noteq> [] then Some (cf_password f) else connupd_password p)"
  "connupd_private_key (add_secrets a f p) = (if a = ''key'' \<and> cf_privateKey f \<noteq> [] then Some (cf_privateKey f) else connupd_private_key p)"
  "connupd_passphrase (add_secrets a f p) = (if a = ''key'' \<and> cf_passphrase f \<noteq> [] then Some (cf_passphrase f) else connupd_passphrase p)"
  by (simp_all add: add_secrets_def Let_def)

lemma connection_payload_fields:
  "connupd_protocol (connectionFormToPayload f) = or_else (cf_protocol f) ''ssh''"
  "connupd_host (connectionFormToPayload f) = trim (cf_host f)"
  "connupd_username (connectionFormToPayload f) = trim (cf_username f)"
  "connupd_database (connectionFormToPayload f) = Some (if or_else (cf_protocol f) ''ssh'' = ''postgres'' then trim (cf_database f) else [])"
  "connupd_proxy_id (connectionFormToPayload f) = Some (trim (cf_proxyID f))"
  "connupd_bastion_enabled (connectionFormToPayload f) = cf_bastionEnabled f"
  "connupd_auth_type (connectionFormToPayload f) =
     (if or_else (cf_protocol f) ''ssh'' \<in> {''postgres'', ''rdp''} then ''password'' else or_else (cf_authType f) ''password'')"
  "connupd_port (connectionFormToPayload f) = (if num_truthy (Number (cf_port f)) then Number (cf_port f)
     else num_of_int (defaultConnectionPort (or_else (cf_protocol f) ''ssh'')))"
  by (simp_all add: connectionFormToPayload_def Let_def)

lemma connection_payload_secrets:
  "connupd_password (connectionFormToPayload f) =
     (if connupd_auth_type (connectionFormToPayload f) = ''password'' \<and> cf_password f \<noteq> [] then Some (cf_password f) else None)"
  "connupd_private_key (connectionFormToPayload f) =
     (if connupd_auth_type (connectionFormToPayload f) = ''key'' \<and> cf_privateKey f \<noteq> [] then Some (cf_privateKey f) else None)"
  "connupd_passphrase (connectionFormToPayload f) =
     (if connupd_auth_type (connectionFormToPayload f) = ''key'' \<and> cf_passphrase f \<noteq> [] then Some (cf_passphrase f) else None)"
  by (simp_all add: connectionFormToPayload_def Let_def cong: if_cong split del: if_split)

definition blank_secrets :: "ConnectionFormState \<Rightarrow> bool" where
  "blank_secrets f = (cf_password f = [] \<and> cf_privateKey f = [] \<and> cf_passphrase f = [])"

lemma loaded_blank: "blank_secrets (connectionFormFromProfile p a)"
  by (simp add: blank_secrets_def connectionFormFromProfile_def Let_def)

section \<open>Properties\<close>

text \<open>A stored profile of a protocol the form offers, with texts the form shows unchanged.\<close>

definition clean_profile :: "AssetConnectionProfile \<Rightarrow> bool" where
  "clean_profile p = (conn_protocol p \<in> {''ssh'', ''rdp'', ''postgres''} \<and>
     (conn_auth_type p = ''password'' \<or> conn_auth_type p = ''key'' \<and> conn_protocol p = ''ssh'') \<and>
     conn_host p \<noteq> [] \<and> trimmed_text (conn_host p) \<and> conn_username p \<noteq> [] \<and> trimmed_text (conn_username p) \<and>
     clean (conn_database p) \<and> clean (conn_proxy_id p) \<and> 0 < conn_port p \<and> conn_port p \<le> 65535)"


definition sample_connection :: "string \<Rightarrow> AssetConnectionProfile" where
  "sample_connection protocol = \<lparr>conn_asset_id = ''a1'', conn_auth_type = ''password'', conn_bastion_enabled = True, conn_created_at = [],
     conn_database = Some ''orders'', conn_has_passphrase = False, conn_has_password = True, conn_has_private_key = False,
     conn_host = ''db1'', conn_last_probe_at = None, conn_last_probe_error = None, conn_last_probe_status = None, conn_port = 3306,
     conn_protocol = protocol, conn_proxy_id = None, conn_proxy_name = None, conn_proxy_zone = None, conn_updated_at = [],
     conn_username = ''app''\<rparr>"


text \<open>
  C9: Credentials stay with the section they were typed in. In every state the section can be in, a form that is not being
  edited holds no typed credential, and showing an asset, opening the form or saving discards what
  was typed before; so what a submit sends was typed since the form was opened for the shown profile,
  and only the credentials of the chosen authentication type are sent.
\<close>

theorem typed_credentials_stay:
  "(let s = fold section_step evs (section_mount p a) in
     (\<not> cs_editing s \<longrightarrow> blank_secrets (cs_form s)) \<and>
     blank_secrets (cs_form (section_step (AssetShown p' a') s)) \<and> \<not> cs_editing (section_step (AssetShown p' a') s) \<and>
     cs_form (section_step (EditToggled p' a') s) = connectionFormFromProfile p' a' \<and>
     blank_secrets (cs_form (section_step (ConnectionSaved a' (Inr saved)) s)) \<and>
     cs_form (section_step (ConnectionSaved a' (Inl e)) s) = cs_form s) \<and>
   (let payload = connectionFormToPayload f in
     (connupd_auth_type payload = ''password'' \<longrightarrow> connupd_private_key payload = None \<and> connupd_passphrase payload = None) \<and>
     (connupd_auth_type payload = ''key'' \<longrightarrow> connupd_password payload = None) \<and>
     (connupd_protocol payload \<in> {''postgres'', ''rdp''} \<longrightarrow> connupd_auth_type payload = ''password''))"
proof -
  have step: "\<not> cs_editing (section_step ev s) \<longrightarrow> blank_secrets (cs_form (section_step ev s))"
    if "\<not> cs_editing s \<longrightarrow> blank_secrets (cs_form s)" for ev s
    using that
    by (cases ev) (auto simp: section_effect_def section_toggle_def section_cancel_def section_updateForm_def submitConnection_def
        connection_saved_def Let_def loaded_blank split: sum.splits)
  have "\<not> cs_editing (fold section_step evs s) \<longrightarrow> blank_secrets (cs_form (fold section_step evs s))"
    if "\<not> cs_editing s \<longrightarrow> blank_secrets (cs_form s)" for s
    using that step by (induction evs arbitrary: s) auto
  then have "\<not> cs_editing (fold section_step evs (section_mount p a)) \<longrightarrow> blank_secrets (cs_form (fold section_step evs (section_mount p a)))"
    by (simp add: section_mount_def loaded_blank)
  then show ?thesis
    by (auto simp: Let_def section_effect_def section_toggle_def connection_saved_def loaded_blank connection_payload_secrets
        connection_payload_fields(1,7))
qed

theorem typed_credentials_stay_witness:
  "blank_secrets (cs_form (fold section_step [EditToggled None sample_stored_asset, FieldTyped (cf_password_update (\<lambda>_. ''x'')),
     EditCancelled None sample_stored_asset] (section_mount None sample_stored_asset)))"
  using typed_credentials_stay [of "[EditToggled None sample_stored_asset, FieldTyped (cf_password_update (\<lambda>_. ''x'')),
     EditCancelled None sample_stored_asset]" None sample_stored_asset]
  by (simp add: Let_def section_toggle_def section_updateForm_def section_cancel_def section_mount_def loaded_blank)

text \<open>
  Which ports are accepted: a typed port that is not a number, or zero, is replaced by the default of the protocol
  without a message; the message about ports appears exactly for negative and infinite numbers, once
  host and user name are given. An accepted profile has a positive port.
\<close>

theorem connection_port_rules:
  assumes "trim (cf_host (cs_form s)) \<noteq> []" "trim (cf_username (cs_form s)) \<noteq> []"
  shows "case Number (cf_port (cs_form s)) of
      Fin q \<Rightarrow> (if q < 0 then snd (submitConnection s) = None \<and> cs_validationError (fst (submitConnection s)) = ''Port must be a positive number.''
        else map_option connupd_port (snd (submitConnection s)) =
          Some (if q = 0 then num_of_int (defaultConnectionPort (or_else (cf_protocol (cs_form s)) ''ssh'')) else Fin q))
    | NaN \<Rightarrow> map_option connupd_port (snd (submitConnection s)) = Some (num_of_int (defaultConnectionPort (or_else (cf_protocol (cs_form s)) ''ssh'')))
    | _ \<Rightarrow> snd (submitConnection s) = None"
  using assms
  by (auto simp: submitConnection_def Let_def connection_payload_fields defaultConnectionPort_def split: jsnum.splits)

theorem connection_port_rules_witness:
  "map_option connupd_port (snd (submitConnection \<lparr>cs_editing = True, cs_form = (connectionFormFromProfile (Some (sample_connection ''rdp'')) sample_stored_asset)
     \<lparr>cf_port := ''0''\<rparr>, cs_validationError = []\<rparr>)) = Some (num_of_int 3389)"
proof -
  have "Number ''0'' = Fin 0" by code_simp
  then show ?thesis
    using connection_port_rules [of "\<lparr>cs_editing = True, cs_form = (connectionFormFromProfile (Some (sample_connection ''rdp'')) sample_stored_asset)
     \<lparr>cf_port := ''0''\<rparr>, cs_validationError = []\<rparr>"]
    by (simp add: connectionFormFromProfile_def sample_connection_def Let_def or_else_def defaultConnectionPort_def trim_def is_ws_def)
qed

text \<open>
  Editing a MySQL or Redis profile drops its database: these protocols are launched by the sessions page like
  PostgreSQL, but the form sends the database only for PostgreSQL, and the payload of an untouched
  form overwrites the stored database with the empty text.
\<close>

theorem edit_drops_database:
  assumes "isDbProtocol (conn_protocol p) \<noteq> None" "conn_protocol p \<noteq> ''postgres''"
  shows "connupd_database (connectionFormToPayload (connectionFormFromProfile (Some p) asset)) = Some [] \<and>
    connupd_protocol (connectionFormToPayload (connectionFormFromProfile (Some p) asset)) = conn_protocol p \<and>
    cf_database (connectionFormFromProfile (Some p) asset) = opt_or (conn_database p) []"
  using assms by (auto simp: connection_payload_fields connectionFormFromProfile_def Let_def isDbProtocol_def or_else_def)

theorem edit_drops_database_witness:
  "connupd_database (connectionFormToPayload (connectionFormFromProfile (Some (sample_connection ''mysql'')) sample_stored_asset)) = Some [] \<and>
   cf_database (connectionFormFromProfile (Some (sample_connection ''mysql'')) sample_stored_asset) = ''orders''"
  using edit_drops_database [of "sample_connection ''mysql''" sample_stored_asset]
  by (simp add: sample_connection_def isDbProtocol_def or_else_def)

end
