(* ===== verification/QueryCache.thy ===== *)
theory QueryCache
  imports Prelude
begin

text \<open>
  What the pages use of the query cache of the data-fetching library (\<open>queryClient\<close> of TanStack Query): data under keys,
  written by \<open>setQueryData\<close>, marked as stale by \<open>invalidateQueries\<close> and dropped by \<open>removeQueries\<close>, both
  of which apply to every key with the given prefix. An entry is its value and whether it is fresh.
\<close>

type_synonym query_key = "string list"

datatype 'v cache_effect = SetQueryData query_key 'v | InvalidateQueries query_key | RemoveQueries query_key

type_synonym 'v query_cache = "query_key \<Rightarrow> ('v \<times> bool) option"

definition key_matches :: "query_key \<Rightarrow> query_key \<Rightarrow> bool" where
  "key_matches pre key = (take (length pre) key = pre)"

fun apply_effect :: "'v cache_effect \<Rightarrow> 'v query_cache \<Rightarrow> 'v query_cache" where
  "apply_effect (SetQueryData k v) c = c(k \<mapsto> (v, True))"
| "apply_effect (InvalidateQueries pre) c = (\<lambda>k. if key_matches pre k then map_option (\<lambda>(v, _). (v, False)) (c k) else c k)"
| "apply_effect (RemoveQueries pre) c = (\<lambda>k. if key_matches pre k then None else c k)"

definition apply_effects :: "'v cache_effect list \<Rightarrow> 'v query_cache \<Rightarrow> 'v query_cache" where
  "apply_effects effs c = fold apply_effect effs c"

definition cached_data :: "'v query_cache \<Rightarrow> query_key \<Rightarrow> 'v option" where
  "cached_data c k = map_option fst (c k)"

text \<open>The keys a list of effects makes the pages fetch again.\<close>

fun refetches :: "'v cache_effect list \<Rightarrow> query_key \<Rightarrow> bool" where
  "refetches [] k = False"
| "refetches (InvalidateQueries pre # effs) k = (key_matches pre k \<or> refetches effs k)"
| "refetches (_ # effs) k = refetches effs k"

lemma apply_effects_simps [simp]: "apply_effects [] c = c" "apply_effects (e # es) c = apply_effects es (apply_effect e c)"
  by (simp_all add: apply_effects_def)

lemma cached_data_effect [simp]:
  "cached_data (apply_effect (SetQueryData k v) c) k' = (if k' = k then Some v else cached_data c k')"
  "cached_data (apply_effect (InvalidateQueries p) c) k' = cached_data c k'"
  "cached_data (apply_effect (RemoveQueries p) c) k' = (if key_matches p k' then None else cached_data c k')"
  by (auto simp: cached_data_def option.map_comp comp_def case_prod_unfold)

declare apply_effect.simps [simp del]

text \<open>
  The contract of a mutation that files its answer in the cache: under the key of the record it was asked for, and
  nowhere else.
\<close>

locale filed_answer =
  fixes effects :: "'r \<Rightarrow> string \<Rightarrow> 'v cache_effect list" and key :: "string \<Rightarrow> query_key" and filed :: "'r \<Rightarrow> 'v"
  assumes files_own: "cached_data (apply_effects (effects r i) c) (key i) = Some (filed r)"
    and keeps_other: "k \<noteq> key i \<Longrightarrow> cached_data (apply_effects (effects r i) c) k = cached_data c k"
    and key_inj: "key i = key j \<longleftrightarrow> i = j"
begin

text \<open>In whatever order answers for different records arrive, each record has its own latest answer.\<close>

lemma answers_filed:
  "cached_data (fold (\<lambda>(r, i). apply_effects (effects r i)) answers c) (key j) =
     (case filter (\<lambda>(r, i). i = j) answers of [] \<Rightarrow> cached_data c (key j) | own \<Rightarrow> Some (filed (fst (List.last own))))"
proof (induction answers arbitrary: c)
  case (Cons x answers)
  obtain r i where x: "x = (r, i)" by (cases x)
  show ?case
  proof (cases "i = j")
    case True
    then show ?thesis
      using Cons.IH [of "apply_effects (effects r i) c"] x files_own [of r j c]
      by (auto split: list.splits)
  next
    case False
    then have "key j \<noteq> key i" by (simp add: key_inj)
    then show ?thesis using Cons.IH [of "apply_effects (effects r i) c"] x False keeps_other [of "key j" i r c] by (simp split: list.splits)
  qed
qed simp

end

end
