(* ===== verification/AssetsPage.thy ===== *)
theory AssetsPage
  imports AssetViews ConnectionSection FormDialog QueryCache Preferences ModalFocus
begin

text \<open>
  The asset inventory, \<open>src/web/src/features/cmdb/AssetsPage.tsx\<close> and \<open>src/web/src/features/cmdb/AssetForm.tsx\<close>: filters and paging,
  the list and the tree, the drawer of one asset, the asset form, and the nine mutations with what
  they write into the query cache.
\<close>

section \<open>Filters and requests\<close>

definition pageSize :: int where
  "pageSize = 25"

record AssetFilters =
  fl_env :: string
  fl_includeBastions :: bool
  fl_query :: string
  fl_region :: string
  fl_source :: string
  fl_status :: string
  fl_type :: string

definition initialFilters :: AssetFilters where
  "initialFilters = \<lparr>fl_env = [], fl_includeBastions = False, fl_query = [], fl_region = [], fl_source = [], fl_status = [], fl_type = []\<rparr>"

definition buildAssetListOptions :: "AssetFilters \<Rightarrow> int \<Rightarrow> ListAssetsOptions" where
  "buildAssetListOptions filters offset = no_asset_options\<lparr>assetopt_env := trim_opt (fl_env filters),
     assetopt_isVPCProxy := (if fl_includeBastions filters then None else Some False), assetopt_limit := Some pageSize,
     assetopt_offset := Some offset, assetopt_query := trim_opt (fl_query filters), assetopt_region := trim_opt (fl_region filters),
     assetopt_source := trim_opt (fl_source filters), assetopt_status := trim_opt (fl_status filters),
     assetopt_type := trim_opt (fl_type filters)\<rparr>"

definition treeOptions :: "AssetFilters \<Rightarrow> ListAssetsOptions" where
  "treeOptions filters = (buildAssetListOptions filters 0)\<lparr>assetopt_limit := Some 500\<rparr>"

definition activeFilterCount :: "AssetFilters \<Rightarrow> nat" where
  "activeFilterCount filters = length (filter (\<lambda>t. t \<noteq> []) [fl_env filters, fl_query filters, fl_region filters, fl_source filters,
     fl_status filters, fl_type filters, if fl_includeBastions filters then ''include-bastions'' else []])"

section \<open>State and queries\<close>

datatype DrawerTab = TabSummary | TabConnection | TabProbe | TabRelations | TabMetadata

record assets_page =
  as_filters :: AssetFilters
  as_offset :: int
  as_viewMode :: AssetViewMode
  as_selectedAssetID :: string
  as_activeDrawerTab :: DrawerTab
  as_creating :: bool
  as_editingAsset :: bool
  as_assetFeedback :: "ActionFeedback option"
  as_vpcProxyFeedback :: "ActionFeedback option"
  as_deletingRelationID :: string
  as_storage :: local_storage

definition assets_mount :: "local_storage \<Rightarrow> assets_page" where
  "assets_mount st = \<lparr>as_filters = initialFilters, as_offset = 0, as_viewMode = readAssetViewMode st, as_selectedAssetID = [],
     as_activeDrawerTab = TabSummary, as_creating = False, as_editingAsset = False, as_assetFeedback = None,
     as_vpcProxyFeedback = None, as_deletingRelationID = [], as_storage = st\<rparr>"

definition assets_queries :: "(string \<Rightarrow> bool) \<Rightarrow> string \<Rightarrow> assets_page \<Rightarrow> api_call list" where
  "assets_queries auth_can userID s =
    (let on = auth_can ''cmdb.asset:read'' \<and> userID \<noteq> []; sel = as_selectedAssetID s in enabled_calls
       [(on \<and> as_viewMode s = ListView, listAssets (buildAssetListOptions (as_filters s) (as_offset s))),
        (on \<and> as_viewMode s = TreeView, listAssets (treeOptions (as_filters s))),
        (on, listAssetFacets),
        (on \<and> sel \<noteq> [], getAsset sel),
        (on \<and> sel \<noteq> [], getAssetConnectionProfile sel),
        (on \<and> sel \<noteq> [], getLatestAssetProbe sel),
        (on \<and> sel \<noteq> [], listAssetRelations sel)])"

text \<open>Whether a failed detail query is asked once more.\<close>

definition detail_retry :: "nat \<Rightarrow> call_error \<Rightarrow> bool" where
  "detail_retry failureCount e = (\<not> isNotFound e \<and> failureCount < 1)"

section \<open>The page\<close>

definition connectAsset :: "Asset \<Rightarrow> LaunchProtocol \<Rightarrow> string" where
  "connectAsset asset protocol = ''/sessions'' @ buildLaunchSearch \<lparr>spec_assetID = asset_id asset, spec_protocol = protocol\<rparr>"

definition setViewMode :: "AssetViewMode \<Rightarrow> assets_page \<Rightarrow> assets_page" where
  "setViewMode next s = s\<lparr>as_viewMode := next, as_storage := writeAssetViewMode next (as_storage s)\<rparr>"

text \<open>Selecting another asset runs the effect that leaves the edit mode and drops the proxy line.\<close>

definition select_asset :: "string \<Rightarrow> assets_page \<Rightarrow> assets_page" where
  "select_asset i s = (if i = as_selectedAssetID s then s
     else s\<lparr>as_selectedAssetID := i, as_editingAsset := False, as_vpcProxyFeedback := None\<rparr>)"

definition openAssetDetails :: "Asset \<Rightarrow> assets_page \<Rightarrow> assets_page" where
  "openAssetDetails asset s = select_asset (asset_id asset) (s\<lparr>as_activeDrawerTab := TabSummary\<rparr>)"

definition closeAssetDetail :: "assets_page \<Rightarrow> assets_page" where
  "closeAssetDetail s = select_asset [] s"

definition updateFilter :: "(AssetFilters \<Rightarrow> AssetFilters) \<Rightarrow> assets_page \<Rightarrow> assets_page" where
  "updateFilter f s = s\<lparr>as_filters := f (as_filters s), as_offset := 0\<rparr>"

definition assets_resetFilters :: "assets_page \<Rightarrow> assets_page" where
  "assets_resetFilters s = s\<lparr>as_filters := initialFilters, as_offset := 0\<rparr>"

text \<open>Paging: the two buttons with their conditions, and when the row with them is shown.\<close>

definition canGoPrevious :: "assets_page \<Rightarrow> bool" where
  "canGoPrevious s = (as_offset s > 0)"

definition canGoNext :: "int \<Rightarrow> assets_page \<Rightarrow> bool" where
  "canGoNext tot s = (as_offset s + pageSize < tot)"

definition pagination_shown :: "(string \<Rightarrow> bool) \<Rightarrow> int \<Rightarrow> assets_page \<Rightarrow> bool" where
  "pagination_shown auth_can tot s = (auth_can ''cmdb.asset:read'' \<and> as_viewMode s = ListView \<and> tot > pageSize)"

definition press_previous :: "assets_page \<Rightarrow> assets_page" where
  "press_previous s = (if canGoPrevious s then s\<lparr>as_offset := previousAssetOffset (as_offset s) pageSize\<rparr> else s)"

definition press_next :: "int \<Rightarrow> assets_page \<Rightarrow> assets_page" where
  "press_next tot s = (if canGoNext tot s then s\<lparr>as_offset := nextAssetOffset (as_offset s) pageSize tot\<rparr> else s)"

text \<open>\<open>q\<close> is the query of the current view.\<close>

definition asset_panels :: "(string \<Rightarrow> bool) \<Rightarrow> ListAssetsResponse query \<Rightarrow> AssetFacets query \<Rightarrow> assets_page \<Rightarrow> (PanelStateKind \<times> units) list" where
  "asset_panels auth_can q facets s =
    (let canReadAssets = auth_can ''cmdb.asset:read''; items = (case q_data q of None \<Rightarrow> [] | Some r \<Rightarrow> assets_items r) in
     (if \<not> canReadAssets then [(PanelPermission, u16 ''Permission required: cmdb.asset:read'')] else []) @
     (case q_error q of Some e \<Rightarrow> if canReadAssets then [(PanelError, error_text e)] else [] | None \<Rightarrow> []) @
     (case q_error facets of Some e \<Rightarrow> if canReadAssets then [(PanelError, error_text e)] else [] | None \<Rightarrow> []) @
     (if canReadAssets \<and> q_loading q then [(PanelLoading, u16 ''Loading assets'')] else []) @
     (if canReadAssets \<and> \<not> q_loading q \<and> q_error q = None \<and> items = []
      then [(PanelEmpty, u16 (if activeFilterCount (as_filters s) > 0 then ''No assets match the current filters.'' else ''No assets yet.''))] else []))"

section \<open>Mutations and the query cache\<close>

datatype cached = CachedAsset Asset | CachedProfile AssetConnectionProfile | CachedProbe AssetProbeSnapshot | CachedAssets ListAssetsResponse

abbreviation assets_key :: "string list \<Rightarrow> query_key" where
  "assets_key k \<equiv> [''cmdb'', ''assets''] @ k"

definition detail_key :: "string \<Rightarrow> string \<Rightarrow> query_key" where
  "detail_key userID assetID = assets_key [''detail'', userID, assetID]"

definition connection_key :: "string \<Rightarrow> string \<Rightarrow> query_key" where
  "connection_key userID assetID = assets_key [''connection'', userID, assetID]"

definition probe_key :: "string \<Rightarrow> string \<Rightarrow> query_key" where
  "probe_key userID assetID = assets_key [''probe'', ''latest'', userID, assetID]"

definition relations_key :: "string \<Rightarrow> string \<Rightarrow> query_key" where
  "relations_key userID assetID = assets_key [''relations'', userID, assetID]"

text \<open>The key of a list or tree query ends in its options, here as a text.\<close>

definition list_key :: "string \<Rightarrow> string \<Rightarrow> query_key" where
  "list_key userID opts = assets_key [''list'', userID, opts]"

definition tree_key :: "string \<Rightarrow> string \<Rightarrow> query_key" where
  "tree_key userID opts = assets_key [''tree'', userID, opts]"

definition saveConnection_onSuccess :: "string \<Rightarrow> AssetConnectionProfile \<Rightarrow> string \<Rightarrow> cached cache_effect list" where
  "saveConnection_onSuccess userID profile assetID =
     [SetQueryData (connection_key userID assetID) (CachedProfile profile), InvalidateQueries (connection_key userID assetID)]"

definition testConnection_onSettled :: "string \<Rightarrow> string \<Rightarrow> cached cache_effect list" where
  "testConnection_onSettled userID assetID = (if assetID = [] then [] else [InvalidateQueries (connection_key userID assetID)])"

definition asset_onMutate :: "assets_page \<Rightarrow> assets_page" where
  "asset_onMutate s = s\<lparr>as_assetFeedback := None\<rparr>"

definition asset_onError :: "call_error \<Rightarrow> assets_page \<Rightarrow> assets_page" where
  "asset_onError e s = s\<lparr>as_assetFeedback := error_feedback (error_text e)\<rparr>"

definition createAsset_onSuccess :: "Asset \<Rightarrow> assets_page \<Rightarrow> assets_page" where
  "createAsset_onSuccess asset s = s\<lparr>as_creating := False,
     as_assetFeedback := success_feedback (u16 (''Asset created: '' @ or_else (asset_name asset) (asset_id asset) @ ''.''))\<rparr>"

definition createAsset_invalidates :: "cached cache_effect list" where
  "createAsset_invalidates = [InvalidateQueries (assets_key [''list'']), InvalidateQueries (assets_key [''facets''])]"

text \<open>After the refetches the drawer opens on the new asset.\<close>

definition createAsset_opens :: "Asset \<Rightarrow> assets_page \<Rightarrow> assets_page" where
  "createAsset_opens asset s = select_asset (asset_id asset) (s\<lparr>as_activeDrawerTab := TabSummary, as_editingAsset := False\<rparr>)"

definition updateAsset_onSuccess :: "Asset \<Rightarrow> assets_page \<Rightarrow> assets_page" where
  "updateAsset_onSuccess asset s = s\<lparr>as_editingAsset := False,
     as_assetFeedback := success_feedback (u16 (''Asset updated: '' @ or_else (asset_name asset) (asset_id asset) @ ''.''))\<rparr>"

definition updateAsset_effects :: "string \<Rightarrow> Asset \<Rightarrow> string \<Rightarrow> cached cache_effect list" where
  "updateAsset_effects userID asset assetID =
     [SetQueryData (detail_key userID assetID) (CachedAsset asset), InvalidateQueries (assets_key [''list''])]"

definition deleteAsset_onSuccess :: "assets_page \<Rightarrow> assets_page" where
  "deleteAsset_onSuccess s = (select_asset [] s)\<lparr>as_editingAsset := False, as_assetFeedback := success_feedback (u16 ''Asset deleted.'')\<rparr>"

definition deleteAsset_effects :: "string \<Rightarrow> string \<Rightarrow> cached cache_effect list" where
  "deleteAsset_effects userID assetID = [InvalidateQueries (assets_key [''list'']), InvalidateQueries (assets_key [''facets'']),
     RemoveQueries (detail_key userID assetID)]"

definition runProbe_effects :: "string \<Rightarrow> AssetProbeSnapshot \<Rightarrow> string \<Rightarrow> cached cache_effect list" where
  "runProbe_effects userID probe assetID = SetQueryData (probe_key userID assetID) (CachedProbe probe) #
     (if assetID = [] then [] else [InvalidateQueries (probe_key userID assetID), InvalidateQueries (connection_key userID assetID)])"

definition vpc_onMutate :: "assets_page \<Rightarrow> assets_page" where
  "vpc_onMutate s = s\<lparr>as_vpcProxyFeedback := None\<rparr>"

definition vpc_onError :: "call_error \<Rightarrow> assets_page \<Rightarrow> assets_page" where
  "vpc_onError e s = s\<lparr>as_vpcProxyFeedback := error_feedback (error_text e)\<rparr>"

definition promote_onSuccess :: "PromoteVPCProxyResult \<Rightarrow> assets_page \<Rightarrow> assets_page" where
  "promote_onSuccess result s = s\<lparr>as_vpcProxyFeedback :=
     success_feedback (u16 (''Promoted to SSH proxy: '' @ promsum_name (promres_proxy result) @ ''.''))\<rparr>"

definition promote_effects :: "string \<Rightarrow> PromoteVPCProxyResult \<Rightarrow> string \<Rightarrow> cached cache_effect list" where
  "promote_effects userID result assetID = [SetQueryData (detail_key userID assetID) (CachedAsset (promres_asset result)),
     InvalidateQueries (assets_key [''list'']), InvalidateQueries [''connectivity'']]"

definition demote_onSuccess :: "assets_page \<Rightarrow> assets_page" where
  "demote_onSuccess s = s\<lparr>as_vpcProxyFeedback := success_feedback (u16 ''VPC proxy demoted.'')\<rparr>"

definition demote_effects :: "string \<Rightarrow> string \<Rightarrow> cached cache_effect list" where
  "demote_effects userID assetID = [InvalidateQueries (assets_key [''list'']), InvalidateQueries (detail_key userID assetID),
     InvalidateQueries [''connectivity'']]"

definition deleteRelation_onMutate :: "string \<Rightarrow> assets_page \<Rightarrow> assets_page" where
  "deleteRelation_onMutate relationID s = s\<lparr>as_deletingRelationID := relationID\<rparr>"

definition deleteRelation_onSettled :: "assets_page \<Rightarrow> assets_page" where
  "deleteRelation_onSettled s = s\<lparr>as_deletingRelationID := []\<rparr>"

definition deleteRelation_effects :: "string \<Rightarrow> string \<Rightarrow> cached cache_effect list" where
  "deleteRelation_effects userID assetID = [InvalidateQueries (relations_key userID assetID)]"

section \<open>Confirmed actions\<close>

definition confirmDeleteAsset :: "bool \<Rightarrow> Asset \<Rightarrow> assets_page \<Rightarrow> assets_page \<times> api_call option" where
  "confirmDeleteAsset confirmed asset s =
    (if \<not> confirmed then (s, None) else (asset_onMutate s, Some (deleteAsset (asset_id asset))))"

definition confirmDemoteVPCProxy :: "bool \<Rightarrow> Asset \<Rightarrow> assets_page \<Rightarrow> assets_page \<times> api_call option" where
  "confirmDemoteVPCProxy confirmed asset s =
    (if \<not> confirmed then (s, None) else (vpc_onMutate s, Some (demoteAssetVPCProxy (asset_id asset))))"

definition confirmDeleteRelation :: "bool \<Rightarrow> string \<Rightarrow> AssetRelation \<Rightarrow> assets_page \<Rightarrow> assets_page \<times> api_call option" where
  "confirmDeleteRelation confirmed assetID relation s =
    (if \<not> confirmed then (s, None)
     else (deleteRelation_onMutate (rel_id relation) s, Some (deleteAssetRelation assetID (rel_id relation))))"

definition toggle_creating :: "assets_page \<Rightarrow> assets_page" where
  "toggle_creating s = s\<lparr>as_creating := \<not> as_creating s, as_assetFeedback := None\<rparr>"

definition toggle_editing :: "assets_page \<Rightarrow> assets_page" where
  "toggle_editing s = s\<lparr>as_activeDrawerTab := TabSummary, as_editingAsset := \<not> as_editingAsset s\<rparr>"

section \<open>The asset form\<close>

text \<open>
  The component with the asset it edits, if any: the page hands it the submit actions of that asset.
\<close>

record asset_form =
  fc_mode :: AssetFormMode
  fc_assetID :: string
  fc_form :: AssetFormState
  fc_validationError :: string

definition AssetForm_create :: "asset_form \<Rightarrow> asset_form" where
  "AssetForm_create _ = \<lparr>fc_mode = CreateAsset, fc_assetID = [], fc_form = emptyAssetForm, fc_validationError = []\<rparr>"

definition AssetForm_edit :: "Asset \<Rightarrow> asset_form \<Rightarrow> asset_form" where
  "AssetForm_edit asset _ = \<lparr>fc_mode = EditAsset, fc_assetID = asset_id asset, fc_form = assetToForm asset, fc_validationError = []\<rparr>"

definition updateField :: "(AssetFormState \<Rightarrow> AssetFormState) \<Rightarrow> asset_form \<Rightarrow> asset_form" where
  "updateField f s = s\<lparr>fc_form := f (fc_form s)\<rparr>"

definition handleSubmit :: "asset_form \<Rightarrow> asset_form \<times> api_call option" where
  "handleSubmit s = (let error = validateAssetForm (fc_form s) (fc_mode s); s1 = s\<lparr>fc_validationError := error\<rparr> in
     if error \<noteq> [] then (s1, None)
     else if fc_mode s = CreateAsset then (s1, Some (createAsset (assetFormToCreatePayload (fc_form s))))
     else (s1, Some (updateAsset (fc_assetID s) (assetFormToUpdatePayload (fc_form s)))))"

section \<open>The drawer's keys\<close>

text \<open>The drawer has its own copy of the key handler.\<close>

definition drawer_onKeyDown :: "panel option \<Rightarrow> nat option \<Rightarrow> string \<Rightarrow> bool \<Rightarrow> key_result" where
  "drawer_onKeyDown drawerPanelRef activeElement key shiftKey =
    (if key = ''Escape'' then KeyClose
     else if key \<noteq> ''Tab'' then KeyDefault
     else (case drawerPanelRef of None \<Rightarrow> KeyDefault
       | Some panel \<Rightarrow>
           (let candidates = focusableElements (pn_elements panel) in
            if candidates = [] then KeyFocus (pn_id panel)
            else if shiftKey then
              (if activeElement = Some (hd candidates) \<or> \<not> panel_contains panel activeElement
               then KeyFocus (List.last candidates) else KeyDefault)
            else if activeElement = Some (List.last candidates) then KeyFocus (hd candidates) else KeyDefault)))"

section \<open>Contracts\<close>

lemma key_cases [simp]:
  "detail_key u i = detail_key u j \<longleftrightarrow> i = j" "connection_key u i = connection_key u j \<longleftrightarrow> i = j" "probe_key u i = probe_key u j \<longleftrightarrow> i = j"
  by (simp_all add: detail_key_def connection_key_def probe_key_def)

interpretation saved_profile: filed_answer "saveConnection_onSuccess u" "connection_key u" CachedProfile for u
  by unfold_locales (simp_all add: saveConnection_onSuccess_def)

interpretation updated_asset: filed_answer "updateAsset_effects u" "detail_key u" CachedAsset for u
  by unfold_locales (simp_all add: updateAsset_effects_def)

interpretation promoted_asset: filed_answer "promote_effects u" "detail_key u" "\<lambda>r. CachedAsset (promres_asset r)" for u
  by unfold_locales (simp_all add: promote_effects_def)

interpretation probed_asset: filed_answer "runProbe_effects u" "probe_key u" CachedProbe for u
  by unfold_locales (auto simp: runProbe_effects_def)

definition asset_rest :: "assets_page \<Rightarrow> assets_page" where
  "asset_rest s = s\<lparr>as_assetFeedback := None\<rparr>"

definition vpc_rest :: "assets_page \<Rightarrow> assets_page" where
  "vpc_rest s = s\<lparr>as_vpcProxyFeedback := None\<rparr>"

lemmas asset_mutation_defs = asset_onMutate_def asset_onError_def createAsset_onSuccess_def updateAsset_onSuccess_def
  deleteAsset_onSuccess_def asset_rest_def vpc_onMutate_def vpc_onError_def promote_onSuccess_def demote_onSuccess_def vpc_rest_def

interpretation create_asset: mutation asset_onMutate createAsset_onSuccess asset_onError as_assetFeedback error_text asset_rest
  by unfold_locales (simp_all add: asset_mutation_defs)

interpretation update_asset: mutation asset_onMutate updateAsset_onSuccess asset_onError as_assetFeedback error_text asset_rest
  by unfold_locales (simp_all add: asset_mutation_defs)

interpretation delete_asset: mutation asset_onMutate "\<lambda>_::unit. deleteAsset_onSuccess" asset_onError as_assetFeedback error_text asset_rest
  by unfold_locales (simp_all add: asset_mutation_defs)

interpretation promote_asset: mutation vpc_onMutate promote_onSuccess vpc_onError as_vpcProxyFeedback error_text vpc_rest
  by unfold_locales (simp_all add: asset_mutation_defs)

interpretation demote_asset: mutation vpc_onMutate "\<lambda>_::unit. demote_onSuccess" vpc_onError as_vpcProxyFeedback error_text vpc_rest
  by unfold_locales (simp_all add: asset_mutation_defs)

interpretation assets: gated_page assets_queries "[''cmdb.asset:read'']"
  by unfold_locales (simp_all add: assets_queries_def Let_def)

definition form_editing :: "asset_form \<Rightarrow> string option" where
  "form_editing s = (if fc_mode s = CreateAsset then None else Some (fc_assetID s))"

interpretation asset_dialog: form_dialog AssetForm_create AssetForm_edit updateField handleSubmit fc_form form_editing
  fc_validationError emptyAssetForm assetToForm asset_id
  "\<lambda>f. validateAssetForm f CreateAsset" "\<lambda>f. validateAssetForm f EditAsset"
  "\<lambda>f. createAsset (assetFormToCreatePayload f)" "\<lambda>i f. updateAsset i (assetFormToUpdatePayload f)"
proof unfold_locales
  fix s i
  show "form_editing s = Some i \<Longrightarrow> i \<noteq> [] \<Longrightarrow> fc_validationError (fst (handleSubmit s)) = validateAssetForm (fc_form s) EditAsset \<and>
     snd (handleSubmit s) = (if validateAssetForm (fc_form s) EditAsset = []
       then Some (updateAsset i (assetFormToUpdatePayload (fc_form s))) else None)"
    by (cases "fc_mode s") (auto simp: handleSubmit_def form_editing_def Let_def split: if_splits)
  show "form_editing s = None \<Longrightarrow> fc_validationError (fst (handleSubmit s)) = validateAssetForm (fc_form s) CreateAsset \<and>
     snd (handleSubmit s) = (if validateAssetForm (fc_form s) CreateAsset = []
       then Some (createAsset (assetFormToCreatePayload (fc_form s))) else None)"
    by (auto simp: handleSubmit_def form_editing_def Let_def split: if_splits)
qed (simp_all add: AssetForm_create_def AssetForm_edit_def updateField_def form_editing_def handleSubmit_def Let_def)

section \<open>Properties\<close>


text \<open>
  Saving the asset form changes the asset it was opened for. With any edits, also after a complaint was corrected, the
  accepted form is sent to the asset in the drawer, a form opened for a new asset creates one, and an
  accepted form has a name.
\<close>

theorem asset_form_targets_asset:
  assumes "asset_id a \<noteq> []"
  shows "let s = fold updateField fs (AssetForm_edit a s0); form = fold (\<lambda>f. f) fs (assetToForm a); form' = fold (\<lambda>f. f) (fs @ gs) (assetToForm a);
      new = fold (\<lambda>f. f) fs emptyAssetForm in
    snd (handleSubmit s) = (if trim (af_name form) = [] then None else Some (updateAsset (asset_id a) (assetFormToUpdatePayload form))) \<and>
    snd (handleSubmit (fold updateField gs (fst (handleSubmit s)))) =
      (if trim (af_name form') = [] then None else Some (updateAsset (asset_id a) (assetFormToUpdatePayload form'))) \<and>
    snd (handleSubmit (fold updateField fs (AssetForm_create s0))) =
      (if trim (af_name new) = [] \<or> trim (af_type new) = [] then None else Some (createAsset (assetFormToCreatePayload new)))"
  using asset_dialog.edited_record_saved [OF assms, of fs s0] asset_dialog.corrected_record_saved [OF assms, of fs s0 gs]
    asset_dialog.new_record_created [of fs s0]
  by (simp add: Let_def validateAssetForm_def trimmed_def)

definition sample_form_state :: asset_form where
  "sample_form_state = \<lparr>fc_mode = CreateAsset, fc_assetID = [], fc_form = emptyAssetForm, fc_validationError = []\<rparr>"

theorem asset_form_targets_asset_witness:
  "snd (handleSubmit (fold updateField [af_name_update (\<lambda>_. ''web'')] (AssetForm_edit sample_stored_asset sample_form_state))) =
     Some (updateAsset (asset_id sample_stored_asset) (assetFormToUpdatePayload ((assetToForm sample_stored_asset)\<lparr>af_name := ''web''\<rparr>)))"
  using asset_form_targets_asset [of sample_stored_asset "[af_name_update (\<lambda>_. ''web'')]" sample_form_state]
  by (simp add: Let_def sample_stored_asset_def trim_def is_ws_def)

text \<open>The drawer's handler traps the Tab key exactly as the dialogs do.\<close>

lemma drawer_keys_like_dialogs: "drawer_onKeyDown = onKeyDown"
  by (intro ext) (simp add: drawer_onKeyDown_def onKeyDown_def)

text \<open>Filters and pages as a machine: the total is the one the list answered with at the time of the press.\<close>

datatype page_action = FilterChanged "AssetFilters \<Rightarrow> AssetFilters" | FiltersReset | PreviousPressed | NextPressed int | ViewChosen AssetViewMode

fun page_action_step :: "page_action \<Rightarrow> assets_page \<Rightarrow> assets_page" where
  "page_action_step (FilterChanged f) s = updateFilter f s"
| "page_action_step FiltersReset s = assets_resetFilters s"
| "page_action_step PreviousPressed s = press_previous s"
| "page_action_step (NextPressed tot) s = press_next tot s"
| "page_action_step (ViewChosen m) s = setViewMode m s"

definition on_grid :: "assets_page \<Rightarrow> bool" where
  "on_grid s = (pageSize dvd as_offset s \<and> 0 \<le> as_offset s)"

lemma on_grid_step: "on_grid s \<Longrightarrow> on_grid (page_action_step ev s)"
proof (cases ev)
  case PreviousPressed
  assume *: "on_grid s"
  then have "as_offset s = 0 \<or> pageSize \<le> as_offset s"
    using zdvd_imp_le [of pageSize "as_offset s"] by (auto simp: on_grid_def pageSize_def)
  then show ?thesis using * PreviousPressed by (auto simp: on_grid_def press_previous_def previousAssetOffset_def max_def)
qed (auto simp: on_grid_def updateFilter_def assets_resetFilters_def press_next_def nextAssetOffset_def setViewMode_def pageSize_def)

lemma on_grid_run: "on_grid (fold page_action_step evs (assets_mount st))"
proof -
  have "on_grid s \<Longrightarrow> on_grid (fold page_action_step evs s)" for s
    by (induction evs arbitrary: s) (simp_all add: on_grid_step)
  then show ?thesis by (simp add: on_grid_def assets_mount_def)
qed

text \<open>
  C32: The list request says what the page shows. However filters, pages and views were used, the request of the list has
  the chosen filters trimmed and nothing for an empty one, leaves VPC proxies out unless they are
  included, and asks for one page at an offset that is a whole number of pages; changing a filter
  goes back to the first page, and the chosen view is the one a reload starts with when the browser
  stores it.
\<close>

theorem asset_list_request:
  "let s = fold page_action_step evs (assets_mount st); opts = buildAssetListOptions (as_filters s) (as_offset s) in
    (\<exists>ps. URLSearchParams (CHR ''?'' # buildAssetsQuery opts) = Some ps \<and>
       params_get ps ''env'' = trim_opt (fl_env (as_filters s)) \<and> params_get ps ''q'' = trim_opt (fl_query (as_filters s)) \<and>
       params_get ps ''region'' = trim_opt (fl_region (as_filters s)) \<and> params_get ps ''source'' = trim_opt (fl_source (as_filters s)) \<and>
       params_get ps ''status'' = trim_opt (fl_status (as_filters s)) \<and> params_get ps ''type'' = trim_opt (fl_type (as_filters s)) \<and>
       params_get ps ''is_vpc_proxy'' = (if fl_includeBastions (as_filters s) then None else Some ''false'') \<and>
       params_get ps ''limit'' = Some (int_str 25) \<and> params_get ps ''offset'' = Some (int_str (as_offset s)) \<and>
       params_get ps ''owner'' = None \<and> params_get ps ''account_id'' = None \<and> params_get ps ''criticality'' = None) \<and>
    25 dvd as_offset s \<and> 0 \<le> as_offset s \<and> as_offset (updateFilter f s) = 0 \<and>
    (usable (as_storage s) \<longrightarrow> as_viewMode (assets_mount (as_storage (setViewMode m s))) = m)"
proof -
  let ?s = "fold page_action_step evs (assets_mount st)"
  have c: "chosen (trim_opt v) = trim_opt v" for v by (simp add: chosen_def trim_opt_def)
  have n: "chosen None = None" by (simp add: chosen_def)
  have "usable (as_storage ?s) \<longrightarrow> as_viewMode (assets_mount (as_storage (setViewMode m ?s))) = m"
    by (simp add: setViewMode_def assets_mount_def view_pref.load_store)
  then show ?thesis
    using on_grid_run [of evs st] assets_query_reads_back [of "buildAssetListOptions (as_filters ?s) (as_offset ?s)"]
    by (auto simp: Let_def on_grid_def buildAssetListOptions_def no_asset_options_def c n pageSize_def updateFilter_def)
qed

theorem asset_list_request_witness:
  "25 dvd as_offset (fold page_action_step [NextPressed 60, NextPressed 60] (assets_mount \<lparr>st_readable = True, st_writable = True, st_items = Map.empty\<rparr>))"
  using asset_list_request [of "[NextPressed 60, NextPressed 60]" "\<lparr>st_readable = True, st_writable = True, st_items = Map.empty\<rparr>"]
  unfolding Let_def by blast

text \<open>
  No asset, relation or proxy registration is removed without a confirmed question: a refused question changes nothing, a
  confirmed one sends exactly the request for the asset and relation in question.
\<close>

theorem asset_removal_confirmed:
  "confirmDeleteAsset ok a s = (if ok then (asset_onMutate s, Some (deleteAsset (asset_id a))) else (s, None)) \<and>
   confirmDemoteVPCProxy ok a s = (if ok then (vpc_onMutate s, Some (demoteAssetVPCProxy (asset_id a))) else (s, None)) \<and>
   confirmDeleteRelation ok i r s = (if ok then (deleteRelation_onMutate (rel_id r) s, Some (deleteAssetRelation i (rel_id r))) else (s, None))"
  by (simp add: confirmDeleteAsset_def confirmDemoteVPCProxy_def confirmDeleteRelation_def)

text \<open>
  Deleting the only row of the last page hides the others. With 26 assets the second page has one row; after it was
  deleted the list answers with a total of 25 and no rows for the unchanged offset, the page says
  that there are no assets yet, and the row with the previous button is not shown any more.
\<close>

theorem last_page_strands:
  assumes "as_offset s = 25" "as_viewMode s = ListView" "as_filters s = initialFilters" "auth_can ''cmdb.asset:read''"
  shows "let s' = deleteAsset_onSuccess s; q = \<lparr>q_loading = False, q_error = None,
        q_data = Some \<lparr>assets_items = [], assets_total = 25, assets_limit = 25, assets_offset = 25\<rparr>\<rparr> in
    as_offset s' = 25 \<and> asset_panels auth_can q facets s' =
      (case q_error facets of Some e \<Rightarrow> [(PanelError, error_text e)] | None \<Rightarrow> []) @ [(PanelEmpty, u16 ''No assets yet.'')] \<and>
    canGoPrevious s' \<and> \<not> pagination_shown auth_can 25 s'"
  using assms
  by (auto simp: Let_def deleteAsset_onSuccess_def select_asset_def asset_panels_def activeFilterCount_def initialFilters_def
      canGoPrevious_def pagination_shown_def pageSize_def split: option.splits)

theorem last_page_strands_witness:
  "\<not> pagination_shown (\<lambda>_. True) 25 (deleteAsset_onSuccess ((assets_mount \<lparr>st_readable = True, st_writable = True, st_items = Map.empty\<rparr>)\<lparr>as_offset := 25\<rparr>))"
  using last_page_strands [of "(assets_mount \<lparr>st_readable = True, st_writable = True, st_items = Map.empty\<rparr>)\<lparr>as_offset := 25\<rparr>" "\<lambda>_. True"]
  by (simp add: Let_def assets_mount_def readAssetViewMode_def getItem_def)

text \<open>
  The tree view keeps showing deleted assets. Creating, changing, deleting, promoting and demoting an asset make the list
  queries fetch again, but never a tree query, so the tree shows the assets as they were until it is
  refreshed by hand.
\<close>

theorem tree_view_goes_stale:
  "list_all (\<lambda>effs. refetches effs (list_key u opts) \<and> \<not> refetches effs (tree_key u opts))
     [createAsset_invalidates, updateAsset_effects u a i, deleteAsset_effects u i, promote_effects u r i, demote_effects u i]"
  by (simp add: key_matches_def list_key_def tree_key_def createAsset_invalidates_def updateAsset_effects_def
      deleteAsset_effects_def promote_effects_def demote_effects_def detail_key_def)

end
