(* ===== verification/Shell.thy ===== *)
theory Shell
  imports PageLib Preferences Basename SessionsLib
begin

text \<open>
  The frame of the portal and its read-only pages: the routes of \<open>src/web/src/app/router.tsx\<close>, the navigation of
  \<open>src/web/src/app/layout/AppShell.tsx\<close>, the theme button, the overview page and the profile page.
\<close>

section \<open>Routes and navigation\<close>

datatype route_target = LoginElement | IndexRedirect string | Page string

text \<open>The paths of the router; the children of the shell are protected.\<close>

definition public_routes :: "(string \<times> route_target) list" where
  "public_routes = [(''/login'', LoginElement)]"

definition shell_routes :: "(string \<times> route_target) list" where
  "shell_routes = [([], IndexRedirect ''/connect''), (''connect'', Page ''ConnectPage''), (''overview'', Page ''OverviewPage''),
     (''cmdb'', Page ''AssetsPage''), (''sessions'', Page ''SessionsRoute''), (''audit'', Page ''AuditPage''), (''access'', Page ''AccessPage''),
     (''connectivity'', Page ''ConnectivityPage''), (''aws'', Page ''AwsPage''), (''iam'', Page ''IamPage''), (''oidc'', Page ''OidcPage''),
     (''profile'', Page ''ProfilePage'')]"

record NavItem =
  nav_to :: string
  nav_label :: string
  nav_badge :: "string option"
  nav_isAlias :: bool
  nav_matchesSearch :: "(search_params \<Rightarrow> bool) option"

abbreviation nav_item :: "string \<Rightarrow> string \<Rightarrow> NavItem" where
  "nav_item to label \<equiv> \<lparr>nav_to = to, nav_label = label, nav_badge = None, nav_isAlias = False, nav_matchesSearch = None\<rparr>"

definition operateNav :: "NavItem list" where
  "operateNav = [nav_item ''/overview'' ''Overview'', (nav_item ''/connect'' ''Connect'')\<lparr>nav_badge := Some ''new''\<rparr>,
     (nav_item ''/sessions'' ''Sessions'')\<lparr>nav_matchesSearch := Some (\<lambda>search. params_get search ''mode'' \<noteq> Some ''audit'')\<rparr>,
     nav_item ''/access'' ''Access'']"

definition inventoryNav :: "NavItem list" where
  "inventoryNav = [nav_item ''/cmdb'' ''CMDB'', nav_item ''/connectivity'' ''Connectivity'']"

definition governNav :: "NavItem list" where
  "governNav = [nav_item ''/iam'' ''IAM'', nav_item ''/audit'' ''Audit'', nav_item ''/aws'' ''AWS'', nav_item ''/oidc'' ''OIDC'']"

definition accountNav :: "NavItem list" where
  "accountNav = [nav_item ''/profile'' ''Profile'']"

text \<open>
  The class of a link; \<open>isActive\<close> is what the router's link component reports for the location.
\<close>

definition nav_class :: "bool \<Rightarrow> search_params \<Rightarrow> NavItem \<Rightarrow> string" where
  "nav_class isActive search item =
    (let matchesSearch = (case nav_matchesSearch item of Some f \<Rightarrow> f search | None \<Rightarrow> True); active = (\<not> nav_isAlias item \<and> isActive \<and> matchesSearch)
     in ''nav-link'' @ (if active then '' active'' else []))"

definition displayName :: "Identity option \<Rightarrow> string" where
  "displayName identity = (case identity of None \<Rightarrow> ''Operator''
   | Some i \<Rightarrow> or_else (usr_name (ident_user i)) (or_else (usr_email (ident_user i)) (or_else (usr_oidc_subject (ident_user i)) ''Operator'')))"

section \<open>The theme button\<close>

definition LABEL :: "ThemeMode \<Rightarrow> string" where
  "LABEL m = (case m of SystemTheme \<Rightarrow> ''System'' | LightTheme \<Rightarrow> ''Light'' | DarkTheme \<Rightarrow> ''Dark'')"

definition ORDER :: "ThemeMode list" where
  "ORDER = [SystemTheme, LightTheme, DarkTheme]"

definition ThemeToggle_title :: "bool option \<Rightarrow> ThemeMode \<Rightarrow> string" where
  "ThemeToggle_title prefers_dark mode =
    (let detail = (if mode = SystemTheme then '' ('' @ ThemeMode_str (useResolvedTheme prefers_dark mode) @ '')'' else []);
         next = ORDER ! nat ((index_of mode ORDER + 1) mod int (length ORDER))
     in ''Theme: '' @ LABEL mode @ detail @ ''. Click for '' @ LABEL next @ ''.'')"

section \<open>The overview page\<close>

definition overview_queries :: "(string \<Rightarrow> bool) \<Rightarrow> string \<Rightarrow> api_call list" where
  "overview_queries auth_can userID =
    (let canReadAssets = auth_can ''cmdb.asset:read''; canReadGrants = auth_can ''bastion.grant:read'';
         canReadRequests = auth_can ''bastion.request:read'' in enabled_calls
     [(True, getHealth),
      (canReadAssets \<and> userID \<noteq> [], listAssets (no_asset_options\<lparr>assetopt_limit := Some 1\<rparr>)),
      (canReadAssets \<and> userID \<noteq> [], listSessions \<lparr>sessopt_assetID = None, sessopt_limit = Some 100, sessopt_offset = None, sessopt_userID = None\<rparr>),
      (canReadGrants \<and> userID \<noteq> [], listMyActiveBastionGrants userID 50),
      (canReadRequests \<and> userID \<noteq> [], listPendingBastionRequests 100)])"

definition refreshAll :: "(string \<Rightarrow> bool) \<Rightarrow> string \<Rightarrow> api_call list" where
  "refreshAll auth_can userID = [getHealth] @
     (if auth_can ''cmdb.asset:read'' then [listAssets (no_asset_options\<lparr>assetopt_limit := Some 1\<rparr>),
        listSessions \<lparr>sessopt_assetID = None, sessopt_limit = Some 100, sessopt_offset = None, sessopt_userID = None\<rparr>] else []) @
     (if auth_can ''bastion.grant:read'' then [listMyActiveBastionGrants userID 50] else []) @
     (if auth_can ''bastion.request:read'' then [listPendingBastionRequests 100] else [])"

definition soonestGrantExpiry :: "BastionGrant list \<Rightarrow> string option" where
  "soonestGrantExpiry grantItems = (case js_sort (map bgrant_expires_at (filter bgrant_active grantItems)) of [] \<Rightarrow> None | t # _ \<Rightarrow> Some t)"

datatype 'a metric = MetricNoAccess | MetricLoading | MetricValue 'a

definition metricValue :: "bool \<Rightarrow> 'q query \<Rightarrow> 'a \<Rightarrow> 'a metric" where
  "metricValue enabled q node = (if \<not> enabled then MetricNoAccess else if q_loading q then MetricLoading else MetricValue node)"

text \<open>The pill of the grants; \<open>parse\<close> is the time of a date text in milliseconds.\<close>

definition grants_pill :: "(string \<Rightarrow> bool) \<Rightarrow> (string \<Rightarrow> int option) \<Rightarrow> int \<Rightarrow> BastionGrant list \<Rightarrow> string" where
  "grants_pill auth_can parse now grantItems =
    (if \<not> auth_can ''bastion.grant:read'' then ''no access''
     else (case soonestGrantExpiry grantItems of
         Some t \<Rightarrow> if t = [] then ''none'' else ''next '' @ formatGrantTimeRemaining (parse t) now
       | None \<Rightarrow> ''none''))"

definition requests_pill :: "(string \<Rightarrow> bool) \<Rightarrow> BastionRequest list query \<Rightarrow> string \<times> bool" where
  "requests_pill auth_can q = (let pendingCount = length (query_items q) in
     if auth_can ''bastion.request:read'' then (if pendingCount > 0 then ''needs review'' else ''clear'', pendingCount = 0)
     else (''no access'', False))"

section \<open>The profile page\<close>

definition profile_heading :: "Identity option \<Rightarrow> string" where
  "profile_heading identity = (case identity of None \<Rightarrow> ''Unknown user''
   | Some i \<Rightarrow> or_else (usr_email (ident_user i)) (or_else (usr_oidc_subject (ident_user i)) ''Unknown user''))"

section \<open>Properties\<close>

text \<open>
  Every page has exactly one link. The links of the four groups are the pages of the shell, each once, the start page is
  one of them, and no link leads to the login; the sessions link is not marked active for the
  address of the old audit view.
\<close>

theorem navigation_covers_routes:
  "let nav = operateNav @ inventoryNav @ governNav @ accountNav; pages = map (\<lambda>(p, _). CHR ''/'' # p) (filter (\<lambda>(p, _). p \<noteq> []) shell_routes) in
    distinct (map nav_to nav) \<and> set (map nav_to nav) = set pages \<and> distinct (map fst shell_routes) \<and>
    (case map_of shell_routes [] of Some (IndexRedirect to) \<Rightarrow> to \<in> set pages | _ \<Rightarrow> False) \<and>
    (\<forall>p\<in>set (map fst public_routes). p \<notin> set (map nav_to nav)) \<and>
    list_all (\<lambda>item. nav_class True [(''mode'', ''audit'')] item = (if nav_to item = ''/sessions'' then ''nav-link'' else ''nav-link active'')) nav"
  by (auto simp: operateNav_def inventoryNav_def governNav_def accountNav_def shell_routes_def public_routes_def nav_class_def Let_def params_get_def)

text \<open>
  The theme button announces what a click does: the mode named in its title is the mode the store has after the click.
\<close>

theorem theme_button_announces:
  "\<exists>t. ThemeToggle_title prefers_dark (snapshot s) =
     t @ ''. Click for '' @ LABEL (snapshot (fst (cycleMode s))) @ ''.''"
  by (cases "snapshot s") (auto simp: ThemeToggle_title_def cycleMode_def snapshot_def ORDER_def index_of_def Let_def)

text \<open>
  A missing permission blanks only its own figure: without a permission a metric shows no access and its query is not
  asked, with it the value or the loading mark; and refreshing asks exactly what the page asks.
\<close>

theorem overview_degrades:
  assumes "userID \<noteq> []"
  shows "refreshAll auth_can userID = overview_queries auth_can userID \<and>
    overview_queries (\<lambda>_. False) userID = [getHealth] \<and> overview_queries auth_can [] = [getHealth] \<and>
    (metricValue (auth_can p) q v = MetricNoAccess \<longleftrightarrow> \<not> auth_can p) \<and>
    (metricValue (auth_can p) q v = MetricValue w \<longrightarrow> w = v \<and> \<not> q_loading q) \<and>
    (grants_pill auth_can parse now gs = ''none'' \<longleftrightarrow> auth_can ''bastion.grant:read'' \<and>
       (soonestGrantExpiry gs = None \<or> soonestGrantExpiry gs = Some [])) \<and>
    (case soonestGrantExpiry gs of None \<Rightarrow> list_all (\<lambda>g. \<not> bgrant_active g) gs
     | Some t \<Rightarrow> (\<exists>g\<in>set gs. bgrant_active g \<and> bgrant_expires_at g = t) \<and> list_all (\<lambda>g. bgrant_active g \<longrightarrow> t \<le> bgrant_expires_at g) gs)"
proof -
  have soon: "case soonestGrantExpiry gs of None \<Rightarrow> list_all (\<lambda>g. \<not> bgrant_active g) gs
     | Some t \<Rightarrow> (\<exists>g\<in>set gs. bgrant_active g \<and> bgrant_expires_at g = t) \<and> list_all (\<lambda>g. bgrant_active g \<longrightarrow> t \<le> bgrant_expires_at g) gs"
  proof (cases "js_sort (map bgrant_expires_at (filter bgrant_active gs))")
    case Nil
    then have "set (map bgrant_expires_at (filter bgrant_active gs)) = {}" by (metis js_sort_facts(2) list.set(1))
    then show ?thesis using Nil by (auto simp: soonestGrantExpiry_def list_all_iff)
  next
    case (Cons t ts)
    have "set (t # ts) = set (map bgrant_expires_at (filter bgrant_active gs))" "sorted (t # ts)"
      using js_sort_facts [of "map bgrant_expires_at (filter bgrant_active gs)"] Cons by metis+
    then have "t \<in> bgrant_expires_at ` {g \<in> set gs. bgrant_active g}" "\<forall>x\<in>bgrant_expires_at ` {g \<in> set gs. bgrant_active g}. t \<le> x"
      by auto
    then show ?thesis using Cons by (auto simp: soonestGrantExpiry_def list_all_iff)
  qed
  have "''next '' @ x \<noteq> ''none''" for x by simp
  then show ?thesis
    using assms soon
    by (auto simp: refreshAll_def overview_queries_def Let_def metricValue_def grants_pill_def split: option.splits if_splits)
qed

end
