(* ===== verification/Router.thy ===== *)
theory Router
  imports Auth Shell
begin

text \<open>
  Following redirects: the elements of \<open>src/web/src/app/router.tsx\<close>, the route guard of \<open>app/layout/ProtectedRoute.tsx\<close> and the
  login page answer some addresses with another address, which is looked up again. \<open>redirect\<close> is one such
  step and \<open>navigate\<close> follows them until something is shown; a chain that goes on for ever is \<open>None\<close>. The router library and
  the browser supply which route a path belongs to and how an address is split and its query read: these are parameters,
  and the locale \<open>routes\<close> says what is relied on.
\<close>

section \<open>Model\<close>

record entry =
  en_location :: location
  en_from :: "location option"

datatype screen = ShowNotFound | ShowLogin | ShowRestoring | ShowPage string

text \<open>
  What the router library and the browser supply: the route a path belongs to, the path and query of a navigation target,
  and the parameters of a query.
\<close>

record router =
  rt_match :: "string \<Rightarrow> route_target option"
  rt_parse :: "string \<Rightarrow> location"
  rt_params :: "string \<Rightarrow> search_params"

abbreviation goto :: "router \<Rightarrow> string \<Rightarrow> entry" where
  "goto R to \<equiv> \<lparr>en_location = rt_parse R to, en_from = None\<rparr>"

definition sessions_element :: "router \<Rightarrow> location \<Rightarrow> screen + entry" where
  "sessions_element R loc = (case SessionsRoute (rt_params R (loc_search loc)) of
     RedirectTo to \<Rightarrow> Inr (goto R to)
   | ShowSessionsPage \<Rightarrow> Inl (ShowPage ''SessionsPage''))"

fun shell_element :: "router \<Rightarrow> location \<Rightarrow> route_target \<Rightarrow> screen + entry" where
  "shell_element R loc (IndexRedirect to) = Inr (goto R to)"
| "shell_element R loc (Page p) = (if p = ''SessionsRoute'' then sessions_element R loc else Inl (ShowPage p))"
| "shell_element R loc LoginElement = Inl ShowLogin"

definition redirect :: "router \<Rightarrow> auth_state \<Rightarrow> entry \<Rightarrow> screen + entry" where
  "redirect R s e = (case rt_match R (loc_pathname (en_location e)) of
     None \<Rightarrow> Inl ShowNotFound
   | Some LoginElement \<Rightarrow> (case LoginPage (en_from e) s of LoginNavigate to \<Rightarrow> Inr (goto R to) | LoginForm \<Rightarrow> Inl ShowLogin)
   | Some t \<Rightarrow> (case ProtectedRoute (en_location e) s of
       RestoringSession \<Rightarrow> Inl ShowRestoring
     | NavigateLogin from \<Rightarrow> Inr \<lparr>en_location = rt_parse R ''/login'', en_from = Some from\<rparr>
     | ProtectedChildren \<Rightarrow> shell_element R (en_location e) t))"

partial_function (option) navigate :: "router \<Rightarrow> auth_state \<Rightarrow> entry \<Rightarrow> screen option" where
  "navigate R s e = (case redirect R s e of Inl v \<Rightarrow> Some v | Inr e' \<Rightarrow> navigate R s e')"

text \<open>The routes as they are written, and the splitting of an address at the first question mark.\<close>

definition written_routes :: "string \<Rightarrow> route_target option" where
  "written_routes path = map_of (public_routes @ map (\<lambda>(p, t). (CHR ''/'' # p, t)) shell_routes) path"

definition split_path :: "string \<Rightarrow> location" where
  "split_path to = \<lparr>loc_pathname = takeWhile (\<lambda>c. c \<noteq> CHR ''?'') to, loc_search = dropWhile (\<lambda>c. c \<noteq> CHR ''?'') to\<rparr>"

definition written_router :: router where
  "written_router = \<lparr>rt_match = written_routes, rt_parse = split_path,
     rt_params = (\<lambda>q. case URLSearchParams q of None \<Rightarrow> [] | Some ps \<Rightarrow> ps)\<rparr>"

section \<open>Redirects end\<close>

text \<open>The path of an address has no query and no hash, its query is empty or starts with a question mark.\<close>

definition plain_location :: "location \<Rightarrow> bool" where
  "plain_location l \<longleftrightarrow> CHR ''?'' \<notin> set (loc_pathname l) \<and> CHR ''#'' \<notin> set (loc_pathname l) \<and>
     (loc_search l = [] \<or> hd (loc_search l) = CHR ''?'') \<and> CHR ''#'' \<notin> set (loc_search l)"

lemma params_str_no_hash: "CHR ''#'' \<notin> set (params_str ps)"
proof -
  have "CHR ''#'' \<notin> set (join ''&'' xs)" if "\<forall>x\<in>set xs. CHR ''#'' \<notin> set x" for xs
    using that by (induction "''&''" xs rule: join.induct) auto
  moreover have "CHR ''#'' \<notin> set (pair_str p)" for p
    using set_form_enc [of "CHR ''#''"] by (auto simp: pair_str_def form_keep_def is_alnum_def)
  ultimately show ?thesis by (simp add: params_str_def)
qed

locale routes =
  fixes R :: router
  assumes login_path: "rt_match R ''/login'' = Some LoginElement"
    and index_path: "rt_match R ''/'' = Some (IndexRedirect ''/connect'')"
    and connect_path: "rt_match R ''/connect'' = Some (Page ''ConnectPage'')"
    and audit_path: "rt_match R ''/audit'' = Some (Page ''AuditPage'')"
    and one_index: "rt_match R p = Some (IndexRedirect to) \<Longrightarrow> to = ''/connect''"
    and parse_location: "plain_location l \<Longrightarrow> rt_parse R (loc_pathname l @ loc_search l) = l"
begin

lemma parse_plain: "CHR ''?'' \<notin> set p \<Longrightarrow> CHR ''#'' \<notin> set p \<Longrightarrow> rt_parse R p = \<lparr>loc_pathname = p, loc_search = []\<rparr>"
  using parse_location [of "\<lparr>loc_pathname = p, loc_search = []\<rparr>"] by (simp add: plain_location_def)

lemma step: "navigate R s e = (case redirect R s e of Inl v \<Rightarrow> Some v | Inr e' \<Rightarrow> navigate R s e')"
  by (rule navigate.simps)

lemma goto_page:
  "au_status s = Authenticated \<Longrightarrow> au_token s \<noteq> [] \<Longrightarrow> navigate R s (goto R ''/connect'') = Some (ShowPage ''ConnectPage'')"
  by (subst step) (simp add: redirect_def parse_plain connect_path ProtectedRoute_def)

lemma goto_audit:
  assumes "au_status s = Authenticated" "au_token s \<noteq> []" "SessionsRoute ps = RedirectTo to"
  shows "\<exists>v. navigate R s (goto R to) = Some v"
proof -
  obtain q where to: "to = ''/audit'' @ q" "q = [] \<or> (\<exists>qs. q = CHR ''?'' # params_str qs)"
    using assms(3) by (auto simp: SessionsRoute_def Let_def split: if_splits)
  then have "plain_location \<lparr>loc_pathname = ''/audit'', loc_search = q\<rparr>" by (auto simp: plain_location_def params_str_no_hash)
  from parse_location [OF this] to have "loc_pathname (rt_parse R to) = ''/audit''" by simp
  then show ?thesis using assms(1,2) by (subst step) (simp add: redirect_def audit_path ProtectedRoute_def)
qed

lemma settles_inside:
  assumes "au_status s = Authenticated" "au_token s \<noteq> []" "rt_match R (loc_pathname (en_location e)) \<noteq> Some LoginElement"
  shows "\<exists>v. navigate R s e = Some v"
proof (cases "rt_match R (loc_pathname (en_location e))")
  case None
  then show ?thesis by (subst step) (simp add: redirect_def)
next
  case (Some t)
  show ?thesis
  proof (cases t)
    case (IndexRedirect to)
    with Some one_index have "t = IndexRedirect ''/connect''" by simp
    with Some assms show ?thesis by (subst step) (simp add: redirect_def ProtectedRoute_def goto_page)
  next
    case (Page p)
    with Some assms goto_audit [OF assms(1,2), of "rt_params R (loc_search (en_location e))"] show ?thesis
      by (subst step) (auto simp: redirect_def ProtectedRoute_def sessions_element_def split: sessions_route.splits)
  qed (use Some assms in simp)
qed

lemma settles_from_login:
  assumes "au_status s = Authenticated" "au_token s \<noteq> []"
  shows "\<exists>v. navigate R s (goto R to) = Some v"
proof (cases "rt_match R (loc_pathname (rt_parse R to)) = Some LoginElement")
  case True
  have "\<exists>v. navigate R s (goto R ''/'') = Some v"
    by (rule settles_inside [OF assms]) (simp add: parse_plain index_path)
  with True assms(1) show ?thesis by (subst step) (simp add: redirect_def LoginPage_def routeFromState_def)
qed (use settles_inside [OF assms, of "goto R to"] in simp)

lemma login_settles: "au_status s \<noteq> Authenticated \<Longrightarrow> loc_pathname (en_location e) = ''/login'' \<Longrightarrow> navigate R s e = Some ShowLogin"
  by (subst step) (simp add: redirect_def login_path LoginPage_def)

lemma settles:
  assumes "au_status s = Authenticated \<longrightarrow> au_token s \<noteq> []"
  shows "\<exists>v. navigate R s e = Some v"
proof (cases "au_status s = Authenticated")
  case True
  with assms have a: "au_token s \<noteq> []" by simp
  show ?thesis
  proof (cases "rt_match R (loc_pathname (en_location e)) = Some LoginElement")
    case True
    with \<open>au_status s = Authenticated\<close> settles_from_login [OF _ a] show ?thesis
      by (subst step) (simp add: redirect_def LoginPage_def)
  qed (use settles_inside [OF True a] in simp)
next
  case False
  have "\<exists>v. navigate R s \<lparr>en_location = rt_parse R ''/login'', en_from = Some l\<rparr> = Some v" for l
    using login_settles [OF False, of "\<lparr>en_location = rt_parse R ''/login'', en_from = Some l\<rparr>"] by (simp add: parse_plain)
  moreover have "au_status s = Anonymous \<or> au_status s = Restoring" using False by (cases "au_status s") simp_all
  ultimately show ?thesis
    by (subst step) (auto simp: redirect_def LoginPage_def ProtectedRoute_def split: option.splits route_target.splits)
qed

text \<open>A page is shown only to a user with a token.\<close>

lemma shown_needs_token:
  assumes "navigate R s e = Some (ShowPage p)"
  shows "au_token s \<noteq> [] \<and> au_status s = Authenticated"
proof -
  let ?P = "\<lambda>r t x v. (\<exists>p. v = ShowPage p) \<longrightarrow> au_token t \<noteq> [] \<and> au_status t = Authenticated"
  have "?P R s e (ShowPage p)" using assms
  proof (rule navigate.raw_induct [where P = ?P, rotated])
    fix nav r t x v
    assume ih: "\<And>r t x v. nav r t x = Some v \<Longrightarrow> ?P r t x v"
      and v: "(case redirect r t x of Inl v \<Rightarrow> Some v | Inr e' \<Rightarrow> nav r t e') = Some v"
    have "au_status t \<noteq> Restoring \<Longrightarrow> au_status t \<noteq> Anonymous \<Longrightarrow> au_status t = Authenticated" by (cases "au_status t") simp_all
    then have "redirect r t x = Inl (ShowPage p) \<Longrightarrow> au_token t \<noteq> [] \<and> au_status t = Authenticated" for p
      by (auto simp: redirect_def ProtectedRoute_def split: option.splits route_target.splits login_view.splits if_splits)
    with ih v show "?P r t x v" by (auto split: sum.splits)
  qed
  then show ?thesis by blast
qed

text \<open>The addresses between which an authenticated state without a token goes back and forth.\<close>

definition guarded_location :: "location \<Rightarrow> bool" where
  "guarded_location l \<longleftrightarrow> plain_location l \<and> (\<exists>t. rt_match R (loc_pathname l) = Some t \<and> t \<noteq> LoginElement)"

definition in_cycle :: "entry \<Rightarrow> bool" where
  "in_cycle e \<longleftrightarrow> guarded_location (en_location e) \<or>
     en_location e = rt_parse R ''/login'' \<and> (case en_from e of None \<Rightarrow> True | Some l \<Rightarrow> guarded_location l)"

lemma cycle_step:
  assumes "in_cycle e" "au_token s = []" "au_status s = Authenticated"
  shows "\<exists>e'. redirect R s e = Inr e' \<and> in_cycle e'"
proof -
  have l: "loc_pathname (rt_parse R ''/login'') = ''/login''" by (simp add: parse_plain)
  have i: "guarded_location (rt_parse R ''/'')" by (simp add: guarded_location_def parse_plain index_path plain_location_def)
  show ?thesis
  proof (cases "guarded_location (en_location e)")
    case True
    with assms(2,3) show ?thesis
      by (auto simp: guarded_location_def redirect_def ProtectedRoute_def in_cycle_def split: route_target.splits)
  next
    case False
    with assms(1,3) i show ?thesis
      by (auto simp: in_cycle_def l redirect_def login_path LoginPage_def routeFromState_def or_else_def guarded_location_def parse_location split: option.splits)
  qed
qed

lemma never_settles:
  assumes "in_cycle e" "au_token s = []" "au_status s = Authenticated"
  shows "navigate R s e = None"
proof -
  let ?P = "\<lambda>r t x v. r = R \<and> t = s \<longrightarrow> \<not> in_cycle x"
  have "?P R s e v" if "navigate R s e = Some v" for v using that
  proof (rule navigate.raw_induct [where P = ?P, rotated])
    fix nav r t x v
    assume ih: "\<And>r t x v. nav r t x = Some v \<Longrightarrow> ?P r t x v"
      and v: "(case redirect r t x of Inl v \<Rightarrow> Some v | Inr e' \<Rightarrow> nav r t e') = Some v"
    have "\<not> in_cycle x" if "redirect R s x = Inl y" for y using cycle_step [OF _ assms(2,3), of x] that by fastforce
    moreover have "\<not> in_cycle x" if "redirect R s x = Inr y" "\<not> in_cycle y" for y
      using cycle_step [OF _ assms(2,3), of x] that by fastforce
    ultimately show "?P r t x v" using ih v by (auto split: sum.splits)
  qed
  with assms(1) show ?thesis by (cases "navigate R s e") auto
qed

end

lemma split_path_plain: "plain_location l \<Longrightarrow> split_path (loc_pathname l @ loc_search l) = l"
proof -
  assume l: "plain_location l"
  have p: "\<forall>c\<in>set (loc_pathname l). c \<noteq> CHR ''?''" using l by (auto simp: plain_location_def)
  have q: "takeWhile (\<lambda>c. c \<noteq> CHR ''?'') (loc_search l) = []" "dropWhile (\<lambda>c. c \<noteq> CHR ''?'') (loc_search l) = loc_search l"
    using l by (cases "loc_search l"; simp add: plain_location_def)+
  show ?thesis using p q by (simp add: split_path_def takeWhile_append2 dropWhile_append2)
qed

interpretation portal: routes written_router
  by unfold_locales (auto simp: written_router_def split_path_plain written_routes_def public_routes_def shell_routes_def split: if_splits)

section \<open>Properties\<close>

text \<open>
  C14: Every address leads somewhere. In a state in which an authenticated user has a token, following the redirects from any
  address, with any remembered origin, ends; and what is shown at the end is a page of the portal only for an authenticated
  user with a token.
\<close>

theorem redirects_end:
  assumes "routes R" "au_status s = Authenticated \<longrightarrow> au_token s \<noteq> []"
  shows "\<exists>v. navigate R s e = Some v \<and> ((\<exists>p. v = ShowPage p) \<longrightarrow> au_token s \<noteq> [] \<and> au_status s = Authenticated)"
  using routes.settles [OF assms, of e] routes.shown_needs_token [OF assms(1), of s e] by blast

theorem redirects_end_witness:
  "au_status (auth_mount sample_storage) = Anonymous \<and>
   (\<exists>v. navigate written_router (auth_mount sample_storage) (goto written_router ''/cmdb'') = Some v \<and> (\<forall>p. v \<noteq> ShowPage p))"
proof -
  have "au_status (auth_mount sample_storage) = Anonymous" by (simp add: auth_eval)
  then show ?thesis using redirects_end [OF portal.routes_axioms, of "auth_mount sample_storage" "goto written_router ''/cmdb''"] by auto
qed

text \<open>
  C38: In the state a late refresh leaves behind the portal shows nothing at all. When the answer to a refresh arrives after the
  sign-out, every address of a page, and the login page itself, is redirected for ever.
\<close>

theorem late_refresh_never_settles:
  assumes "routes R" "t \<in> set (au_refreshes s)" "plain_location l" "rt_match R (loc_pathname l) = Some target" "target \<noteq> LoginElement"
  shows "let s' = auth_step (RefreshDone t (Inr r)) (auth_step Logout s) in
    navigate R s' \<lparr>en_location = l, en_from = None\<rparr> = None \<and> navigate R s' (goto R ''/login'') = None"
proof -
  let ?s = "auth_step (RefreshDone t (Inr r)) (auth_step Logout s)"
  have s: "au_token ?s = []" "au_status ?s = Authenticated"
    using assms(2) by (simp_all add: refresh_done_def logout_def client_effect_def is_unauthorized_def Let_def)
  have "routes.in_cycle R \<lparr>en_location = l, en_from = None\<rparr>" "routes.in_cycle R (goto R ''/login'')"
    using assms(3-5) by (auto simp: routes.in_cycle_def [OF assms(1)] routes.guarded_location_def [OF assms(1)])
  then show ?thesis using routes.never_settles [OF assms(1) _ s] by (simp add: Let_def del: auth_step.simps)
qed

theorem late_refresh_never_settles_witness:
  "\<exists>s. auth_reach (\<lambda>_ _. True) s \<and>
    navigate written_router s \<lparr>en_location = \<lparr>loc_pathname = ''/profile'', loc_search = ''?x=1''\<rparr>, en_from = None\<rparr> = None \<and>
    navigate written_router s (goto written_router ''/login'') = None"
proof -
  let ?s = "auth_run [LoginStart, LoginDone (Inr (sample_login ''t1'')), RestoreDone 2 (Inr sample_me), RefreshStart] (auth_mount sample_storage)"
  let ?t = "auth_step (RefreshDone ''t1'' (Inr sample_me)) (auth_step Logout ?s)"
  let ?l = "\<lparr>loc_pathname = ''/profile'', loc_search = ''?x=1''\<rparr>"
  have "auth_reach (\<lambda>_ _. True) ?s" by (intro auth_run_reach auth_mounted) simp
  then have r: "auth_reach (\<lambda>_ _. True) ?t" by (intro auth_stepped) simp_all
  have m: "''t1'' \<in> set (au_refreshes ?s)" by (simp add: auth_eval)
  have l: "plain_location ?l" "rt_match written_router (loc_pathname ?l) = Some (Page ''ProfilePage'')"
    by (simp_all add: plain_location_def written_router_def written_routes_def public_routes_def shell_routes_def)
  from late_refresh_never_settles [OF portal.routes_axioms m l, of sample_me] r
  show ?thesis by (simp add: Let_def del: auth_step.simps auth_run.simps) blast
qed

end
