(* ===== verification/Markup.thy ===== *)
theory Markup
  imports PageLib
begin

text \<open>
  What a page renders: a tree of elements, as the markup of the \<open>.tsx\<close> files describes it, with the
  handlers of its controls. A handler is the user action it stands for, a value of the page's own action
  type, so that the page theories say which actions the user is offered (\<open>fires\<close>) and what each does.
  Icons are leaves with their component's name; class names that are fixed, keys and references are left
  out, because styles and the reconciliation of the rendering library are not modelled. The components
  \<open>PanelState\<close>, \<open>PermissionList\<close> and the feedback line are here, since every page uses them.

  The contract \<open>rendered\<close> ties a page's markup to the effect of its actions: an invariant that every
  offered action keeps holds in every state the user can bring about.
\<close>

section \<open>Trees\<close>

datatype tag = tDiv | tSpan | tP | tH1 | tH2 | tH3 | tSection | tArticle | tAside | tHeader | tMain | tNav | tForm | tLabel | tButton
  | tInput | tSelect | tOption | tTextarea | tTable | tThead | tTbody | tTr | tTh | tTd | tUl | tLi | tDl | tDt | tDd | tStrong | tCode
  | tPre | tKbd | tB | tDetails | tSummary | tLink | tNavLink | tA

datatype 'e attr =
    AType string
  | ALabel units
  | ATitle units
  | APlaceholder units
  | AValue units
  | AChecked bool
  | ADisabled bool
  | AFlag string bool
  | AClass units
  | ARole string
  | AColSpan nat
  | ATo string
  | AOther string units
  | OnClick 'e
  | OnChange "string \<Rightarrow> 'e"
  | OnCheck "bool \<Rightarrow> 'e"
  | OnSubmit 'e
  | OnKeyDown "string \<Rightarrow> 'e"
  | OnMouseEnter 'e

datatype 'e node =
    Txt units
  | Icon string
  | El tag "'e attr list" "'e node list"

abbreviation tx :: "string \<Rightarrow> 'e node" where
  "tx s \<equiv> Txt (u16 s)"

text \<open>A number among the children of an element is shown in decimal.\<close>

abbreviation num_tx :: "nat \<Rightarrow> 'e node" where
  "num_tx n \<equiv> tx (nat_str n)"

text \<open>The ellipsis, the dash, the middle dot and the arrow of the labels.\<close>

abbreviation ellipsis :: units where "ellipsis \<equiv> [0x2026]"
abbreviation em_dash :: units where "em_dash \<equiv> [0x2014]"
abbreviation middle_dot :: units where "middle_dot \<equiv> [0x00B7]"
abbreviation right_arrow :: units where "right_arrow \<equiv> [0x2192]"

primrec node_text :: "'e node \<Rightarrow> units" where
  "node_text (Txt t) = t"
| "node_text (Icon _) = []"
| "node_text (El _ _ cs) = concat (map node_text cs)"

section \<open>What the user can do\<close>

fun is_disabled :: "'e attr \<Rightarrow> bool" where
  "is_disabled (ADisabled b) = b"
| "is_disabled _ = False"

text \<open>A disabled form control takes no input and no click.\<close>

definition blocked :: "tag \<Rightarrow> 'e attr list \<Rightarrow> bool" where
  "blocked t as = (t \<in> {tButton, tInput, tSelect, tTextarea, tOption} \<and> list_ex is_disabled as)"

fun attr_value :: "'e attr \<Rightarrow> units option" where
  "attr_value (AValue v) = Some v"
| "attr_value _ = None"

text \<open>The values a selection list offers: those of its enabled options.\<close>

primrec option_values :: "'e node \<Rightarrow> units list" where
  "option_values (Txt _) = []"
| "option_values (Icon _) = []"
| "option_values (El t as cs) =
     (if t = tOption \<and> \<not> blocked t as then List.map_filter attr_value as else []) @ concat (map option_values cs)"

text \<open>The events of one handler. A selection list can only be set to one of its options.\<close>

fun handler_fires :: "tag \<Rightarrow> 'e node list \<Rightarrow> 'e attr \<Rightarrow> 'e \<Rightarrow> bool" where
  "handler_fires t cs (OnClick a) e = (e = a)"
| "handler_fires t cs (OnChange f) e = (\<exists>v. e = f v \<and> (t = tSelect \<longrightarrow> u16 v \<in> set (concat (map option_values cs))))"
| "handler_fires t cs (OnCheck f) e = (\<exists>b. e = f b)"
| "handler_fires t cs (OnKeyDown f) e = (\<exists>k. e = f k)"
| "handler_fires t cs (OnMouseEnter a) e = (e = a)"
| "handler_fires t cs _ e = False"

fun is_type :: "string list \<Rightarrow> 'e attr \<Rightarrow> bool" where
  "is_type ts (AType t) = (t \<in> set ts)"
| "is_type ts _ = False"

text \<open>
  The submit buttons under a form; a button without a type submits. A form can be submitted when one of them is
  enabled, or when it has none.
\<close>

definition submitter :: "tag \<Rightarrow> 'e attr list \<Rightarrow> bool" where
  "submitter t as = (t = tButton \<and> \<not> list_ex (is_type [''button'', ''reset'']) as)"

fun has_submit :: "'e node \<Rightarrow> bool" where
  "has_submit (Txt _) = False"
| "has_submit (Icon _) = False"
| "has_submit (El t as cs) = (submitter t as \<or> list_ex has_submit cs)"

fun submit_ready :: "'e node \<Rightarrow> bool" where
  "submit_ready (Txt _) = False"
| "submit_ready (Icon _) = False"
| "submit_ready (El t as cs) = (submitter t as \<and> \<not> list_ex is_disabled as \<or> list_ex submit_ready cs)"

definition can_submit :: "'e node list \<Rightarrow> bool" where
  "can_submit cs = (list_ex has_submit cs \<longrightarrow> list_ex submit_ready cs)"

fun submits :: "'e attr \<Rightarrow> 'e \<Rightarrow> bool" where
  "submits (OnSubmit a) e = (e = a)"
| "submits _ e = False"

fun fires :: "'e node \<Rightarrow> 'e \<Rightarrow> bool" where
  "fires (Txt _) e = False"
| "fires (Icon _) e = False"
| "fires (El t as cs) e = (\<not> blocked t as \<and>
     (list_ex (\<lambda>a. handler_fires t cs a e) as \<or> t = tForm \<and> list_ex (\<lambda>a. submits a e) as \<and> can_submit cs \<or>
      list_ex (\<lambda>c. fires c e) cs))"

abbreviation fires_in :: "'e node list \<Rightarrow> 'e \<Rightarrow> bool" where
  "fires_in ns e \<equiv> list_ex (\<lambda>n. fires n e) ns"

text \<open>The links of a tree.\<close>

fun attr_to :: "'e attr \<Rightarrow> string option" where
  "attr_to (ATo p) = Some p"
| "attr_to _ = None"

primrec links :: "'e node \<Rightarrow> string list" where
  "links (Txt _) = []"
| "links (Icon _) = []"
| "links (El t as cs) = (if t \<in> {tLink, tNavLink, tA} then List.map_filter attr_to as else []) @ concat (map links cs)"

section \<open>Well-formed markup\<close>

text \<open>
  A button has a type, so that no button inside a form submits it by accident; a control that shows a value has the
  handler that changes it; and no control is nested in a button or a link.
\<close>

fun is_change :: "'e attr \<Rightarrow> bool" where
  "is_change (OnChange _) = True"
| "is_change (OnCheck _) = True"
| "is_change _ = False"

fun is_controlled :: "'e attr \<Rightarrow> bool" where
  "is_controlled (AValue _) = True"
| "is_controlled (AChecked _) = True"
| "is_controlled _ = False"

abbreviation interactive :: "tag \<Rightarrow> bool" where
  "interactive t \<equiv> t \<in> {tButton, tInput, tSelect, tTextarea, tLink, tNavLink, tA}"

fun has_control :: "'e node \<Rightarrow> bool" where
  "has_control (Txt _) = False"
| "has_control (Icon _) = False"
| "has_control (El t as cs) = (interactive t \<or> list_ex has_control cs)"

definition wf_element :: "tag \<Rightarrow> 'e attr list \<Rightarrow> 'e node list \<Rightarrow> bool" where
  "wf_element t as cs =
    ((t = tButton \<longrightarrow> list_ex (is_type [''button'', ''submit'']) as) \<and>
     (t \<in> {tInput, tSelect, tTextarea} \<and> list_ex is_controlled as \<longrightarrow> list_ex is_change as) \<and>
     (t \<in> {tButton, tLink, tNavLink, tA} \<longrightarrow> \<not> list_ex has_control cs))"

fun wf_node :: "'e node \<Rightarrow> bool" where
  "wf_node (Txt _) = True"
| "wf_node (Icon _) = True"
| "wf_node (El t as cs) = (wf_element t as cs \<and> list_all wf_node cs)"

text \<open>The rows of a table, as the number of columns each spans.\<close>

fun attr_span :: "'e attr \<Rightarrow> nat option" where
  "attr_span (AColSpan n) = Some n"
| "attr_span _ = None"

definition col_span :: "'e attr list \<Rightarrow> nat" where
  "col_span as = (case List.map_filter attr_span as of [] \<Rightarrow> 1 | n # _ \<Rightarrow> n)"

fun cell_span :: "'e node \<Rightarrow> nat" where
  "cell_span (El t as cs) = (if t = tTd \<or> t = tTh then col_span as else 0)"
| "cell_span _ = 0"

primrec row_spans :: "'e node \<Rightarrow> nat list" where
  "row_spans (Txt _) = []"
| "row_spans (Icon _) = []"
| "row_spans (El t as cs) = (if t = tTr then [sum_list (map cell_span cs)] else []) @ concat (map row_spans cs)"

definition aligned :: "nat \<Rightarrow> 'e node \<Rightarrow> bool" where
  "aligned n t = list_all (\<lambda>k. k = n) (row_spans t)"

section \<open>Shared components\<close>

text \<open>The date functions of the browser: the local form of a date text, its time in milliseconds, and the present.\<close>

record clock =
  ck_local :: "string \<Rightarrow> string"
  ck_parse :: "string \<Rightarrow> int option"
  ck_now :: int

definition formatDateTime :: "clock \<Rightarrow> string option \<Rightarrow> string" where
  "formatDateTime c value = (case value of None \<Rightarrow> ''-''
   | Some v \<Rightarrow> if v = [] then ''-'' else if ck_parse c v = None then v else ck_local c v)"

definition panel_icon :: "PanelStateKind \<Rightarrow> string" where
  "panel_icon kind = (case kind of PanelEmpty \<Rightarrow> ''Clock3'' | PanelError \<Rightarrow> ''AlertCircle'' | PanelLoading \<Rightarrow> ''Clock3''
   | PanelPermission \<Rightarrow> ''ShieldAlert'' | PanelSuccess \<Rightarrow> ''CheckCircle2'')"

definition PanelState_view :: "PanelStateKind \<Rightarrow> units \<Rightarrow> 'e node" where
  "PanelState_view kind message =
    El tDiv [AClass (u16 (PanelState kind))] [Icon (panel_icon kind), El tSpan [] [Txt message]]"

definition PermissionList_view :: "string list \<Rightarrow> string \<Rightarrow> 'e node" where
  "PermissionList_view permissions emptyLabel =
    (if permissions = [] then El tSpan [] [tx emptyLabel]
     else El tDiv [] (map (\<lambda>permission. El tSpan [] [Icon ''ShieldCheck'', tx permission]) permissions))"

fun feedback_panel :: "feedback_kind \<Rightarrow> PanelStateKind" where
  "feedback_panel FeedbackError = PanelError"
| "feedback_panel FeedbackSuccess = PanelSuccess"

text \<open>\<open>feedback ? <PanelState kind={feedback.kind} message={feedback.message} /> : null\<close>\<close>

definition feedback_view :: "ActionFeedback option \<Rightarrow> 'e node list" where
  "feedback_view fb = (case fb of None \<Rightarrow> [] | Some f \<Rightarrow> [PanelState_view (feedback_panel (fb_kind f)) (fb_message f)])"

definition query_error_text :: "'a query \<Rightarrow> units" where
  "query_error_text q = (case q_error q of None \<Rightarrow> [] | Some e \<Rightarrow> error_text e)"

section \<open>Rules\<close>

named_theorems markup
  \<comment> \<open>evaluates \<open>fires\<close> and \<open>wf_node\<close> on the markup of a page\<close>

lemma list_ex_if [markup]: "list_ex P (if b then xs else ys) = (b \<and> list_ex P xs \<or> \<not> b \<and> list_ex P ys)"
  by simp

lemma list_all_if [markup]: "list_all P (if b then xs else ys) = ((b \<longrightarrow> list_all P xs) \<and> (\<not> b \<longrightarrow> list_all P ys))"
  by simp

lemma list_ex_map [markup]: "list_ex P (map f xs) = list_ex (\<lambda>x. P (f x)) xs"
  by (induction xs) auto

lemma list_all_map [markup]: "list_all P (map f xs) = list_all (\<lambda>x. P (f x)) xs"
  by (induction xs) auto

lemma list_ex_concat_map [markup]: "list_ex P (concat (map f xs)) = list_ex (\<lambda>x. list_ex P (f x)) xs"
  by (induction xs) auto

lemma list_all_concat_map [markup]: "list_all P (concat (map f xs)) = list_all (\<lambda>x. list_all P (f x)) xs"
  by (induction xs) auto

lemma list_ex_const [markup]: "list_ex (\<lambda>x. False) xs = False"
  by (induction xs) auto

lemma list_all_const [markup]: "list_all (\<lambda>x. True) xs = True"
  by (induction xs) auto

declare list_all_Cons_iff [markup]

lemma list_ex_case_option [markup]:
  "list_ex P (case x of None \<Rightarrow> xs | Some y \<Rightarrow> f y) = (x = None \<and> list_ex P xs \<or> (\<exists>y. x = Some y \<and> list_ex P (f y)))"
  by (cases x) auto

lemma list_all_case_option [markup]:
  "list_all P (case x of None \<Rightarrow> xs | Some y \<Rightarrow> f y) = ((x = None \<longrightarrow> list_all P xs) \<and> (\<forall>y. x = Some y \<longrightarrow> list_all P (f y)))"
  by (cases x) auto

lemma blocked_simps [markup]:
  "blocked tButton as = list_ex is_disabled as" "blocked tInput as = list_ex is_disabled as"
  "blocked tSelect as = list_ex is_disabled as" "blocked tTextarea as = list_ex is_disabled as"
  "blocked tOption as = list_ex is_disabled as"
  "t \<notin> {tButton, tInput, tSelect, tTextarea, tOption} \<Longrightarrow> blocked t as = False"
  by (auto simp: blocked_def)

lemma submitter_simps [markup]:
  "submitter tButton as = (\<not> list_ex (is_type [''button'', ''reset'']) as)" "t \<noteq> tButton \<Longrightarrow> submitter t as = False"
  by (auto simp: submitter_def)

declare can_submit_def [markup] wf_element_def [markup]

lemma PanelState_inert [markup]:
  "fires (PanelState_view k m) e = False" "wf_node (PanelState_view k m)" "has_control (PanelState_view k m) = False"
  "has_submit (PanelState_view k m) = False" "submit_ready (PanelState_view k m) = False" "links (PanelState_view k m) = []" "row_spans (PanelState_view k m) = []"
  by (simp_all add: PanelState_view_def blocked_def wf_element_def submitter_def)

lemma PermissionList_inert [markup]:
  "fires (PermissionList_view ps l) e = False" "wf_node (PermissionList_view ps l)" "has_control (PermissionList_view ps l) = False"
  "has_submit (PermissionList_view ps l) = False"
  "submit_ready (PermissionList_view ps l) = False" "links (PermissionList_view ps l) = []" "row_spans (PermissionList_view ps l) = []"
  by (simp_all add: PermissionList_view_def blocked_def wf_element_def submitter_def list_ex_map list_all_map list_ex_const list_all_const comp_def
      map_replicate_const)

lemma feedback_inert [markup]:
  "fires_in (feedback_view fb) e = False" "list_all wf_node (feedback_view fb)" "list_ex has_control (feedback_view fb) = False"
  "list_ex has_submit (feedback_view fb) = False"
  "list_ex submit_ready (feedback_view fb) = False" "concat (map row_spans (feedback_view fb)) = []"
  by (cases fb; simp add: feedback_view_def PanelState_inert)+

text \<open>The markup of a component inside a page, whose actions are actions of the page.\<close>

lemma map_attr_facts [simp]:
  "is_disabled (map_attr f a) = is_disabled a" "attr_value (map_attr f a) = attr_value a" "is_type ts (map_attr f a) = is_type ts a"
  "is_change (map_attr f a) = is_change a" "is_controlled (map_attr f a) = is_controlled a"
  by (cases a; simp)+

lemma map_filter_map [simp]: "List.map_filter g (map h xs) = List.map_filter (\<lambda>x. g (h x)) xs"
  by (induction xs) (simp_all add: List.map_filter_simps split: option.split)

lemma map_node_facts [simp]:
  "option_values (map_node f n) = option_values n" "has_submit (map_node f n) = has_submit n"
  "submit_ready (map_node f n) = submit_ready n" "has_control (map_node f n) = has_control n"
proof (induction n)
  case (El t as cs)
  have "map option_values (map (map_node f) cs) = map option_values cs" using El(1) by simp
  moreover have "blocked t (map (map_attr f) as) = blocked t as" by (simp add: blocked_def list_ex_map)
  ultimately show "option_values (map_node f (El t as cs)) = option_values (El t as cs)"
    by (auto simp del: map_map)
  show "has_submit (map_node f (El t as cs)) = has_submit (El t as cs)"
    using El(2) by (simp add: submitter_def list_ex_map cong: list_ex_cong)
  show "submit_ready (map_node f (El t as cs)) = submit_ready (El t as cs)"
    using El(3) by (simp add: submitter_def list_ex_map cong: list_ex_cong)
  show "has_control (map_node f (El t as cs)) = has_control (El t as cs)"
    using El(4) by (simp add: list_ex_map cong: list_ex_cong)
qed simp_all

lemma handler_fires_map:
  "handler_fires t (map (map_node f) cs) (map_attr f a) e \<longleftrightarrow> (\<exists>x. handler_fires t cs a x \<and> e = f x)"
proof (cases a)
  case (OnChange g)
  have "map option_values (map (map_node f) cs) = map option_values cs" by simp
  then show ?thesis unfolding OnChange by (simp del: map_map) blast
qed auto

lemma submits_map: "submits (map_attr f a) e \<longleftrightarrow> (\<exists>x. submits a x \<and> e = f x)"
  by (cases a) auto

lemma fires_map_node [markup]: "fires (map_node f n) e \<longleftrightarrow> (\<exists>x. fires n x \<and> e = f x)"
proof (induction n)
  case (El t as cs)
  have "blocked t (map (map_attr f) as) = blocked t as" by (simp add: blocked_def list_ex_map)
  moreover have "can_submit (map (map_node f) cs) = can_submit cs" by (simp add: can_submit_def list_ex_map)
  moreover have "fires_in (map (map_node f) cs) e \<longleftrightarrow> (\<exists>x. fires_in cs x \<and> e = f x)"
    using El by (auto simp: list_ex_iff)
  ultimately show ?case
    by (simp add: list_ex_map handler_fires_map submits_map) (auto simp: list_ex_iff)
qed simp_all

lemma wf_node_map [markup]: "wf_node (map_node f n) = wf_node n"
proof (induction n)
  case (El t as cs)
  then show ?case by (simp add: wf_element_def list_ex_map list_all_map cong: list_all_cong)
qed simp_all

section \<open>Pages in use\<close>

text \<open>
  The states a user brings about: the page's actions are those its markup offers at that moment, and the
  environment (answers of the server, time) may change the state in between.
\<close>

inductive visits :: "('s \<Rightarrow> 'e node) \<Rightarrow> ('e \<Rightarrow> 's \<Rightarrow> 's \<Rightarrow> bool) \<Rightarrow> ('s \<Rightarrow> 's \<Rightarrow> bool) \<Rightarrow> 's \<Rightarrow> 's \<Rightarrow> bool"
  for view :: "'s \<Rightarrow> 'e node" and act :: "'e \<Rightarrow> 's \<Rightarrow> 's \<Rightarrow> bool" and env :: "'s \<Rightarrow> 's \<Rightarrow> bool" where
  start: "visits view act env s s"
| user: "visits view act env s t \<Longrightarrow> fires (view t) e \<Longrightarrow> act e t u \<Longrightarrow> visits view act env s u"
| environment: "visits view act env s t \<Longrightarrow> env t u \<Longrightarrow> visits view act env s u"

locale rendered =
  fixes view :: "'s \<Rightarrow> 'e node" and act :: "'e \<Rightarrow> 's \<Rightarrow> 's \<Rightarrow> bool" and env :: "'s \<Rightarrow> 's \<Rightarrow> bool" and inv :: "'s \<Rightarrow> bool"
  assumes action_keeps: "inv s \<Longrightarrow> fires (view s) e \<Longrightarrow> act e s t \<Longrightarrow> inv t"
    and answer_keeps: "inv s \<Longrightarrow> env s t \<Longrightarrow> inv t"
begin

lemma visits_keep: "visits view act env s t \<Longrightarrow> inv s \<Longrightarrow> inv t"
  by (induction rule: visits.induct) (auto intro: action_keeps answer_keeps)

end

text \<open>
  A page whose writing actions are guarded: an action that needs permissions is offered only to a user who has them all.
\<close>

text \<open>What the actions a tree offers need.\<close>

definition needed :: "'e node \<Rightarrow> ('e \<Rightarrow> string list) \<Rightarrow> string set" where
  "needed v needs = {p. \<exists>e. fires v e \<and> p \<in> set (needs e)}"

locale guarded_markup =
  fixes view :: "(string \<Rightarrow> bool) \<Rightarrow> 's \<Rightarrow> 'e node" and needs :: "'e \<Rightarrow> string list"
  assumes guarded: "fires (view granted s) e \<Longrightarrow> p \<in> set (needs e) \<Longrightarrow> granted p"
begin

lemma anonymous_offered: "fires (view (createPermissionChecker None) s) e \<Longrightarrow> needs e = []"
  using guarded [of "createPermissionChecker None" s e]
  by (cases "needs e") (auto simp: createPermissionChecker_def perm.check_none)

lemma needed_granted: "needed (view granted s) needs \<subseteq> Collect granted"
  using guarded by (auto simp: needed_def)

lemma offered_to_identity: "fires (view (createPermissionChecker (Some ps)) s) e \<Longrightarrow> p \<in> set (needs e) \<Longrightarrow>
    hasPermission (Some ps) p"
  using guarded [of "createPermissionChecker (Some ps)" s e p] by (simp add: createPermissionChecker_def)

end

end
