(* ===== verification/AccessView.thy ===== *)
theory AccessView
  imports AccessPage Markup
begin

text \<open>
  What the access page shows and what its controls do: the markup of
  \<open>src/web/src/features/access/AccessPage.tsx\<close> as a tree, the action behind every control, and the page as a
  component whose users act only through the controls it renders.
\<close>

section \<open>Markup\<close>

text \<open>The queries and mutations of the page as it renders: their answers and whether one is under way.\<close>

record access_net =
  an_assets :: "Asset list query"
  an_assetsFetching :: bool
  an_requests :: "BastionRequest list query"
  an_requestsFetching :: bool
  an_grants :: "BastionGrant list query"
  an_grantsFetching :: bool
  an_pending :: "BastionRequest list query"
  an_pendingFetching :: bool
  an_createPending :: bool
  an_decidePending :: bool
  an_cancelPending :: bool

datatype access_action =
    RefreshTab
  | OpenRequestModal
  | CloseRequestModal
  | ShowTab access_tab
  | CancelRequest string
  | DecideRequest string BastionRequestDecision
  | RefetchAssets
  | SetAssetQuery string
  | SetSelectedAsset string
  | SetDuration string
  | SetReason string
  | SubmitRequest

definition tabRefreshing :: "access_tab \<Rightarrow> access_net \<Rightarrow> bool" where
  "tabRefreshing tab n = (if tab = ApproveTab then an_pendingFetching n else an_requestsFetching n \<or> an_grantsFetching n)"

definition my_access_view :: "(string \<Rightarrow> bool) \<Rightarrow> clock \<Rightarrow> access_net \<Rightarrow> access_action node list" where
  "my_access_view granted c n =
    [El tArticle []
       ([El tDiv [] [El tDiv [] [El tP [] [tx ''Requests''], El tH2 [] [tx ''My requests'']]]] @
        (if \<not> granted ''bastion.request:read'' then [PanelState_view PanelPermission (u16 ''Permission required: bastion.request:read'')] else []) @
        (if granted ''bastion.request:read'' \<and> q_error (an_requests n) \<noteq> None then
           [PanelState_view PanelError (query_error_text (an_requests n))]
         else []) @
        (if granted ''bastion.request:read'' \<and> q_loading (an_requests n) then [PanelState_view PanelLoading (u16 ''Loading requests'')] else []) @
        (if granted ''bastion.request:read'' \<and> \<not> q_loading (an_requests n) \<and> \<not> (q_error (an_requests n) \<noteq> None) \<and> length (query_items (an_requests n)) = 0 then
           [PanelState_view PanelEmpty (u16 ''No requests yet.'')]
         else []) @
        (if length (query_items (an_requests n)) > 0 then
           [El tDiv []
              (map (\<lambda>request.
                 El tArticle []
                   [El tDiv []
                      [El tDiv []
                         [El tH3 [] [tx (or_else (breq_asset_name request) (breq_asset_id request))],
                          El tP [] [tx (opt_or (breq_reason request) ''No reason provided.'')]],
                       El tDiv []
                         ([El tSpan [AClass (u16 (''status-pill '' @ requestStatusTone (breq_status request)))]
                             [tx (BastionRequestStatus_str (breq_status request))]] @
                          (if breq_status request = ReqPending \<and> granted ''bastion.request:write'' then
                             [El tButton [AType ''button'', OnClick (CancelRequest (breq_id request)), ADisabled (an_cancelPending n)] [tx ''Cancel'']]
                           else []))],
                    El tDiv []
                      ([El tSpan [] [tx (formatDurationSeconds (num_of_int (breq_requested_duration_seconds request)))],
                        El tSpan [] [tx (ck_local c (breq_created_at request))]] @
                       (if truthy (breq_decided_by_name request) then
                          [El tSpan [] [tx ''Decided by '', Txt (u16 (opt_or (breq_decided_by_name request) []))]]
                        else []))]) (query_items (an_requests n)))]
         else [])),
     El tArticle []
       ([El tDiv [] [El tDiv [] [El tP [] [tx ''Grants''], El tH2 [] [tx ''My active grants'']]]] @
        (if \<not> granted ''bastion.grant:read'' then [PanelState_view PanelPermission (u16 ''Permission required: bastion.grant:read'')] else []) @
        (if granted ''bastion.grant:read'' \<and> q_error (an_grants n) \<noteq> None then
           [PanelState_view PanelError (query_error_text (an_grants n))]
         else []) @
        (if granted ''bastion.grant:read'' \<and> q_loading (an_grants n) then [PanelState_view PanelLoading (u16 ''Loading active grants'')] else []) @
        (if granted ''bastion.grant:read'' \<and> \<not> q_loading (an_grants n) \<and> \<not> (q_error (an_grants n) \<noteq> None) \<and> length (query_items (an_grants n)) = 0 then
           [PanelState_view PanelEmpty (u16 ''No active grants.'')]
         else []) @
        (if length (query_items (an_grants n)) > 0 then
           [El tDiv []
              (map (\<lambda>grant.
                 El tArticle []
                   [El tDiv []
                      [El tDiv []
                         [El tH3 [] [tx (or_else (bgrant_asset_name grant) (bgrant_asset_id grant))],
                          El tP [] [tx (opt_or (bgrant_reason grant) ''No reason provided.'')]],
                       El tSpan [] [tx ''active'']],
                    El tDiv []
                      ([El tSpan [] [tx (formatGrantTimeRemaining (ck_parse c (bgrant_expires_at grant)) (ck_now c))],
                        El tSpan [] [tx ''Expires '', tx (ck_local c (bgrant_expires_at grant))]] @
                       (if bgrant_granted_by_name grant \<noteq> [] then [El tSpan [] [tx ''Granted by '', tx (bgrant_granted_by_name grant)]] else []))]) (query_items (an_grants n)))]
         else []))]"

definition approvals_view :: "(string \<Rightarrow> bool) \<Rightarrow> clock \<Rightarrow> access_net \<Rightarrow> access_action node" where
  "approvals_view granted c n =
    El tArticle []
      ([El tDiv [] [El tDiv [] [El tP [] [tx ''Approvals''], El tH2 [] [tx ''Pending approvals'']]]] @
       (if \<not> granted ''bastion.request:read'' then [PanelState_view PanelPermission (u16 ''Permission required: bastion.request:read'')] else []) @
       (if granted ''bastion.request:read'' \<and> \<not> granted ''bastion.grant:write'' then
          [PanelState_view PanelPermission (u16 ''Permission required: bastion.grant:write'')]
        else []) @
       (if granted ''bastion.request:read'' \<and> granted ''bastion.grant:write'' \<and> q_error (an_pending n) \<noteq> None then
          [PanelState_view PanelError (query_error_text (an_pending n))]
        else []) @
       (if granted ''bastion.request:read'' \<and> granted ''bastion.grant:write'' \<and> q_loading (an_pending n) then
          [PanelState_view PanelLoading (u16 ''Loading pending approvals'')]
        else []) @
       (if granted ''bastion.request:read'' \<and> granted ''bastion.grant:write'' \<and> \<not> q_loading (an_pending n) \<and> \<not> (q_error (an_pending n) \<noteq> None) \<and> length (query_items (an_pending n)) = 0 then
          [PanelState_view PanelEmpty (u16 ''No pending approvals.'')]
        else []) @
       (if length (query_items (an_pending n)) > 0 then
          [El tDiv []
             (map (\<lambda>request.
                El tArticle []
                  [El tDiv []
                     [El tDiv []
                        [El tH3 [] [tx (or_else (breq_asset_name request) (breq_asset_id request))],
                         El tP [] [tx (opt_or (breq_reason request) ''No reason provided.'')]],
                      El tDiv []
                        [El tSpan [AClass (u16 (''status-pill '' @ requestStatusTone (breq_status request)))]
                           [tx (BastionRequestStatus_str (breq_status request))],
                         El tDiv []
                           [El tButton [AType ''button'', OnClick (DecideRequest (breq_id request) DecideApprove), ADisabled (an_decidePending n)]
                              [tx ''Approve''],
                            El tButton [AType ''button'', OnClick (DecideRequest (breq_id request) DecideReject), ADisabled (an_decidePending n)]
                              [tx ''Reject'']]]],
                   El tDiv []
                     [El tSpan [] [tx (or_else (breq_user_name request) (breq_user_id request))],
                      El tSpan [] [tx (formatDurationSeconds (num_of_int (breq_requested_duration_seconds request)))],
                      El tSpan [] [tx (ck_local c (breq_created_at request))]]]) (query_items (an_pending n)))]
        else []))"

definition access_permissions_view :: "string list option \<Rightarrow> access_action node" where
  "access_permissions_view perms =
    El tDetails []
      [El tSummary []
         [tx ''Permission details'',
          El tSpan []
            [tx '' '',
             Txt (em_dash @ u16 '' ''),
             num_tx (length (requestPermissions perms)),
             tx '' request, '',
             num_tx (length (grantPermissions perms)),
             tx '' grant'']],
       El tDiv []
         [El tDiv [] [El tP [] [tx ''Requests''], PermissionList_view (requestPermissions perms) ''No request permissions.''],
          El tDiv [] [El tP [] [tx ''Grants''], PermissionList_view (grantPermissions perms) ''No grant permissions.'']],
       El tLink [ATo ''/profile''] [tx ''View profile'']]"

definition request_form_view :: "(string \<Rightarrow> bool) \<Rightarrow> access_net \<Rightarrow> access_page \<Rightarrow> access_action node" where
  "request_form_view granted n s =
    El tForm [OnSubmit SubmitRequest]
      ([El tDiv []
          [El tLabel []
             [El tSpan [] [tx ''Asset search''],
              El tInput [AType ''search'',
                   AValue (u16 (ac_assetQuery s)),
                   OnChange SetAssetQuery,
                   APlaceholder (u16 ''Name, IP, owner, region''),
                   ADisabled (\<not> granted ''cmdb.asset:read'' \<or> \<not> granted ''bastion.request:write'')]
                []],
           El tLabel []
             [El tSpan [] [tx ''Asset''],
              El tSelect [AValue (u16 (ac_selectedAssetID s)),
                   OnChange SetSelectedAsset,
                   ADisabled (\<not> granted ''cmdb.asset:read'' \<or> \<not> granted ''bastion.request:write'' \<or> q_loading (an_assets n))]
                ([El tOption [AValue (u16 [])] [tx ''Select an active asset'']] @
                 (map (\<lambda>asset. El tOption [AValue (u16 (asset_id asset))] [tx (assetOptionLabel asset)]) (query_items (an_assets n))))],
           El tLabel []
             [El tSpan [] [tx ''Duration''],
              El tSelect [AValue (u16 (int_str (ac_durationSeconds s))), OnChange SetDuration, ADisabled (\<not> granted ''bastion.request:write'')]
                ((map (\<lambda>opt. El tOption [AValue (u16 (int_str (snd opt)))] [tx (fst opt)]) requestDurationOptions))]],
        El tLabel []
          [El tSpan [] [tx ''Reason''],
           El tTextarea [AValue (u16 (ac_requestReason s)),
                OnChange SetReason,
                APlaceholder (u16 ''Why do you need access?''),
                AOther ''rows'' (u16 (nat_str 3)),
                ADisabled (\<not> granted ''bastion.request:write'')]
             []]] @
       (if granted ''cmdb.asset:read'' \<and> granted ''bastion.request:write'' \<and> q_loading (an_assets n) then
          [PanelState_view PanelLoading (u16 ''Loading active assets'')]
        else []) @
       (if granted ''cmdb.asset:read'' \<and> granted ''bastion.request:write'' \<and> \<not> q_loading (an_assets n) \<and> \<not> (q_error (an_assets n) \<noteq> None) \<and> length (query_items (an_assets n)) = 0 then
          [PanelState_view PanelEmpty (u16 ''No active assets match this search.'')]
        else []) @
       [El tDiv []
          [El tButton [AType ''button'', OnClick CloseRequestModal] [tx ''Cancel''],
           El tButton [AType ''submit'',
                ADisabled (\<not> granted ''cmdb.asset:read'' \<or> \<not> granted ''bastion.request:write'' \<or> an_createPending n \<or> \<not> (ac_selectedAssetID s \<noteq> []))]
             [Icon ''Send'', El tSpan [] [tx (if an_createPending n then ''Submitting'' else ''Request access'')]]]])"

definition request_modal_view :: "(string \<Rightarrow> bool) \<Rightarrow> access_net \<Rightarrow> access_page \<Rightarrow> access_action node" where
  "request_modal_view granted n s =
    El tDiv [ARole ''dialog'', AFlag ''aria-modal'' True, ALabel (u16 ''Request asset access'')]
      [El tButton [AType ''button'', ALabel (u16 ''Close''), OnClick CloseRequestModal] [],
       El tDiv []
         ([El tDiv []
             [El tDiv [] [El tP [] [tx ''New request''], El tH2 [] [tx ''Request asset access'']],
              El tDiv []
                [El tButton [AType ''button'',
                      OnClick RefetchAssets,
                      ADisabled (\<not> granted ''cmdb.asset:read'' \<or> \<not> granted ''bastion.request:write'' \<or> an_assetsFetching n),
                      ATitle (u16 ''Refresh asset list'')]
                   [Icon ''RefreshCw'', El tSpan [] [tx (if an_assetsFetching n then ''Refreshing'' else ''Refresh'')]],
                 El tButton [AType ''button'', OnClick CloseRequestModal, ALabel (u16 ''Close'')] [Icon ''X'']]]] @
          (if \<not> granted ''bastion.request:write'' then
             [PanelState_view PanelPermission (u16 ''Permission required: bastion.request:write'')]
           else []) @
          (if \<not> granted ''cmdb.asset:read'' then [PanelState_view PanelPermission (u16 ''Permission required: cmdb.asset:read'')] else []) @
          (if granted ''cmdb.asset:read'' \<and> granted ''bastion.request:write'' \<and> q_error (an_assets n) \<noteq> None then
             [PanelState_view PanelError (query_error_text (an_assets n))]
           else []) @
          feedback_view (ac_createFeedback s) @
          [request_form_view granted n s])]"

definition AccessPage_view :: "(string \<Rightarrow> bool) \<Rightarrow> string list option \<Rightarrow> clock \<Rightarrow> search_params \<Rightarrow> access_net \<Rightarrow> access_page \<Rightarrow> access_action node" where
  "AccessPage_view granted perms c searchParams n s =
    El tSection []
      ([El tDiv []
          [El tDiv [] [El tP [] [tx ''My access''], El tH1 [] [tx ''Bastion access'']],
           El tSpan [AClass (u16 (''status-pill '' @ (if length (filter snd (accessCapabilityState perms)) > 0 then ''ok'' else ''warn'')))]
             [Icon ''KeyRound'',
              num_tx (length (filter snd (accessCapabilityState perms))),
              tx '' / '',
              num_tx (length (accessCapabilityState perms))]],
        El tDiv []
          [El tDiv []
             ((map (\<lambda>capability.
                 El tSpan []
                   ((if snd capability then [Icon ''CheckCircle2''] else [Icon ''ShieldAlert'']) @ [El tSpan [] [tx (acap_label (fst capability))]])) (accessCapabilityState perms)) @
              [El tSpan [ATitle (u16 (nat_str (length (query_items (an_pending n))) @ '' pending approvals''))]
                 (if length (query_items (an_pending n)) > 0 \<and> granted ''bastion.grant:write'' then
                    [El tSpan [] [num_tx (length (query_items (an_pending n))), tx '' pending'']]
                  else [])]),
           El tDiv []
             [El tButton [AType ''button'',
                   OnClick RefreshTab,
                   ADisabled (\<not> granted ''bastion.request:read'' \<or> tabRefreshing (accessTab granted searchParams) n)]
                [Icon ''RefreshCw'', El tSpan [] [tx (if tabRefreshing (accessTab granted searchParams) n then ''Refreshing'' else ''Refresh'')]],
              El tButton [AType ''button'',
                   OnClick OpenRequestModal,
                   ADisabled (\<not> granted ''cmdb.asset:read'' \<or> \<not> granted ''bastion.request:write'')]
                [Icon ''Plus'', El tSpan [] [tx ''Request access'']]]],
        El tDiv [ARole ''tablist'']
          ([El tButton [AType ''button'',
                 ARole ''tab'',
                 AFlag ''aria-selected'' (accessTab granted searchParams = MineTab),
                 AClass (u16 (''access-tab '' @ (if accessTab granted searchParams = MineTab then ''active'' else []))),
                 OnClick (ShowTab MineTab)]
              [tx ''Mine'']] @
           (if granted ''bastion.grant:write'' then
              [El tButton [AType ''button'',
                    ARole ''tab'',
                    AFlag ''aria-selected'' (accessTab granted searchParams = ApproveTab),
                    AClass (u16 (''access-tab '' @ (if accessTab granted searchParams = ApproveTab then ''active'' else []))),
                    OnClick (ShowTab ApproveTab)]
                 ([tx ''Approve''] @
                  (if length (query_items (an_pending n)) > 0 then [El tSpan [] [num_tx (length (query_items (an_pending n)))]] else []))]
            else []))] @
       feedback_view (ac_createFeedback s) @
       feedback_view (ac_requestFeedback s) @
       (if accessTab granted searchParams = ApproveTab then feedback_view (ac_decisionFeedback s) else []) @
       (if accessTab granted searchParams = MineTab then (my_access_view granted c n) else []) @
       (if accessTab granted searchParams = ApproveTab then [approvals_view granted c n] else []) @
       [access_permissions_view perms] @
       (if ac_requestModalOpen s then [request_modal_view granted n s] else []))"

section \<open>Actions\<close>

text \<open>The value of an option of the duration list, which are whole numbers.\<close>

definition chosen_number :: "string \<Rightarrow> int" where
  "chosen_number v = (case Number v of Fin q \<Rightarrow> \<lfloor>q\<rfloor> | _ \<Rightarrow> 0)"

definition asset_search_call :: "access_page \<Rightarrow> api_call" where
  "asset_search_call s = listAssets (no_asset_options\<lparr>assetopt_query := trim_opt (ac_assetQuery s), assetopt_status := Some ''active'',
     assetopt_limit := Some 20\<rparr>)"

definition access_query_call :: "string \<Rightarrow> access_query \<Rightarrow> api_call" where
  "access_query_call userID q = (case q of PendingApprovals \<Rightarrow> listPendingBastionRequests 100 | MyRequests \<Rightarrow> listMyBastionRequests 50
   | MyActiveGrants \<Rightarrow> listMyActiveBastionGrants userID 50)"

text \<open>
  One action: the page and the query of the URL after it, and the requests it makes; \<open>confirmed\<close> is the answer to the
  confirmation dialog an action may open.
\<close>

fun access_act :: "(string \<Rightarrow> bool) \<Rightarrow> string \<Rightarrow> bool \<Rightarrow> access_action \<Rightarrow> access_page \<times> search_params \<Rightarrow>
    (access_page \<times> search_params) \<times> api_call list" where
  "access_act granted userID confirmed RefreshTab (s, sp) =
     ((s, sp), map (access_query_call userID) (refreshTab (accessTab granted sp)))"
| "access_act granted userID confirmed OpenRequestModal (s, sp) =
     (let (s', refetch) = openRequestModal granted s in ((s', sp), if refetch then [asset_search_call s'] else []))"
| "access_act granted userID confirmed CloseRequestModal (s, sp) = ((closeRequestModal s, sp), [])"
| "access_act granted userID confirmed (ShowTab tab) (s, sp) = ((s, setAccessTab tab sp), [])"
| "access_act granted userID confirmed (CancelRequest r) (s, sp) =
     (let (s', call) = cancelOwnRequest confirmed r s in ((s', sp), case call of None \<Rightarrow> [] | Some x \<Rightarrow> [x]))"
| "access_act granted userID confirmed (DecideRequest r d) (s, sp) =
     (let (s', call) = decidePendingRequest confirmed r d s in ((s', sp), case call of None \<Rightarrow> [] | Some x \<Rightarrow> [x]))"
| "access_act granted userID confirmed RefetchAssets (s, sp) = ((s, sp), [asset_search_call s])"
| "access_act granted userID confirmed (SetAssetQuery v) (s, sp) = ((s\<lparr>ac_assetQuery := v\<rparr>, sp), [])"
| "access_act granted userID confirmed (SetSelectedAsset v) (s, sp) = ((s\<lparr>ac_selectedAssetID := v\<rparr>, sp), [])"
| "access_act granted userID confirmed (SetDuration v) (s, sp) = ((s\<lparr>ac_durationSeconds := chosen_number v\<rparr>, sp), [])"
| "access_act granted userID confirmed (SetReason v) (s, sp) = ((s\<lparr>ac_requestReason := v\<rparr>, sp), [])"
| "access_act granted userID confirmed SubmitRequest (s, sp) =
     (let (s', call) = createAccessRequest s in ((s', sp), case call of None \<Rightarrow> [] | Some x \<Rightarrow> [x]))"

section \<open>What the page offers\<close>

lemma my_access_fires:
  "fires_in (my_access_view granted c n) a \<longleftrightarrow> granted ''bastion.request:write'' \<and> \<not> an_cancelPending n \<and>
     (\<exists>q\<in>set (query_items (an_requests n)). breq_status q = ReqPending \<and> a = CancelRequest (breq_id q))"
  by (simp add: my_access_view_def markup) (auto simp: list_ex_iff)

lemma approvals_fires:
  "fires (approvals_view granted c n) a \<longleftrightarrow> \<not> an_decidePending n \<and>
     (\<exists>q\<in>set (query_items (an_pending n)). \<exists>d. a = DecideRequest (breq_id q) d)"
  by (simp add: approvals_view_def markup) (auto simp: list_ex_iff intro: BastionRequestDecision.exhaust)

lemma access_permissions_fires: "fires (access_permissions_view perms) a = False"
  by (simp add: access_permissions_view_def markup)

lemma request_form_fires:
  "fires (request_form_view granted n s) a \<longleftrightarrow>
     a = CloseRequestModal \<or> a = SubmitRequest \<and> \<not> submit_disabled granted (an_createPending n) s \<or>
     granted ''bastion.request:write'' \<and> ((\<exists>v. a = SetReason v) \<or> (\<exists>d. d \<in> snd ` set requestDurationOptions \<and> a = SetDuration (int_str d)) \<or>
       granted ''cmdb.asset:read'' \<and> ((\<exists>v. a = SetAssetQuery v) \<or>
         \<not> q_loading (an_assets n) \<and> (\<exists>v. v \<in> insert [] (asset_id ` set (query_items (an_assets n))) \<and> a = SetSelectedAsset v)))"
  by (simp add: request_form_view_def markup) (auto simp: submit_disabled_def)

lemma request_modal_fires:
  "fires (request_modal_view granted n s) a \<longleftrightarrow> fires (request_form_view granted n s) a \<or> a = CloseRequestModal \<or>
     a = RefetchAssets \<and> granted ''cmdb.asset:read'' \<and> granted ''bastion.request:write'' \<and> \<not> an_assetsFetching n"
  by (simp add: request_modal_view_def markup) auto

lemma access_fires:
  "fires (AccessPage_view granted perms c sp n s) a \<longleftrightarrow>
     a = RefreshTab \<and> granted ''bastion.request:read'' \<and> \<not> tabRefreshing (accessTab granted sp) n \<or>
     a = OpenRequestModal \<and> granted ''cmdb.asset:read'' \<and> granted ''bastion.request:write'' \<or>
     a = ShowTab MineTab \<or> a = ShowTab ApproveTab \<and> granted ''bastion.grant:write'' \<or>
     accessTab granted sp = MineTab \<and> fires_in (my_access_view granted c n) a \<or>
     accessTab granted sp = ApproveTab \<and> fires (approvals_view granted c n) a \<or>
     ac_requestModalOpen s \<and> fires (request_modal_view granted n s) a"
  by (simp add: AccessPage_view_def markup access_permissions_fires) auto

lemmas access_offers = access_fires my_access_fires approvals_fires request_modal_fires request_form_fires

lemma AccessPage_wf: "wf_node (AccessPage_view granted perms c sp n s)"
  by (simp add: AccessPage_view_def my_access_view_def approvals_view_def access_permissions_view_def request_modal_view_def
      request_form_view_def markup)

section \<open>The page in use\<close>

text \<open>The permissions an action of the page needs.\<close>

fun access_needs :: "access_action \<Rightarrow> string list" where
  "access_needs SubmitRequest = [''cmdb.asset:read'', ''bastion.request:write'']"
| "access_needs OpenRequestModal = [''cmdb.asset:read'', ''bastion.request:write'']"
| "access_needs (CancelRequest _) = [''bastion.request:write'']"
| "access_needs (DecideRequest _ _) = [''bastion.grant:write'']"
| "access_needs _ = []"

interpretation access_guard: guarded_markup "\<lambda>granted (perms, c, sp, n, s). AccessPage_view granted perms c sp n s" access_needs
proof unfold_locales
  fix granted :: "string \<Rightarrow> bool" and x :: "string list option \<times> clock \<times> search_params \<times> access_net \<times> access_page" and e p
  assume f: "fires (case x of (perms, c, sp, n, s) \<Rightarrow> AccessPage_view granted perms c sp n s) e" "p \<in> set (access_needs e)"
  obtain perms c sp n s where x: "x = (perms, c, sp, n, s)" by (cases x)
  have "accessTab granted sp = ApproveTab \<Longrightarrow> granted ''bastion.grant:write''" by (simp add: accessTab_def split: if_splits)
  with f show "granted p"
    by (cases e) (auto simp: x access_offers submit_disabled_def)
qed

text \<open>The page with what it renders from: its own state, the query of the URL, the network and the clock.\<close>

type_synonym access_world = "access_page \<times> search_params \<times> access_net \<times> clock"

definition access_world_view :: "(string \<Rightarrow> bool) \<Rightarrow> string list option \<Rightarrow> access_world \<Rightarrow> access_action node" where
  "access_world_view granted perms w = (case w of (s, sp, n, c) \<Rightarrow> AccessPage_view granted perms c sp n s)"

definition access_does :: "(string \<Rightarrow> bool) \<Rightarrow> string \<Rightarrow> access_action \<Rightarrow> access_world \<Rightarrow> access_world \<Rightarrow> bool" where
  "access_does granted userID a w w' = (case (w, w') of ((s, sp, n, c), (s', sp', n', c')) \<Rightarrow>
     n' = n \<and> c' = c \<and> (\<exists>confirmed. (s', sp') = fst (access_act granted userID confirmed a (s, sp))))"

text \<open>The answers of the mutations; the network and the clock change freely.\<close>

inductive access_env :: "access_world \<Rightarrow> access_world \<Rightarrow> bool" where
  "access_env (s, sp, n, c) (s, sp, n', c')"
| "access_env (s, sp, n, c) (settle create_onSuccess create_onError r s, sp, n, c)"
| "access_env (s, sp, n, c) (settle (\<lambda>_::unit. decide_onSuccess d) decide_onError r' s, sp, n, c)"
| "access_env (s, sp, n, c) (settle (\<lambda>_::unit. cancel_onSuccess) cancel_onError r' s, sp, n, c)"

definition offered_duration :: "int \<Rightarrow> bool" where
  "offered_duration d = (d \<in> snd ` set requestDurationOptions)"

definition access_inv :: "access_world \<Rightarrow> bool" where
  "access_inv w = offered_duration (ac_durationSeconds (fst w))"

lemma chosen_number_option: "offered_duration d \<Longrightarrow> chosen_number (int_str d) = d"
  using Number_nat_str [of "nat d"] by (auto simp: offered_duration_def requestDurationOptions_def chosen_number_def int_str_def)

lemma duration_after:
  "ac_durationSeconds (fst (fst (access_act granted userID confirmed a (s, sp)))) =
     (case a of SetDuration v \<Rightarrow> chosen_number v | _ \<Rightarrow> ac_durationSeconds s)"
  by (cases a) (simp_all add: openRequestModal_def closeRequestModal_def cancelOwnRequest_def cancel_onMutate_def
      decidePendingRequest_def decide_onMutate_def createAccessRequest_def create_onMutate_def Let_def)

interpretation access_use: rendered "access_world_view granted perms" "access_does granted userID" access_env access_inv
  for granted perms userID
proof unfold_locales
  fix w e w'
  assume a: "access_inv w" "fires (access_world_view granted perms w) e" "access_does granted userID e w w'"
  obtain s sp n c where w: "w = (s, sp, n, c)" by (cases w)
  obtain confirmed where d: "fst w' = fst (fst (access_act granted userID confirmed e (s, sp)))"
    using a(3) by (cases w') (auto simp: w access_does_def, metis fst_conv)
  have "\<And>v. e = SetDuration v \<Longrightarrow> \<exists>d. offered_duration d \<and> v = int_str d"
    using a(2) by (auto simp: w access_world_view_def access_offers offered_duration_def)
  with a(1) show "access_inv w'"
    by (auto simp: access_inv_def w d duration_after chosen_number_option split: access_action.splits)
next
  fix w w'
  assume "access_inv w" "access_env w w'"
  then show "access_inv w'"
    by (auto simp: access_inv_def offered_duration_def settle_def create_onSuccess_def create_onError_def decide_onSuccess_def
        decide_onError_def cancel_onSuccess_def cancel_onError_def requestDurationOptions_def elim!: access_env.cases split: sum.splits)
qed

lemma choose_asset:
  assumes "granted ''cmdb.asset:read''" "granted ''bastion.request:write''" "a \<in> set (query_items (an_assets n))" "\<not> q_loading (an_assets n)"
  shows "visits (access_world_view granted perms) (access_does granted userID) access_env (s, sp, n, c)
    (s\<lparr>ac_createFeedback := None, ac_requestModalOpen := True, ac_selectedAssetID := asset_id a\<rparr>, sp, n, c)"
proof -
  let ?V = "visits (access_world_view granted perms) (access_does granted userID) access_env (s, sp, n, c)"
  let ?o = "s\<lparr>ac_createFeedback := None, ac_requestModalOpen := True\<rparr>"
  have "fires (access_world_view granted perms (s, sp, n, c)) OpenRequestModal"
    using assms by (simp add: access_world_view_def access_offers)
  moreover have "access_does granted userID OpenRequestModal (s, sp, n, c) (?o, sp, n, c)"
    by (simp add: access_does_def openRequestModal_def)
  ultimately have "?V (?o, sp, n, c)" by (rule visits.user [OF visits.start])
  moreover have "fires (access_world_view granted perms (?o, sp, n, c)) (SetSelectedAsset (asset_id a))"
    using assms by (simp add: access_world_view_def access_offers)
  moreover have "access_does granted userID (SetSelectedAsset (asset_id a)) (?o, sp, n, c) (?o\<lparr>ac_selectedAssetID := asset_id a\<rparr>, sp, n, c)"
    by (simp add: access_does_def)
  ultimately show ?thesis by (rule visits.user)
qed

lemma some_loaded_asset:
  obtains n :: access_net and c :: clock and a where "asset_id a = ''a-1''" "a \<in> set (query_items (an_assets n))" "\<not> q_loading (an_assets n)"
    "\<not> an_createPending n"
proof -
  let ?a = "(undefined :: Asset)\<lparr>asset_id := ''a-1''\<rparr>"
  let ?n = "(undefined :: access_net)\<lparr>an_assets := \<lparr>q_loading = False, q_error = None, q_data = Some [?a]\<rparr>, an_createPending := False\<rparr>"
  show thesis by (rule that [of ?a ?n]) (simp_all add: query_items_def)
qed

section \<open>Properties\<close>

text \<open>
  The writes of the access page are offered exactly when they make sense. A request can be cancelled when the user may
  write requests, it is one of the user's own requests and still pending; decided when the user may write grants, the
  approval tab is shown and it is one of the pending requests; and a new one submitted when the dialog is open, the user
  may read assets and write requests and an asset is chosen. None of the three is offered while the same write is under way.
\<close>

theorem access_writes_offered:
  "(fires (AccessPage_view granted perms c sp n s) (CancelRequest r) \<longleftrightarrow>
      accessTab granted sp = MineTab \<and> granted ''bastion.request:write'' \<and> \<not> an_cancelPending n \<and>
      (\<exists>q\<in>set (query_items (an_requests n)). breq_id q = r \<and> breq_status q = ReqPending)) \<and>
   (fires (AccessPage_view granted perms c sp n s) (DecideRequest r d) \<longleftrightarrow>
      accessTab granted sp = ApproveTab \<and> granted ''bastion.grant:write'' \<and> \<not> an_decidePending n \<and>
      (\<exists>q\<in>set (query_items (an_pending n)). breq_id q = r)) \<and>
   (fires (AccessPage_view granted perms c sp n s) SubmitRequest \<longleftrightarrow>
      ac_requestModalOpen s \<and> granted ''cmdb.asset:read'' \<and> granted ''bastion.request:write'' \<and> \<not> an_createPending n \<and>
      ac_selectedAssetID s \<noteq> [])"
proof -
  have "accessTab granted sp = ApproveTab \<Longrightarrow> granted ''bastion.grant:write''" by (simp add: accessTab_def split: if_splits)
  then show ?thesis by (auto simp: access_offers submit_disabled_def)
qed

text \<open>
  C23: Every request for access that leaves the page asks for one of the six durations of the list and for the chosen asset,
  whatever the user did before on the rendered page and whatever the server answered in between.
\<close>

theorem access_request_sound:
  assumes "visits (access_world_view granted perms) (access_does granted userID) access_env (access_mount, sp0, n0, c0) (s, sp, n, c)"
    and "call \<in> set (snd (access_act granted userID confirmed SubmitRequest (s, sp)))"
  shows "\<exists>d. call = createBastionRequest \<lparr>bcreate_asset_id = trim (ac_selectedAssetID s),
      bcreate_duration_seconds = Some (num_of_int d), bcreate_reason = trim_opt (ac_requestReason s)\<rparr> \<and>
    d \<in> snd ` set requestDurationOptions \<and> trim (ac_selectedAssetID s) \<noteq> []"
proof -
  have "access_inv (access_mount, sp0, n0, c0)"
    by (simp add: access_inv_def offered_duration_def access_mount_def requestDurationOptions_def)
  then have "access_inv (s, sp, n, c)" using access_use.visits_keep [OF assms(1)] by blast
  then show ?thesis
    using assms(2) by (auto simp: access_inv_def offered_duration_def createAccessRequest_def Let_def split: if_splits)
qed

theorem access_request_sound_witness:
  "\<exists>d. createBastionRequest \<lparr>bcreate_asset_id = ''a-1'', bcreate_duration_seconds = Some (num_of_int 3600), bcreate_reason = None\<rparr> =
      createBastionRequest \<lparr>bcreate_asset_id = ''a-1'', bcreate_duration_seconds = Some (num_of_int d), bcreate_reason = None\<rparr> \<and>
     d \<in> snd ` set requestDurationOptions"
proof -
  let ?can = "\<lambda>_ :: string. True"
  obtain n :: access_net and c :: clock and a where a: "asset_id a = ''a-1''" "a \<in> set (query_items (an_assets n))" "\<not> q_loading (an_assets n)"
    by (rule some_loaded_asset)
  have v: "visits (access_world_view ?can None) (access_does ?can ''u-1'') access_env (access_mount, [], n, c)
      (access_mount\<lparr>ac_createFeedback := None, ac_requestModalOpen := True, ac_selectedAssetID := ''a-1''\<rparr>, [], n, c)"
    using choose_asset [OF _ _ a(2,3), where granted = ?can] a(1) by simp
  have "createBastionRequest \<lparr>bcreate_asset_id = ''a-1'', bcreate_duration_seconds = Some (num_of_int 3600), bcreate_reason = None\<rparr>
      \<in> set (snd (access_act ?can ''u-1'' True SubmitRequest
        (access_mount\<lparr>ac_createFeedback := None, ac_requestModalOpen := True, ac_selectedAssetID := ''a-1''\<rparr>, [])))"
    by (simp add: createAccessRequest_def access_mount_def trim_opt_def trim_def is_ws_def Let_def)
  from access_request_sound [OF v this] show ?thesis
    by (auto simp: access_mount_def trim_opt_def trim_def is_ws_def)
qed



end
