(* ===== verification/IamView.thy ===== *)
theory IamView
  imports IamPage Markup
begin

text \<open>
  What the identity page shows and what its controls do: the markup of
  \<open>src/web/src/features/iam/IamPage.tsx\<close> and of the matrix in it,
  \<open>src/web/src/features/iam/CapabilityMatrix.tsx\<close>.
\<close>

section \<open>Markup\<close>

record matrix_net =
  mn_matrix :: "CapabilityMatrix query"
  mn_users :: "IamUser list query"
  mn_principals :: "CapabilityPrincipals query"

datatype matrix_action =
    SelectCell SelectedCell
  | SetResolveUser string
  | SetResolveCap string
  | SetResolveRef string
  | SubmitResolve

fun MatrixCellState_str :: "MatrixCellState \<Rightarrow> string" where
  "MatrixCellState_str CellAll = ''all''"
| "MatrixCellState_str CellPartial = ''partial''"
| "MatrixCellState_str CellNone = ''none''"

fun SourceKind_str :: "SourceKind \<Rightarrow> string" where
  "SourceKind_str FromRole = ''role''"
| "SourceKind_str FromGrant = ''grant''"

fun StepSource_str :: "StepSource \<Rightarrow> string" where
  "StepSource_str StepRole = ''role''"
| "StepSource_str StepGrant = ''grant''"
| "StepSource_str StepProfile = ''profile''"

text \<open>\<open>selectedCell?.sources || []\<close>, the label of the principals, \<open>step.note || formatScope(step.scope)\<close>.\<close>

definition cell_sources_of :: "MatrixCell option \<Rightarrow> PermissionSource list" where
  "cell_sources_of cell = (case cell of None \<Rightarrow> [] | Some x \<Rightarrow> (case cell_sources x of None \<Rightarrow> [] | Some srcs \<Rightarrow> srcs))"

definition opt_label :: "CapabilityPrincipals option \<Rightarrow> string" where
  "opt_label p = (case p of None \<Rightarrow> [] | Some x \<Rightarrow> principals_label x)"

definition step_note :: "ResolveStep \<Rightarrow> units" where
  "step_note step = (if truthy (rstep_note step) then u16 (opt_or (rstep_note step) []) else formatScope (rstep_scope step))"

record iam_net =
  mi_users :: "IamUser list query"
  mi_roles :: "IamRole list query"
  mi_identity :: "IamUserIdentity query"
  mi_rolePermissions :: "RolePermission list query"
  mi_refreshing :: bool
  mi_bindPending :: bool
  mi_unbindPending :: bool

datatype iam_action =
    ShowView IamView
  | RefreshIam
  | SetUserSearch string
  | SelectUser string
  | RemoveRole string
  | SetRoleToBind string
  | SubmitBindRole
  | SelectRole string
  | MatrixAction matrix_action

definition iam_user :: "iam_net \<Rightarrow> iam_page \<Rightarrow> IamUser option" where
  "iam_user n s = selectedUser (q_data (mi_identity n)) (query_items (mi_users n)) s"

definition iam_user_roles :: "iam_net \<Rightarrow> iam_page \<Rightarrow> string list" where
  "iam_user_roles n s = selectedUserRoles (q_data (mi_identity n)) (query_items (mi_users n)) s"

definition iam_available :: "iam_net \<Rightarrow> iam_page \<Rightarrow> IamRole list" where
  "iam_available n s = availableRoles (query_items (mi_roles n)) (q_data (mi_identity n)) (query_items (mi_users n)) s"

definition Row_view :: "string \<Rightarrow> MatrixRole list \<Rightarrow> (string \<times> MatrixCell) list \<Rightarrow> nat \<Rightarrow> SelectedCell option \<Rightarrow> matrix_action node list" where
  "Row_view permission roles cells reach selected =
    ([El tDiv [] [El tCode [] [tx permission]]] @
     (map (\<lambda>role.
        El tButton [AType ''button'',
             AClass (u16 (''cell '' @ cellClass (map_of cells (mrole_name role)) @ (if selected = Some \<lparr>sel_permission = permission, sel_role = mrole_name role\<rparr> then '' selected'' else []))),
             OnClick (SelectCell \<lparr>sel_permission = permission, sel_role = mrole_name role\<rparr>)]
          [Txt (cellLabel (map_of cells (mrole_name role)))]) roles) @
     [El tDiv [] [El tSpan [] [num_tx reach, tx '' role'', tx (if reach = 1 then [] else ''s'')]]])"

definition matrix_grid_view :: "CapabilityMatrix \<Rightarrow> matrix_page \<Rightarrow> matrix_action node" where
  "matrix_grid_view data s =
    El tArticle []
      [El tDiv []
         ([El tDiv [] [El tP [] [Txt (u16 ''Govern '' @ middle_dot @ u16 '' capabilities'')], El tH2 [] [tx ''Capability matrix'']]] @
          (if matrix_unscoped_grants data > 0 then
             [El tSpan []
                [Icon ''ShieldAlert'',
                 Txt (u16 (int_str (matrix_unscoped_grants data))),
                 tx '' unscoped grant'',
                 tx (if matrix_unscoped_grants data = 1 then [] else ''s'')]]
           else [El tSpan [] [tx ''no unscoped grants'']])),
       El tP []
         [tx ''Who can do what, across which resources. Row = capability, column = role. Click a cell to see the scope and the roles that produce it.''],
       El tDiv []
         [El tDiv []
            ([El tDiv [] [tx ''Capability'']] @
             (map (\<lambda>role. El tDiv [] [tx (mrole_name role)]) (matrix_roles data)) @
             [El tDiv [] [Txt (u16 ''Roles '' @ middle_dot @ u16 '' today'')]] @
             (concat (map (\<lambda>capability.
                Row_view (cap_permission capability) (matrix_roles data) (cells_of data (cap_permission capability)) (roleReach (Some data) (cap_permission capability)) (mx_selected s)) (matrix_capabilities data))))]]"

definition cell_inspector_view :: "matrix_net \<Rightarrow> CapabilityMatrix \<Rightarrow> matrix_page \<Rightarrow> matrix_action node" where
  "cell_inspector_view n data s =
    El tArticle []
      ([El tDiv []
          ([El tDiv []
              [El tP [] [tx ''Selected cell''],
               El tH2 []
                 (case mx_selected s of
                    None \<Rightarrow> [tx ''Pick a cell'']
                  | Some sel \<Rightarrow>
                      [El tCode [] [tx (sel_permission sel)], Txt (u16 '' '' @ middle_dot @ u16 '' role ''), El tCode [] [tx (sel_role sel)]])]] @
           (case selectedCell (Some data) (mx_selected s) of
              None \<Rightarrow> []
            | Some sc \<Rightarrow>
                [El tSpan [AClass (u16 (''status-pill '' @ (if cell_state sc = CellAll then ''ok'' else if cell_state sc = CellPartial then ''warn'' else ''info'')))]
                   [tx (MatrixCellState_str (cell_state sc))]]))] @
       (case mx_selected s of
          None \<Rightarrow> [PanelState_view PanelEmpty (u16 ''Select a matrix cell to inspect its sources.'')]
        | Some sel \<Rightarrow>
            ([El tP [] [tx ''Scope: '', El tStrong [] [Txt (cellLabel (selectedCell (Some data) (mx_selected s)))]],
              El tDiv []
                (if cell_sources_of (selectedCell (Some data) (mx_selected s)) \<noteq> [] then
                   (map (\<lambda>src.
                      El tDiv []
                        [El tSpan []
                           [El tB [] [tx (SourceKind_str (psrc_kind src)), tx '':'', tx (psrc_ref src)],
                            tx '' '',
                            Txt (middle_dot @ u16 '' ''),
                            Txt (formatScope (psrc_scope src))],
                         El tSpan [] [tx (SourceKind_str (psrc_kind src))]]) (cell_sources_of (selectedCell (Some data) (mx_selected s))))
                 else [PanelState_view PanelEmpty (u16 ''No role grants this capability.'')]),
              El tP [] [Txt (u16 ''Principals '' @ middle_dot @ u16 '' today'')]] @
             (if q_loading (mn_principals n) then
                [PanelState_view PanelLoading (u16 ''Loading principals'')]
              else
                (if q_data (mn_principals n) \<noteq> None then
                   [El tSpan [] [tx (opt_label (q_data (mn_principals n)))]]
                 else [El tSpan [] [Txt em_dash]])))))"

definition resolver_view :: "clock \<Rightarrow> matrix_net \<Rightarrow> CapabilityMatrix \<Rightarrow> matrix_page \<Rightarrow> matrix_action node" where
  "resolver_view c n data s =
    El tArticle []
      ([El tDiv []
          ([El tDiv [] [El tP [] [tx ''Answer my question''], El tH2 [] [tx ''Can user X do Y on Z?'']]] @
           (case mx_resolveResult s of
              None \<Rightarrow> []
            | Some result \<Rightarrow>
                [El tSpan [AClass (u16 (''status-pill '' @ (if rres_allowed result then ''ok'' else ''warn'')))] [Txt (resolve_pill result)]])),
        El tForm [OnSubmit SubmitResolve]
          [El tLabel []
             [El tSpan [] [tx ''User''],
              El tSelect [AValue (u16 (mx_resolveUserID s)), OnChange SetResolveUser]
                ([El tOption [AValue (u16 [])] [tx ''Select user'']] @
                 (map (\<lambda>user. El tOption [AValue (u16 (iamuser_id user))] [tx (iamUserLabel (Some user))]) (query_items (mn_users n))))],
           El tLabel []
             [El tSpan [] [tx ''Capability''],
              El tSelect [AValue (u16 (mx_resolveCap s)), OnChange SetResolveCap]
                ([El tOption [AValue (u16 [])] [tx ''Select capability'']] @
                 (map (\<lambda>capability.
                    El tOption [AValue (u16 (cap_permission capability))] [tx (cap_permission capability)]) (matrix_capabilities data)))],
           El tLabel []
             [El tSpan [] [tx ''Resource (asset id or name, optional)''],
              El tInput [AType ''text'', AValue (u16 (mx_resolveRef s)), OnChange SetResolveRef, APlaceholder (u16 ''prod-eks-node-'' @ ellipsis)] []],
           El tButton [AType ''submit'', ADisabled (mx_resolving s)] [tx (if mx_resolving s then ''Resolving'' else ''Resolve'')]]] @
       (case mx_resolveError s of None \<Rightarrow> [] | Some message \<Rightarrow> [PanelState_view PanelError message]) @
       (case mx_resolveResult s of
          None \<Rightarrow> []
        | Some result \<Rightarrow>
            [El tDiv []
               ((if mx_resolveUserID s \<noteq> [] then
                   [El tLink [ATo (''/audit'' @ buildAuditSearch \<lparr>aq_assetID = None, aq_userID = Some (mx_resolveUserID s), aq_status = None\<rparr>),
                         ATitle (u16 ''See this user'' @ [0x0027] @ u16 ''s recorded sessions'')]
                      [Txt (u16 ''See this user'' @ [0x2019] @ u16 ''s sessions '' @ right_arrow)]]
                 else []) @
                (if truthy (rres_expires_at result) then [El tP [] [tx ''Expires: '', tx (ck_local c (opt_or (rres_expires_at result) []))]] else []) @
                (if \<not> rres_allowed result \<and> truthy (rres_denied_reason result) then
                   [PanelState_view PanelError (u16 (opt_or (rres_denied_reason result) []))]
                 else []) @
                (map (\<lambda>step.
                   El tDiv [AClass (u16 (''cap-path-step '' @ (if rres_allowed result then ''allow'' else [])))]
                     [El tSpan []
                        [El tB [] [tx (rstep_capability step)],
                         Txt (u16 '' '' @ middle_dot @ u16 '' ''),
                         tx (StepSource_str (rstep_source step)),
                         tx '':'',
                         tx (rstep_ref step)],
                      El tSpan [] [Txt (step_note step)]]) (rres_path result)))]))"

definition matrix_content_view :: "clock \<Rightarrow> matrix_net \<Rightarrow> CapabilityMatrix \<Rightarrow> matrix_page \<Rightarrow> matrix_action node list" where
  "matrix_content_view c n data s =
    [matrix_grid_view data s, El tDiv [] [cell_inspector_view n data s, resolver_view c n data s]]"

text \<open>The matrix, or the panel in its place.\<close>

definition CapabilityMatrix_view :: "(string \<Rightarrow> bool) \<Rightarrow> clock \<Rightarrow> matrix_net \<Rightarrow> matrix_page \<Rightarrow> matrix_action node list" where
  "CapabilityMatrix_view granted c n s = (case matrix_view_of granted (mn_matrix n) of
     MatrixPermission \<Rightarrow> [PanelState_view PanelPermission (u16 ''Permission required: iam.user:read'')]
   | MatrixLoading \<Rightarrow> [PanelState_view PanelLoading (u16 ''Loading capability matrix'')]
   | MatrixError m \<Rightarrow> [PanelState_view PanelError m]
   | MatrixShown data \<Rightarrow> matrix_content_view c n data s)"

definition users_panel_view :: "(string \<Rightarrow> bool) \<Rightarrow> clock \<Rightarrow> iam_net \<Rightarrow> iam_page \<Rightarrow> iam_action node" where
  "users_panel_view granted c n s =
    El tArticle []
      ([El tDiv [] [El tDiv [] [El tP [] [tx ''Users''], El tH2 [] [tx ''Users'']], El tSpan [] [num_tx (length (query_items (mi_users n)))]]] @
       (if \<not> granted ''iam.user:read'' then [PanelState_view PanelPermission (u16 ''Permission required: iam.user:read'')] else []) @
       (if granted ''iam.user:read'' \<and> q_error (mi_users n) \<noteq> None then
          [PanelState_view PanelError (query_error_text (mi_users n))]
        else []) @
       [El tLabel []
          [El tSpan [] [tx ''Search''],
           El tDiv []
             [Icon ''Search'',
              El tInput [AType ''search'',
                   AValue (u16 (im_userSearch s)),
                   OnChange SetUserSearch,
                   APlaceholder (u16 ''Name, email, subject''),
                   ADisabled (\<not> granted ''iam.user:read'')]
                []]]] @
       (if granted ''iam.user:read'' \<and> q_loading (mi_users n) then [PanelState_view PanelLoading (u16 ''Loading IAM users'')] else []) @
       (if granted ''iam.user:read'' \<and> \<not> q_loading (mi_users n) \<and> \<not> (q_error (mi_users n) \<noteq> None) \<and> length (query_items (mi_users n)) = 0 then
          [PanelState_view PanelEmpty (u16 ''No IAM users match this search.'')]
        else []) @
       (if length (query_items (mi_users n)) > 0 then
          [El tDiv []
             [El tTable []
                [El tThead []
                   [El tTr [] [El tTh [] [tx ''User''], El tTh [] [tx ''Roles''], El tTh [] [tx ''Last login''], El tTh [] [tx ''Actions'']]],
                 El tTbody []
                   (map (\<lambda>user.
                      El tTr [AClass (u16 (if im_selectedUserID s = iamuser_id user then ''selected'' else []))]
                        [El tTd []
                           [El tStrong [] [tx (iamUserLabel (Some user))],
                            El tDiv [] [tx (or_else (opt_or (iamuser_email user) (iamuser_oidc_subject user)) (iamuser_id user))]],
                         El tTd []
                           [El tDiv []
                              (if length (roleNames user) > 0 then
                                 ((map (\<lambda>role. El tSpan [] [tx role]) (roleNames user)))
                               else [El tSpan [] [tx ''none'']])],
                         El tTd [] [tx (formatDateTime c (Some (iamuser_last_login_at user)))],
                         El tTd [] [El tButton [AType ''button'', OnClick (SelectUser (iamuser_id user))] [tx ''Select'']]]) (query_items (mi_users n)))]]]
        else []))"

definition role_bind_view :: "(string \<Rightarrow> bool) \<Rightarrow> iam_net \<Rightarrow> iam_page \<Rightarrow> iam_action node" where
  "role_bind_view granted n s =
    El tForm [OnSubmit SubmitBindRole]
      [El tLabel []
         [El tSpan [] [tx ''Role''],
          El tSelect [AValue (u16 (im_roleToBind s)),
               OnChange SetRoleToBind,
               ADisabled (\<not> granted ''iam.user:write'' \<or> mi_bindPending n \<or> length (iam_available n s) = 0)]
            ([El tOption [AValue (u16 [])] [tx ''Select role'']] @
             (map (\<lambda>role. El tOption [AValue (u16 (iamrole_name role))] [tx (iamrole_name role)]) (iam_available n s)))],
       El tButton [AType ''submit'',
            ADisabled (\<not> granted ''iam.user:write'' \<or> \<not> (im_roleToBind s \<noteq> []) \<or> \<not> (im_selectedUserID s \<noteq> []) \<or> mi_bindPending n)]
         [Icon ''UserPlus'', El tSpan [] [tx (if mi_bindPending n then ''Binding'' else ''Bind role'')]]]"

definition user_roles_view :: "(string \<Rightarrow> bool) \<Rightarrow> clock \<Rightarrow> iam_net \<Rightarrow> iam_page \<Rightarrow> iam_action node" where
  "user_roles_view granted c n s =
    El tArticle []
      ([El tDiv []
          [El tDiv [] [El tP [] [tx ''User roles''], El tH2 [] [tx (if iam_user n s = None then ''Selected user'' else iamUserLabel (iam_user n s))]],
           El tSpan [] [num_tx (length (iam_user_roles n s))]]] @
       feedback_view (im_feedback s) @
       (if \<not> (im_selectedUserID s \<noteq> []) then [PanelState_view PanelEmpty (u16 ''No user selected.'')] else []) @
       (if im_selectedUserID s \<noteq> [] \<and> q_loading (mi_identity n) then
          [PanelState_view PanelLoading (u16 ''Loading selected user'')]
        else []) @
       (if im_selectedUserID s \<noteq> [] \<and> q_error (mi_identity n) \<noteq> None then
          [PanelState_view PanelError (query_error_text (mi_identity n))]
        else []) @
       (case iam_user n s of
          None \<Rightarrow> []
        | Some u \<Rightarrow>
            ([El tDl []
                [El tDiv [] [El tDt [] [tx ''ID''], El tDd [] [El tCode [] [tx (iamuser_id u)]]],
                 El tDiv [] [El tDt [] [tx ''Subject''], El tDd [] [tx (or_else (iamuser_oidc_subject u) ''-'')]],
                 El tDiv [] [El tDt [] [tx ''Email''], El tDd [] [tx (opt_or (iamuser_email u) ''-'')]],
                 El tDiv [] [El tDt [] [tx ''Last login''], El tDd [] [tx (formatDateTime c (Some (iamuser_last_login_at u)))]]],
              El tDiv []
                (if length (iam_user_roles n s) > 0 then
                   (map (\<lambda>role.
                      El tSpan []
                        ([tx role] @
                         (if granted ''iam.user:write'' then
                            [El tButton [AType ''button'',
                                  OnClick (RemoveRole role),
                                  ADisabled (mi_unbindPending n),
                                  ATitle (u16 (''Unbind '' @ role))]
                               [Icon ''X'']]
                          else []))) (iam_user_roles n s))
                 else [El tSpan [] [tx ''No role bindings.'']])] @
             (if \<not> granted ''iam.user:write'' then [PanelState_view PanelPermission (u16 ''Permission required: iam.user:write'')] else []) @
             [role_bind_view granted n s] @
             (if granted ''iam.user:write'' \<and> length (iam_available n s) = 0 then
                [PanelState_view PanelEmpty (u16 ''All roles are already bound.'')]
              else []))))"

definition roles_panel_view :: "(string \<Rightarrow> bool) \<Rightarrow> clock \<Rightarrow> PermissionGroup list \<Rightarrow> iam_net \<Rightarrow> iam_page \<Rightarrow> iam_action node" where
  "roles_panel_view granted c groups n s =
    El tArticle []
      ([El tDiv []
          [El tDiv [] [El tP [] [tx ''Roles''], El tH2 [] [tx ''Role permissions'']], El tSpan [] [num_tx (length (query_items (mi_roles n)))]]] @
       (if granted ''iam.user:read'' \<and> q_error (mi_roles n) \<noteq> None then
          [PanelState_view PanelError (query_error_text (mi_roles n))]
        else []) @
       (if granted ''iam.user:read'' \<and> q_loading (mi_roles n) then [PanelState_view PanelLoading (u16 ''Loading IAM roles'')] else []) @
       (if granted ''iam.user:read'' \<and> \<not> q_loading (mi_roles n) \<and> \<not> (q_error (mi_roles n) \<noteq> None) \<and> length (query_items (mi_roles n)) = 0 then
          [PanelState_view PanelEmpty (u16 ''No roles configured.'')]
        else []) @
       (if length (query_items (mi_roles n)) > 0 then
          [El tDiv []
             [El tTable []
                [El tThead []
                   [El tTr []
                      [El tTh [] [tx ''Role''],
                       El tTh [] [tx ''Description''],
                       El tTh [] [tx ''Permissions''],
                       El tTh [] [tx ''Created''],
                       El tTh [] [tx ''Actions'']]],
                 El tTbody []
                   (map (\<lambda>role.
                      El tTr [AClass (u16 (if im_selectedRoleName s = iamrole_name role then ''selected'' else []))]
                        [El tTd [] [El tStrong [] [tx (iamrole_name role)]],
                         El tTd [] [tx (or_else (iamrole_description role) ''-'')],
                         El tTd [] [num_tx (rolePermissionCount role)],
                         El tTd [] [tx (formatDateTime c (Some (iamrole_created_at role)))],
                         El tTd [] [El tButton [AType ''button'', OnClick (SelectRole (iamrole_name role))] [tx ''View'']]]) (query_items (mi_roles n)))]]]
        else []) @
       (if \<not> (im_selectedRoleName s \<noteq> []) then [PanelState_view PanelEmpty (u16 ''No role selected.'')] else []) @
       (if im_selectedRoleName s \<noteq> [] \<and> q_loading (mi_rolePermissions n) then
          [PanelState_view PanelLoading (u16 ''Loading role permissions'')]
        else []) @
       (if im_selectedRoleName s \<noteq> [] \<and> q_error (mi_rolePermissions n) \<noteq> None then
          [PanelState_view PanelError (query_error_text (mi_rolePermissions n))]
        else []) @
       (if im_selectedRoleName s \<noteq> [] \<and> \<not> q_loading (mi_rolePermissions n) \<and> \<not> (q_error (mi_rolePermissions n) \<noteq> None) \<and> length groups = 0 then
          [PanelState_view PanelEmpty (u16 ''No permissions assigned to this role.'')]
        else []) @
       (if length groups > 0 then
          [El tDiv []
             (map (\<lambda>grp.
                El tArticle []
                  [El tDiv []
                     [El tDiv [] [El tH3 [] [tx (pg_resource grp)], El tP [] [tx (or_else (join '', '' (pg_actions grp)) ''-'')]],
                      El tSpan [] [num_tx (length (pg_permissions grp))]],
                   El tDiv [] ((map (\<lambda>permission. El tSpan [] [Icon ''CheckCircle2'', tx permission]) (pg_permissions grp)))]) groups)]
        else []))"

definition IamPage_view :: "(string \<Rightarrow> bool) \<Rightarrow> string list \<Rightarrow> clock \<Rightarrow> PermissionGroup list \<Rightarrow> matrix_action node list \<Rightarrow> iam_net \<Rightarrow> iam_page \<Rightarrow> iam_action node" where
  "IamPage_view granted perms c groups matrix n s =
    El tSection []
      ([El tDiv []
          [El tDiv [] [El tP [] [tx ''Identity''], El tH1 [] [tx ''IAM'']],
           El tSpan [AClass (u16 (''status-pill '' @ (if granted ''iam.user:read'' then ''ok'' else ''warn'')))]
             [Icon ''ShieldAlert'', tx (if granted ''iam.user:read'' then ''iam.user:read'' else ''Needs iam.user:read'')]],
        El tDiv []
          [El tDiv []
             [El tSpan []
                [Icon ''UsersRound'',
                 El tStrong [] [tx (if granted ''iam.user:read'' then nat_str (length (query_items (mi_users n))) else ''-'')],
                 El tSpan [] [tx ''users'']],
              El tSpan []
                [Icon ''KeyRound'',
                 El tStrong [] [tx (if granted ''iam.user:read'' then nat_str (length (query_items (mi_roles n))) else ''-'')],
                 El tSpan [] [tx ''roles'']],
              El tSpan []
                [Icon ''CheckCircle2'',
                 El tStrong [] [num_tx (length perms)],
                 El tSpan [] [Txt (u16 ''my permissions '' @ middle_dot @ u16 '' ''), tx (if granted ''iam.user:write'' then ''write'' else ''read'')]]],
           El tDiv []
             ([El tDiv [ARole ''tablist'', ALabel (u16 ''IAM view'')]
                 [El tButton [AType ''button'',
                       ARole ''tab'',
                       AFlag ''aria-selected'' (im_view s = CapabilitiesView),
                       AClass (u16 (if im_view s = CapabilitiesView then ''active'' else [])),
                       OnClick (ShowView CapabilitiesView)]
                    [tx ''Capabilities''],
                  El tButton [AType ''button'',
                       ARole ''tab'',
                       AFlag ''aria-selected'' (im_view s = DirectoryView),
                       AClass (u16 (if im_view s = DirectoryView then ''active'' else [])),
                       OnClick (ShowView DirectoryView)]
                    [tx ''Users & roles'']]] @
              (if im_view s = DirectoryView then
                 [El tButton [AType ''button'', OnClick RefreshIam, ADisabled (\<not> granted ''iam.user:read'' \<or> mi_refreshing n)]
                    [Icon ''RefreshCw'', El tSpan [] [tx (if mi_refreshing n then ''Refreshing'' else ''Refresh'')]]]
               else []))]] @
       (if im_view s = CapabilitiesView then (map (map_node MatrixAction) matrix) else []) @
       (if im_view s = DirectoryView then
          [El tDiv [] [users_panel_view granted c n s, user_roles_view granted c n s],
           roles_panel_view granted c groups n s,
           El tDetails []
             [El tSummary []
                [tx ''Effective IAM permissions'',
                 El tSpan []
                   [Txt (u16 '' '' @ em_dash @ u16 '' ''), num_tx (length perms), tx '' grant'', tx (if length perms = 1 then [] else ''s'')]],
              PermissionList_view perms ''No IAM permissions.'']]
        else []))"

section \<open>Actions\<close>

fun matrix_act :: "matrix_action \<Rightarrow> matrix_page \<Rightarrow> matrix_page \<times> api_call option" where
  "matrix_act (SelectCell cell) m = (m\<lparr>mx_selected := Some cell\<rparr>, None)"
| "matrix_act (SetResolveUser v) m = (m\<lparr>mx_resolveUserID := v\<rparr>, None)"
| "matrix_act (SetResolveCap v) m = (m\<lparr>mx_resolveCap := v\<rparr>, None)"
| "matrix_act (SetResolveRef v) m = (m\<lparr>mx_resolveRef := v\<rparr>, None)"
| "matrix_act SubmitResolve m = resolve_submit m"

definition iam_query_call :: "iam_page \<Rightarrow> iam_query \<Rightarrow> api_call" where
  "iam_query_call s q = (case q of UsersQuery \<Rightarrow> listIamUsers \<lparr>iamusersopt_query = Some (im_userSearch s)\<rparr>
   | RolesQuery \<Rightarrow> listIamRoles \<lparr>iamrolesopt_includePermissions = Some True\<rparr>
   | IdentityQuery \<Rightarrow> getIamUserIdentity (im_selectedUserID s)
   | RolePermissionsQuery \<Rightarrow> getIamRolePermissions (im_selectedRoleName s))"

text \<open>
  One action on the page and the matrix in it, with the requests it makes. The matrix is unmounted with its view: it
  starts afresh when the view is shown again.
\<close>

fun iam_act :: "bool \<Rightarrow> iam_action \<Rightarrow> iam_page \<times> matrix_page \<Rightarrow> (iam_page \<times> matrix_page) \<times> api_call list" where
  "iam_act confirmed (ShowView v) (s, m) = ((s\<lparr>im_view := v\<rparr>, if v = CapabilitiesView then m else matrix_mount), [])"
| "iam_act confirmed RefreshIam (s, m) = ((s, m), map (iam_query_call s) (refreshIam s))"
| "iam_act confirmed (SetUserSearch v) (s, m) = ((s\<lparr>im_userSearch := v\<rparr>, m), [])"
| "iam_act confirmed (SelectUser u) (s, m) = ((select_user u s, m), [])"
| "iam_act confirmed (RemoveRole r) (s, m) =
     (let (s', call) = removeRole confirmed r s in ((s', m), case call of None \<Rightarrow> [] | Some x \<Rightarrow> [x]))"
| "iam_act confirmed (SetRoleToBind v) (s, m) = ((s\<lparr>im_roleToBind := v\<rparr>, m), [])"
| "iam_act confirmed SubmitBindRole (s, m) =
     (let (s', call) = submitBindRole s in ((s', m), case call of None \<Rightarrow> [] | Some x \<Rightarrow> [x]))"
| "iam_act confirmed (SelectRole r) (s, m) = ((s\<lparr>im_selectedRoleName := r\<rparr>, m), [])"
| "iam_act confirmed (MatrixAction a) (s, m) =
     (let (m', call) = matrix_act a m in ((s, m'), case call of None \<Rightarrow> [] | Some x \<Rightarrow> [x]))"

section \<open>What the page offers\<close>

lemma matrix_fires:
  "fires_in (matrix_content_view c n data s) a \<longleftrightarrow>
     (\<exists>p r. a = SelectCell \<lparr>sel_permission = p, sel_role = r\<rparr> \<and> p \<in> cap_permission ` set (matrix_capabilities data) \<and>
        r \<in> mrole_name ` set (matrix_roles data)) \<or>
     (\<exists>v. a = SetResolveUser v \<and> v \<in> insert [] (iamuser_id ` set (query_items (mn_users n)))) \<or>
     (\<exists>v. a = SetResolveCap v \<and> v \<in> insert [] (cap_permission ` set (matrix_capabilities data))) \<or>
     (\<exists>v. a = SetResolveRef v) \<or> a = SubmitResolve \<and> \<not> mx_resolving s"
  by (simp add: matrix_content_view_def matrix_grid_view_def Row_view_def cell_inspector_view_def resolver_view_def markup)
    (auto simp: list_ex_iff image_iff)

lemma users_panel_fires:
  "fires (users_panel_view granted c n s) a \<longleftrightarrow> (\<exists>v. a = SetUserSearch v) \<and> granted ''iam.user:read'' \<or>
     (\<exists>u\<in>set (query_items (mi_users n)). a = SelectUser (iamuser_id u))"
  by (simp add: users_panel_view_def markup) (auto simp: list_ex_iff)

lemma role_bind_fires:
  "fires (role_bind_view granted n s) a \<longleftrightarrow> granted ''iam.user:write'' \<and> \<not> mi_bindPending n \<and>
     (a = SubmitBindRole \<and> im_roleToBind s \<noteq> [] \<and> im_selectedUserID s \<noteq> [] \<or>
      (\<exists>v. a = SetRoleToBind v \<and> iam_available n s \<noteq> [] \<and> v \<in> insert [] (iamrole_name ` set (iam_available n s))))"
  by (simp add: role_bind_view_def markup) (auto simp: list_ex_iff)

lemma user_roles_fires:
  "fires (user_roles_view granted c n s) a \<longleftrightarrow> iam_user n s \<noteq> None \<and>
     (fires (role_bind_view granted n s) a \<or>
      granted ''iam.user:write'' \<and> \<not> mi_unbindPending n \<and> (\<exists>r\<in>set (iam_user_roles n s). a = RemoveRole r))"
  by (simp add: user_roles_view_def markup) (auto simp: list_ex_iff)

lemma roles_panel_fires:
  "fires (roles_panel_view granted c groups n s) a \<longleftrightarrow> (\<exists>r\<in>set (query_items (mi_roles n)). a = SelectRole (iamrole_name r))"
  by (simp add: roles_panel_view_def markup) (auto simp: list_ex_iff)

lemma iam_fires:
  "fires (IamPage_view granted perms c groups matrix n s) a \<longleftrightarrow> (\<exists>v. a = ShowView v) \<or>
     im_view s = CapabilitiesView \<and> (\<exists>x. a = MatrixAction x \<and> fires_in matrix x) \<or>
     im_view s = DirectoryView \<and> (a = RefreshIam \<and> granted ''iam.user:read'' \<and> \<not> mi_refreshing n \<or>
       fires (users_panel_view granted c n s) a \<or> fires (user_roles_view granted c n s) a \<or> fires (roles_panel_view granted c groups n s) a)"
  by (simp add: IamPage_view_def markup) (auto simp: list_ex_iff intro: IamView.exhaust)

lemmas iam_offers = iam_fires users_panel_fires user_roles_fires role_bind_fires roles_panel_fires

lemma IamPage_wf: "list_all wf_node matrix \<Longrightarrow> wf_node (IamPage_view granted perms c groups matrix n s)"
  by (simp add: IamPage_view_def users_panel_view_def user_roles_view_def role_bind_view_def roles_panel_view_def markup)

lemma CapabilityMatrix_wf: "list_all wf_node (CapabilityMatrix_view granted c n s)"
  by (simp add: CapabilityMatrix_view_def matrix_content_view_def matrix_grid_view_def Row_view_def cell_inspector_view_def resolver_view_def
      markup split: matrix_view.split)

section \<open>Properties\<close>

fun iam_needs :: "iam_action \<Rightarrow> string list" where
  "iam_needs (RemoveRole _) = [''iam.user:write'']"
| "iam_needs SubmitBindRole = [''iam.user:write'']"
| "iam_needs (SetRoleToBind _) = [''iam.user:write'']"
| "iam_needs RefreshIam = [''iam.user:read'']"
| "iam_needs _ = []"

interpretation iam_guard: guarded_markup "\<lambda>granted (perms, c, groups, matrix, n, s). IamPage_view granted perms c groups matrix n s" iam_needs
proof unfold_locales
  fix granted and x :: "string list \<times> clock \<times> PermissionGroup list \<times> matrix_action node list \<times> iam_net \<times> iam_page" and e p
  assume f: "fires (case x of (perms, c, groups, matrix, n, s) \<Rightarrow> IamPage_view granted perms c groups matrix n s) e" "p \<in> set (iam_needs e)"
  obtain perms c groups matrix n s where x: "x = (perms, c, groups, matrix, n, s)" by (cases x)
  from f show "granted p" by (cases e) (auto simp: x iam_offers)
qed

text \<open>
  Role changes are offered exactly when they make sense: a role can be removed when the directory shows a user who holds
  it, and a role bound when one is chosen, both only with the writing permission and not while the same write is under
  way. The roles a user can pick from are the empty choice and those the user does not hold yet.
\<close>

theorem iam_writes_offered:
  "(fires (IamPage_view granted perms c groups matrix n s) (RemoveRole r) \<longleftrightarrow>
      im_view s = DirectoryView \<and> granted ''iam.user:write'' \<and> \<not> mi_unbindPending n \<and> iam_user n s \<noteq> None \<and> r \<in> set (iam_user_roles n s)) \<and>
   (fires (IamPage_view granted perms c groups matrix n s) SubmitBindRole \<longleftrightarrow>
      im_view s = DirectoryView \<and> granted ''iam.user:write'' \<and> \<not> mi_bindPending n \<and> iam_user n s \<noteq> None \<and>
      im_roleToBind s \<noteq> [] \<and> im_selectedUserID s \<noteq> []) \<and>
   (fires (IamPage_view granted perms c groups matrix n s) (SetRoleToBind r) \<longleftrightarrow>
      im_view s = DirectoryView \<and> granted ''iam.user:write'' \<and> \<not> mi_bindPending n \<and> iam_user n s \<noteq> None \<and> iam_available n s \<noteq> [] \<and>
      (r = [] \<or> (\<exists>x\<in>set (query_items (mi_roles n)). iamrole_name x = r \<and> r \<notin> set (iam_user_roles n s))))"
  by (auto simp: iam_offers iam_available_def availableRoles_def rolesAvailableToBind_def iam_user_roles_def)

lemma find_only: "u \<in> set xs \<Longrightarrow> P u \<Longrightarrow> \<forall>x\<in>set xs. P x \<longrightarrow> x = u \<Longrightarrow> find P xs = Some u"
proof (induction xs)
  case (Cons x xs)
  show ?case
  proof (cases "P x")
    case True
    with Cons.prems(3) have "x = u" by (metis list.set_intros(1))
    with True show ?thesis by simp
  next
    case False
    then have "u \<noteq> x" using Cons.prems(2) by blast
    then have "u \<in> set xs" using Cons.prems(1) by simp
    moreover have "\<forall>x\<in>set xs. P x \<longrightarrow> x = u" using Cons.prems(3) by (meson list.set_intros(2))
    ultimately have "find P xs = Some u" using Cons.IH Cons.prems(2) by blast
    with False show ?thesis by simp
  qed
qed simp

text \<open>
  The choice of a role outlives the choice of the user. Selecting another user keeps the chosen role, so the form can be
  submitted with a role that the list of the new user does not offer because that user already holds it: the list then
  shows no choice, the button is enabled, and the request binds the role again.
\<close>

theorem chosen_role_goes_stale:
  assumes "im_view s = DirectoryView" "granted ''iam.user:write''" "\<not> mi_bindPending n"
    and "im_roleToBind s \<noteq> []" "u \<in> set (query_items (mi_users n))" "iamuser_id u \<noteq> []"
    and "mi_identity n = \<lparr>q_loading = False, q_error = None, q_data = None\<rparr>"
    and "\<forall>x\<in>set (query_items (mi_users n)). iamuser_id x = iamuser_id u \<longrightarrow> x = u" "im_roleToBind s \<in> set (roleNames u)"
  shows "let s' = fst (fst (iam_act confirmed (SelectUser (iamuser_id u)) (s, m))) in
    fires (IamPage_view granted perms c groups matrix n s) (SelectUser (iamuser_id u)) \<and>
    fires (IamPage_view granted perms c groups matrix n s') SubmitBindRole \<and> \<not> fires (IamPage_view granted perms c groups matrix n s')
      (SetRoleToBind (im_roleToBind s'))"
proof -
  let ?s = "select_user (iamuser_id u) s"
  have "find (\<lambda>x. iamuser_id x = iamuser_id u) (query_items (mi_users n)) = Some u"
    using assms(5,8) by (intro find_only) simp_all
  then have "iam_user n ?s = Some u" "iam_user_roles n ?s = roleNames u"
    using assms(7) by (simp_all add: iam_user_def iam_user_roles_def selectedUser_def selectedUserRoles_def select_user_def)
  then show ?thesis
    using assms by (auto simp: Let_def iam_offers select_user_def iam_available_def iam_user_roles_def availableRoles_def rolesAvailableToBind_def)
qed
end
