(* ===== verification/AwsView.thy ===== *)
theory AwsView
  imports AwsPage Markup
begin

text \<open>
  What the AWS page shows and what its controls do: the markup of \<open>src/web/src/features/aws/AwsPage.tsx\<close>, the
  action behind every control, and what the account dialog lets a user change.
\<close>

section \<open>Markup\<close>

record aws_net =
  wn_accounts :: "AwsAccount list query"
  wn_runs :: "AwsSyncRun list query"
  wn_sync :: "AwsSyncStatus query"
  wn_refreshing :: bool
  wn_syncPending :: bool
  wn_testPending :: bool
  wn_createPending :: bool
  wn_updatePending :: bool

datatype aws_action =
    RefreshAws
  | RunSync
  | StartCreate
  | OpenAccount AwsAccount
  | TestAccount string
  | SetSyncRunStatus string
  | CloseAccountModal
  | EditForm "AwsAccountFormState \<Rightarrow> AwsAccountFormState"
  | SubmitAccount

fun AwsSyncRunStatus_str :: "AwsSyncRunStatus \<Rightarrow> string" where
  "AwsSyncRunStatus_str RunRunning = ''running''"
| "AwsSyncRunStatus_str RunSuccess = ''success''"
| "AwsSyncRunStatus_str RunFailed = ''failed''"

definition syncStatusOptions :: "(string \<times> string) list" where
  "syncStatusOptions = [(''All'', []), (''Running'', ''running''), (''Success'', ''success''), (''Failed'', ''failed'')]"

text \<open>The value of a selection list read back into its type; the lists have no other values.\<close>

definition AwsAuthMode_of :: "string \<Rightarrow> AwsAuthMode" where
  "AwsAuthMode_of v = (if v = ''static'' then StaticKeys else AssumeRole)"

definition AwsSyncRunStatus_of :: "string \<Rightarrow> AwsSyncRunStatus option" where
  "AwsSyncRunStatus_of v = (if v = ''running'' then Some RunRunning else if v = ''success'' then Some RunSuccess
     else if v = ''failed'' then Some RunFailed else None)"

definition relative_time :: "clock \<Rightarrow> string \<Rightarrow> string" where
  "relative_time c v = formatRelative (Some v) (ck_parse c v) (ck_now c)"

definition syncSummary :: "clock \<Rightarrow> aws_net \<Rightarrow> (string, AwsSyncAccountSummary) jsmap" where
  "syncSummary c n = summarizeAwsSyncByAccount (ck_parse c) (query_items (wn_runs n))"

definition lastRun :: "clock \<Rightarrow> aws_net \<Rightarrow> AwsAccount \<Rightarrow> AwsSyncRun option" where
  "lastRun c n account = Option.bind (map_of (syncSummary c n) (awsacc_account_id account)) sum_lastRun"

definition lastSuccess :: "clock \<Rightarrow> aws_net \<Rightarrow> AwsAccount \<Rightarrow> AwsSyncRun option" where
  "lastSuccess c n account = Option.bind (map_of (syncSummary c n) (awsacc_account_id account)) sum_lastSuccess"

definition sync_running :: "aws_net \<Rightarrow> bool" where
  "sync_running n = (case q_data (wn_sync n) of None \<Rightarrow> False | Some x \<Rightarrow> awssync_running x)"

definition sync_started :: "aws_net \<Rightarrow> string option" where
  "sync_started n = Option.bind (q_data (wn_sync n)) awssync_last_started_at"

definition sync_finished :: "aws_net \<Rightarrow> string option" where
  "sync_finished n = Option.bind (q_data (wn_sync n)) awssync_last_finished_at"

definition sync_error :: "aws_net \<Rightarrow> string option" where
  "sync_error n = Option.bind (q_data (wn_sync n)) awssync_last_error"

definition opened_name :: "aws_net \<Rightarrow> aws_page \<Rightarrow> string" where
  "opened_name n s = (case selectedAccount (query_items (wn_accounts n)) s of None \<Rightarrow> [] | Some account \<Rightarrow> awsacc_display_name account)"

definition syncRunStatusPill_view :: "AwsSyncRun option \<Rightarrow> aws_action node" where
  "syncRunStatusPill_view run = (case run of
     None \<Rightarrow> El tSpan [] [tx ''never'']
   | Some r \<Rightarrow> El tSpan [AClass (u16 (''status-pill '' @ aws_statusTone (Some (AwsSyncRunStatus_str (awsrun_status r)))))]
       [tx (if awsrun_status r = RunSuccess then ''ok'' else AwsSyncRunStatus_str (awsrun_status r))])"

definition regionChips_view :: "string list \<Rightarrow> aws_action node" where
  "regionChips_view regions = (if regions = [] then El tSpan [] [tx ''none'']
     else El tDiv [] (map (\<lambda>region. El tSpan [] [tx region]) regions))"

definition test_result_view :: "clock \<Rightarrow> aws_page \<Rightarrow> aws_action node list" where
  "test_result_view c s = (case aw_testFeedback s of None \<Rightarrow> [] | Some t \<Rightarrow> (case tf_result t of None \<Rightarrow> []
   | Some r \<Rightarrow> [El tDl [] [El tDiv [] [El tDt [] [tx ''Region''], El tDd [] [tx (or_else (awstest_region r) ''-'')]],
       El tDiv [] [El tDt [] [tx ''Checked''], El tDd [] [tx (formatDateTime c (Some (awstest_checked_at r)))]]]]))"

definition accounts_panel_view :: "(string \<Rightarrow> bool) \<Rightarrow> clock \<Rightarrow> aws_net \<Rightarrow> aws_page \<Rightarrow> aws_action node" where
  "accounts_panel_view granted c n s =
    El tArticle []
      ([El tDiv []
          [El tDiv [] [El tP [] [tx ''Accounts''], El tH2 [] [tx ''Connected accounts'']],
           El tSpan [AClass (u16 (''status-pill '' @ (if granted ''aws.account:write'' then ''ok'' else ''warn'')))]
             [tx (if granted ''aws.account:write'' then ''aws.account:write'' else ''read-only'')]]] @
       (if \<not> granted ''aws.account:read'' then [PanelState_view PanelPermission (u16 ''Permission required: aws.account:read'')] else []) @
       (if granted ''aws.account:read'' \<and> q_error (wn_accounts n) \<noteq> None then
          [PanelState_view PanelError (query_error_text (wn_accounts n))]
        else []) @
       (if granted ''aws.account:read'' \<and> q_loading (wn_accounts n) then [PanelState_view PanelLoading (u16 ''Loading AWS accounts'')] else []) @
       (if granted ''aws.account:read'' \<and> \<not> q_loading (wn_accounts n) \<and> \<not> (q_error (wn_accounts n) \<noteq> None) \<and> length (query_items (wn_accounts n)) = 0 then
          [PanelState_view PanelEmpty (u16 ''No AWS accounts connected yet.'')]
        else []) @
       (if length (query_items (wn_accounts n)) > 0 then
          [El tDiv []
             [El tTable []
                [El tThead []
                   [El tTr []
                      [El tTh [] [tx ''Account''],
                       El tTh [] [tx ''Auth''],
                       El tTh [] [tx ''Credential''],
                       El tTh [] [tx ''Regions''],
                       El tTh [] [tx ''Last sync''],
                       El tTh [] [tx ''Status''],
                       El tTh [] [tx ''Actions'']]],
                 El tTbody []
                   (map (\<lambda>account.
                      El tTr [AClass (u16 (if aw_selectedAccountID s = awsacc_id account then ''selected'' else []))]
                        [El tTd [] [El tStrong [] [tx (awsacc_display_name account)], El tDiv [] [tx (awsacc_account_id account)]],
                         El tTd [] [tx (AwsAuthMode_str (awsacc_auth_mode account))],
                         El tTd [] [El tCode [] [tx (accountCredentialLabel account)]],
                         El tTd [] [regionChips_view (awsacc_region_allowlist account)],
                         El tTd []
                           ([El tDiv []
                               ([syncRunStatusPill_view (lastRun c n account)] @
                                (case lastRun c n account of None \<Rightarrow> [] | Some run \<Rightarrow> [El tSpan [] [tx (relative_time c (awsrun_started_at run))]]))] @
                            (case lastRun c n account of None \<Rightarrow> [] | Some run \<Rightarrow>
                              if awsrun_status run = RunFailed \<and> truthy (awsrun_error_message run) then [El tDiv [] [tx (opt_or (awsrun_error_message run) [])]] else []) @
                            (case (lastSuccess c n account, lastRun c n account) of (Some ok, Some run) \<Rightarrow>
                              if awsrun_status run = RunFailed then [El tDiv [] [tx ''last ok '', tx (relative_time c (awsrun_started_at ok))]] else []
                            | _ \<Rightarrow> [])),
                         El tTd []
                           [El tSpan [AClass (u16 (''status-pill '' @ (if awsacc_enabled account then ''ok'' else ''warn'')))]
                              [tx (if awsacc_enabled account then ''enabled'' else ''disabled'')]],
                         El tTd []
                           [El tDiv []
                              [El tButton [AType ''button'', OnClick (OpenAccount account), ADisabled (\<not> granted ''aws.account:write'')]
                                 [tx ''Edit''],
                               El tButton [AType ''button'',
                                    OnClick (TestAccount (awsacc_id account)),
                                    ADisabled (\<not> granted ''aws.account:write'' \<or> wn_testPending n)]
                                 [tx ''Test'']]]]) (query_items (wn_accounts n)))]]]
        else []))"

definition sync_panel_view :: "clock \<Rightarrow> aws_net \<Rightarrow> aws_action node" where
  "sync_panel_view c n =
    El tArticle []
      [El tDiv []
         [El tDiv [] [El tP [] [tx ''Sync''], El tH2 [] [tx ''Sync status'']],
          El tSpan [AClass (u16 (''status-pill '' @ syncTone (q_data (wn_sync n))))] [tx (if sync_running n then ''running'' else ''ready'')]],
       El tDl []
         [El tDiv []
            [El tDt [] [tx ''Status''],
             El tDd [] [El tSpan [AClass (u16 (''status-pill '' @ syncTone (q_data (wn_sync n))))] [tx (syncStatusLabel (q_data (wn_sync n)))]]],
          El tDiv [] [El tDt [] [tx ''Last started''], El tDd [] [tx (formatDateTime c (sync_started n))]],
          El tDiv [] [El tDt [] [tx ''Last finished''], El tDd [] [tx (formatDateTime c (sync_finished n))]],
          El tDiv [] [El tDt [] [tx ''Last error''], El tDd [] [tx (opt_or (sync_error n) ''-'')]]]]"

definition runs_panel_view :: "(string \<Rightarrow> bool) \<Rightarrow> clock \<Rightarrow> aws_net \<Rightarrow> aws_page \<Rightarrow> aws_action node" where
  "runs_panel_view granted c n s =
    El tArticle []
      ([El tDiv []
          [El tDiv [] [El tP [] [tx ''History''], El tH2 [] [tx ''Sync runs'']],
           El tLabel []
             [El tSpan [] [tx ''Status''],
              El tSelect [AValue (u16 (opt_or (map_option AwsSyncRunStatus_str (aw_syncRunStatus s)) [])), OnChange SetSyncRunStatus]
                ((map (\<lambda>opt. El tOption [AValue (u16 (snd opt))] [tx (fst opt)]) syncStatusOptions))]]] @
       (if \<not> granted ''aws.account:read'' then [PanelState_view PanelPermission (u16 ''Permission required: aws.account:read'')] else []) @
       (if granted ''aws.account:read'' \<and> q_error (wn_runs n) \<noteq> None then
          [PanelState_view PanelError (query_error_text (wn_runs n))]
        else []) @
       (if granted ''aws.account:read'' \<and> q_loading (wn_runs n) then [PanelState_view PanelLoading (u16 ''Loading sync runs'')] else []) @
       (if granted ''aws.account:read'' \<and> \<not> q_loading (wn_runs n) \<and> \<not> (q_error (wn_runs n) \<noteq> None) \<and> length (filteredRuns (query_items (wn_runs n)) s) = 0 then
          [PanelState_view PanelEmpty (u16 (if opt_or (map_option AwsSyncRunStatus_str (aw_syncRunStatus s)) [] \<noteq> [] then ''No '' @ opt_or (map_option AwsSyncRunStatus_str (aw_syncRunStatus s)) [] @ '' runs.'' else ''No sync runs yet.''))]
        else []) @
       (if length (filteredRuns (query_items (wn_runs n)) s) > 0 then
          [El tDiv []
             [El tTable []
                [El tThead []
                   [El tTr []
                      [El tTh [] [tx ''Started''],
                       El tTh [] [tx ''Account''],
                       El tTh [] [tx ''Region''],
                       El tTh [] [tx ''Resource''],
                       El tTh [] [tx ''Status''],
                       El tTh [] [tx ''Processed'']]],
                 El tTbody []
                   (map (\<lambda>run.
                      El tTr []
                        [El tTd [] [tx (formatDateTime c (Some (awsrun_started_at run)))],
                         El tTd [] [El tStrong [] [tx (or_else (awsrun_account_display_name run) ''-'')], El tDiv [] [tx (awsrun_account_id run)]],
                         El tTd [] [El tCode [] [tx (or_else (awsrun_region run) ''-'')]],
                         El tTd []
                           ([tx (or_else (awsrun_resource_type run) ''-'')] @
                            (if awsrun_status run = RunFailed \<and> truthy (awsrun_error_message run) then
                               [El tDiv [] [Txt (u16 (opt_or (awsrun_error_message run) []))]]
                             else [])),
                         El tTd []
                           [El tSpan [AClass (u16 (''status-pill '' @ aws_statusTone (Some (AwsSyncRunStatus_str (awsrun_status run)))))]
                              [tx (AwsSyncRunStatus_str (awsrun_status run))]],
                         El tTd [] [Txt (u16 (int_str (awsrun_resources_processed run)))]]) (filteredRuns (query_items (wn_runs n)) s))]]]
        else []))"

definition account_fields_view :: "(string \<Rightarrow> bool) \<Rightarrow> aws_page \<Rightarrow> aws_action node" where
  "account_fields_view granted s =
    El tDiv []
      [El tLabel []
         [El tSpan [] [tx ''Account ID''],
          El tInput [AValue (u16 (wf_accountID (aw_form s))),
               OnChange (\<lambda>v. EditForm (\<lambda>f. f\<lparr>wf_accountID := v\<rparr>)),
               APlaceholder (u16 ''12-digit AWS account ID''),
               ADisabled (\<not> granted ''aws.account:write'' \<or> aw_formMode s = EditAccount)]
            []],
       El tLabel []
         [El tSpan [] [tx ''Display name''],
          El tInput [AValue (u16 (wf_displayName (aw_form s))),
               OnChange (\<lambda>v. EditForm (\<lambda>f. f\<lparr>wf_displayName := v\<rparr>)),
               ADisabled (\<not> granted ''aws.account:write'')]
            []],
       El tLabel []
         [El tSpan [] [tx ''Auth mode''],
          El tSelect [AValue (u16 (AwsAuthMode_str (wf_authMode (aw_form s)))),
               OnChange (\<lambda>v. EditForm (\<lambda>f. f\<lparr>wf_authMode := AwsAuthMode_of v\<rparr>)),
               ADisabled (\<not> granted ''aws.account:write'' \<or> aw_formMode s = EditAccount)]
            [El tOption [AValue (u16 ''assume_role'')] [tx ''Assume role''], El tOption [AValue (u16 ''static'')] [tx ''Static keys'']]],
       El tLabel []
         [El tSpan [] [tx ''Role ARN''],
          El tInput [AValue (u16 (wf_roleARN (aw_form s))),
               OnChange (\<lambda>v. EditForm (\<lambda>f. f\<lparr>wf_roleARN := v\<rparr>)),
               APlaceholder (u16 ''arn:aws:iam::...''),
               ADisabled (\<not> granted ''aws.account:write'' \<or> wf_authMode (aw_form s) \<noteq> AssumeRole)]
            []],
       El tLabel []
         [El tSpan [] [tx ''External ID''],
          El tInput [AValue (u16 (wf_externalID (aw_form s))),
               OnChange (\<lambda>v. EditForm (\<lambda>f. f\<lparr>wf_externalID := v\<rparr>)),
               ADisabled (\<not> granted ''aws.account:write'' \<or> wf_authMode (aw_form s) \<noteq> AssumeRole)]
            []],
       El tLabel []
         [El tSpan [] [tx ''Access key ID''],
          El tInput [AValue (u16 (wf_accessKeyID (aw_form s))),
               OnChange (\<lambda>v. EditForm (\<lambda>f. f\<lparr>wf_accessKeyID := v\<rparr>)),
               ADisabled (\<not> granted ''aws.account:write'' \<or> wf_authMode (aw_form s) \<noteq> StaticKeys)]
            []],
       El tLabel []
         [El tSpan [] [tx ''Secret access key''],
          El tInput [AType ''password'',
               AValue (u16 (wf_secretAccessKey (aw_form s))),
               OnChange (\<lambda>v. EditForm (\<lambda>f. f\<lparr>wf_secretAccessKey := v\<rparr>)),
               APlaceholder (u16 (if aw_formMode s = EditAccount then ''Leave empty to keep saved value'' else [])),
               ADisabled (\<not> granted ''aws.account:write'' \<or> wf_authMode (aw_form s) \<noteq> StaticKeys)]
            []],
       El tLabel []
         [El tSpan [] [tx ''Regions''],
          El tInput [AValue (u16 (wf_regionAllowlist (aw_form s))),
               OnChange (\<lambda>v. EditForm (\<lambda>f. f\<lparr>wf_regionAllowlist := v\<rparr>)),
               APlaceholder (u16 ''us-east-1, ap-southeast-1''),
               ADisabled (\<not> granted ''aws.account:write'')]
            []],
       El tLabel []
         [El tInput [AType ''checkbox'',
               AChecked (wf_enabled (aw_form s)),
               OnCheck (\<lambda>v. EditForm (\<lambda>f. f\<lparr>wf_enabled := v\<rparr>)),
               ADisabled (\<not> granted ''aws.account:write'')]
            [],
          El tSpan [] [tx ''Enabled'']]]"

definition account_form_view :: "(string \<Rightarrow> bool) \<Rightarrow> aws_net \<Rightarrow> aws_page \<Rightarrow> aws_action node" where
  "account_form_view granted n s =
    El tForm [OnSubmit SubmitAccount]
      ([account_fields_view granted s] @
       (if aw_formMode s = EditAccount \<and> isFormDirty (query_items (wn_accounts n)) s then
          [El tDiv []
             [Icon ''ShieldCheck'',
              El tSpan [] [tx ''Test connection exercises the saved configuration, not your unsaved edits. Save first to verify the new values.'']]]
        else []) @
       [El tDiv []
          ((if aw_formMode s = EditAccount \<and> aw_selectedAccountID s \<noteq> [] then
              [El tButton [AType ''button'',
                    OnClick (TestAccount (aw_selectedAccountID s)),
                    ADisabled (\<not> granted ''aws.account:write'' \<or> wn_testPending n),
                    ATitle (u16 (if isFormDirty (query_items (wn_accounts n)) s then ''Tests the persisted account, not your unsaved edits.'' else ''Tests the persisted account.''))]
                 [tx (if wn_testPending n then ''Testing'' else ''Test saved connection'')]]
            else []) @
           [El tButton [AType ''button'', OnClick CloseAccountModal] [tx ''Cancel''],
            El tButton [AType ''submit'', ADisabled (\<not> granted ''aws.account:write'' \<or> wn_createPending n \<or> wn_updatePending n)]
              [Icon ''Save'',
               El tSpan []
                 [tx (if wn_createPending n \<or> wn_updatePending n then ''Saving'' else if aw_formMode s = CreateAccount then ''Add account'' else ''Save changes'')]]])])"

definition account_modal_view :: "(string \<Rightarrow> bool) \<Rightarrow> clock \<Rightarrow> aws_net \<Rightarrow> aws_page \<Rightarrow> aws_action node" where
  "account_modal_view granted c n s =
    El tDiv [ARole ''dialog'', AFlag ''aria-modal'' True, ALabel (u16 ''AWS account form'')]
      [El tButton [AType ''button'', ALabel (u16 ''Close''), OnClick CloseAccountModal] [],
       El tDiv []
         ([El tDiv []
             [El tDiv []
                [El tP [] [tx (if aw_formMode s = CreateAccount then ''Connect'' else ''Update'')],
                 El tH2 [] [tx (if aw_formMode s = CreateAccount then ''Add AWS account'' else or_else (opened_name n s) ''Edit AWS account'')]],
              El tButton [AType ''button'', OnClick CloseAccountModal, ALabel (u16 ''Close'')] [Icon ''X'']]] @
          (if \<not> granted ''aws.account:write'' then [PanelState_view PanelPermission (u16 ''Permission required: aws.account:write'')] else []) @
          (if aw_validationError s \<noteq> [] then [PanelState_view PanelError (u16 (aw_validationError s))] else []) @
          feedback_view (aw_formFeedback s) @
          feedback_view (test_line s) @
          test_result_view c s @
          [account_form_view granted n s])]"

definition AwsPage_view :: "(string \<Rightarrow> bool) \<Rightarrow> string list \<Rightarrow> clock \<Rightarrow> aws_net \<Rightarrow> aws_page \<Rightarrow> aws_action node" where
  "AwsPage_view granted perms c n s =
    El tSection []
      ([El tDiv []
          [El tDiv [] [El tP [] [tx ''Cloud accounts''], El tH1 [] [tx ''AWS'']],
           El tSpan [AClass (u16 (''status-pill '' @ (if granted ''aws.account:read'' then ''ok'' else ''warn'')))]
             [Icon ''ShieldCheck'', tx (if granted ''aws.account:read'' then ''aws.account:read'' else ''Needs aws.account:read'')]],
        El tDiv []
          [El tDiv []
             [El tSpan []
                [Icon ''Cloud'',
                 El tStrong [] [tx (if granted ''aws.account:read'' then nat_str (length (query_items (wn_accounts n))) else ''-'')],
                 El tSpan [] [tx ''accounts'']],
              El tSpan []
                [Icon ''CloudCog'',
                 El tSpan [AClass (u16 (''status-pill '' @ syncTone (q_data (wn_sync n))))] [tx (syncStatusLabel (q_data (wn_sync n)))],
                 El tSpan [] [tx ''sync'']],
              El tSpan []
                [Icon ''Zap'',
                 El tStrong [] [tx (if granted ''aws.account:read'' then nat_str (length (query_items (wn_runs n))) else ''-'')],
                 El tSpan [] [tx ''runs (last 120)'']]],
           El tDiv []
             [El tButton [AType ''button'', OnClick RefreshAws, ADisabled (\<not> granted ''aws.account:read'' \<or> wn_refreshing n)]
                [Icon ''RefreshCw'', El tSpan [] [tx (if wn_refreshing n then ''Refreshing'' else ''Refresh'')]],
              El tButton [AType ''button'',
                   OnClick RunSync,
                   ADisabled (\<not> granted ''aws.account:write'' \<or> wn_syncPending n \<or> sync_running n)]
                [Icon ''Zap'', El tSpan [] [tx (if wn_syncPending n then ''Triggering'' else if sync_running n then ''Running'' else ''Run sync'')]],
              El tButton [AType ''button'', OnClick StartCreate, ADisabled (\<not> granted ''aws.account:write'')]
                [Icon ''Plus'', El tSpan [] [tx ''Add account'']]]]] @
       (if \<not> aw_accountModalOpen s then feedback_view (aw_formFeedback s) else []) @
       feedback_view (aw_syncFeedback s) @
       (if \<not> aw_accountModalOpen s then feedback_view (test_line s) else []) @
       [accounts_panel_view granted c n s,
        sync_panel_view c n,
        runs_panel_view granted c n s,
        El tArticle []
          [El tDiv [] [El tDiv [] [El tP [] [tx ''Access''], El tH2 [] [tx ''AWS permissions'']]], PermissionList_view perms ''No AWS permissions.'']] @
       (if aw_accountModalOpen s then [account_modal_view granted c n s] else []))"

section \<open>Actions\<close>

text \<open>One action on the page, with the requests it makes.\<close>

fun aws_act :: "aws_action \<Rightarrow> aws_page \<Rightarrow> aws_page \<times> api_call list" where
  "aws_act RefreshAws s = (s, [listAwsAccounts, getAwsSyncStatus, listAwsSyncRuns \<lparr>awsrunopt_limit = Some 120\<rparr>])"
| "aws_act RunSync s = (sync_onMutate s, [triggerAwsSync])"
| "aws_act StartCreate s = (startCreate s, [])"
| "aws_act (OpenAccount account) s = (editAccount account s, [])"
| "aws_act (TestAccount accountID) s = (let (s', call) = testSelectedOrAccount accountID s in (s', case call of None \<Rightarrow> [] | Some x \<Rightarrow> [x]))"
| "aws_act (SetSyncRunStatus v) s = (s\<lparr>aw_syncRunStatus := AwsSyncRunStatus_of v\<rparr>, [])"
| "aws_act CloseAccountModal s = (closeAccountModal s, [])"
| "aws_act (EditForm f) s = (aws_updateForm f s, [])"
| "aws_act SubmitAccount s = (let (s', call) = submitAccount s in (s', case call of None \<Rightarrow> [] | Some x \<Rightarrow> [x]))"

section \<open>What the page offers\<close>

lemma inert_views [markup]:
  "fires (syncRunStatusPill_view r) a = False" "fires (regionChips_view rs) a = False" "fires (sync_panel_view c n) a = False"
  "fires_in (test_result_view c s) a = False"
  "wf_node (syncRunStatusPill_view r)" "wf_node (regionChips_view rs)" "wf_node (sync_panel_view c n)" "list_all wf_node (test_result_view c s)"
  by (simp_all add: syncRunStatusPill_view_def regionChips_view_def sync_panel_view_def test_result_view_def markup split: option.split)

lemma accounts_panel_fires:
  "fires (accounts_panel_view granted c n s) a \<longleftrightarrow> granted ''aws.account:write'' \<and>
     (\<exists>x\<in>set (query_items (wn_accounts n)). a = OpenAccount x \<or> a = TestAccount (awsacc_id x) \<and> \<not> wn_testPending n)"
  by (simp add: accounts_panel_view_def markup split_def) (auto simp: list_ex_iff)

lemma runs_panel_fires: "fires (runs_panel_view granted c n s) a \<longleftrightarrow> (\<exists>v\<in>snd ` set syncStatusOptions. a = SetSyncRunStatus v)"
  by (simp add: runs_panel_view_def markup) (auto simp: list_ex_iff)

text \<open>The edits the dialog offers: the account and its kind only for a new account, the credentials of the chosen kind.\<close>

definition aws_edit_offered :: "aws_page \<Rightarrow> (AwsAccountFormState \<Rightarrow> AwsAccountFormState) \<Rightarrow> bool" where
  "aws_edit_offered s g =
    (aw_formMode s = CreateAccount \<and> ((\<exists>v. g = (\<lambda>f. f\<lparr>wf_accountID := v\<rparr>)) \<or> (\<exists>v. g = (\<lambda>f. f\<lparr>wf_authMode := v\<rparr>))) \<or>
     wf_authMode (aw_form s) = AssumeRole \<and> ((\<exists>v. g = (\<lambda>f. f\<lparr>wf_roleARN := v\<rparr>)) \<or> (\<exists>v. g = (\<lambda>f. f\<lparr>wf_externalID := v\<rparr>))) \<or>
     wf_authMode (aw_form s) = StaticKeys \<and> ((\<exists>v. g = (\<lambda>f. f\<lparr>wf_accessKeyID := v\<rparr>)) \<or> (\<exists>v. g = (\<lambda>f. f\<lparr>wf_secretAccessKey := v\<rparr>))) \<or>
     (\<exists>v. g = (\<lambda>f. f\<lparr>wf_displayName := v\<rparr>)) \<or> (\<exists>v. g = (\<lambda>f. f\<lparr>wf_regionAllowlist := v\<rparr>)) \<or> (\<exists>v. g = (\<lambda>f. f\<lparr>wf_enabled := v\<rparr>)))"

lemma auth_mode_values: "(\<exists>v. g = (\<lambda>f. f\<lparr>wf_authMode := AwsAuthMode_of v\<rparr>) \<and> (v = ''assume_role'' \<or> v = ''static'')) \<longleftrightarrow>
    (\<exists>m. g = (\<lambda>f. f\<lparr>wf_authMode := m\<rparr>))"
proof
  assume "\<exists>m. g = (\<lambda>f. f\<lparr>wf_authMode := m\<rparr>)"
  then obtain m where m: "g = (\<lambda>f. f\<lparr>wf_authMode := m\<rparr>)" by blast
  have "AwsAuthMode_of (AwsAuthMode_str m) = m" "AwsAuthMode_str m = ''assume_role'' \<or> AwsAuthMode_str m = ''static''"
    by (cases m; simp add: AwsAuthMode_of_def)+
  with m show "\<exists>v. g = (\<lambda>f. f\<lparr>wf_authMode := AwsAuthMode_of v\<rparr>) \<and> (v = ''assume_role'' \<or> v = ''static'')" by metis
qed blast

lemma account_fields_fires:
  "fires (account_fields_view granted s) a \<longleftrightarrow> granted ''aws.account:write'' \<and> (\<exists>g. a = EditForm g \<and> aws_edit_offered s g)"
proof -
  have m: "aw_formMode s = CreateAccount \<longleftrightarrow> aw_formMode s \<noteq> EditAccount" by (cases "aw_formMode s") auto
  have "fires (account_fields_view granted s) a \<Longrightarrow> \<exists>g. a = EditForm g"
    by (simp add: account_fields_view_def markup) blast
  moreover have "fires (account_fields_view granted s) (EditForm g) \<longleftrightarrow> granted ''aws.account:write'' \<and> aws_edit_offered s g" for g
    unfolding aws_edit_offered_def auth_mode_values [symmetric] m
    by (simp add: account_fields_view_def markup) blast
  ultimately show ?thesis by blast
qed

lemma account_form_fires:
  "fires (account_form_view granted n s) a \<longleftrightarrow> a = CloseAccountModal \<or> fires (account_fields_view granted s) a \<or>
     granted ''aws.account:write'' \<and> (a = SubmitAccount \<and> \<not> wn_createPending n \<and> \<not> wn_updatePending n \<or>
       a = TestAccount (aw_selectedAccountID s) \<and> aw_formMode s = EditAccount \<and> aw_selectedAccountID s \<noteq> [] \<and> \<not> wn_testPending n)"
proof -
  have "has_submit (account_fields_view granted s) = False" "submit_ready (account_fields_view granted s) = False"
    by (simp_all add: account_fields_view_def markup)
  then show ?thesis by (simp add: account_form_view_def markup) auto
qed

lemma account_modal_fires:
  "fires (account_modal_view granted c n s) a \<longleftrightarrow> a = CloseAccountModal \<or> fires (account_form_view granted n s) a"
  by (simp add: account_modal_view_def markup account_form_fires)

lemma aws_fires:
  "fires (AwsPage_view granted perms c n s) a \<longleftrightarrow> a = RefreshAws \<and> granted ''aws.account:read'' \<and> \<not> wn_refreshing n \<or>
     a = RunSync \<and> \<not> sync_disabled granted (wn_syncPending n) (q_data (wn_sync n)) \<or> a = StartCreate \<and> granted ''aws.account:write'' \<or>
     fires (accounts_panel_view granted c n s) a \<or> fires (runs_panel_view granted c n s) a \<or>
     aw_accountModalOpen s \<and> fires (account_modal_view granted c n s) a"
  by (simp add: AwsPage_view_def markup) (auto simp: sync_disabled_def sync_running_def split: option.splits)

lemmas aws_offers = aws_fires accounts_panel_fires runs_panel_fires account_modal_fires account_form_fires account_fields_fires

lemma AwsPage_wf: "wf_node (AwsPage_view granted perms c n s)"
  by (simp add: AwsPage_view_def accounts_panel_view_def runs_panel_view_def account_modal_view_def account_form_view_def
      account_fields_view_def markup)

section \<open>Properties\<close>

fun aws_needs :: "aws_action \<Rightarrow> string list" where
  "aws_needs RefreshAws = [''aws.account:read'']"
| "aws_needs CloseAccountModal = []"
| "aws_needs (SetSyncRunStatus _) = []"
| "aws_needs _ = [''aws.account:write'']"

interpretation aws_guard: guarded_markup "\<lambda>granted (perms, c, n, s). AwsPage_view granted perms c n s" aws_needs
proof unfold_locales
  fix granted and x :: "string list \<times> clock \<times> aws_net \<times> aws_page" and e p
  assume f: "fires (case x of (perms, c, n, s) \<Rightarrow> AwsPage_view granted perms c n s) e" "p \<in> set (aws_needs e)"
  obtain perms c n s where x: "x = (perms, c, n, s)" by (cases x)
  from f show "granted p" by (cases e) (auto simp: x aws_offers sync_disabled_def)
qed

text \<open>The page with the network and the clock it renders from.\<close>

type_synonym aws_world = "aws_page \<times> aws_net \<times> clock"

definition aws_world_view :: "(string \<Rightarrow> bool) \<Rightarrow> string list \<Rightarrow> aws_world \<Rightarrow> aws_action node" where
  "aws_world_view granted perms w = (case w of (s, n, c) \<Rightarrow> AwsPage_view granted perms c n s)"

definition aws_does :: "aws_action \<Rightarrow> aws_world \<Rightarrow> aws_world \<Rightarrow> bool" where
  "aws_does a w w' = (case (w, w') of ((s, n, c), (s', n', c')) \<Rightarrow> s' = fst (aws_act a s) \<and> n' = n \<and> c' = c)"

text \<open>The answers of the four mutations, and new data from the queries; every account has an identifier.\<close>

definition accounts_identified :: "aws_net \<Rightarrow> bool" where
  "accounts_identified n = list_all (\<lambda>x. awsacc_id x \<noteq> []) (query_items (wn_accounts n))"

inductive aws_env :: "aws_world \<Rightarrow> aws_world \<Rightarrow> bool" where
  queries: "accounts_identified n' \<Longrightarrow> aws_env (s, n, c) (s, n', c')"
| created: "awsacc_id x \<noteq> [] \<Longrightarrow> aws_env (s, n, c) (createAccount_onSuccess x s, n, c)"
| updated: "aws_env (s, n, c) (updateAccount_onSuccess x s, n, c)"
| refused: "aws_env (s, n, c) (account_onError e s, n, c)"
| tested: "aws_env (s, n, c) (settle test_onSuccess test_onError r s, n, c)"
| synchronised: "aws_env (s, n, c) (settle sync_onSuccess sync_onError r' s, n, c)"

definition aws_inv :: "aws_world \<Rightarrow> bool" where
  "aws_inv w = (case w of (s, n, c) \<Rightarrow> accounts_identified n \<and> (aw_formMode s = EditAccount \<longrightarrow> aw_selectedAccountID s \<noteq> []))"

lemmas aws_handlers = startCreate_def editAccount_def closeAccountModal_def aws_updateForm_def testSelectedOrAccount_def test_onMutate_def
  sync_onMutate_def submitAccount_def account_onMutate_def

lemmas aws_answers = createAccount_onSuccess_def updateAccount_onSuccess_def account_onError_def test_onSuccess_def test_onError_def
  sync_onSuccess_def sync_onError_def settle_def

interpretation aws_use: rendered "aws_world_view granted perms" aws_does aws_env aws_inv for granted perms
proof unfold_locales
  fix w e w'
  assume a: "aws_inv w" "fires (aws_world_view granted perms w) e" "aws_does e w w'"
  obtain s n c where w: "w = (s, n, c)" by (cases w)
  have "\<And>x. e = OpenAccount x \<Longrightarrow> awsacc_id x \<noteq> []"
    using a(1,2) by (auto simp: w aws_world_view_def aws_offers aws_inv_def accounts_identified_def list_all_iff)
  with a show "aws_inv w'"
    by (cases e; cases w') (auto simp: w aws_inv_def aws_does_def aws_handlers Let_def)
next
  fix w w'
  assume "aws_inv w" "aws_env w w'"
  then show "aws_inv w'"
    by (auto simp: aws_inv_def aws_answers elim!: aws_env.cases split: sum.splits)
qed

text \<open>
  C31: Saving always has a target: whatever the user did on the rendered page, a submission is refused only by the validator
  of the form; the message that asks to select an account first is never reached.
\<close>

theorem aws_save_has_target:
  assumes "visits (aws_world_view granted perms) aws_does aws_env (aws_mount, n0, c0) (s, n, c)" "accounts_identified n0"
  shows "aw_validationError (fst (aws_act SubmitAccount s)) = validateAwsAccountForm (aw_form s) (aw_formMode s) \<and>
    (snd (aws_act SubmitAccount s) = [] \<longleftrightarrow> validateAwsAccountForm (aw_form s) (aw_formMode s) \<noteq> [])"
proof -
  have "aws_inv (aws_mount, n0, c0)" using assms(2) by (simp add: aws_inv_def aws_mount_def)
  then have "aws_inv (s, n, c)" using aws_use.visits_keep [OF assms(1)] by blast
  then show ?thesis by (cases "aw_formMode s") (auto simp: aws_inv_def submitAccount_def account_onMutate_def Let_def)
qed

theorem aws_save_has_target_witness:
  "snd (aws_act SubmitAccount aws_mount) = []"
proof -
  obtain n :: aws_net where n: "accounts_identified n"
    using that [of "(undefined :: aws_net)\<lparr>wn_accounts := \<lparr>q_loading = False, q_error = None, q_data = None\<rparr>\<rparr>"]
    by (auto simp: accounts_identified_def query_items_def)
  have "validateAwsAccountForm (aw_form aws_mount) (aw_formMode aws_mount) \<noteq> []"
    by (simp add: aws_mount_def validateAwsAccountForm_def emptyAwsAccountForm_def trim_def)
  then show ?thesis
    using aws_save_has_target [OF visits.start n] by blast
qed

text \<open>
  An existing account keeps its identity in the dialog: in edit mode no control changes the account number or the kind of
  credentials, and only the credentials of the kind in use can be typed.
\<close>

theorem aws_edit_keeps_identity:
  assumes "fires (AwsPage_view granted perms c n s) (EditForm g)" "aw_formMode s = EditAccount"
  shows "wf_accountID (g f) = wf_accountID f \<and> wf_authMode (g f) = wf_authMode f \<and>
    (wf_authMode (aw_form s) = AssumeRole \<longrightarrow> wf_accessKeyID (g f) = wf_accessKeyID f \<and> wf_secretAccessKey (g f) = wf_secretAccessKey f) \<and>
    (wf_authMode (aw_form s) = StaticKeys \<longrightarrow> wf_roleARN (g f) = wf_roleARN f \<and> wf_externalID (g f) = wf_externalID f)"
  using assms by (auto simp: aws_offers aws_edit_offered_def)

text \<open>
  A late answer puts one account's data into another account's form. The answer to an update fills the form whatever is
  open: when the user saved one account, closed the dialog and opened another before the answer came, the dialog of the
  second account shows the first one's data, and saving again writes them to the second account.
\<close>

theorem late_update_overwrites:
  assumes "granted ''aws.account:write''" "x \<in> set (query_items (wn_accounts n))" "y \<in> set (query_items (wn_accounts n))"
    and "\<not> wn_createPending n" "\<not> wn_updatePending n" "awsacc_id x \<noteq> []" "awsacc_id y \<noteq> []"
    and "validateAwsAccountForm (awsAccountToForm (Some x)) EditAccount = []"
  shows "\<exists>s'. visits (aws_world_view granted perms) aws_does aws_env (s, n, c) (s', n, c) \<and>
    fires (aws_world_view granted perms (s', n, c)) SubmitAccount \<and>
    snd (aws_act SubmitAccount s') = [updateAwsAccount (awsacc_id y) (awsFormToUpdatePayload (awsAccountToForm (Some x)))]"
proof -
  let ?V = "visits (aws_world_view granted perms) aws_does aws_env (s, n, c)"
  let ?a = "editAccount x s"
  let ?b = "fst (submitAccount ?a)"
  let ?d = "editAccount y (closeAccountModal ?b)"
  have step: "?V (t, n, c) \<Longrightarrow> fires (AwsPage_view granted perms c n t) e \<Longrightarrow> ?V (fst (aws_act e t), n, c)" for t e
    by (rule visits.user [where t = "(t, n, c)" and e = e]) (simp_all add: aws_world_view_def aws_does_def)
  have o: "aw_accountModalOpen ?a" "aw_accountModalOpen ?b"
    by (simp_all add: aws_handlers Let_def)
  have "?V (?a, n, c)"
    using step [OF visits.start, of "OpenAccount x"] assms by (auto simp: aws_offers)
  then have "?V (?b, n, c)"
    using step [of ?a SubmitAccount] assms o by (auto simp: aws_offers split_def Let_def)
  then have "?V (closeAccountModal ?b, n, c)"
    using step [of ?b CloseAccountModal] o by (auto simp: aws_offers)
  then have "?V (?d, n, c)"
    using step [of "closeAccountModal ?b" "OpenAccount y"] assms by (auto simp: aws_offers)
  then have "?V (updateAccount_onSuccess x ?d, n, c)"
    by (rule visits.environment) (rule aws_env.updated)
  moreover have "fires (aws_world_view granted perms (updateAccount_onSuccess x ?d, n, c)) SubmitAccount"
    using assms by (simp add: aws_world_view_def aws_offers updateAccount_onSuccess_def editAccount_def)
  moreover have "snd (aws_act SubmitAccount (updateAccount_onSuccess x ?d)) =
      [updateAwsAccount (awsacc_id y) (awsFormToUpdatePayload (awsAccountToForm (Some x)))]"
    using assms by (simp add: updateAccount_onSuccess_def editAccount_def submitAccount_def account_onMutate_def Let_def)
  ultimately show ?thesis by blast
qed

end
