(* ===== verification/OidcView.thy ===== *)
theory OidcView
  imports OidcPage Markup
begin

text \<open>
  What the single sign-on page shows and what its controls do: the markup of
  \<open>src/web/src/features/oidc/OidcPage.tsx\<close>.
\<close>

section \<open>Markup\<close>

record oidc_net =
  on_settings :: "OIDCSettings query"
  on_fetching :: bool
  on_savePending :: bool
  on_testPending :: bool

datatype oidc_action =
    RefreshSettings
  | EditSettings "OIDCSettingsFormState \<Rightarrow> OIDCSettingsFormState"
  | RunTest
  | SubmitSettings

definition oidc_is_enabled :: "oidc_net \<Rightarrow> bool" where
  "oidc_is_enabled n = (case q_data (on_settings n) of None \<Rightarrow> False | Some x \<Rightarrow> oidc_enabled x)"

definition oidc_secret_saved :: "oidc_net \<Rightarrow> bool" where
  "oidc_secret_saved n = (case q_data (on_settings n) of None \<Rightarrow> False | Some x \<Rightarrow> oidc_has_client_secret x)"

definition oidc_issuer :: "oidc_net \<Rightarrow> string" where
  "oidc_issuer n = (case q_data (on_settings n) of None \<Rightarrow> [] | Some x \<Rightarrow> oidc_issuer_url x)"

definition oidc_updated :: "oidc_net \<Rightarrow> string option" where
  "oidc_updated n = Option.bind (q_data (on_settings n)) oidc_updated_at"

definition oidc_test_status :: "oidc_page \<Rightarrow> string" where
  "oidc_test_status s = (case op_test s of None \<Rightarrow> [] | Some r \<Rightarrow> oidctest_status r)"

definition oidc_metrics_view :: "clock \<Rightarrow> oidc_net \<Rightarrow> oidc_page \<Rightarrow> oidc_action node" where
  "oidc_metrics_view c n s =
    El tDiv []
      [El tArticle []
         [El tDiv [] [Icon ''Settings2''],
          El tDiv [] [El tDiv [] [tx ''Provider''], El tDiv [] [tx (or_else (or_else (oidc_issuer n) (of_issuerURL (op_form s))) ''-'')]],
          El tSpan [AClass (u16 (''status-pill '' @ (if oidc_is_enabled n then ''ok'' else ''warn'')))]
            [tx (if oidc_is_enabled n then ''active'' else ''off'')]],
       El tArticle []
         [El tDiv [] [Icon ''KeyRound''],
          El tDiv [] [El tDiv [] [tx ''Client secret''], El tDiv [] [tx (if oidc_secret_saved n then ''saved'' else ''missing'')]],
          El tSpan [AClass (u16 (''status-pill '' @ (if oidc_secret_saved n then ''ok'' else ''info'')))]
            [tx (if oidc_secret_saved n then ''stored'' else ''empty'')]],
       El tArticle []
         [El tDiv [] [Icon ''PlugZap''],
          El tDiv []
            [El tDiv [] [tx ''Last test''], El tDiv [] [tx (or_else (testSummary (\<lambda>v. formatDateTime c (Some v)) (op_test s)) ''-'')]],
          El tSpan [AClass (u16 (''status-pill '' @ (if op_test s \<noteq> None then ''ok'' else ''info'')))]
            [tx (or_else (oidc_test_status s) ''idle'')]]]"

definition oidc_fields_view :: "(string \<Rightarrow> bool) \<Rightarrow> oidc_net \<Rightarrow> oidc_page \<Rightarrow> oidc_action node" where
  "oidc_fields_view granted n s =
    El tDiv []
      [El tLabel []
         [El tSpan [] [tx ''Issuer URL''],
          El tInput [AValue (u16 (of_issuerURL (op_form s))),
               OnChange (\<lambda>v. EditSettings (\<lambda>f. f\<lparr>of_issuerURL := v\<rparr>)),
               APlaceholder (u16 ''https://auth.example.com''),
               ADisabled (\<not> granted ''iam.user:write'')]
            []],
       El tLabel []
         [El tSpan [] [tx ''Client ID''],
          El tInput [AValue (u16 (of_clientID (op_form s))),
               OnChange (\<lambda>v. EditSettings (\<lambda>f. f\<lparr>of_clientID := v\<rparr>)),
               ADisabled (\<not> granted ''iam.user:write'')]
            []],
       El tLabel []
         [El tSpan [] [tx ''Client secret''],
          El tInput [AType ''password'',
               AValue (u16 (of_clientSecret (op_form s))),
               OnChange (\<lambda>v. EditSettings (\<lambda>f. f\<lparr>of_clientSecret := v\<rparr>)),
               APlaceholder (u16 (if oidc_secret_saved n then ''Saved, leave empty to keep'' else [])),
               ADisabled (\<not> granted ''iam.user:write'')]
            []],
       El tLabel []
         [El tSpan [] [tx ''Redirect URL''],
          El tInput [AValue (u16 (of_redirectURL (op_form s))),
               OnChange (\<lambda>v. EditSettings (\<lambda>f. f\<lparr>of_redirectURL := v\<rparr>)),
               APlaceholder (u16 ''http://localhost:8080/auth/oidc/callback''),
               ADisabled (\<not> granted ''iam.user:write'')]
            []],
       El tLabel []
         [El tSpan [] [tx ''Authorize URL''],
          El tInput [AValue (u16 (of_authorizeURL (op_form s))),
               OnChange (\<lambda>v. EditSettings (\<lambda>f. f\<lparr>of_authorizeURL := v\<rparr>)),
               ADisabled (\<not> granted ''iam.user:write'')]
            []],
       El tLabel []
         [El tSpan [] [tx ''Token URL''],
          El tInput [AValue (u16 (of_tokenURL (op_form s))),
               OnChange (\<lambda>v. EditSettings (\<lambda>f. f\<lparr>of_tokenURL := v\<rparr>)),
               ADisabled (\<not> granted ''iam.user:write'')]
            []],
       El tLabel []
         [El tSpan [] [tx ''Userinfo URL''],
          El tInput [AValue (u16 (of_userInfoURL (op_form s))),
               OnChange (\<lambda>v. EditSettings (\<lambda>f. f\<lparr>of_userInfoURL := v\<rparr>)),
               ADisabled (\<not> granted ''iam.user:write'')]
            []],
       El tLabel []
         [El tSpan [] [tx ''Scopes''],
          El tInput [AValue (u16 (of_scopes (op_form s))),
               OnChange (\<lambda>v. EditSettings (\<lambda>f. f\<lparr>of_scopes := v\<rparr>)),
               APlaceholder (u16 ''openid, profile, email''),
               ADisabled (\<not> granted ''iam.user:write'')]
            []]]"

definition oidc_form_view :: "(string \<Rightarrow> bool) \<Rightarrow> oidc_net \<Rightarrow> oidc_page \<Rightarrow> oidc_action node" where
  "oidc_form_view granted n s =
    El tForm [OnSubmit SubmitSettings]
      [El tLabel []
         [El tInput [AType ''checkbox'',
               AChecked (of_enabled (op_form s)),
               OnCheck (\<lambda>v. EditSettings (\<lambda>f. f\<lparr>of_enabled := v\<rparr>)),
               ADisabled (\<not> granted ''iam.user:write'' \<or> on_savePending n \<or> on_testPending n)]
            [],
          El tSpan [] [tx ''Enable OIDC login'']],
       oidc_fields_view granted n s,
       El tDiv []
         [El tButton [AType ''button'', OnClick RunTest, ADisabled (\<not> granted ''iam.user:write'' \<or> on_testPending n \<or> on_savePending n)]
            [Icon ''PlugZap'', El tSpan [] [tx (if on_testPending n then ''Testing'' else ''Test connection'')]],
          El tButton [AType ''submit'', ADisabled (\<not> granted ''iam.user:write'' \<or> on_savePending n \<or> on_testPending n)]
            [Icon ''Save'', El tSpan [] [tx (if on_savePending n then ''Saving'' else ''Save configuration'')]]]]"

definition OidcPage_view :: "(string \<Rightarrow> bool) \<Rightarrow> string list \<Rightarrow> clock \<Rightarrow> oidc_net \<Rightarrow> oidc_page \<Rightarrow> oidc_action node" where
  "OidcPage_view granted perms c n s =
    El tSection []
      [El tDiv []
         [El tDiv [] [El tP [] [tx ''Runtime settings''], El tH1 [] [tx ''OIDC'']],
          El tSpan [AClass (u16 (''status-pill '' @ (if oidc_is_enabled n then ''ok'' else ''warn'')))]
            [Icon ''ShieldCheck'', tx (if oidc_is_enabled n then ''enabled'' else ''disabled'')]],
       oidc_metrics_view c n s,
       El tArticle []
         [El tDiv []
            [El tDiv [] [El tP [] [tx ''Access''], El tH2 [] [tx ''IAM permissions'']],
             El tButton [AType ''button'', OnClick RefreshSettings, ADisabled (\<not> granted ''iam.user:read'' \<or> on_fetching n)]
               [Icon ''RefreshCw'', El tSpan [] [tx (if on_fetching n then ''Refreshing'' else ''Refresh'')]]],
          PermissionList_view perms ''No IAM permissions.''],
       El tArticle []
         ([El tDiv []
             [El tDiv [] [El tP [] [tx ''Configuration''], El tH2 [] [tx ''Provider settings'']],
              El tSpan [] [tx ''Updated '', tx (formatDateTime c (oidc_updated n))]]] @
          (if \<not> granted ''iam.user:read'' then [PanelState_view PanelPermission (u16 ''Permission required: iam.user:read'')] else []) @
          (if granted ''iam.user:read'' \<and> \<not> granted ''iam.user:write'' then
             [PanelState_view PanelPermission (u16 ''Permission required: iam.user:write'')]
           else []) @
          (if q_loading (on_settings n) then [PanelState_view PanelLoading (u16 ''Loading OIDC configuration'')] else []) @
          (if q_error (on_settings n) \<noteq> None then [PanelState_view PanelError (query_error_text (on_settings n))] else []) @
          (if op_validationError s \<noteq> [] then [PanelState_view PanelError (u16 (op_validationError s))] else []) @
          feedback_view (op_feedback s) @
          [oidc_form_view granted n s])]"

section \<open>Actions\<close>

fun oidc_act :: "oidc_action \<Rightarrow> oidc_page \<Rightarrow> oidc_page \<times> api_call list" where
  "oidc_act RefreshSettings s = (s, [getOIDCSettings])"
| "oidc_act (EditSettings f) s = (oidc_updateForm f s, [])"
| "oidc_act RunTest s = (let (s', call) = runConnectionTest s in (s', case call of None \<Rightarrow> [] | Some x \<Rightarrow> [x]))"
| "oidc_act SubmitSettings s = (let (s', call) = submitSettings s in (s', case call of None \<Rightarrow> [] | Some x \<Rightarrow> [x]))"

section \<open>What the page offers\<close>

text \<open>The edits of the form: the text fields, and the switch.\<close>

definition oidc_text_edit :: "(OIDCSettingsFormState \<Rightarrow> OIDCSettingsFormState) \<Rightarrow> bool" where
  "oidc_text_edit g = ((\<exists>v. g = (\<lambda>f. f\<lparr>of_issuerURL := v\<rparr>)) \<or> (\<exists>v. g = (\<lambda>f. f\<lparr>of_clientID := v\<rparr>)) \<or>
     (\<exists>v. g = (\<lambda>f. f\<lparr>of_clientSecret := v\<rparr>)) \<or> (\<exists>v. g = (\<lambda>f. f\<lparr>of_redirectURL := v\<rparr>)) \<or> (\<exists>v. g = (\<lambda>f. f\<lparr>of_authorizeURL := v\<rparr>)) \<or>
     (\<exists>v. g = (\<lambda>f. f\<lparr>of_tokenURL := v\<rparr>)) \<or> (\<exists>v. g = (\<lambda>f. f\<lparr>of_userInfoURL := v\<rparr>)) \<or> (\<exists>v. g = (\<lambda>f. f\<lparr>of_scopes := v\<rparr>)))"

lemma oidc_fields_facts [markup]:
  "fires (oidc_fields_view granted n s) a \<longleftrightarrow> granted ''iam.user:write'' \<and> (\<exists>g. a = EditSettings g \<and> oidc_text_edit g)"
  "has_submit (oidc_fields_view granted n s) = False" "submit_ready (oidc_fields_view granted n s) = False"
  by (simp add: oidc_fields_view_def markup, auto simp: oidc_text_edit_def) (simp_all add: oidc_fields_view_def markup)

lemma oidc_metrics_facts [markup]: "fires (oidc_metrics_view c n s) a = False" "wf_node (oidc_metrics_view c n s)"
  by (simp_all add: oidc_metrics_view_def markup)

lemma oidc_fires:
  "fires (OidcPage_view granted perms c n s) a \<longleftrightarrow> a = RefreshSettings \<and> granted ''iam.user:read'' \<and> \<not> on_fetching n \<or>
     granted ''iam.user:write'' \<and> ((\<exists>g. a = EditSettings g \<and> oidc_text_edit g) \<or>
       \<not> on_savePending n \<and> \<not> on_testPending n \<and> (a = SubmitSettings \<or> a = RunTest \<or> (\<exists>v. a = EditSettings (\<lambda>f. f\<lparr>of_enabled := v\<rparr>))))"
  by (simp add: OidcPage_view_def oidc_form_view_def markup) auto

lemma OidcPage_wf: "wf_node (OidcPage_view granted perms c n s)"
  by (simp add: OidcPage_view_def oidc_form_view_def oidc_fields_view_def markup)

section \<open>Properties\<close>

fun oidc_needs :: "oidc_action \<Rightarrow> string list" where
  "oidc_needs RefreshSettings = [''iam.user:read'']"
| "oidc_needs _ = [''iam.user:write'']"

interpretation oidc_guard: guarded_markup "\<lambda>granted (perms, c, n, s). OidcPage_view granted perms c n s" oidc_needs
  by unfold_locales (auto simp: oidc_fires split: prod.splits elim!: oidc_needs.elims)

text \<open>
  What is typed while a save is under way is lost. The text fields stay enabled during the save, so the page offers to
  edit them, but the answer replaces the whole form by the saved settings: the form after it does not depend on the edit.
\<close>

theorem typed_during_save_lost:
  assumes "granted ''iam.user:write''" "oidc_text_edit g"
  shows "fires (OidcPage_view granted perms c n s) (EditSettings g) \<and>
    op_form (save_onSuccess saved (fst (oidc_act (EditSettings g) s))) = op_form (save_onSuccess saved s)"
  using assms by (auto simp: oidc_fires oidc_updateForm_def save_onSuccess_def)

end
