(* ===== verification/ShellView.thy ===== *)
theory ShellView
  imports Shell Auth Launch Markup
begin

text \<open>
  What the frame of the portal, the login, the overview, the profile and the placeholder page show and what
  their controls do: the markup of \<open>src/web/src/app/layout/AppShell.tsx\<close>,
  \<open>src/web/src/components/ThemeToggle.tsx\<close>, \<open>src/web/src/features/auth/LoginPage.tsx\<close>,
  \<open>src/web/src/features/overview/OverviewPage.tsx\<close>, \<open>src/web/src/features/profile/ProfilePage.tsx\<close> and
  \<open>src/web/src/features/placeholder/ModulePlaceholder.tsx\<close>.
\<close>

section \<open>Markup\<close>

datatype shell_action = ToggleTheme | SignOut

datatype login_action = SetUsername string | SetPassword string | SubmitLogin | BeginOidc string

datatype overview_action = RefreshAll

datatype profile_action = RefreshProfile

definition theme_icon :: "ThemeMode \<Rightarrow> string" where
  "theme_icon mode = (case mode of SystemTheme \<Rightarrow> ''Monitor'' | LightTheme \<Rightarrow> ''Sun'' | DarkTheme \<Rightarrow> ''Moon'')"

definition ThemeToggle_label :: "bool option \<Rightarrow> ThemeMode \<Rightarrow> string" where
  "ThemeToggle_label prefers_dark mode = ''Theme: '' @ LABEL mode @
     (if mode = SystemTheme then '' ('' @ ThemeMode_str (useResolvedTheme prefers_dark mode) @ '')'' else [])"

text \<open>The icons of the navigation.\<close>

definition nav_icon :: "NavItem \<Rightarrow> string" where
  "nav_icon item = (case map_of
     [(''/overview'', ''LayoutDashboard''), (''/connect'', ''Cable''), (''/sessions'', ''SquareTerminal''), (''/access'', ''KeyRound''),
      (''/cmdb'', ''Database''), (''/connectivity'', ''Network''), (''/iam'', ''UsersRound''), (''/audit'', ''Activity''), (''/aws'', ''Cloud''),
      (''/oidc'', ''ShieldCheck''), (''/profile'', ''UserRound'')] (nav_to item) of None \<Rightarrow> [] | Some icon \<Rightarrow> icon)"

fun SessionStatus_str :: "SessionStatus \<Rightarrow> string" where
  "SessionStatus_str SessionError = ''error''"
| "SessionStatus_str SessionClosed = ''closed''"
| "SessionStatus_str SessionActive = ''active''"

record overview_net =
  ov_health :: "HealthResponse query"
  ov_healthFetching :: bool
  ov_assets :: "nat query"
  ov_sessions :: "SessionAuditRecord list query"
  ov_grants :: "BastionGrant list query"
  ov_requests :: "BastionRequest list query"
  ov_refreshing :: bool

definition health_ok :: "overview_net \<Rightarrow> bool" where
  "health_ok n = (case q_data (ov_health n) of None \<Rightarrow> False | Some h \<Rightarrow> health_status h = HealthOk)"

text \<open>\<open>assets.data?.total ?? 0\<close>, the counts and the five latest sessions.\<close>

definition opt_total :: "nat query \<Rightarrow> nat" where
  "opt_total q = (case q_data q of None \<Rightarrow> 0 | Some t \<Rightarrow> t)"

definition overview_counts :: "overview_net \<Rightarrow> SessionCounts" where
  "overview_counts n = sessionCounts (query_items (ov_sessions n))"

definition recentSessions :: "overview_net \<Rightarrow> SessionAuditRecord list" where
  "recentSessions n = take 5 (query_items (ov_sessions n))"

definition metric_nodes :: "string metric \<Rightarrow> 'e node list" where
  "metric_nodes m = (case m of MetricNoAccess \<Rightarrow> [Txt em_dash] | MetricLoading \<Rightarrow> [Txt ellipsis] | MetricValue v \<Rightarrow> [tx v])"

definition identity_roles :: "Identity option \<Rightarrow> string list" where
  "identity_roles identity = (case identity of None \<Rightarrow> [] | Some i \<Rightarrow> ident_roles i)"

definition identity_permissions :: "Identity option \<Rightarrow> string list" where
  "identity_permissions identity = (case identity of None \<Rightarrow> [] | Some i \<Rightarrow> ident_permissions i)"

definition user_field :: "(User \<Rightarrow> string) \<Rightarrow> Identity option \<Rightarrow> string" where
  "user_field f identity = (case identity of None \<Rightarrow> [] | Some i \<Rightarrow> f (ident_user i))"

definition ThemeToggle_view :: "bool option \<Rightarrow> ThemeMode \<Rightarrow> shell_action node" where
  "ThemeToggle_view prefers_dark mode =
    El tButton [AType ''button'',
         OnClick ToggleTheme,
         ATitle (u16 (ThemeToggle_title prefers_dark mode)),
         ALabel (u16 (ThemeToggle_label prefers_dark mode))]
      [Icon (theme_icon mode)]"

definition NavGroup_view :: "(string \<Rightarrow> bool) \<Rightarrow> search_params \<Rightarrow> string \<Rightarrow> NavItem list \<Rightarrow> shell_action node" where
  "NavGroup_view isActive search title items =
    El tDiv []
      ([El tDiv [] [tx title]] @
       (map (\<lambda>item.
          El tNavLink [ATo (nav_to item), AClass (u16 (nav_class (isActive (nav_to item)) search item))]
            ([Icon (nav_icon item),
              El tSpan [] [tx (nav_label item)]] @
             (if truthy (nav_badge item) then [El tSpan [] [Txt (u16 (opt_or (nav_badge item) []))]] else []))) items))"

definition AppShell_view :: "(string \<Rightarrow> bool) \<Rightarrow> search_params \<Rightarrow> bool option \<Rightarrow> ThemeMode \<Rightarrow> Identity option \<Rightarrow> shell_action node list \<Rightarrow> shell_action node" where
  "AppShell_view isActive search prefers_dark mode identity outlet =
    El tDiv []
      [El tAside []
         [El tDiv [] [El tDiv [] [tx ''OP''], El tDiv [] [El tDiv [] [tx ''Ops Platform''], El tDiv [] [tx ''Operations console'']]],
          El tNav [ALabel (u16 ''Primary'')]
            [NavGroup_view isActive search ''Operate'' operateNav,
             NavGroup_view isActive search ''Inventory'' inventoryNav,
             NavGroup_view isActive search ''Govern'' governNav],
          El tDiv [] [NavGroup_view isActive search ''Account'' accountNav]],
       El tDiv []
         [El tHeader []
            [El tDiv [] [Icon ''Activity'', El tSpan [] [tx ''Operations console'']],
             El tDiv []
               [ThemeToggle_view prefers_dark mode,
                El tSpan [] [tx (displayName identity)],
                El tButton [AType ''button'', OnClick SignOut, ATitle (u16 ''Sign out'')] [Icon ''LogOut'']]],
          El tMain [] (outlet)]]"

definition LoginPage_view :: "string \<Rightarrow> login_form \<Rightarrow> login_action node" where
  "LoginPage_view nextPath f =
    El tMain []
      [El tSection [AOther ''aria-labelledby'' (u16 ''login-title'')]
         [El tDiv []
            [El tDiv [] [tx ''OP''],
             El tDiv [] [El tH1 [AOther ''id'' (u16 ''login-title'')] [tx ''Ops Platform''], El tP [] [tx ''Sign in to continue.'']]],
          El tForm [OnSubmit SubmitLogin]
            ([El tLabel []
                [El tSpan [] [tx ''Username''],
                 El tInput [AValue (u16 (lf_username f)), OnChange SetUsername, AOther ''autoComplete'' (u16 (lf_username f))] []],
              El tLabel []
                [El tSpan [] [tx ''Password''],
                 El tInput [AValue (u16 (lf_password f)),
                      AType (lf_password f),
                      OnChange SetPassword,
                      AOther ''autoComplete'' (u16 ''current-password'')]
                   []]] @
             (if lf_error f \<noteq> [] then [El tDiv [ARole ''alert''] [Icon ''AlertCircle'', El tSpan [] [Txt (lf_error f)]]] else []) @
             [El tButton [AType ''submit'', ADisabled (lf_submitting f)]
                [Icon ''KeyRound'', El tSpan [] [tx (if lf_submitting f then ''Signing in'' else ''Sign in'')]]]),
          El tButton [AType ''button'', OnClick (BeginOidc (if nextPath = ''/login'' then ''/'' else nextPath))]
            [Icon ''ShieldCheck'', El tSpan [] [tx ''Continue with OIDC'']]]]"

definition StatusPill_view :: "bool \<Rightarrow> string \<Rightarrow> overview_action node" where
  "StatusPill_view ok label =
    El tSpan [AClass (u16 (''status-pill '' @ (if ok then ''ok'' else ''warn'')))] [tx label]"

definition MetricCard_view :: "overview_action node list \<Rightarrow> string \<Rightarrow> overview_action node list \<Rightarrow> string \<Rightarrow> bool \<Rightarrow> overview_action node" where
  "MetricCard_view icon label value pill pillOk =
    El tArticle [] [El tDiv [] (icon), El tDiv [] [El tDiv [] [tx label], El tDiv [] (value)], StatusPill_view pillOk pill]"

definition overview_metrics_view :: "(string \<Rightarrow> bool) \<Rightarrow> clock \<Rightarrow> overview_net \<Rightarrow> overview_action node" where
  "overview_metrics_view granted c n =
    El tDiv []
      [MetricCard_view ([Icon (if ov_healthFetching n then ''Loader2'' else ''Wifi'')]) ''API health''
         [tx (if health_ok n then ''Online'' else ''Unavailable'')] (if health_ok n then ''ok'' else ''check'') (health_ok n),
       MetricCard_view [Icon ''Database''] ''Assets''
         (metric_nodes (metricValue (granted ''cmdb.asset:read'') (ov_assets n) (nat_str (opt_total (ov_assets n)))))
         (if granted ''cmdb.asset:read'' then ''inventory'' else ''no access'') (granted ''cmdb.asset:read''),
       MetricCard_view [Icon ''SquareTerminal''] (if granted ''bastion.session:read'' then ''Active sessions'' else ''Active sessions (yours)'')
         (metric_nodes (metricValue (granted ''cmdb.asset:read'') (ov_sessions n) (nat_str (cnt_active (overview_counts n)))))
         (if granted ''cmdb.asset:read'' then nat_str (cnt_total (overview_counts n)) @ '' loaded'' else ''no access'') (granted ''cmdb.asset:read''),
       MetricCard_view [Icon ''KeyRound''] ''My active grants''
         (metric_nodes (metricValue (granted ''bastion.grant:read'') (ov_grants n) (nat_str (length (filter bgrant_active (query_items (ov_grants n)))))))
         (grants_pill granted (ck_parse c) (ck_now c) (query_items (ov_grants n))) (granted ''bastion.grant:read''),
       MetricCard_view [Icon ''Inbox''] (if granted ''bastion.grant:write'' then ''Pending requests'' else ''Pending requests (yours)'')
         (metric_nodes (metricValue (granted ''bastion.request:read'') (ov_requests n) (nat_str (length (query_items (ov_requests n))))))
         (fst (requests_pill granted (ov_requests n))) (snd (requests_pill granted (ov_requests n)))]"

definition overview_panels_view :: "(string \<Rightarrow> bool) \<Rightarrow> clock \<Rightarrow> Identity option \<Rightarrow> overview_net \<Rightarrow> overview_action node" where
  "overview_panels_view granted c identity n =
    El tDiv []
      [El tArticle []
         ([El tDiv []
             [El tDiv [] [El tP [] [tx ''Operate''], El tH2 [] [tx ''Recent activity'']],
              El tLink [ATo ''/audit''] [Txt (u16 ''Open Audit '' @ right_arrow)]]] @
          (if \<not> granted ''cmdb.asset:read'' then
             [El tP [] [tx ''Permission required: cmdb.asset:read'']]
           else
             ((if \<not> granted ''bastion.session:read'' then [El tP [] [tx ''Showing only your own sessions.'']] else []) @
              (if q_loading (ov_sessions n) then
                 [El tP [] [Txt (u16 ''Loading'' @ ellipsis)]]
               else
                 (if length (recentSessions n) = 0 then
                    [El tP [] [tx ''No recent sessions.'']]
                  else
                    [El tUl []
                       (map (\<lambda>session.
                          El tLi []
                            [El tSpan [] [tx (formatDateTime c (Some (sess_started_at session)))],
                             El tSpan [] [tx (or_else (sess_user_name session) (sess_user_id session))],
                             El tLink [ATo (''/audit'' @ buildAuditSearch \<lparr>aq_assetID = Some (sess_asset_id session), aq_userID = None, aq_status = None\<rparr>),
                                  ATitle (u16 ''Filter audit to this asset'')]
                               [tx (or_else (sess_asset_name session) (sess_asset_id session))],
                             El tSpan [AClass (u16 (''status-pill '' @ sessionStatusTone session))] [tx (SessionStatus_str (sessionStatus session))]]) (recentSessions n))]))))),
       El tArticle []
         [El tDiv []
            [El tDiv [] [El tP [] [tx ''Console''], El tH2 [] [tx ''Platform status'']],
             StatusPill_view (health_ok n) (if health_ok n then ''operational'' else ''degraded'')],
          El tDiv []
            [El tDiv [] [Icon ''CheckCircle2'', tx '' React/Vite console served standalone; ops-api is API-only''],
             El tDiv []
               [Icon ''Clock'',
                tx '' API '',
                tx (if health_ok n then ''online'' else ''unavailable''),
                Txt (u16 '' '' @ em_dash @ u16 '' re-checked every 30s'')],
             El tDiv []
               [Icon ''CheckCircle2'',
                tx '' Signed in as '',
                tx (displayName identity),
                Txt (u16 '' '' @ middle_dot),
                tx '' '',
                num_tx (length (identity_roles identity)),
                tx '' role'',
                tx (if length (identity_roles identity) = 1 then [] else ''s''),
                Txt (u16 '' '' @ middle_dot),
                tx '' '',
                num_tx (length (identity_permissions identity)),
                tx '' permission grant'',
                tx (if length (identity_permissions identity) = 1 then [] else ''s'')]]]]"

definition OverviewPage_view :: "(string \<Rightarrow> bool) \<Rightarrow> clock \<Rightarrow> Identity option \<Rightarrow> overview_net \<Rightarrow> overview_action node" where
  "OverviewPage_view granted c identity n =
    El tSection []
      [El tDiv []
         [El tDiv [] [El tP [] [tx ''Overview''], El tH1 [] [tx ''Good to see you, '', tx (displayName identity)]],
          El tButton [AType ''button'', OnClick RefreshAll, ADisabled (ov_refreshing n)]
            [Icon ''RefreshCw'', El tSpan [] [tx (if ov_refreshing n then ''Refreshing'' else ''Refresh'')]]],
       overview_metrics_view granted c n,
       overview_panels_view granted c identity n]"

definition ProfilePage_view :: "clock \<Rightarrow> Identity option \<Rightarrow> bool \<Rightarrow> profile_action node" where
  "ProfilePage_view c identity refreshing =
    El tSection []
      [El tDiv []
         [El tDiv [] [El tP [] [tx ''Profile''], El tH1 [] [tx (displayName identity)]],
          El tButton [AType ''button'', OnClick RefreshProfile, ADisabled refreshing]
            [Icon ''RefreshCw'', El tSpan [] [tx (if refreshing then ''Refreshing'' else ''Refresh'')]]],
       El tDiv []
         [El tArticle []
            [El tDiv [] [El tDiv [] [Icon ''UserRound''], El tDiv [] [El tP [] [tx ''Identity''], El tH2 [] [tx (profile_heading identity)]]],
             El tDl []
               [El tDiv [] [El tDt [] [tx ''User ID''], El tDd [] [tx (or_else (user_field usr_id identity) ''-'')]],
                El tDiv [] [El tDt [] [tx ''OIDC subject''], El tDd [] [tx (or_else (user_field usr_oidc_subject identity) ''-'')]],
                El tDiv []
                  [El tDt [] [tx ''Last login''],
                   El tDd []
                     [tx (if user_field usr_last_login_at identity \<noteq> [] then ck_local c (user_field usr_last_login_at identity) else ''-'')]]]],
          El tArticle []
            [El tDiv [] [El tDiv [] [El tP [] [tx ''Access''], El tH2 [] [tx ''Roles'']], El tSpan [] [num_tx (length (identity_roles identity))]],
             El tDiv []
               ((map (\<lambda>role. El tSpan [] [tx role]) (identity_roles identity)) @
                (if identity_roles identity = [] then [El tSpan [] [tx ''No roles.'']] else []))]],
       El tArticle []
         [El tDiv []
            [El tDiv [] [El tP [] [tx ''RBAC''], El tH2 [] [tx ''Effective permissions'']],
             El tSpan [] [num_tx (length (identity_permissions identity))]],
          PermissionList_view (identity_permissions identity) ''No permissions.'']]"

definition ModulePlaceholder_view :: "(string \<Rightarrow> bool) \<Rightarrow> string \<Rightarrow> string \<Rightarrow> string \<Rightarrow> string list \<Rightarrow> unit node" where
  "ModulePlaceholder_view granted title area permission workflows =
    El tSection []
      [El tDiv []
         [El tDiv [] [El tP [] [tx area], El tH1 [] [tx title]],
          El tSpan [AClass (u16 (''status-pill '' @ (if granted permission then ''ok'' else ''warn'')))]
            [Icon ''ShieldCheck'', tx (if granted permission then permission else ''Needs '' @ permission)]],
       El tDiv []
         [El tDiv [] [El tDiv [] [El tP [] [tx ''Migration queue''], El tH2 [] [tx ''Legacy workflow parity'']], El tSpan [] [tx ''queued'']],
          El tDiv [] ((map (\<lambda>workflow. El tDiv [] [Icon ''CheckCircle2'', El tSpan [] [tx workflow]]) workflows))]]"

section \<open>Actions\<close>

fun shell_act :: "shell_action \<Rightarrow> theme_state \<times> auth_state \<Rightarrow> theme_state \<times> auth_state" where
  "shell_act ToggleTheme (t, a) = (fst (cycleMode t), a)"
| "shell_act SignOut (t, a) = (t, logout a)"

text \<open>The login form, the credentials it hands on, and the address the browser is sent to.\<close>

fun login_act :: "string \<Rightarrow> login_action \<Rightarrow> login_form \<Rightarrow> login_form \<times> LocalLoginRequest option \<times> string option" where
  "login_act BASE_URL (SetUsername v) f = (f\<lparr>lf_username := v\<rparr>, None, None)"
| "login_act BASE_URL (SetPassword v) f = (f\<lparr>lf_password := v\<rparr>, None, None)"
| "login_act BASE_URL SubmitLogin f = (fst (onSubmit f), snd (onSubmit f), None)"
| "login_act BASE_URL (BeginOidc p) f = (f, None, Some (beginOidcLogin BASE_URL p))"

section \<open>What the pages offer\<close>

lemma NavGroup_facts [markup]:
  "fires (NavGroup_view isActive search title items) a = False" "wf_node (NavGroup_view isActive search title items)"
  "links (NavGroup_view isActive search title items) = map nav_to items"
proof -
  show "fires (NavGroup_view isActive search title items) a = False" "wf_node (NavGroup_view isActive search title items)"
    by (simp_all add: NavGroup_view_def markup)
  show "links (NavGroup_view isActive search title items) = map nav_to items"
    by (induction items) (auto simp: NavGroup_view_def List.map_filter_simps)
qed

lemma ThemeToggle_facts [markup]:
  "fires (ThemeToggle_view d m) a \<longleftrightarrow> a = ToggleTheme" "wf_node (ThemeToggle_view d m)" "links (ThemeToggle_view d m) = []"
  by (simp_all add: ThemeToggle_view_def markup)

lemma AppShell_fires: "fires (AppShell_view isActive search d m identity outlet) a \<longleftrightarrow> a = ToggleTheme \<or> a = SignOut \<or> fires_in outlet a"
  by (simp add: AppShell_view_def markup)

lemma LoginPage_fires:
  "fires (LoginPage_view nextPath f) a \<longleftrightarrow> (\<exists>v. a = SetUsername v) \<or> (\<exists>v. a = SetPassword v) \<or> a = SubmitLogin \<and> \<not> lf_submitting f \<or>
     a = BeginOidc (if nextPath = ''/login'' then ''/'' else nextPath)"
  by (simp add: LoginPage_view_def markup) auto

lemma metric_inert [markup]: "fires_in (metric_nodes m) a = False" "list_all wf_node (metric_nodes m)" "concat (map links (metric_nodes m)) = []"
  by (simp_all add: metric_nodes_def split: metric.split)

lemma MetricCard_facts [markup]:
  "fires (MetricCard_view icon label value pill ok) a = (fires_in icon a \<or> fires_in value a)"
  "wf_node (MetricCard_view icon label value pill ok) = (list_all wf_node icon \<and> list_all wf_node value)"
  "links (MetricCard_view icon label value pill ok) = concat (map links icon) @ concat (map links value)"
  by (simp_all add: MetricCard_view_def StatusPill_view_def markup)

lemma overview_metrics_facts [markup]:
  "fires (overview_metrics_view granted c n) a = False" "wf_node (overview_metrics_view granted c n)" "links (overview_metrics_view granted c n) = []"
  by (simp_all add: overview_metrics_view_def markup)

lemma Overview_fires: "fires (OverviewPage_view granted c identity n) a \<longleftrightarrow> a = RefreshAll \<and> \<not> ov_refreshing n"
  by (cases a) (simp add: OverviewPage_view_def overview_panels_view_def StatusPill_view_def markup)

lemma Profile_fires: "fires (ProfilePage_view c identity refreshing) a \<longleftrightarrow> a = RefreshProfile \<and> \<not> refreshing"
  by (cases a) (simp add: ProfilePage_view_def markup)

lemma shell_views_wf:
  "list_all wf_node outlet \<Longrightarrow> wf_node (AppShell_view isActive search d m identity outlet)"
  "wf_node (LoginPage_view nextPath f)" "wf_node (OverviewPage_view granted c identity n)" "wf_node (ProfilePage_view c identity refreshing)"
  "wf_node (ModulePlaceholder_view granted title area permission workflows)"
  by (simp_all add: AppShell_view_def LoginPage_view_def OverviewPage_view_def overview_panels_view_def StatusPill_view_def ProfilePage_view_def
      ModulePlaceholder_view_def markup)

section \<open>Properties\<close>

lemma map_filter_Nil [simp]: "List.map_filter f [] = []" by (simp add: List.map_filter_simps)

lemma overview_panel_links:
  "links (overview_panels_view granted c identity n) = ''/audit'' #
     (if granted ''cmdb.asset:read'' \<and> \<not> q_loading (ov_sessions n)
      then map (\<lambda>session. ''/audit'' @ buildAuditSearch \<lparr>aq_assetID = Some (sess_asset_id session), aq_userID = None, aq_status = None\<rparr>) (recentSessions n)
      else [])"
  by (simp add: overview_panels_view_def StatusPill_view_def comp_def List.map_filter_simps)

text \<open>
  The overview tells nothing without permission: the sessions are listed, and linked to the audit page of their asset,
  exactly when assets may be read and the answer is there, and at most five of them.
\<close>

theorem overview_links:
  "links (OverviewPage_view granted c identity n) = ''/audit'' #
     (if granted ''cmdb.asset:read'' \<and> \<not> q_loading (ov_sessions n)
      then map (\<lambda>session. ''/audit'' @ buildAuditSearch \<lparr>aq_assetID = Some (sess_asset_id session), aq_userID = None, aq_status = None\<rparr>) (recentSessions n)
      else []) \<and>
   length (links (OverviewPage_view granted c identity n)) \<le> 6"
proof -
  have "links (OverviewPage_view granted c identity n) = links (overview_panels_view granted c identity n)"
    by (simp add: OverviewPage_view_def markup)
  then show ?thesis by (simp add: overview_panel_links recentSessions_def)
qed

text \<open>
  Every page can be left: on every page of the shell the user is offered to sign out, which ends the session, and a link
  to every page of the portal.
\<close>

theorem shell_always_leads_out:
  "fires (AppShell_view isActive search d m identity outlet) SignOut \<and> signed_out (snd (shell_act SignOut (t, a))) \<and>
   set (map (\<lambda>(p, _). CHR ''/'' # p) (filter (\<lambda>(p, _). p \<noteq> []) shell_routes)) \<subseteq> set (links (AppShell_view isActive search d m identity outlet))"
proof -
  have "links (AppShell_view isActive search d m identity outlet) =
      map nav_to (operateNav @ inventoryNav @ governNav @ accountNav) @ concat (map links outlet)"
    by (simp add: AppShell_view_def markup)
  then have "set (map (\<lambda>(p, _). CHR ''/'' # p) (filter (\<lambda>(p, _). p \<noteq> []) shell_routes)) \<subseteq> set (links (AppShell_view isActive search d m identity outlet))"
    by (auto simp: operateNav_def inventoryNav_def governNav_def accountNav_def shell_routes_def)
  moreover have "signed_out (logout a)" by (simp add: logout_def resetAuth_def signed_out_def commit_def token_effects_def)
  ultimately show ?thesis by (simp add: AppShell_fires)
qed

text \<open>
  The login form hands on what was typed, once: the credentials it sends are those of the two fields, a second submission
  is not offered while the first is under way, and the button of the single sign-on never leads back to the login page.
\<close>

theorem login_offers:
  "(fires (LoginPage_view nextPath f) SubmitLogin \<longleftrightarrow> \<not> lf_submitting f) \<and>
   (fst (snd (login_act BASE_URL SubmitLogin f)) \<noteq> None \<longleftrightarrow> trim (lf_username f) \<noteq> [] \<and> lf_password f \<noteq> []) \<and>
   (fst (snd (login_act BASE_URL SubmitLogin f)) \<noteq> None \<longrightarrow> \<not> fires (LoginPage_view nextPath (fst (login_act BASE_URL SubmitLogin f))) SubmitLogin) \<and>
   (fires (LoginPage_view nextPath f) (BeginOidc p) \<longrightarrow> p \<noteq> ''/login'')"
  by (auto simp: LoginPage_fires onSubmit_def Let_def)

end
