(* ===== verification/AuditView.thy ===== *)
theory AuditView
  imports AuditPage RecordingPlayer IamPage ShellView
begin

text \<open>
  What the audit page shows and what its controls do: the markup of \<open>src/web/src/features/audit/AuditPage.tsx\<close> and of
  the player of desktop recordings in it, \<open>src/web/src/features/audit/RdpRecordingPlayer.tsx\<close>.
\<close>

section \<open>Markup\<close>

datatype player_action = PressPlay | DragSeek string

definition duration_or_zero :: "player \<Rightarrow> jsnum" where
  "duration_or_zero p = (if num_truthy (rp_duration p) then rp_duration p else num_of_int 0)"

text \<open>\<open>Math.min\<close> of two numbers.\<close>

fun num_min :: "jsnum \<Rightarrow> jsnum \<Rightarrow> jsnum" where
  "num_min (Fin p) (Fin q) = Fin (min p q)"
| "num_min NaN b = NaN"
| "num_min a NaN = NaN"
| "num_min NInf b = NInf"
| "num_min a NInf = NInf"
| "num_min PInf b = b"
| "num_min a PInf = a"

record audit_net =
  un_sessions :: "SessionAuditRecord list query"
  un_sessionsFetching :: bool
  un_assets :: "Asset list query"
  un_inspectPending :: bool

datatype audit_action =
    RefreshSessions
  | EditFilter "SessionFilters \<Rightarrow> SessionFilters"
  | SetAuditAssetQuery string
  | ApplyFilters
  | ResetFilters
  | InspectRecording SessionAuditRecord
  | DownloadRecording
  | CloseRecording
  | PlayerAction player_action

definition status_param :: "SessionStatus option \<Rightarrow> string" where
  "status_param st = (case st of None \<Rightarrow> ''all'' | Some x \<Rightarrow> SessionStatus_str x)"

definition exit_code_text :: "SessionAuditRecord \<Rightarrow> string" where
  "exit_code_text session = (case sess_exit_code session of None \<Rightarrow> [] | Some code \<Rightarrow> '' '' @ int_str code)"

text \<open>
  A value of the header of a recording among the children of an element: numbers and texts are shown, booleans and
  \<open>null\<close> show nothing. Arrays and objects are no text: the rendering library shows the elements of the one and refuses
  the other, which is left out here.
\<close>

fun json_child :: "json \<Rightarrow> units" where
  "json_child (JNum x) = u16 (num_str x)"
| "json_child (JStr t) = t"
| "json_child _ = []"

fun seconds_text :: "jsnum \<Rightarrow> string" where
  "seconds_text (Fin q) = toFixed q 1"
| "seconds_text x = num_str x"

fun is_cast :: "InspectedRecording \<Rightarrow> bool" where
  "is_cast (InspectedCast label preview rawText sessionID) = True"
| "is_cast (InspectedGuac label blob sessionID) = False"

definition RdpRecordingPlayer_view :: "player \<Rightarrow> player_action node" where
  "RdpRecordingPlayer_view p =
    El tDiv []
      ((if rp_state p = PlayerLoading then [El tP [] [Txt (u16 ''Loading recording'' @ ellipsis)]] else []) @
       (if rp_state p = PlayerError then [El tP [] [Txt (rp_errorMessage p)]] else []) @
       [El tDiv [AFlag ''hidden'' (rp_state p \<noteq> PlayerReady)] [],
        El tDiv []
          [El tButton [AType ''button'', OnClick PressPlay, ADisabled (rp_state p \<noteq> PlayerReady)]
             [tx (if rp_playing p then ''Pause'' else ''Play'')],
           El tInput [AType ''range'',
                AOther ''min'' (u16 (nat_str 0)),
                AOther ''max'' (u16 (num_str (duration_or_zero p))),
                AValue (u16 (num_str (num_min (rp_position p) (duration_or_zero p)))),
                OnChange DragSeek,
                ADisabled (rp_state p \<noteq> PlayerReady \<or> num_le (rp_duration p) 0),
                ALabel (u16 ''Seek recording'')]
             [],
           El tSpan [] [tx (formatClock (rp_position p)), tx '' / '', tx (formatClock (rp_duration p))]]])"

definition audit_metrics_view :: "(string \<Rightarrow> bool) \<Rightarrow> audit_net \<Rightarrow> audit_page \<Rightarrow> audit_action node" where
  "audit_metrics_view granted n s =
    El tDiv []
      [El tArticle []
         [El tDiv [] [Icon ''SquareTerminal''],
          El tDiv []
            [El tDiv [] [tx ''Shown''],
             El tDiv [] [tx (if granted ''cmdb.asset:read'' then nat_str (length (visibleSessions (query_items (un_sessions n)) s)) else ''-'')]],
          El tSpan [] [num_tx (cnt_total (sessionCounts (query_items (un_sessions n)))), tx '' loaded'']],
       El tArticle []
         [El tDiv [] [Icon ''Timer''],
          El tDiv []
            [El tDiv [] [tx ''Active now''],
             El tDiv [] [tx (if granted ''cmdb.asset:read'' then nat_str (cnt_active (sessionCounts (query_items (un_sessions n)))) else ''-'')]],
          El tSpan [] [num_tx (cnt_closed (sessionCounts (query_items (un_sessions n)))), tx '' closed'']],
       El tArticle []
         [El tDiv [] [Icon ''Video''],
          El tDiv []
            [El tDiv [] [tx ''Recordings''],
             El tDiv [] [tx (if granted ''cmdb.asset:read'' then nat_str (cnt_recordings (sessionCounts (query_items (un_sessions n)))) else ''-'')]],
          El tSpan [AClass (u16 (''status-pill '' @ (if cnt_errors (sessionCounts (query_items (un_sessions n))) > 0 then ''warn'' else ''ok'')))]
            [num_tx (cnt_errors (sessionCounts (query_items (un_sessions n)))), tx '' errors'']]]"

definition audit_filters_view :: "(string \<Rightarrow> bool) \<Rightarrow> (string \<Rightarrow> string \<Rightarrow> int) \<Rightarrow> audit_net \<Rightarrow> audit_page \<Rightarrow> audit_action node" where
  "audit_filters_view granted localeCompare n s =
    El tForm [OnSubmit ApplyFilters]
      [El tDiv []
         [El tLabel []
            [El tSpan [] [tx ''User''],
             El tSelect [AValue (u16 (sf_userID (ap_draftFilters s))),
                  OnChange (\<lambda>v. EditFilter (\<lambda>f. f\<lparr>sf_userID := v\<rparr>)),
                  ADisabled (\<not> granted ''cmdb.asset:read'' \<or> \<not> granted ''bastion.session:read'')]
               ([El tOption [AValue (u16 [])] [tx (if granted ''bastion.session:read'' then ''Any user'' else ''Own sessions only'')]] @
                (map (\<lambda>user.
                   El tOption [AValue (u16 (fst user))] [tx (snd user)]) (userPickerOptions localeCompare (query_items (un_sessions n)) s)))],
          El tLabel []
            [El tSpan [] [tx ''Asset''],
             El tInput [AType ''search'',
                  AValue (u16 (ap_assetQuery s)),
                  OnChange SetAuditAssetQuery,
                  APlaceholder (u16 ''Search asset by name, IP, env''),
                  ADisabled (\<not> granted ''cmdb.asset:read'')]
               [],
             El tSelect [AValue (u16 (sf_assetID (ap_draftFilters s))),
                  OnChange (\<lambda>v. EditFilter (\<lambda>f. f\<lparr>sf_assetID := v\<rparr>)),
                  ADisabled (\<not> granted ''cmdb.asset:read'')]
               ([El tOption [AValue (u16 [])] [tx ''Any asset'']] @
                (map (\<lambda>asset. El tOption [AValue (u16 (fst asset))] [tx (snd asset)]) (assetPickerOptions (query_items (un_assets n)) s)))],
          El tLabel []
            [El tSpan [] [tx ''Status''],
             El tSelect [AValue (u16 (status_param (sf_status (ap_draftFilters s)))),
                  OnChange (\<lambda>v. EditFilter (\<lambda>f. f\<lparr>sf_status := status_of_param (Some v)\<rparr>)),
                  ADisabled (\<not> granted ''cmdb.asset:read'')]
               [El tOption [AValue (u16 ''all'')] [tx ''All statuses''],
                El tOption [AValue (u16 ''active'')] [tx ''Active''],
                El tOption [AValue (u16 ''closed'')] [tx ''Closed''],
                El tOption [AValue (u16 ''error'')] [tx ''Error'']]]],
       El tDiv []
         [El tButton [AType ''submit'', ADisabled (\<not> granted ''cmdb.asset:read'')] [Icon ''Search'', El tSpan [] [tx ''Apply filters'']],
          El tButton [AType ''button'', OnClick ResetFilters, ADisabled (\<not> granted ''cmdb.asset:read'')] [tx ''Reset'']]]"

definition session_row_view :: "clock \<Rightarrow> audit_net \<Rightarrow> SessionAuditRecord \<Rightarrow> audit_action node" where
  "session_row_view c n session =
    El tTr []
      [El tTd []
         ([El tStrong [] [tx (formatDateTime c (Some (sess_started_at session)))]] @
          (if truthy (sess_ended_at session) then [El tDiv [] [tx ''ended '', tx (formatDateTime c (sess_ended_at session))]] else [])),
       El tTd []
         ((if sess_user_id session \<noteq> [] then
             [El tLink [ATo (''/iam?user='' @ encodeURIComponent (sess_user_id session)), ATitle (u16 ''Open this user in IAM'')]
                [El tStrong [] [tx (or_else (sess_user_name session) (sess_user_id session))]]]
           else [El tStrong [] [tx (or_else (sess_user_name session) (sess_user_id session))]]) @
          [El tDiv [] [tx (sess_user_id session)]]),
       El tTd []
         ((if sess_asset_id session \<noteq> [] then
             [El tLink [ATo (''/audit'' @ buildAuditSearch \<lparr>aq_assetID = Some (sess_asset_id session), aq_userID = None, aq_status = None\<rparr>),
                   ATitle (u16 ''Filter audit to this asset'')]
                [El tStrong [] [tx (or_else (sess_asset_name session) (sess_asset_id session))]]]
           else [El tStrong [] [tx (or_else (sess_asset_name session) (sess_asset_id session))]]) @
          [El tDiv [] [tx (sess_asset_id session)]] @
          (if truthy (sess_proxy_name session) then [El tDiv [] [tx ''via '', Txt (u16 (opt_or (sess_proxy_name session) []))]] else [])),
       El tTd []
         [El tSpan [AClass (u16 (''status-pill '' @ sessionStatusTone session))]
            [tx (SessionStatus_str (sessionStatus session)), tx (exit_code_text session)]],
       El tTd [] [tx (formatDurationMs (map_option num_of_int (sess_duration_ms session)))],
       El tTd [] [tx (trafficLabel session)],
       El tTd [] [tx (opt_or (sess_client_ip session) ''-'')],
       El tTd []
         (if sess_has_recording session then
            [El tButton [AType ''button'', OnClick (InspectRecording session), ADisabled (un_inspectPending n)]
               [Icon ''MonitorPlay'', El tSpan [] [tx (if un_inspectPending n then ''Loading'' else ''Inspect'')]]]
          else [El tSpan [] [tx ''none'']]),
       El tTd [] ((if truthy (sess_error session) then [El tSpan [] [Txt (u16 (opt_or (sess_error session) []))]] else [El tSpan [] [tx ''-'']]))]"

definition audit_records_view :: "(string \<Rightarrow> bool) \<Rightarrow> clock \<Rightarrow> audit_net \<Rightarrow> audit_page \<Rightarrow> audit_action node" where
  "audit_records_view granted c n s =
    El tArticle []
      ([El tDiv [] [El tDiv [] [El tP [] [tx ''Audit''], El tH2 [] [tx ''Session records'']], El tSpan [] [tx ''auto refresh 10s'']]] @
       feedback_view (ap_recordingFeedback s) @
       (if granted ''cmdb.asset:read'' \<and> q_error (un_sessions n) \<noteq> None then
          [PanelState_view PanelError (query_error_text (un_sessions n))]
        else []) @
       (if granted ''cmdb.asset:read'' \<and> q_loading (un_sessions n) then [PanelState_view PanelLoading (u16 ''Loading sessions'')] else []) @
       (if granted ''cmdb.asset:read'' \<and> \<not> q_loading (un_sessions n) \<and> \<not> (q_error (un_sessions n) \<noteq> None) \<and> length (visibleSessions (query_items (un_sessions n)) s) = 0 then
          [PanelState_view PanelEmpty (u16 ''No sessions match the current filters.'')]
        else []) @
       (if length (visibleSessions (query_items (un_sessions n)) s) > 0 then
          [El tDiv []
             [El tTable []
                [El tThead []
                   [El tTr []
                      [El tTh [] [tx ''Started''],
                       El tTh [] [tx ''User''],
                       El tTh [] [tx ''Asset''],
                       El tTh [] [tx ''Status''],
                       El tTh [] [tx ''Duration''],
                       El tTh [] [tx ''In / Out''],
                       El tTh [] [tx ''Client IP''],
                       El tTh [] [tx ''Recording''],
                       El tTh [] [tx ''Error'']]],
                 El tTbody [] ((map (\<lambda>session. session_row_view c n session) (visibleSessions (query_items (un_sessions n)) s)))]]]
        else []))"

definition cast_preview_view :: "RecordingPreview \<Rightarrow> audit_action node list" where
  "cast_preview_view preview =
    [El tDl []
       [El tDiv [] [El tDt [] [tx ''Version''], El tDd [] [Txt (json_child (pv_version preview))]],
        El tDiv [] [El tDt [] [tx ''Size''], El tDd [] [Txt (json_child (pv_cols preview)), tx '' x '', Txt (json_child (pv_rows preview))]],
        El tDiv [] [El tDt [] [tx ''Duration''], El tDd [] [tx (seconds_text (pv_durationSeconds preview)), tx ''s'']],
        El tDiv [] [El tDt [] [tx ''Frames''], El tDd [] [num_tx (pv_frames preview)]]],
     El tPre [] [Txt (if pv_outputSample preview = [] then u16 ''Recording contains no stdout frames.'' else pv_outputSample preview)]]"

text \<open>The preview exists for recordings of terminals only.\<close>

fun recording_preview_view :: "InspectedRecording \<Rightarrow> audit_action node list" where
  "recording_preview_view (InspectedCast label preview rawText sessionID) = cast_preview_view preview"
| "recording_preview_view (InspectedGuac label blob sessionID) = []"

definition recording_panel_view :: "InspectedRecording \<Rightarrow> player_action node list \<Rightarrow> audit_action node" where
  "recording_panel_view recording player =
    El tArticle []
      ([El tDiv []
          [El tDiv [] [El tP [] [tx ''Recording''], El tH2 [] [tx (inspected_label recording)]],
           El tDiv []
             ((if is_cast recording then
                 [El tButton [AType ''button'', OnClick DownloadRecording] [Icon ''Download'', El tSpan [] [tx ''Download cast'']]]
               else [El tButton [AType ''button'', OnClick DownloadRecording] [Icon ''Download'', El tSpan [] [tx ''Download recording'']]]) @
              [El tButton [AType ''button'', OnClick CloseRecording] [tx ''Close'']])]] @
       (if is_cast recording then (recording_preview_view recording) else (map (map_node PlayerAction) player)))"

definition AuditPage_view :: "(string \<Rightarrow> bool) \<Rightarrow> (string \<Rightarrow> string \<Rightarrow> int) \<Rightarrow> string list option \<Rightarrow> clock \<Rightarrow> player_action node list \<Rightarrow> audit_net \<Rightarrow> audit_page \<Rightarrow> audit_action node" where
  "AuditPage_view granted localeCompare perms c player n s =
    El tSection []
      ([El tDiv []
          [El tDiv [] [El tP [] [tx ''Govern''], El tH1 [] [tx ''Audit'']],
           El tSpan [AClass (u16 (''status-pill '' @ (if granted ''cmdb.asset:read'' then ''ok'' else ''warn''))),
                ATitle (u16 ''Required permission'')]
             [Icon ''ShieldCheck'',
              tx
                (if granted ''bastion.session:read'' then ''all sessions'' else if granted ''cmdb.asset:read'' then ''own sessions'' else ''no access'')]],
        audit_metrics_view granted n s,
        El tDiv []
          [El tArticle []
             ([El tDiv []
                 [El tDiv [] [El tP [] [tx ''Audit''], El tH2 [] [tx ''Session filters'']],
                  El tButton [AType ''button'', OnClick RefreshSessions, ADisabled (\<not> granted ''cmdb.asset:read'' \<or> un_sessionsFetching n)]
                    [Icon ''RefreshCw'', El tSpan [] [tx (if un_sessionsFetching n then ''Refreshing'' else ''Refresh'')]]]] @
              (if \<not> granted ''cmdb.asset:read'' then [PanelState_view PanelPermission (u16 ''Permission required: cmdb.asset:read'')] else []) @
              (if granted ''cmdb.asset:read'' \<and> \<not> granted ''bastion.session:read'' then
                 [PanelState_view PanelPermission (u16 ''Showing only your own session rows.'')]
               else []) @
              [audit_filters_view granted localeCompare n s]),
           El tArticle []
             [El tDiv []
                [El tDiv [] [El tP [] [tx ''Permissions''], El tH2 [] [tx ''Session visibility'']],
                 El tSpan [AClass (u16 (''status-pill '' @ (if granted ''bastion.session:read'' then ''ok'' else ''info'')))]
                   [tx (if granted ''bastion.session:read'' then ''all sessions'' else ''own sessions'')]],
              PermissionList_view (sessionPermissions perms) ''No session permissions.'']],
        audit_records_view granted c n s] @
       (case ap_inspected s of None \<Rightarrow> [] | Some inspected \<Rightarrow> [recording_panel_view inspected player]))"


section \<open>Actions\<close>

text \<open>One action on the page and the player; \<open>is_playing\<close> is what the recording answers.\<close>

fun player_act :: "bool \<Rightarrow> player_action \<Rightarrow> player \<Rightarrow> player" where
  "player_act is_playing PressPlay p = togglePlay is_playing p"
| "player_act is_playing (DragSeek v) p = onSeek (Number v) p"

fun audit_act :: "(string \<Rightarrow> bool) \<Rightarrow> audit_action \<Rightarrow> audit_page \<Rightarrow> audit_page \<times> api_call list \<times> (string \<times> units) list" where
  "audit_act granted RefreshSessions s = (s, [listSessions (audit_options granted s)], [])"
| "audit_act granted (EditFilter f) s = (s\<lparr>ap_draftFilters := f (ap_draftFilters s)\<rparr>, [], [])"
| "audit_act granted (SetAuditAssetQuery v) s = (s\<lparr>ap_assetQuery := v\<rparr>, [], [])"
| "audit_act granted ApplyFilters s = (applyFilters granted s, [], [])"
| "audit_act granted ResetFilters s = (resetFilters s, [], [])"
| "audit_act granted (InspectRecording session) s = (inspect_onMutate s, [getSessionRecording (sess_id session)], [])"
| "audit_act granted DownloadRecording s = (s, [], case ap_inspected s of None \<Rightarrow> [] | Some recording \<Rightarrow> [download_recording recording])"
| "audit_act granted CloseRecording s = (s\<lparr>ap_inspected := None\<rparr>, [], [])"
| "audit_act granted (PlayerAction a) s = (s, [], [])"

section \<open>What the page offers\<close>

lemma player_fires:
  "fires (RdpRecordingPlayer_view p) a \<longleftrightarrow> rp_state p = PlayerReady \<and>
     (a = PressPlay \<or> (\<exists>v. a = DragSeek v) \<and> \<not> num_le (rp_duration p) 0)"
  by (simp add: RdpRecordingPlayer_view_def markup) auto

lemma audit_metrics_facts [markup]: "fires (audit_metrics_view granted n s) a = False" "wf_node (audit_metrics_view granted n s)"
    "links (audit_metrics_view granted n s) = []"
  by (simp_all add: audit_metrics_view_def markup)

text \<open>The edits of the filter: a status, an asset of the picker, and a user of the picker for who may read all sessions.\<close>

definition audit_edit_offered :: "(string \<Rightarrow> bool) \<Rightarrow> (string \<Rightarrow> string \<Rightarrow> int) \<Rightarrow> audit_net \<Rightarrow> audit_page \<Rightarrow> (SessionFilters \<Rightarrow> SessionFilters) \<Rightarrow> bool" where
  "audit_edit_offered granted localeCompare n s g =
    ((\<exists>v. g = (\<lambda>f. f\<lparr>sf_userID := v\<rparr>) \<and> granted ''bastion.session:read'' \<and> v \<in> insert [] (fst ` set (userPickerOptions localeCompare (query_items (un_sessions n)) s))) \<or>
     (\<exists>v. g = (\<lambda>f. f\<lparr>sf_assetID := v\<rparr>) \<and> v \<in> insert [] (fst ` set (assetPickerOptions (query_items (un_assets n)) s))) \<or>
     (\<exists>v. g = (\<lambda>f. f\<lparr>sf_status := status_of_param (Some v)\<rparr>) \<and> v \<in> {''all'', ''active'', ''closed'', ''error''}))"

lemma audit_filters_fires:
  "fires (audit_filters_view granted localeCompare n s) a \<longleftrightarrow> granted ''cmdb.asset:read'' \<and>
     (a = ApplyFilters \<or> a = ResetFilters \<or> (\<exists>v. a = SetAuditAssetQuery v) \<or>
      (\<exists>g. a = EditFilter g \<and> audit_edit_offered granted localeCompare n s g))"
proof (cases "\<exists>g. a = EditFilter g")
  case True
  then obtain g where a: "a = EditFilter g" by blast
  show ?thesis unfolding a audit_edit_offered_def by (simp add: audit_filters_view_def markup) blast
next
  case False
  then show ?thesis by (simp add: audit_filters_view_def markup) auto
qed

lemma session_row_fires: "fires (session_row_view c n session) a \<longleftrightarrow> a = InspectRecording session \<and> sess_has_recording session \<and> \<not> un_inspectPending n"
  by (simp add: session_row_view_def markup) auto

lemma audit_records_fires:
  "fires (audit_records_view granted c n s) a \<longleftrightarrow> \<not> un_inspectPending n \<and>
     (\<exists>session\<in>set (visibleSessions (query_items (un_sessions n)) s). sess_has_recording session \<and> a = InspectRecording session)"
  by (simp add: audit_records_view_def markup session_row_fires) (auto simp: list_ex_iff)

lemma cast_preview_facts [markup]:
  "fires_in (cast_preview_view p) a = False" "list_all wf_node (cast_preview_view p)"
  by (simp_all add: cast_preview_view_def markup)

lemma recording_preview_facts [markup]:
  "fires_in (recording_preview_view r) a = False" "list_all wf_node (recording_preview_view r)"
  by (cases r; simp add: cast_preview_facts)+

lemma recording_panel_fires:
  "fires (recording_panel_view r player) a \<longleftrightarrow> a = DownloadRecording \<or> a = CloseRecording \<or>
     \<not> is_cast r \<and> (\<exists>x. a = PlayerAction x \<and> fires_in player x)"
  by (simp add: recording_panel_view_def markup) (auto simp: list_ex_iff)

lemma audit_fires:
  "fires (AuditPage_view granted localeCompare perms c player n s) a \<longleftrightarrow>
     a = RefreshSessions \<and> granted ''cmdb.asset:read'' \<and> \<not> un_sessionsFetching n \<or>
     fires (audit_filters_view granted localeCompare n s) a \<or> fires (audit_records_view granted c n s) a \<or>
     (\<exists>r. ap_inspected s = Some r \<and> fires (recording_panel_view r player) a)"
  by (simp add: AuditPage_view_def markup) auto

lemmas audit_offers = audit_fires audit_filters_fires audit_records_fires recording_panel_fires

lemma AuditPage_wf: "list_all wf_node player \<Longrightarrow> wf_node (AuditPage_view granted localeCompare perms c player n s)" "wf_node (RdpRecordingPlayer_view p)"
  by (simp_all add: AuditPage_view_def audit_filters_view_def audit_records_view_def session_row_view_def recording_panel_view_def RdpRecordingPlayer_view_def markup)

text \<open>The permissions an action of the page needs. The filter on users is for who may read the sessions of all.\<close>

fun audit_needs :: "audit_action \<Rightarrow> string list" where
  "audit_needs RefreshSessions = [''cmdb.asset:read'']"
| "audit_needs ApplyFilters = [''cmdb.asset:read'']"
| "audit_needs ResetFilters = [''cmdb.asset:read'']"
| "audit_needs (EditFilter f) = [''cmdb.asset:read'']"
| "audit_needs _ = []"

interpretation audit_guard: guarded_markup
  "\<lambda>granted (localeCompare, perms, c, player, n, s). AuditPage_view granted localeCompare perms c player n s" audit_needs
proof unfold_locales
  fix granted and x :: "(string \<Rightarrow> string \<Rightarrow> int) \<times> string list option \<times> clock \<times> player_action node list \<times> audit_net \<times> audit_page" and e p
  assume f: "fires (case x of (localeCompare, perms, c, player, n, s) \<Rightarrow> AuditPage_view granted localeCompare perms c player n s) e"
    "p \<in> set (audit_needs e)"
  obtain localeCompare perms c player n s where x: "x = (localeCompare, perms, c, player, n, s)" by (cases x)
  from f show "granted p" by (cases e) (auto simp: x audit_offers)
qed

section \<open>Links\<close>

lemma query_of_text: "URLSearchParams (''?user='' @ encodeURIComponent v) = Some [(''user'', v)]"
proof -
  have e: "CHR ''&'' \<notin> set (encodeURIComponent v)" using encodeURIComponent_no_delim [of v] by blast
  have "split_on CHR ''&'' (''user='' @ encodeURIComponent v) = [''user='' @ encodeURIComponent v]"
    by (rule split_on_no_sep) (use e in simp)
  moreover have "pct_decode ''user'' = Some ''user''" by code_simp
  ultimately show ?thesis
    by (simp del: split_on.simps add: URLSearchParams_def startsWith_def params_parse_def pair_dec_def cut_eq_def form_dec_def pct_decode_head
        pct_decode_encodeURIComponent)
qed

lemma session_row_links:
  "links (session_row_view c n x) =
    (if sess_user_id x = [] then [] else [''/iam?user='' @ encodeURIComponent (sess_user_id x)]) @
    (if sess_asset_id x = [] then [] else [''/audit'' @ buildAuditSearch \<lparr>aq_assetID = Some (sess_asset_id x), aq_userID = None, aq_status = None\<rparr>])"
  by (simp add: session_row_view_def List.map_filter_simps)


end
