(* ===== verification/RailView.thy ===== *)
theory RailView
  imports SessionsPage Markup
begin

text \<open>
  The rail of connectable assets that the sessions and the connect page share,
  \<open>src/web/src/features/sessions/AssetRail.tsx\<close>: its two filters are its own state, everything else is handed to it.
  A flag that is \<open>undefined\<close> is shown as one that is off.
\<close>

section \<open>Markup\<close>

record rail =
  rl_envFilter :: string
  rl_tagFilter :: string

definition rail_mount :: rail where
  "rail_mount = \<lparr>rl_envFilter = [], rl_tagFilter = []\<rparr>"

datatype rail_action =
    TypeSearch string
  | ChooseEnv string
  | TypeTag string
  | ChooseRow Asset
  | RefreshRail

definition asset_addr :: "Asset \<Rightarrow> string option" where
  "asset_addr asset = (if truthy (asset_public_ip asset) then asset_public_ip asset
    else if truthy (asset_private_ip asset) then asset_private_ip asset else asset_private_dns asset)"

text \<open>The second line of a row: address, environment and the type without its prefix, those that are there.\<close>

definition secondary_parts :: "Asset \<Rightarrow> string list" where
  "secondary_parts asset =
    (if truthy (asset_addr asset) then [opt_or (asset_addr asset) []] else []) @
    (if asset_env asset \<noteq> [] then [asset_env asset] else []) @
    (let typeLabel = (if startsWith (asset_type asset) ''aws_'' then drop 4 (asset_type asset) else asset_type asset) in
     if typeLabel \<noteq> [] then [typeLabel] else [])"

fun dot_join :: "string list \<Rightarrow> units" where
  "dot_join [] = []"
| "dot_join [x] = u16 x"
| "dot_join (x # xs) = u16 x @ u16 '' '' @ middle_dot @ u16 '' '' @ dot_join xs"

definition selected_row :: "string \<Rightarrow> Asset \<Rightarrow> bool" where
  "selected_row selectedAssetID asset = (selectedAssetID \<noteq> [] \<and> selectedAssetID = asset_id asset)"

definition rail_row_view :: "string \<Rightarrow> bool \<Rightarrow> (Asset \<Rightarrow> string) \<Rightarrow> Asset \<Rightarrow> rail_action node" where
  "rail_row_view selectedAssetID rowsDisabled rowTitle asset =
    El tButton [AType ''button'',
         AClass (u16 (''asset-tree-row'' @ (if asset_is_vpc_proxy asset = Some True then '' bastion'' else []) @ (if selected_row selectedAssetID asset then '' selected'' else []))),
         OnClick (ChooseRow asset),
         ADisabled rowsDisabled,
         AFlag ''aria-pressed'' (selected_row selectedAssetID asset),
         ATitle (u16 (rowTitle asset))]
      ([El tDiv []
          ((if asset_is_vpc_proxy asset = Some True then [El tSpan [ALabel (u16 ''bastion'')] []] else []) @
           [El tSpan [] [tx (or_else (asset_name asset) (asset_id asset))]])] @
       (if secondary_parts asset \<noteq> [] then [El tDiv [] [Txt (dot_join (secondary_parts asset))]] else []))"

definition rail_tree_view :: "AssetTreeEnv list \<Rightarrow> string \<Rightarrow> bool \<Rightarrow> (Asset \<Rightarrow> string) \<Rightarrow> rail_action node" where
  "rail_tree_view tree selectedAssetID rowsDisabled rowTitle =
    El tDiv []
      (map (\<lambda>env.
         El tDetails []
           ([El tSummary []
               [El tSpan [] [Txt (u16 ''env '' @ middle_dot @ u16 '' ''), tx (env_envName env)],
                El tSpan [] [tx ''('', num_tx (env_total env), tx '')'']]] @
            (map (\<lambda>vpc.
               El tDetails []
                 [El tSummary []
                    [El tSpan [] [Txt (u16 ''vpc '' @ middle_dot @ u16 '' ''), El tCode [] [tx (vpc_vpcLabel vpc)]],
                     El tSpan [] [tx ''('', num_tx (vpc_count vpc), tx '')'']],
                  El tDiv [] ((map (\<lambda>asset. rail_row_view selectedAssetID rowsDisabled rowTitle asset) (vpc_bastions vpc @ vpc_members vpc)))]) (env_vpcs env)))) tree)"

definition AssetRail_view :: "(string \<Rightarrow> string \<Rightarrow> int) \<Rightarrow> Asset list \<Rightarrow> string \<Rightarrow> bool \<Rightarrow> bool \<Rightarrow> call_error option \<Rightarrow> string \<Rightarrow> bool \<Rightarrow> (Asset \<Rightarrow> string) \<Rightarrow> bool \<Rightarrow> rail \<Rightarrow> rail_action node" where
  "AssetRail_view localeCompare assets search canRead isLoading error selectedAssetID rowsDisabled rowTitle refreshing r =
    El tAside [ALabel (u16 ''Connectable assets'')]
      [El tDiv []
         ([] @
          [El tDiv []
             ([El tDiv []
                 [Icon ''Search'',
                  El tInput [AType search,
                       AValue (u16 search),
                       OnChange TypeSearch,
                       APlaceholder (u16 ''Search name / ip / vpc''),
                       ADisabled (\<not> canRead)]
                    []]] @
              (if True then
                 [El tButton [AType ''button'',
                       OnClick RefreshRail,
                       ADisabled (\<not> canRead \<or> refreshing),
                       ATitle (u16 (if refreshing then ''Refreshing'' else ''Refresh'')),
                       ALabel (u16 ''Refresh assets'')]
                    [Icon ''RefreshCw'']]
               else [])),
           El tDiv []
             [El tSelect [AValue (u16 (rl_envFilter r)),
                   OnChange ChooseEnv,
                   ADisabled (\<not> canRead),
                   ALabel (u16 ''Filter by environment''),
                   ATitle (u16 ''Filter by environment'')]
                ([El tOption [AValue (u16 [])] [Txt (u16 ''env '' @ middle_dot @ u16 '' all'')]] @
                 (map (\<lambda>env. El tOption [AValue (u16 env)] [Txt (u16 ''env '' @ middle_dot @ u16 '' ''), tx env]) (rail_envOptions assets))),
              El tInput [AType search,
                   AValue (u16 (rl_tagFilter r)),
                   OnChange TypeTag,
                   APlaceholder (u16 ''tag key / value''),
                   ADisabled (\<not> canRead),
                   ALabel (u16 ''Filter by tag'')]
                []]]),
       El tDiv []
         ((if \<not> canRead then [PanelState_view PanelPermission (u16 ''Permission required: cmdb.asset:read'')] else []) @
          (if canRead \<and> error \<noteq> None then
             [PanelState_view PanelError (case error of None \<Rightarrow> [] | Some e \<Rightarrow> error_text e)]
           else []) @
          (if canRead \<and> isLoading then [PanelState_view PanelLoading (u16 ''Loading connectable assets'')] else []) @
          (if canRead \<and> \<not> isLoading \<and> \<not> (error \<noteq> None) \<and> length (rail_tree localeCompare (rl_envFilter r) (rl_tagFilter r) search assets) = 0 then
             [PanelState_view PanelEmpty (u16 ''No connectable assets match this filter.'')]
           else []) @
          (if length (rail_tree localeCompare (rl_envFilter r) (rl_tagFilter r) search assets) > 0 then
             [rail_tree_view (rail_tree localeCompare (rl_envFilter r) (rl_tagFilter r) search assets) selectedAssetID rowsDisabled rowTitle]
           else []))]"

section \<open>What the rail offers\<close>

fun rail_act :: "rail_action \<Rightarrow> rail \<Rightarrow> rail" where
  "rail_act (ChooseEnv v) r = r\<lparr>rl_envFilter := v\<rparr>"
| "rail_act (TypeTag v) r = r\<lparr>rl_tagFilter := v\<rparr>"
| "rail_act _ r = r"

text \<open>A tree holds exactly the assets it was built from.\<close>

lemma tree_members:
  "(\<exists>e\<in>set (buildAssetTree cmp xs). \<exists>v\<in>set (env_vpcs e). \<exists>x\<in>set (vpc_bastions v @ vpc_members v). P x) \<longleftrightarrow> (\<exists>x\<in>set xs. P x)"
proof -
  have tree: "buildAssetTree cmp xs = map (env_entry cmp (tree_loop xs [])) (js_sort (set_of [] (map assetEnvKey xs)))"
    by (simp add: buildAssetTree_def Let_def tree_envs(1))
  have "(\<exists>v\<in>set (env_vpcs (env_entry cmp (tree_loop xs []) e)). \<exists>x\<in>set (vpc_bastions v @ vpc_members v). P x) \<longleftrightarrow> (\<exists>x\<in>set (in_env e xs). P x)"
    if "e \<in> assetEnvKey ` set xs" for e
    using that by (auto simp: env_entry_eq vpc_entry_eq)
  then show ?thesis by (auto simp: tree)
qed

text \<open>The assets the rail lists: connectable ones that pass its filters and the search.\<close>

definition rail_rows :: "string \<Rightarrow> rail \<Rightarrow> Asset list \<Rightarrow> Asset list" where
  "rail_rows search r assets = filterConnectableAssets (filter (\<lambda>asset. (rl_envFilter r = [] \<or> assetEnvKey asset = rl_envFilter r) \<and>
     assetMatchesTag asset (rl_tagFilter r)) (filter (\<lambda>a. isConnectableAsset (Some a)) assets)) search"

lemma rail_row_facts [markup]:
  "fires (rail_row_view sel off title x) a \<longleftrightarrow> \<not> off \<and> a = ChooseRow x" "wf_node (rail_row_view sel off title x)"
  by (simp_all add: rail_row_view_def markup)

lemma rail_tree_facts [markup]:
  "fires (rail_tree_view tree sel off title) a \<longleftrightarrow> \<not> off \<and>
     (\<exists>e\<in>set tree. \<exists>v\<in>set (env_vpcs e). \<exists>x\<in>set (vpc_bastions v @ vpc_members v). a = ChooseRow x)"
  "wf_node (rail_tree_view tree sel off title)"
  by (simp add: rail_tree_view_def markup, auto simp: list_ex_iff) (simp add: rail_tree_view_def markup)

lemma rail_fires:
  "fires (AssetRail_view cmp assets search canRead isLoading error sel off title refreshing r) a \<longleftrightarrow>
     canRead \<and> ((\<exists>v. a = TypeSearch v) \<or> (\<exists>v. a = TypeTag v) \<or> (\<exists>v\<in>insert [] (set (rail_envOptions assets)). a = ChooseEnv v) \<or>
       a = RefreshRail \<and> \<not> refreshing) \<or>
     \<not> off \<and> (\<exists>x\<in>set (rail_rows search r assets). a = ChooseRow x)"
proof -
  let ?t = "rail_tree cmp (rl_envFilter r) (rl_tagFilter r) search assets"
  have t: "?t = buildAssetTree cmp (rail_rows search r assets)" by (simp add: rail_tree_def rail_rows_def Let_def)
  have m: "fires (rail_tree_view ?t sel off title) a \<longleftrightarrow> \<not> off \<and> (\<exists>x\<in>set (rail_rows search r assets). a = ChooseRow x)"
    unfolding rail_tree_facts t using tree_members [of cmp "rail_rows search r assets" "\<lambda>x. a = ChooseRow x"] by blast
  have e: "?t = [] \<Longrightarrow> \<not> fires (rail_tree_view ?t sel off title) a" by (simp add: rail_tree_facts)
  show ?thesis
    unfolding AssetRail_view_def by (simp add: markup del: rail_tree_facts) (use e m in auto)
qed

lemma rail_wf [markup]: "wf_node (AssetRail_view cmp assets search canRead isLoading error sel off title refreshing r)"
  by (simp add: AssetRail_view_def markup)

section \<open>Properties\<close>

text \<open>
  The rail offers exactly the connectable assets that pass its filters: a row can be chosen if its asset is among the loaded
  ones, is connectable, lies in the chosen environment, matches the tag filter and contains the searched text, and the
  rows are not disabled. The environments to choose from are those of the connectable assets, so that choosing one never
  empties the rail by itself.
\<close>

theorem rail_rows_offered:
  "(fires (AssetRail_view cmp assets search canRead isLoading error sel off title refreshing r) (ChooseRow x) \<longleftrightarrow>
     \<not> off \<and> x \<in> set assets \<and> isConnectableAsset (Some x) \<and> (rl_envFilter r = [] \<or> assetEnvKey x = rl_envFilter r) \<and>
     assetMatchesTag x (rl_tagFilter r) \<and> (trim search = [] \<or> str_includes (haystack x) (toLowerCase (trim search)))) \<and>
   set (rail_envOptions assets) = assetEnvKey ` {y \<in> set assets. isConnectableAsset (Some y)}"
  by (auto simp: rail_fires rail_rows_def filterConnectableAssets_def Let_def rail_envOptions_def)

end
