(* ===== verification/AssetsView.thy ===== *)
theory AssetsView
  imports AssetDrawerView RailView
begin

text \<open>
  What the asset page shows and what its controls do: the markup of \<open>AssetsPage\<close> in
  \<open>src/web/src/features/cmdb/AssetsPage.tsx\<close>, the actions behind its controls, and the page as a component whose users
  act only through the controls it renders.
\<close>

section \<open>Markup\<close>

text \<open>The queries and mutations of the page as it renders, and the state of the components inside it.\<close>

record asset_net =
  sn_assets :: "ListAssetsResponse query"
  sn_assetsFetching :: bool
  sn_tree :: "ListAssetsResponse query"
  sn_treeFetching :: bool
  sn_facets :: "AssetFacets query"
  sn_detail :: "Asset query"
  sn_connection :: "AssetConnectionProfile query"
  sn_probe :: "AssetProbeSnapshot query"
  sn_relations :: "AssetRelation list query"
  sn_createPending :: bool
  sn_createError :: "call_error option"
  sn_updatePending :: bool
  sn_updateError :: "call_error option"
  sn_deletePending :: bool
  sn_savePending :: bool
  sn_saveError :: "call_error option"
  sn_testPending :: bool
  sn_testError :: "call_error option"
  sn_testResult :: "AssetConnectionTestResult option"
  sn_probePending :: bool
  sn_probeError :: "call_error option"
  sn_promotePending :: bool
  sn_demotePending :: bool
  sn_deleteRelationError :: "call_error option"

record asset_subs =
  sh_created :: asset_form
  sh_edited :: asset_form
  sh_section :: conn_section

datatype assets_action =
    ToggleCreating
  | EditFilters "AssetFilters \<Rightarrow> AssetFilters"
  | ResetAssetFilters
  | ShowView AssetViewMode
  | RefreshAssets
  | PreviousPage
  | NextPage
  | ConnectAsset Asset LaunchProtocol
  | OpenDetails Asset
  | CloseDetails
  | ToggleEditing
  | DeleteAsset Asset
  | ShowDrawerTab DrawerTab
  | CreateFormAction asset_form_action
  | EditFormAction Asset asset_form_action
  | SectionAction Asset connection_action
  | DemoteAsset Asset
  | PromoteAsset string
  | RunProbe string
  | ForgetRelation string AssetRelation

definition response_items :: "ListAssetsResponse query \<Rightarrow> Asset list" where
  "response_items q = (case q_data q of None \<Rightarrow> [] | Some r \<Rightarrow> assets_items r)"

definition list_items :: "asset_net \<Rightarrow> Asset list" where
  "list_items n = response_items (sn_assets n)"

definition tree_items :: "asset_net \<Rightarrow> Asset list" where
  "tree_items n = response_items (sn_tree n)"

definition list_total :: "asset_net \<Rightarrow> int" where
  "list_total n = (case q_data (sn_assets n) of None \<Rightarrow> 0 | Some r \<Rightarrow> assets_total r)"

fun DrawerTab_str :: "DrawerTab \<Rightarrow> string" where
  "DrawerTab_str TabSummary = ''summary''"
| "DrawerTab_str TabConnection = ''connection''"
| "DrawerTab_str TabProbe = ''probe''"
| "DrawerTab_str TabRelations = ''relations''"
| "DrawerTab_str TabMetadata = ''metadata''"

definition drawerTabs :: "(DrawerTab \<times> string) list" where
  "drawerTabs = [(TabSummary, ''Summary''), (TabConnection, ''Connection''), (TabProbe, ''Probe''), (TabRelations, ''Relations''),
     (TabMetadata, ''Metadata'')]"

text \<open>Region, and zone with account joined by a middle dot.\<close>

definition regionAccountCell :: "Asset \<Rightarrow> string \<times> units" where
  "regionAccountCell asset = (opt_or (asset_region asset) ''-'',
    (let zone = u16 (opt_or (asset_zone asset) []); account = u16 (opt_or (asset_account_id asset) []) in
     zone @ (if zone \<noteq> [] \<and> account \<noteq> [] then u16 '' '' @ middle_dot @ u16 '' '' else []) @ account))"

text \<open>\<open>selectedAsset?.f || fallback\<close>\<close>

definition selected_text :: "asset_net \<Rightarrow> (Asset \<Rightarrow> string) \<Rightarrow> string \<Rightarrow> string" where
  "selected_text n f fallback = (case q_data (sn_detail n) of None \<Rightarrow> fallback | Some a \<Rightarrow> or_else (f a) fallback)"

definition assets_toolbar_view :: "(string \<Rightarrow> bool) \<Rightarrow> asset_net \<Rightarrow> assets_page \<Rightarrow> assets_action node" where
  "assets_toolbar_view granted n s =
    El tDiv []
      ([El tLabel []
          [El tSpan [] [tx ''Search''],
           El tDiv []
             [Icon ''Search'',
              El tInput [AType ''search'',
                   AValue (u16 (fl_query (as_filters s))),
                   OnChange (\<lambda>v. EditFilters (\<lambda>f. f\<lparr>fl_query := v\<rparr>)),
                   APlaceholder (u16 ''Search name, ID, IP, DNS''),
                   ADisabled (\<not> granted ''cmdb.asset:read'')]
                []]],
        FilterSelect_view ''Env'' (facetOptions (map_option facets_envs (q_data (sn_facets n))) (fl_env (as_filters s))) (fl_env (as_filters s))
          (\<lambda>v. EditFilters (\<lambda>f. f\<lparr>fl_env := v\<rparr>)),
        FilterSelect_view ''Type'' (facetOptions (map_option facets_types (q_data (sn_facets n))) (fl_type (as_filters s))) (fl_type (as_filters s))
          (\<lambda>v. EditFilters (\<lambda>f. f\<lparr>fl_type := v\<rparr>)),
        FilterSelect_view ''Status'' (facetOptions (map_option facets_statuses (q_data (sn_facets n))) (fl_status (as_filters s)))
          (fl_status (as_filters s)) (\<lambda>v. EditFilters (\<lambda>f. f\<lparr>fl_status := v\<rparr>)),
        FilterSelect_view ''Source'' (facetOptions (map_option facets_sources (q_data (sn_facets n))) (fl_source (as_filters s)))
          (fl_source (as_filters s)) (\<lambda>v. EditFilters (\<lambda>f. f\<lparr>fl_source := v\<rparr>)),
        FilterSelect_view ''Region'' (facetOptions (map_option facets_regions (q_data (sn_facets n))) (fl_region (as_filters s)))
          (fl_region (as_filters s)) (\<lambda>v. EditFilters (\<lambda>f. f\<lparr>fl_region := v\<rparr>)),
        El tLabel []
          [El tInput [AType ''checkbox'',
                AChecked (fl_includeBastions (as_filters s)),
                OnCheck (\<lambda>v. EditFilters (\<lambda>f. f\<lparr>fl_includeBastions := v\<rparr>)),
                ADisabled (\<not> granted ''cmdb.asset:read'')]
             [],
           El tSpan [] [tx ''Include VPC proxies'']],
        El tDiv [] []] @
       (if activeFilterCount (as_filters s) > 0 then
          [El tButton [AType ''button'', OnClick ResetAssetFilters]
             [Icon ''FilterX'', El tSpan [] [tx ''Reset '', num_tx (activeFilterCount (as_filters s))]]]
        else []) @
       [El tDiv [ARole ''group'', ALabel (u16 ''Asset view mode'')]
          [El tButton [AType ''button'',
                AClass (u16 (''view-toggle-btn'' @ (if as_viewMode s = ListView then '' active'' else []))),
                OnClick (ShowView ListView),
                AFlag ''aria-pressed'' (as_viewMode s = ListView),
                ATitle (u16 ''Flat table'')]
             [Icon ''List'', El tSpan [] [tx ''List'']],
           El tButton [AType ''button'',
                AClass (u16 (''view-toggle-btn'' @ (if as_viewMode s = TreeView then '' active'' else []))),
                OnClick (ShowView TreeView),
                AFlag ''aria-pressed'' (as_viewMode s = TreeView),
                ATitle (u16 ''Group by env / VPC'')]
             [Icon ''FolderTree'', El tSpan [] [tx ''Tree'']]],
        El tSpan []
          [Icon ''Database'',
           tx
             (if as_viewMode s = TreeView then nat_str (length (tree_items n)) @ '' grouped'' else formatAssetRange (list_total n) (as_offset s) (int (length (list_items n))))],
        El tButton [AType ''button'',
             OnClick RefreshAssets,
             ADisabled (\<not> granted ''cmdb.asset:read'' \<or> (if as_viewMode s = TreeView then sn_treeFetching n else sn_assetsFetching n))]
          [Icon ''RefreshCw'',
           El tSpan [] [tx (if if as_viewMode s = TreeView then sn_treeFetching n else sn_assetsFetching n then ''Refreshing'' else ''Refresh'')]]])"

definition tree_leaf_view :: "Asset \<Rightarrow> assets_action node" where
  "tree_leaf_view asset =
    El tDiv [AClass (u16 (''asset-tree-leaf'' @ (if is_proxy asset then '' bastion'' else [])))]
      [El tDiv []
         ([El tSpan [] [tx (or_else (asset_name asset) (asset_id asset))]] @
          (if is_proxy asset then [El tSpan [] [tx ''bastion'']] else []) @
          [El tSpan [AClass (u16 (''status-pill '' @ asset_statusTone (asset_status asset) @ '' tiny''))]
             [tx (or_else (asset_status asset) ''unknown'')],
           El tSpan [] [tx (opt_or (friendlyType asset) [])]] @
          (if truthy (asset_addr asset) then [El tSpan [] [Txt (u16 (opt_or (asset_addr asset) []))]] else [])),
       AssetActions_view asset (supportsTerminal asset) ConnectAsset OpenDetails]"

definition assets_tree_view :: "(string \<Rightarrow> string \<Rightarrow> int) \<Rightarrow> asset_net \<Rightarrow> assets_action node" where
  "assets_tree_view localeCompare n =
    El tDiv []
      (map (\<lambda>env.
         El tDetails []
           ([El tSummary []
               [El tSpan [] [Txt (u16 ''env '' @ middle_dot @ u16 '' ''), tx (env_envName env)],
                El tSpan [] [tx ''('', num_tx (env_total env), tx '')'']]] @
            (map (\<lambda>vpc.
               El tDetails []
                 [El tSummary []
                    [El tSpan [] [Txt (u16 ''vpc '' @ middle_dot @ u16 '' ''), El tCode [] [tx (vpc_vpcLabel vpc)]],
                     El tSpan [] [tx ''('', num_tx (vpc_count vpc), tx '')'']],
                  El tDiv [] ((map (\<lambda>asset. tree_leaf_view asset) (vpc_bastions vpc @ vpc_members vpc)))]) (env_vpcs env)))) (buildAssetTree localeCompare (tree_items n)))"

definition asset_row_view :: "Asset \<Rightarrow> assets_action node" where
  "asset_row_view asset =
    El tTr []
      [El tTd []
         ([El tDiv []
             ([El tStrong [] [tx (or_else (asset_name asset) (asset_id asset))]] @ (if is_proxy asset then [El tSpan [] [tx ''bastion'']] else []))] @
          (if truthy (asset_private_dns asset) then [El tDiv [] [Txt (u16 (opt_or (asset_private_dns asset) []))]] else [])),
       El tTd [] [tx (opt_or (friendlyType asset) [])],
       El tTd []
         ((if truthy (asset_public_ip asset) then
             [El tDiv [] [El tCode [] [Txt (u16 (opt_or (asset_public_ip asset) []))], tx '' '', El tSpan [] [tx ''pub'']]]
           else []) @
          (if truthy (asset_private_ip asset) then
             [El tDiv [] [El tCode [] [Txt (u16 (opt_or (asset_private_ip asset) []))], tx '' '', El tSpan [] [tx ''priv'']]]
           else []) @
          (if \<not> truthy (asset_public_ip asset) \<and> \<not> truthy (asset_private_ip asset) then [El tSpan [] [Txt em_dash]] else [])),
       El tTd [] [tx (or_else (asset_env asset) ''default'')],
       El tTd []
         ([El tCode [] [tx (fst (regionAccountCell asset))]] @
          (if snd (regionAccountCell asset) \<noteq> [] then [El tDiv [] [Txt (snd (regionAccountCell asset))]] else [])),
       El tTd [] [El tSpan [AClass (u16 (''status-pill '' @ asset_statusTone (asset_status asset)))] [tx (or_else (asset_status asset) ''unknown'')]],
       El tTd []
         ((if snd (connectivityHint asset) \<noteq> [] then
             [El tSpan [AClass (u16 (''status-pill '' @ snd (connectivityHint asset)))]
                [Txt (if fst (connectivityHint asset) = [] then em_dash else u16 (fst (connectivityHint asset)))]]
           else [El tSpan [] [Txt (if fst (connectivityHint asset) = [] then em_dash else u16 (fst (connectivityHint asset)))]]) @
          [El tDiv [] [tx (or_else (asset_source asset) ''manual'')]]),
       El tTd [] [if truthy (asset_owner asset) then tx (opt_or (asset_owner asset) []) else El tSpan [] [Txt em_dash]],
       El tTd [] [AssetActions_view asset (supportsTerminal asset) ConnectAsset OpenDetails]]"

definition assets_table_view :: "asset_net \<Rightarrow> assets_action node" where
  "assets_table_view n =
    El tDiv []
      [El tTable []
         [El tThead []
            [El tTr []
               [El tTh [] [tx ''Asset''],
                El tTh [] [tx ''Kind''],
                El tTh [] [tx ''Address''],
                El tTh [] [tx ''Env''],
                El tTh [] [Txt (u16 ''Region '' @ middle_dot @ u16 '' Account'')],
                El tTh [] [tx ''State''],
                El tTh [] [tx ''Connectivity''],
                El tTh [] [tx ''Owner''],
                El tTh [] [tx ''Actions'']]],
          El tTbody [] ((map (\<lambda>asset. asset_row_view asset) (list_items n)))]]"

definition pagination_view :: "asset_net \<Rightarrow> assets_page \<Rightarrow> assets_action node" where
  "pagination_view n s =
    El tDiv []
      [El tSpan [] [tx ''Page size '', Txt (u16 (int_str pageSize))],
       El tDiv []
         [El tButton [AType ''button'', OnClick PreviousPage, ADisabled (\<not> canGoPrevious s \<or> sn_assetsFetching n)] [tx ''Previous''],
          El tButton [AType ''button'', OnClick NextPage, ADisabled (\<not> canGoNext (list_total n) s \<or> sn_assetsFetching n)] [tx ''Next'']]]"

definition assets_panel_view :: "(string \<Rightarrow> bool) \<Rightarrow> (string \<Rightarrow> string \<Rightarrow> int) \<Rightarrow> asset_net \<Rightarrow> assets_page \<Rightarrow> assets_action node" where
  "assets_panel_view granted localeCompare n s =
    El tArticle []
      ([assets_toolbar_view granted n s] @
       (if \<not> granted ''cmdb.asset:read'' then [PanelState_view PanelPermission (u16 ''Permission required: cmdb.asset:read'')] else []) @
       (if granted ''cmdb.asset:read'' \<and> as_viewMode s = ListView \<and> q_error (sn_assets n) \<noteq> None then
          [PanelState_view PanelError (query_error_text (sn_assets n))]
        else []) @
       (if granted ''cmdb.asset:read'' \<and> as_viewMode s = TreeView \<and> q_error (sn_tree n) \<noteq> None then
          [PanelState_view PanelError (query_error_text (sn_tree n))]
        else []) @
       (if granted ''cmdb.asset:read'' \<and> q_error (sn_facets n) \<noteq> None then
          [PanelState_view PanelError (query_error_text (sn_facets n))]
        else []) @
       (if granted ''cmdb.asset:read'' \<and> as_viewMode s = ListView \<and> q_loading (sn_assets n) then
          [PanelState_view PanelLoading (u16 ''Loading assets'')]
        else []) @
       (if granted ''cmdb.asset:read'' \<and> as_viewMode s = TreeView \<and> q_loading (sn_tree n) then
          [PanelState_view PanelLoading (u16 ''Loading assets'')]
        else []) @
       (if granted ''cmdb.asset:read'' \<and> as_viewMode s = ListView \<and> \<not> q_loading (sn_assets n) \<and> \<not> (q_error (sn_assets n) \<noteq> None) \<and> length (list_items n) = 0 then
          [PanelState_view PanelEmpty
             (u16 (if activeFilterCount (as_filters s) > 0 then ''No assets match the current filters.'' else ''No assets yet.''))]
        else []) @
       (if granted ''cmdb.asset:read'' \<and> as_viewMode s = TreeView \<and> \<not> q_loading (sn_tree n) \<and> \<not> (q_error (sn_tree n) \<noteq> None) \<and> length (tree_items n) = 0 then
          [PanelState_view PanelEmpty
             (u16 (if activeFilterCount (as_filters s) > 0 then ''No assets match the current filters.'' else ''No assets yet.''))]
        else []) @
       (if as_viewMode s = TreeView \<and> length (tree_items n) > 0 then [assets_tree_view localeCompare n] else []) @
       (if as_viewMode s = ListView \<and> length (list_items n) > 0 then [assets_table_view n] else []) @
       (if granted ''cmdb.asset:read'' \<and> as_viewMode s = ListView \<and> list_total n > pageSize then [pagination_view n s] else []))"

definition asset_summary_view :: "clock \<Rightarrow> Asset \<Rightarrow> assets_action node list" where
  "asset_summary_view c selectedAsset =
    [El tSection []
       [El tH3 [] [tx ''Summary''],
        El tDl []
          [DetailItem_view ''ID'' [El tCode [] [tx (asset_id selectedAsset)]],
           DetailItem_view ''Status''
             [El tSpan [AClass (u16 (''status-pill '' @ asset_statusTone (asset_status selectedAsset)))] [tx (or_else (asset_status selectedAsset) ''unknown'')]],
           DetailItem_view ''Criticality'' [tx (opt_or (asset_criticality selectedAsset) ''-'')],
           DetailItem_view ''Environment'' [tx (or_else (asset_env selectedAsset) ''default'')],
           DetailItem_view ''Source''
             [El tSpan [AClass (u16 (''status-pill '' @ sourceTone (asset_source selectedAsset)))] [tx (or_else (asset_source selectedAsset) ''manual'')]],
           DetailItem_view ''Created'' [tx (formatDateTime c (Some (asset_created_at selectedAsset)))],
           DetailItem_view ''Updated'' [tx (formatDateTime c (Some (asset_updated_at selectedAsset)))],
           DetailItem_view ''Expires'' [tx (formatDateTime c (asset_expires_at selectedAsset))]]],
     El tSection []
       [El tH3 [] [tx ''Infrastructure''],
        El tDl []
          [DetailItem_view ''Region'' [CodeValue_view (asset_region selectedAsset)],
           DetailItem_view ''Zone'' [CodeValue_view (asset_zone selectedAsset)],
           DetailItem_view ''Account'' [CodeValue_view (asset_account_id selectedAsset)],
           DetailItem_view ''Instance type'' [CodeValue_view (asset_instance_type selectedAsset)],
           DetailItem_view ''OS image'' [CodeValue_view (asset_os_image selectedAsset)],
           DetailItem_view ''OS family'' [tx (opt_or (asset_os_family selectedAsset) ''-'')],
           DetailItem_view ''AMI name'' [tx (opt_or (asset_ami_name selectedAsset) ''-'')],
           DetailItem_view ''VPC'' [CodeValue_view (asset_vpc_id selectedAsset)],
           DetailItem_view ''Subnet'' [CodeValue_view (asset_subnet_id selectedAsset)],
           DetailItem_view ''Key name'' [CodeValue_view (asset_key_name selectedAsset)]]],
     El tSection []
       [El tH3 [] [tx ''Network''],
        El tDl []
          [DetailItem_view ''Public IP'' [CodeValue_view (asset_public_ip selectedAsset)],
           DetailItem_view ''Private IP'' [CodeValue_view (asset_private_ip selectedAsset)],
           DetailItem_view ''Private DNS'' [CodeValue_view (asset_private_dns selectedAsset)],
           DetailItem_view ''VPC proxy'' [tx (if is_proxy selectedAsset then ''yes'' else ''no'')]]],
     El tSection []
       [El tH3 [] [tx ''Ownership''],
        El tDl []
          [DetailItem_view ''Owner'' [tx (opt_or (asset_owner selectedAsset) ''-'')],
           DetailItem_view ''Business unit'' [tx (opt_or (asset_business_unit selectedAsset) ''-'')]]]]"

definition drawer_panel_view :: "(string \<Rightarrow> bool) \<Rightarrow> (string \<Rightarrow> string \<Rightarrow> int) \<Rightarrow> clock \<Rightarrow> asset_net \<Rightarrow> asset_subs \<Rightarrow> Asset \<Rightarrow> assets_page \<Rightarrow> assets_action node" where
  "drawer_panel_view granted localeCompare c n h selectedAsset s =
    El tDiv [AOther ''id'' (u16 (''asset-detail-'' @ DrawerTab_str (as_activeDrawerTab s))),
         ARole ''tabpanel'',
         AOther ''aria-labelledby'' (u16 (''asset-detail-tab-'' @ DrawerTab_str (as_activeDrawerTab s)))]
      ((if as_activeDrawerTab s = TabSummary \<and> as_editingAsset s then
          [El tSection []
             [El tH3 [] [tx ''Edit asset''],
              map_node (EditFormAction selectedAsset) (AssetForm_view (sn_updatePending n) (sn_updateError n) (sh_edited h))]]
        else []) @
       (if as_activeDrawerTab s = TabSummary \<and> \<not> as_editingAsset s then (asset_summary_view c selectedAsset) else []) @
       (if as_activeDrawerTab s = TabConnection then
          [VPCProxyControl_view selectedAsset (granted ''cmdb.asset:write'') (as_vpcProxyFeedback s) (sn_demotePending n) (sn_promotePending n)
             (DemoteAsset selectedAsset) (PromoteAsset (asset_id selectedAsset)),
           map_node (SectionAction selectedAsset)
             (ConnectionSection_view c (granted ''cmdb.asset:write'') (q_error (sn_connection n)) (q_loading (sn_connection n)) (sn_savePending n) (sn_testPending n) (q_data (sn_connection n)) (sn_saveError n) (sn_testError n) (sn_testResult n) (sh_section h))]
        else []) @
       (if as_activeDrawerTab s = TabProbe then
          [ProbeSection_view c (granted ''cmdb.asset:write'') (q_error (sn_probe n)) (q_loading (sn_probe n)) (sn_probePending n)
             (RunProbe (asset_id selectedAsset)) (sn_probeError n) (q_data (sn_probe n))]
        else []) @
       (if as_activeDrawerTab s = TabRelations then
          [RelationsSection_view c (granted ''cmdb.asset:write'') (asset_id selectedAsset) (sn_deleteRelationError n) (as_deletingRelationID s)
             (q_error (sn_relations n)) (q_loading (sn_relations n)) (ForgetRelation (asset_id selectedAsset)) (q_data (sn_relations n))]
        else []) @
       (if as_activeDrawerTab s = TabMetadata then
          [MetadataSection_view localeCompare ''System tags'' (asset_system_tags selectedAsset),
           MetadataSection_view localeCompare ''Labels'' (asset_labels selectedAsset)]
        else []))"

definition drawer_edit_view :: "asset_net \<Rightarrow> Asset \<Rightarrow> assets_page \<Rightarrow> assets_action node list" where
  "drawer_edit_view n selectedAsset s =
    [El tButton [AType ''button'', OnClick ToggleEditing, ADisabled (sn_updatePending n)]
       [Icon ''Pencil'', El tSpan [] [tx (if as_editingAsset s then ''Cancel edit'' else ''Edit'')]],
     El tButton [AType ''button'', OnClick (DeleteAsset selectedAsset), ADisabled (sn_deletePending n)]
       [Icon ''Trash2'', El tSpan [] [tx (if sn_deletePending n then ''Deleting'' else ''Delete'')]]]"

definition drawer_head_view :: "(string \<Rightarrow> bool) \<Rightarrow> asset_net \<Rightarrow> assets_page \<Rightarrow> assets_action node" where
  "drawer_head_view granted n s =
    El tHeader []
      [El tDiv []
         [El tP [] [tx (selected_text n asset_type ''Asset'')],
          El tH2 [AOther ''id'' (u16 ''asset-detail-title'')] [tx (selected_text n asset_name ''Asset details'')],
          El tP [] [tx (selected_text n (\<lambda>a. opt_or (asset_external_id a) []) (as_selectedAssetID s))]],
       El tDiv []
         ((if granted ''cmdb.asset:write'' then (case q_data (sn_detail n) of None \<Rightarrow> [] | Some selectedAsset \<Rightarrow> drawer_edit_view n selectedAsset s) else []) @
          [El tButton [AType ''button'', OnClick CloseDetails, ATitle (u16 ''Close'')] [Icon ''X'']])]"

definition drawer_view :: "(string \<Rightarrow> bool) \<Rightarrow> (string \<Rightarrow> string \<Rightarrow> int) \<Rightarrow> clock \<Rightarrow> asset_net \<Rightarrow> asset_subs \<Rightarrow> assets_page \<Rightarrow> assets_action node" where
  "drawer_view granted localeCompare c n h s =
    El tDiv [ARole ''presentation'']
      [El tButton [AType ''button'', ALabel (u16 ''Close asset details''), OnClick CloseDetails] [],
       El tAside [ARole ''dialog'', AFlag ''aria-modal'' True, AOther ''aria-labelledby'' (u16 ''asset-detail-title'')]
         [drawer_head_view granted n s,
          El tDiv []
            ((if q_loading (sn_detail n) then [PanelState_view PanelLoading (u16 ''Loading asset details'')] else []) @
             (if q_error (sn_detail n) \<noteq> None then [PanelState_view PanelError (query_error_text (sn_detail n))] else []) @
             (case q_data (sn_detail n) of
                None \<Rightarrow> []
              | Some selectedAsset \<Rightarrow>
                  [El tDiv [ARole ''tablist'', ALabel (u16 ''Asset detail sections'')]
                     (map (\<lambda>tab.
                        El tButton [AType ''button'',
                             AClass (u16 (''drawer-tab'' @ (if as_activeDrawerTab s = fst tab then '' active'' else []))),
                             ARole ''tab'',
                             AFlag ''aria-selected'' (as_activeDrawerTab s = fst tab),
                             AOther ''aria-controls'' (u16 (''asset-detail-'' @ DrawerTab_str (fst tab))),
                             AOther ''id'' (u16 (''asset-detail-tab-'' @ DrawerTab_str (fst tab))),
                             OnClick (ShowDrawerTab (fst tab))]
                          [tx (snd tab)]) drawerTabs),
                   drawer_panel_view granted localeCompare c n h selectedAsset s]))]]"

definition AssetsPage_view :: "(string \<Rightarrow> bool) \<Rightarrow> (string \<Rightarrow> string \<Rightarrow> int) \<Rightarrow> clock \<Rightarrow> asset_net \<Rightarrow> asset_subs \<Rightarrow> assets_page \<Rightarrow> assets_action node" where
  "AssetsPage_view granted localeCompare c n h s =
    El tSection []
      ([El tDiv []
          [El tDiv [] [El tP [] [tx ''Inventory''], El tH1 [] [tx ''CMDB assets'']],
           El tDiv []
             ([El tSpan [AClass (u16 (''status-pill '' @ (if granted ''cmdb.asset:read'' then ''ok'' else ''warn'')))]
                 [Icon ''ShieldCheck'', tx (if granted ''cmdb.asset:read'' then ''cmdb.asset:read'' else ''Needs cmdb.asset:read'')]] @
              (if granted ''cmdb.asset:write'' then
                 [El tButton [AType ''button'', OnClick ToggleCreating]
                    [Icon ''Plus'', El tSpan [] [tx (if as_creating s then ''Hide form'' else ''New asset'')]]]
               else []))]] @
       feedback_view (as_assetFeedback s) @
       (if as_creating s \<and> granted ''cmdb.asset:write'' then
          [El tArticle []
             [El tDiv [] [El tDiv [] [El tP [] [tx ''Create''], El tH2 [] [tx ''New asset'']], El tSpan [] [tx ''cmdb.asset:write'']],
              map_node CreateFormAction (AssetForm_view (sn_createPending n) (sn_createError n) (sh_created h))]]
        else []) @
       [assets_panel_view granted localeCompare n s] @
       (if granted ''cmdb.asset:write'' then
          []
        else [El tArticle [] [PanelState_view PanelPermission (u16 ''Permission required for asset changes: cmdb.asset:write'')]]) @
       (if as_selectedAssetID s \<noteq> [] then [drawer_view granted localeCompare c n h s] else []))"

section \<open>Actions\<close>

text \<open>
  One action: the page and its parts after it, and the requests it makes; \<open>confirmed\<close> is the answer to the question an
  action may ask. A form is sent for the asset the drawer shows.
\<close>

fun assets_act :: "bool \<Rightarrow> asset_net \<Rightarrow> assets_action \<Rightarrow> assets_page \<times> asset_subs \<Rightarrow> (assets_page \<times> asset_subs) \<times> api_call list" where
  "assets_act confirmed n ToggleCreating (s, h) = ((toggle_creating s, h), [])"
| "assets_act confirmed n (EditFilters f) (s, h) = ((updateFilter f s, h), [])"
| "assets_act confirmed n ResetAssetFilters (s, h) = ((assets_resetFilters s, h), [])"
| "assets_act confirmed n (ShowView m) (s, h) = ((setViewMode m s, h), [])"
| "assets_act confirmed n RefreshAssets (s, h) = ((s, h), [listAssets (if as_viewMode s = TreeView then treeOptions (as_filters s)
     else buildAssetListOptions (as_filters s) (as_offset s))])"
| "assets_act confirmed n PreviousPage (s, h) = ((press_previous s, h), [])"
| "assets_act confirmed n NextPage (s, h) = ((press_next (list_total n) s, h), [])"
| "assets_act confirmed n (ConnectAsset a p) (s, h) = ((s, h), [])"
| "assets_act confirmed n (OpenDetails a) (s, h) = ((openAssetDetails a s, h), [])"
| "assets_act confirmed n CloseDetails (s, h) = ((closeAssetDetail s, h), [])"
| "assets_act confirmed n ToggleEditing (s, h) = ((toggle_editing s, h), [])"
| "assets_act confirmed n (DeleteAsset a) (s, h) =
     (let (s', call) = confirmDeleteAsset confirmed a s in ((s', h), case call of None \<Rightarrow> [] | Some x \<Rightarrow> [x]))"
| "assets_act confirmed n (ShowDrawerTab t) (s, h) = ((s\<lparr>as_activeDrawerTab := t\<rparr>, h), [])"
| "assets_act confirmed n (CreateFormAction x) (s, h) =
     (let (f, calls) = asset_form_act x (sh_created h); s' = (if calls \<noteq> [] then asset_onMutate s else s) in
      ((if x = CancelAssetForm then s'\<lparr>as_creating := False\<rparr> else s', h\<lparr>sh_created := f\<rparr>), calls))"
| "assets_act confirmed n (EditFormAction a x) (s, h) =
     (let (f, calls) = asset_form_act x ((sh_edited h)\<lparr>fc_assetID := asset_id a\<rparr>); s' = (if calls \<noteq> [] then asset_onMutate s else s) in
      ((if x = CancelAssetForm then s'\<lparr>as_editingAsset := False\<rparr> else s', h\<lparr>sh_edited := f\<rparr>), calls))"
| "assets_act confirmed n (SectionAction a x) (s, h) =
     (let (t, calls) = connection_act (q_data (sn_connection n)) a x (sh_section h) in ((s, h\<lparr>sh_section := t\<rparr>), calls))"
| "assets_act confirmed n (DemoteAsset a) (s, h) =
     (let (s', call) = confirmDemoteVPCProxy confirmed a s in ((s', h), case call of None \<Rightarrow> [] | Some x \<Rightarrow> [x]))"
| "assets_act confirmed n (PromoteAsset i) (s, h) =
     ((vpc_onMutate s, h), [promoteAssetToVPCProxy i \<lparr>promopt_auth_type = None, promopt_username = None\<rparr>])"
| "assets_act confirmed n (RunProbe i) (s, h) = ((s, h), [runAssetProbe i])"
| "assets_act confirmed n (ForgetRelation i r) (s, h) =
     (let (s', call) = confirmDeleteRelation confirmed i r s in ((s', h), case call of None \<Rightarrow> [] | Some x \<Rightarrow> [x]))"

text \<open>Where an action leads: only a connect button leaves the page.\<close>

fun assets_leads :: "assets_action \<Rightarrow> string option" where
  "assets_leads (ConnectAsset a p) = Some (connectAsset a p)"
| "assets_leads _ = None"

text \<open>
  The parts are created afresh each time they come on the page: the form for a new asset, the form of the asset in the
  drawer, and its connection section.
\<close>

definition created_shown :: "(string \<Rightarrow> bool) \<Rightarrow> assets_page \<Rightarrow> bool" where
  "created_shown granted s = (as_creating s \<and> granted ''cmdb.asset:write'')"

definition shown_asset :: "asset_net \<Rightarrow> assets_page \<Rightarrow> Asset option" where
  "shown_asset n s = (if as_selectedAssetID s = [] then None else q_data (sn_detail n))"

definition edited_asset :: "asset_net \<Rightarrow> assets_page \<Rightarrow> Asset option" where
  "edited_asset n s = (if as_activeDrawerTab s = TabSummary \<and> as_editingAsset s then shown_asset n s else None)"

definition connected_asset :: "asset_net \<Rightarrow> assets_page \<Rightarrow> Asset option" where
  "connected_asset n s = (if as_activeDrawerTab s = TabConnection then shown_asset n s else None)"

definition mount_subs :: "(string \<Rightarrow> bool) \<Rightarrow> asset_net \<times> assets_page \<Rightarrow> asset_net \<times> assets_page \<Rightarrow> asset_subs \<Rightarrow> asset_subs" where
  "mount_subs granted old new h = (case (old, new) of ((n, s), (n', s')) \<Rightarrow>
    h\<lparr>sh_created := (if created_shown granted s' \<and> \<not> created_shown granted s then AssetForm_create (sh_created h) else sh_created h),
      sh_edited := (case (edited_asset n s, edited_asset n' s') of (None, Some a) \<Rightarrow> AssetForm_edit a (sh_edited h) | _ \<Rightarrow> sh_edited h),
      sh_section := (case (connected_asset n s, connected_asset n' s') of
        (None, Some a) \<Rightarrow> section_mount (q_data (sn_connection n')) a | _ \<Rightarrow> sh_section h)\<rparr>)"

section \<open>What the page offers\<close>

definition filter_offered :: "(string \<Rightarrow> bool) \<Rightarrow> asset_net \<Rightarrow> assets_page \<Rightarrow> (AssetFilters \<Rightarrow> AssetFilters) \<Rightarrow> bool" where
  "filter_offered granted n s g =
    (let facet = (\<lambda>get sel x. x = [] \<or> x \<in> set (facetOptions (map_option get (q_data (sn_facets n))) (sel (as_filters s)))) in
     granted ''cmdb.asset:read'' \<and> (\<exists>v. g = (\<lambda>f. f\<lparr>fl_query := v\<rparr>)) \<or> granted ''cmdb.asset:read'' \<and> (\<exists>v. g = (\<lambda>f. f\<lparr>fl_includeBastions := v\<rparr>)) \<or>
     (\<exists>x. facet facets_envs fl_env x \<and> g = (\<lambda>f. f\<lparr>fl_env := x\<rparr>)) \<or> (\<exists>x. facet facets_types fl_type x \<and> g = (\<lambda>f. f\<lparr>fl_type := x\<rparr>)) \<or>
     (\<exists>x. facet facets_statuses fl_status x \<and> g = (\<lambda>f. f\<lparr>fl_status := x\<rparr>)) \<or>
     (\<exists>x. facet facets_sources fl_source x \<and> g = (\<lambda>f. f\<lparr>fl_source := x\<rparr>)) \<or>
     (\<exists>x. facet facets_regions fl_region x \<and> g = (\<lambda>f. f\<lparr>fl_region := x\<rparr>)))"

lemma assets_toolbar_fires:
  "fires (assets_toolbar_view granted n s) a \<longleftrightarrow>
     (\<exists>g. a = EditFilters g \<and> filter_offered granted n s g) \<or> a = ResetAssetFilters \<and> activeFilterCount (as_filters s) > 0 \<or>
     (\<exists>m. a = ShowView m) \<or>
     a = RefreshAssets \<and> granted ''cmdb.asset:read'' \<and> \<not> (if as_viewMode s = TreeView then sn_treeFetching n else sn_assetsFetching n)"
proof (cases "\<exists>g. a = EditFilters g")
  case True
  then obtain g where a: "a = EditFilters g" by blast
  show ?thesis unfolding a filter_offered_def Let_def by (simp add: assets_toolbar_view_def markup conj_disj_distribR ex_disj_distrib) argo
next
  case False
  have "(\<exists>m. a = ShowView m) \<longleftrightarrow> a = ShowView ListView \<or> a = ShowView TreeView" by (metis AssetViewMode.exhaust)
  with False show ?thesis by (simp add: assets_toolbar_view_def markup) auto
qed

text \<open>What the buttons of one asset offer.\<close>

definition asset_offers :: "Asset \<Rightarrow> assets_action \<Rightarrow> bool" where
  "asset_offers x a = (a = OpenDetails x \<or> supportsTerminal x \<and> (a = ConnectAsset x SSH \<or> a = ConnectAsset x RDP))"

lemma asset_row_fires: "fires (asset_row_view x) a = asset_offers x a" "fires (tree_leaf_view x) a = asset_offers x a"
  by (simp_all add: asset_row_view_def tree_leaf_view_def asset_offers_def markup)

lemma assets_table_fires: "fires (assets_table_view n) a \<longleftrightarrow> (\<exists>x\<in>set (list_items n). asset_offers x a)"
  by (simp add: assets_table_view_def markup asset_row_fires) (simp add: list_ex_iff)

lemma assets_tree_fires: "fires (assets_tree_view cmp n) a \<longleftrightarrow> (\<exists>x\<in>set (tree_items n). asset_offers x a)"
  using tree_members [of cmp "tree_items n" "\<lambda>x. asset_offers x a"]
  by (simp add: assets_tree_view_def markup asset_row_fires) (auto simp: list_ex_iff)

lemma pagination_fires:
  "fires (pagination_view n s) a \<longleftrightarrow> \<not> sn_assetsFetching n \<and> (a = PreviousPage \<and> canGoPrevious s \<or> a = NextPage \<and> canGoNext (list_total n) s)"
  by (simp add: pagination_view_def markup) auto

lemma assets_panel_fires:
  "fires (assets_panel_view granted cmp n s) a \<longleftrightarrow> fires (assets_toolbar_view granted n s) a \<or>
     (\<exists>x\<in>set (if as_viewMode s = TreeView then tree_items n else list_items n). asset_offers x a) \<or>
     pagination_shown granted (list_total n) s \<and> fires (pagination_view n s) a"
proof -
  have "as_viewMode s = ListView \<longleftrightarrow> as_viewMode s \<noteq> TreeView" by (cases "as_viewMode s") simp_all
  then show ?thesis
    by (simp add: assets_panel_view_def markup assets_table_fires assets_tree_fires pagination_shown_def) (auto simp: less_le)
qed

lemma asset_summary_facts [markup]: "fires_in (asset_summary_view c x) a = False" "list_all wf_node (asset_summary_view c x)"
  by (simp_all add: asset_summary_view_def markup)

lemma drawer_panel_fires:
  "fires (drawer_panel_view granted cmp c n h x s) a \<longleftrightarrow>
     as_activeDrawerTab s = TabSummary \<and> as_editingAsset s \<and>
       (\<exists>b. a = EditFormAction x b \<and> fires (AssetForm_view (sn_updatePending n) (sn_updateError n) (sh_edited h)) b) \<or>
     as_activeDrawerTab s = TabConnection \<and>
       (granted ''cmdb.asset:write'' \<and> \<not> sn_demotePending n \<and> \<not> sn_promotePending n \<and>
          a = (if is_proxy x then DemoteAsset x else PromoteAsset (asset_id x)) \<or>
        (\<exists>b. a = SectionAction x b \<and> fires (ConnectionSection_view c (granted ''cmdb.asset:write'') (q_error (sn_connection n))
          (q_loading (sn_connection n)) (sn_savePending n) (sn_testPending n) (q_data (sn_connection n)) (sn_saveError n) (sn_testError n)
          (sn_testResult n) (sh_section h)) b)) \<or>
     as_activeDrawerTab s = TabProbe \<and> granted ''cmdb.asset:write'' \<and> \<not> sn_probePending n \<and> \<not> q_loading (sn_probe n) \<and> a = RunProbe (asset_id x) \<or>
     as_activeDrawerTab s = TabRelations \<and> granted ''cmdb.asset:write'' \<and>
       (\<exists>r\<in>set (opt_list (q_data (sn_relations n))). as_deletingRelationID s \<noteq> rel_id r \<and> a = ForgetRelation (asset_id x) r)"
  by (cases "as_activeDrawerTab s"; cases "as_editingAsset s"; simp add: drawer_panel_view_def markup; blast)

lemma drawer_fires:
  "fires (drawer_view granted cmp c n h s) a \<longleftrightarrow> a = CloseDetails \<or>
     (\<exists>x. q_data (sn_detail n) = Some x \<and>
       (granted ''cmdb.asset:write'' \<and> (a = ToggleEditing \<and> \<not> sn_updatePending n \<or> a = DeleteAsset x \<and> \<not> sn_deletePending n) \<or>
        (\<exists>t. a = ShowDrawerTab t) \<or> fires (drawer_panel_view granted cmp c n h x s) a))"
proof -
  have "(\<exists>t\<in>set drawerTabs. a = ShowDrawerTab (fst t)) \<longleftrightarrow> (\<exists>t. a = ShowDrawerTab t)"
    by (auto simp: drawerTabs_def intro: DrawerTab.exhaust)
  then show ?thesis
    by (simp add: drawer_view_def drawer_head_view_def drawer_edit_view_def markup) (auto simp: list_ex_iff)
qed

lemma assets_fires:
  "fires (AssetsPage_view granted cmp c n h s) a \<longleftrightarrow> granted ''cmdb.asset:write'' \<and> a = ToggleCreating \<or>
     created_shown granted s \<and> (\<exists>b. a = CreateFormAction b \<and> fires (AssetForm_view (sn_createPending n) (sn_createError n) (sh_created h)) b) \<or>
     fires (assets_panel_view granted cmp n s) a \<or> as_selectedAssetID s \<noteq> [] \<and> fires (drawer_view granted cmp c n h s) a"
  by (simp add: AssetsPage_view_def markup created_shown_def) auto

lemma AssetsPage_wf: "wf_node (AssetsPage_view granted cmp c n h s)"
  by (simp add: AssetsPage_view_def assets_panel_view_def assets_toolbar_view_def assets_tree_view_def tree_leaf_view_def assets_table_view_def
      asset_row_view_def pagination_view_def drawer_view_def drawer_head_view_def drawer_edit_view_def drawer_panel_view_def markup
      connection_section_facts)

section \<open>The page in use\<close>

text \<open>The page with its parts and what it renders from.\<close>

type_synonym assets_world = "assets_page \<times> asset_subs \<times> asset_net \<times> clock"

definition assets_world_view :: "(string \<Rightarrow> bool) \<Rightarrow> (string \<Rightarrow> string \<Rightarrow> int) \<Rightarrow> assets_world \<Rightarrow> assets_action node" where
  "assets_world_view granted cmp w = (case w of (s, h, n, c) \<Rightarrow> AssetsPage_view granted cmp c n h s)"

definition assets_does :: "(string \<Rightarrow> bool) \<Rightarrow> assets_action \<Rightarrow> assets_world \<Rightarrow> assets_world \<Rightarrow> bool" where
  "assets_does granted a w w' = (case (w, w') of ((s, h, n, c), (s', h', n', c')) \<Rightarrow> n' = n \<and> c' = c \<and>
     (\<exists>confirmed. s' = fst (fst (assets_act confirmed n a (s, h))) \<and>
        h' = mount_subs granted (n, s) (n, s') (snd (fst (assets_act confirmed n a (s, h))))))"

text \<open>The answers of the mutations and the Escape key.\<close>

inductive assets_answer :: "assets_page \<Rightarrow> assets_page \<Rightarrow> bool" where
  "assets_answer s (createAsset_onSuccess a s)"
| "assets_answer s (createAsset_opens a s)"
| "assets_answer s (updateAsset_onSuccess a s)"
| "assets_answer s (deleteAsset_onSuccess s)"
| "assets_answer s (asset_onError e s)"
| "assets_answer s (promote_onSuccess r s)"
| "assets_answer s (demote_onSuccess s)"
| "assets_answer s (vpc_onError e s)"
| "assets_answer s (deleteRelation_onSettled s)"
| "assets_answer s (closeAssetDetail s)"

text \<open>
  Besides, queries and mutations change, the drawer's connection section follows another asset or profile, and a save of
  the connection is answered.
\<close>

inductive assets_env :: "(string \<Rightarrow> bool) \<Rightarrow> assets_world \<Rightarrow> assets_world \<Rightarrow> bool" for granted where
  "assets_env granted (s, h, n, c) (s, mount_subs granted (n, s) (n', s) h, n', c')"
| "assets_answer s s' \<Longrightarrow> assets_env granted (s, h, n, c) (s', mount_subs granted (n, s) (n, s') h, n, c)"
| "assets_env granted (s, h, n, c) (s, h\<lparr>sh_section := section_effect p a (sh_section h)\<rparr>, n, c)"
| "assets_env granted (s, h, n, c) (s, h\<lparr>sh_section := connection_saved a r (sh_section h)\<rparr>, n, c)"

inductive_cases assets_envE: "assets_env granted w w'"
inductive_cases assets_answerE: "assets_answer s s'"

text \<open>Editing is under way only with the writing permission, and the list starts at a whole number of pages.\<close>

definition assets_inv :: "(string \<Rightarrow> bool) \<Rightarrow> assets_world \<Rightarrow> bool" where
  "assets_inv granted w = (case w of (s, h, n, c) \<Rightarrow> (as_editingAsset s \<longrightarrow> granted ''cmdb.asset:write'') \<and>
     (cs_editing (sh_section h) \<longrightarrow> granted ''cmdb.asset:write'') \<and> on_grid s)"

lemma mount_keeps_editing: "cs_editing (sh_section (mount_subs granted old new h)) \<Longrightarrow> cs_editing (sh_section h)"
  by (auto simp: mount_subs_def section_mount_def split: prod.splits option.splits)

lemma on_grid_unpaged [simp]:
  "on_grid (s\<lparr>as_activeDrawerTab := t\<rparr>) = on_grid s" "on_grid (s\<lparr>as_editingAsset := b\<rparr>) = on_grid s" "on_grid (s\<lparr>as_creating := b\<rparr>) = on_grid s"
  "on_grid (s\<lparr>as_assetFeedback := fb\<rparr>) = on_grid s" "on_grid (s\<lparr>as_vpcProxyFeedback := fb\<rparr>) = on_grid s"
  "on_grid (s\<lparr>as_deletingRelationID := i\<rparr>) = on_grid s" "on_grid (select_asset i s) = on_grid s"
  by (simp_all add: on_grid_def select_asset_def)

lemma select_editing [simp]: "as_editingAsset (select_asset i s) \<longleftrightarrow> as_editingAsset s \<and> i = as_selectedAssetID s"
  by (auto simp: select_asset_def)

lemmas page_callbacks = createAsset_onSuccess_def createAsset_opens_def updateAsset_onSuccess_def deleteAsset_onSuccess_def asset_onError_def
  promote_onSuccess_def demote_onSuccess_def vpc_onError_def deleteRelation_onSettled_def closeAssetDetail_def

lemma answer_keeps_page: "assets_answer s s' \<Longrightarrow> on_grid s \<Longrightarrow> on_grid s'" "assets_answer s s' \<Longrightarrow> as_editingAsset s' \<Longrightarrow> as_editingAsset s"
  by (auto elim!: assets_answerE simp: page_callbacks)

lemmas page_actions = toggle_creating_def openAssetDetails_def closeAssetDetail_def toggle_editing_def confirmDeleteAsset_def asset_onMutate_def
  confirmDemoteVPCProxy_def vpc_onMutate_def confirmDeleteRelation_def deleteRelation_onMutate_def

lemma action_keeps_grid:
  assumes "on_grid s"
  shows "on_grid (fst (fst (assets_act confirmed n a (s, h))))"
  using assms on_grid_step [OF assms, of "FilterChanged _"] on_grid_step [OF assms, of FiltersReset] on_grid_step [OF assms, of PreviousPressed]
    on_grid_step [OF assms, of "NextPressed _"] on_grid_step [OF assms, of "ViewChosen _"]
  by (cases a) (auto simp: page_actions Let_def split: prod.splits)

lemma action_edits:
  assumes "as_editingAsset (fst (fst (assets_act confirmed n a (s, h))))"
  shows "as_editingAsset s \<or> a = ToggleEditing"
  using assms
  by (cases a) (auto simp: page_actions updateFilter_def assets_resetFilters_def setViewMode_def press_previous_def press_next_def Let_def
      split: prod.splits if_splits)

lemma connection_act_editing: "cs_editing (fst (connection_act p x b t)) \<Longrightarrow> cs_editing t \<or> b = ToggleConnection"
proof (cases b)
  case SubmitConnection
  have "cs_editing (fst (submitConnection t)) = cs_editing t" by (simp add: submitConnection_def Let_def)
  then show "cs_editing (fst (connection_act p x b t)) \<Longrightarrow> cs_editing t \<or> b = ToggleConnection"
    by (simp add: SubmitConnection case_prod_unfold Let_def)
qed (simp_all add: section_cancel_def section_updateForm_def)

lemma section_action_edits:
  assumes "cs_editing (sh_section (snd (fst (assets_act confirmed n a (s, h)))))"
  shows "cs_editing (sh_section h) \<or> (\<exists>x. a = SectionAction x ToggleConnection)"
proof (cases "\<exists>x b. a = SectionAction x b")
  case True
  then obtain x b where a: "a = SectionAction x b" by blast
  show ?thesis
    using assms connection_act_editing [of "q_data (sn_connection n)" x b "sh_section h"] by (auto simp: a case_prod_unfold Let_def)
next
  case False
  then show ?thesis using assms by (cases a) (simp_all add: Let_def case_prod_unfold)
qed

interpretation assets_use: rendered "assets_world_view granted cmp" "assets_does granted" "assets_env granted" "assets_inv granted" for granted cmp
proof unfold_locales
  fix w w' :: assets_world and a
  obtain s h n c where w: "w = (s, h, n, c)" by (cases w)
  obtain s' h' n' c' where w': "w' = (s', h', n', c')" by (cases w')
  assume inv: "assets_inv granted w" and f: "fires (assets_world_view granted cmp w) a" and d: "assets_does granted a w w'"
  obtain confirmed where s': "s' = fst (fst (assets_act confirmed n a (s, h)))"
    and h': "h' = mount_subs granted (n, s) (n, s') (snd (fst (assets_act confirmed n a (s, h))))"
    using d by (auto simp: w w' assets_does_def)
  have t: "a = ToggleEditing \<Longrightarrow> granted ''cmdb.asset:write''" "a = SectionAction x ToggleConnection \<Longrightarrow> granted ''cmdb.asset:write''" for x
    using f inv by (auto simp: w assets_world_view_def assets_fires assets_panel_fires assets_toolbar_fires asset_offers_def pagination_fires
        drawer_fires drawer_panel_fires connection_section_facts connection_form_fires)
  have "on_grid s'" using inv by (simp add: s' w assets_inv_def action_keeps_grid)
  moreover have "as_editingAsset s' \<longrightarrow> granted ''cmdb.asset:write''"
    using action_edits [of confirmed n a s h] inv t(1) by (auto simp: s' w assets_inv_def)
  moreover have "cs_editing (sh_section h') \<longrightarrow> granted ''cmdb.asset:write''"
    using section_action_edits [of confirmed n a s h] inv t(2) by (auto simp: h' w assets_inv_def dest!: mount_keeps_editing)
  ultimately show "assets_inv granted w'" by (simp add: w' assets_inv_def)
next
  fix w w' :: assets_world
  assume "assets_inv granted w" "assets_env granted w w'"
  then show "assets_inv granted w'"
    by (auto elim!: assets_envE simp: assets_inv_def section_effect_def connection_saved_def
        dest: mount_keeps_editing answer_keeps_page split: sum.splits)
qed

section \<open>The keyboard focus of the drawer\<close>

text \<open>
  The drawer remembers the button that opened it rather than the element that had the focus. Its timer focuses the
  close button, and the panel when there is none; closing gives the focus back to the remembered button if it is still there.
\<close>

definition drawer_opened :: "nat option \<Rightarrow> modal \<Rightarrow> modal" where
  "drawer_opened detailTrigger m = m\<lparr>mo_open := True, mo_restore := detailTrigger\<rparr>"

definition drawer_focus_timer :: "nat option \<Rightarrow> nat option \<Rightarrow> modal \<Rightarrow> modal" where
  "drawer_focus_timer closeButton panelID m =
    (if \<not> mo_open m then m
     else (let m1 = (case closeButton of Some b \<Rightarrow> m\<lparr>mo_active := Some b\<rparr> | None \<Rightarrow> m) in
       if closeButton = None then (case panelID of Some p \<Rightarrow> m1\<lparr>mo_active := Some p\<rparr> | None \<Rightarrow> m1) else m1))"

definition drawer_closed :: "(nat \<Rightarrow> bool) \<Rightarrow> modal \<Rightarrow> modal" where
  "drawer_closed in_document m =
    (case mo_restore m of Some i \<Rightarrow> if in_document i then m\<lparr>mo_open := False, mo_active := Some i\<rparr> else m\<lparr>mo_open := False\<rparr>
     | None \<Rightarrow> m\<lparr>mo_open := False\<rparr>)"

text \<open>
  The drawer treats the focus as the dialogs do: the timer is theirs, and opening it from the focused button and closing it
  again is opening and closing a dialog.
\<close>

lemma drawer_focus_like_dialogs:
  "drawer_focus_timer = modal_focus_timer"
  "\<not> mo_open m \<Longrightarrow> drawer_opened (mo_active m) m = modal_open m"
  "mo_open m \<Longrightarrow> drawer_closed in_document m = modal_close in_document m"
  by (intro ext) (simp_all add: drawer_focus_timer_def modal_focus_timer_def drawer_opened_def modal_open_def drawer_closed_def modal_close_def
      split: option.splits)

section \<open>Properties\<close>

text \<open>The actions that change something on the server, and the form actions that lead there.\<close>

fun assets_writes :: "assets_action \<Rightarrow> bool" where
  "assets_writes (DeleteAsset _) = True"
| "assets_writes (CreateFormAction _) = True"
| "assets_writes (EditFormAction _ _) = True"
| "assets_writes (SectionAction _ _) = True"
| "assets_writes (DemoteAsset _) = True"
| "assets_writes (PromoteAsset _) = True"
| "assets_writes (RunProbe _) = True"
| "assets_writes (ForgetRelation _ _) = True"
| "assets_writes _ = False"

text \<open>
  C21: Nothing on the asset page writes without the permission to. The forms of the drawer do not check the permission
  themselves, but however the page is used and whatever the server answers, an action that changes an asset, its connection,
  its relations or its proxy role is offered only to a user who may write assets.
\<close>

theorem asset_writes_need_permission:
  assumes "visits (assets_world_view granted cmp) (assets_does granted) (assets_env granted) (assets_mount st, h0, n0, c0) (s, h, n, c)"
    and "\<not> cs_editing (sh_section h0)"
    and "fires (assets_world_view granted cmp (s, h, n, c)) a" "assets_writes a"
  shows "granted ''cmdb.asset:write''"
proof -
  have "on_grid (assets_mount st)" using on_grid_run [of "[]"] by simp
  then have "assets_inv granted (assets_mount st, h0, n0, c0)" using assms(2) by (simp add: assets_inv_def assets_mount_def)
  then have "assets_inv granted (s, h, n, c)" using assets_use.visits_keep [OF assms(1)] by blast
  then show ?thesis using assms(3,4)
    by (cases a) (auto simp: assets_inv_def assets_world_view_def assets_fires created_shown_def assets_panel_fires assets_toolbar_fires asset_offers_def
        pagination_fires drawer_fires drawer_panel_fires connection_section_facts connection_form_fires split: if_splits)
qed

text \<open>A user without any permission who opens the details of a listed asset.\<close>

definition sample_net :: asset_net where
  "sample_net = (undefined :: asset_net)\<lparr>sn_assets := \<lparr>q_loading = False, q_error = None, q_data = Some \<lparr>assets_items = [sample_stored_asset],
     assets_total = 1, assets_limit = 25, assets_offset = 0\<rparr>\<rparr>, sn_detail := \<lparr>q_loading = False, q_error = None, q_data = Some sample_stored_asset\<rparr>, sn_deletePending := False\<rparr>"

definition sample_page :: assets_page where
  "sample_page = assets_mount \<lparr>st_readable = False, st_writable = False, st_items = Map.empty\<rparr>"

theorem asset_writes_need_permission_witness:
  "let granted = (\<lambda>p. p = ''cmdb.asset:write'') in \<exists>h c.
     fires (assets_world_view granted unit_compare (openAssetDetails sample_stored_asset sample_page, h, sample_net, c)) (DeleteAsset sample_stored_asset) \<and>
     granted ''cmdb.asset:write''"
proof -
  let ?g = "\<lambda>p. p = ''cmdb.asset:write''"
  let ?h = "(undefined :: asset_subs)\<lparr>sh_section := section_mount None sample_stored_asset\<rparr>"
  let ?s = "openAssetDetails sample_stored_asset sample_page"
  let ?h' = "mount_subs ?g (sample_net, sample_page) (sample_net, ?s) ?h"
  let ?c = "undefined :: clock"
  have v: "visits (assets_world_view ?g unit_compare) (assets_does ?g) (assets_env ?g) (sample_page, ?h, sample_net, ?c) (?s, ?h', sample_net, ?c)"
  proof (rule visits.user [OF visits.start, where e = "OpenDetails sample_stored_asset"])
    have "as_viewMode sample_page = ListView"
      by (simp add: sample_page_def assets_mount_def readAssetViewMode_def getItem_def)
    then show "fires (assets_world_view ?g unit_compare (sample_page, ?h, sample_net, ?c)) (OpenDetails sample_stored_asset)"
      by (simp add: assets_world_view_def assets_fires assets_panel_fires asset_offers_def list_items_def response_items_def sample_net_def)
  qed (auto simp: assets_does_def)
  have e: "\<not> cs_editing (sh_section ?h)" by (simp add: section_mount_def)
  have "as_selectedAssetID ?s \<noteq> []" by (simp add: openAssetDetails_def select_asset_def sample_page_def assets_mount_def sample_stored_asset_def)
  then have f: "fires (assets_world_view ?g unit_compare (?s, ?h', sample_net, ?c)) (DeleteAsset sample_stored_asset)"
    by (simp add: assets_world_view_def assets_fires drawer_fires) (simp add: sample_net_def)
  show ?thesis using asset_writes_need_permission [OF v [unfolded sample_page_def] e f [unfolded sample_page_def]] f by (auto simp: Let_def)
qed

text \<open>
  C25: The table and the tree offer the same. For the same assets, in any collation, the buttons of the flat list and those of
  the tree stand for the same actions: the details of every asset, and for those with a terminal the two ways to connect.
\<close>

theorem tree_offers_as_list:
  "fires (assets_tree_view cmp (n\<lparr>sn_tree := q\<rparr>)) a \<longleftrightarrow> fires (assets_table_view (n\<lparr>sn_assets := q\<rparr>)) a"
  by (simp add: assets_tree_fires assets_table_fires tree_items_def list_items_def)

text \<open>
  A connect button leads to the session it names: following it, the sessions page finds the asset of the row and the
  protocol of the button, for every asset with an identifier, and there is such a button exactly for the assets the page
  shows whose type has a terminal.
\<close>

theorem connect_button_leads:
  "(fires (assets_panel_view granted cmp n s) (ConnectAsset x p) \<longleftrightarrow>
     x \<in> set (if as_viewMode s = TreeView then tree_items n else list_items n) \<and> supportsTerminal x \<and> (p = SSH \<or> p = RDP)) \<and>
   (\<exists>q ps. assets_leads (ConnectAsset x p) = Some (''/sessions'' @ q) \<and> URLSearchParams q = Some ps \<and>
     parseLaunchParams ps = (if asset_id x = [] then None else Some \<lparr>spec_assetID = asset_id x, spec_protocol = p\<rparr>))"
proof -
  let ?spec = "\<lparr>spec_assetID = asset_id x, spec_protocol = p\<rparr>"
  have "fires (assets_panel_view granted cmp n s) (ConnectAsset x p) \<longleftrightarrow>
     x \<in> set (if as_viewMode s = TreeView then tree_items n else list_items n) \<and> supportsTerminal x \<and> (p = SSH \<or> p = RDP)"
    by (simp add: assets_panel_fires assets_toolbar_fires pagination_fires asset_offers_def) blast
  then show ?thesis
    using launch_link_params [of ?spec] launch_params_parse [of ?spec] by (auto simp: connectAsset_def)
qed

end
