(* ===== verification/ConnectView.thy ===== *)
theory ConnectView
  imports ConnectPage RailView ShellView
begin

text \<open>
  What the connect page shows and what its controls do: the markup of \<open>src/web/src/features/connect/ConnectPage.tsx\<close>
  around the shared rail, with the panels of the selected asset and the search palette.
\<close>

section \<open>Markup\<close>

record connect_net =
  tn_rail :: "ListAssetsResponse query"
  tn_railFetching :: bool
  tn_detail :: "Asset query"
  tn_recent :: "ListSessionsResponse query"
  tn_grants :: "ListBastionGrantsResponse query"
  tn_access :: "ResolveResult query"

datatype connect_action =
    OpenPalette
  | ClosePalette
  | TypePalette string
  | PressInPalette string
  | ChoosePalette Asset
  | HoverPalette nat
  | OpenLive LaunchProtocol
  | GoTo string
  | RailAction rail_action

definition rail_assets :: "connect_net \<Rightarrow> Asset list" where
  "rail_assets n = (case q_data (tn_rail n) of None \<Rightarrow> [] | Some r \<Rightarrow> assets_items r)"

definition recent_items :: "connect_net \<Rightarrow> SessionAuditRecord list" where
  "recent_items n = (case q_data (tn_recent n) of None \<Rightarrow> [] | Some r \<Rightarrow> sesslist_items r)"

definition grant_items :: "connect_net \<Rightarrow> BastionGrant list" where
  "grant_items n = (case q_data (tn_grants n) of None \<Rightarrow> [] | Some r \<Rightarrow> bgrants_items r)"

definition grant_expiry :: "ResolveResult query \<Rightarrow> string option" where
  "grant_expiry q = (case grantBackedAccess q of None \<Rightarrow> None | Some r \<Rightarrow> rres_expires_at r)"

definition active_option :: "connect_net \<Rightarrow> connect_page \<Rightarrow> string option" where
  "active_option n s = (let i = activeIndex (rail_assets n) s in if i \<ge> 0 then Some (''connect-palette-opt-'' @ int_str i) else None)"

definition palette_detail :: "Asset \<Rightarrow> units" where
  "palette_detail asset = (let parts = filter (\<lambda>t. t \<noteq> []) [asset_env asset, opt_or (asset_private_ip asset) (opt_or (asset_public_ip asset) [])] in
     if parts = [] then u16 (asset_type asset) else dot_join parts)"

definition connect_head_view :: "connect_net \<Rightarrow> Asset \<Rightarrow> connect_action node" where
  "connect_head_view n selectedAsset =
    El tHeader []
      [El tDiv []
         [El tP [] [tx (or_else (asset_type selectedAsset) ''asset'')],
          El tDiv []
            [El tH2 [] [tx (or_else (asset_name selectedAsset) (asset_id selectedAsset))],
             El tSpan [AClass (u16 (''status-pill '' @ statusTone (Some (asset_status selectedAsset))))]
               [tx (or_else (asset_status selectedAsset) ''unknown'')]],
          El tP []
            ([El tCode [] [tx (assetAddress selectedAsset)]] @
             (if asset_env selectedAsset \<noteq> [] then
                [El tSpan [] [Txt (u16 '' '' @ middle_dot @ u16 '' ''), tx (asset_env selectedAsset)]]
              else []) @
             (if truthy (asset_region selectedAsset) then
                [El tSpan [] [Txt (u16 '' '' @ middle_dot @ u16 '' ''), Txt (u16 (opt_or (asset_region selectedAsset) []))]]
              else []))],
       El tDiv []
         [El tButton [AType ''button'',
               OnClick (OpenLive SSH),
               ADisabled (\<not> hasEffectiveAccess (tn_access n) \<and> \<not> q_loading (tn_access n) \<and> \<not> (q_error (tn_access n) \<noteq> None)),
               ATitle (u16 (if hasEffectiveAccess (tn_access n) then ''Open SSH'' else if q_loading (tn_access n) then ''Checking SSH access'' else if q_error (tn_access n) \<noteq> None then ''Access state unavailable; server will decide on launch'' else ''No effective SSH access''))]
            [Icon ''SquareTerminal'', El tSpan [] [tx ''Open SSH'']],
          El tButton [AType ''button'',
               OnClick (OpenLive RDP),
               ADisabled (\<not> hasEffectiveAccess (tn_access n) \<and> \<not> q_loading (tn_access n) \<and> \<not> (q_error (tn_access n) \<noteq> None)),
               ATitle (u16 (if hasEffectiveAccess (tn_access n) then ''Open RDP'' else if q_loading (tn_access n) then ''Checking RDP access'' else if q_error (tn_access n) \<noteq> None then ''Access state unavailable; server will decide on launch'' else ''No effective RDP access''))]
            [Icon ''MonitorPlay'', El tSpan [] [tx ''Open RDP'']],
          El tButton [AType ''button'', OnClick (GoTo ''/cmdb'')] [Icon ''Database'', El tSpan [] [tx ''View in CMDB'']]]]"

definition connect_panel_view :: "(string \<Rightarrow> bool) \<Rightarrow> clock \<Rightarrow> connect_net \<Rightarrow> connect_action node" where
  "connect_panel_view granted c n =
    El tArticle []
      ([El tDiv []
          ([El tDiv []
              [El tP [] [tx ''Connection''],
               El tH2 []
                 [tx
                    (if q_loading (tn_access n) then ''Checking access'' else if hasEffectiveAccess (tn_access n) then ''You can open this now'' else if q_error (tn_access n) \<noteq> None then ''Access state unavailable'' else ''Request access'')]]] @
           (if truthy (grant_expiry (tn_access n)) then
              [El tSpan [] [Icon ''Clock'', tx (formatGrantTimeRemaining (ck_parse c (opt_or (grant_expiry (tn_access n)) [])) (ck_now c))]]
            else
              (if hasEffectiveAccess (tn_access n) then
                 [El tSpan [] [tx ''role access'']]
               else
                 (if q_loading (tn_access n) then
                    [El tSpan [] [tx ''checking'']]
                  else ((if q_error (tn_access n) \<noteq> None then [El tSpan [] [tx ''unknown'']] else [El tSpan [] [tx ''no effective access'']]))))))] @
       (if hasEffectiveAccess (tn_access n) then
          [El tP []
             [tx
                (if truthy (grant_expiry (tn_access n)) then ''Active access window expires '' @ formatDateTime c (grant_expiry (tn_access n)) @ ''.'' else ''Your standing role already allows this asset.'')],
           El tDiv []
             [El tButton [AType ''button'', OnClick (OpenLive SSH), ADisabled (\<not> hasEffectiveAccess (tn_access n))]
                [Icon ''SquareTerminal'', El tSpan [] [tx ''Open SSH'']],
              El tButton [AType ''button'', OnClick (OpenLive RDP), ADisabled (\<not> hasEffectiveAccess (tn_access n))]
                [Icon ''MonitorPlay'', El tSpan [] [tx ''Open RDP'']]]]
        else
          (if q_error (tn_access n) \<noteq> None then
             [El tP []
                [tx
                   ''Could not resolve effective access right now. Try refreshing, or use the live buttons and let the server make the final decision.'']]
           else
             [El tP []
                [Txt
                   (if granted ''bastion.grant:read'' then u16 ''You don'' @ [0x0027] @ u16 ''t currently have effective access to this asset.'' else u16 ''Grant visibility is limited '' @ em_dash @ u16 '' request access to open a session.'')],
              El tDiv []
                [El tButton [AType ''button'',
                      OnClick (GoTo ''/access''),
                      ADisabled (\<not> granted ''bastion.request:write''),
                      ATitle (u16 (if granted ''bastion.request:write'' then ''Go to Access to request a grant'' else ''Permission required: bastion.request:write''))]
                   [Icon ''KeyRound'', El tSpan [] [tx ''Request access''], Icon ''ArrowRight'']]])))"

definition connect_main_view :: "(string \<Rightarrow> bool) \<Rightarrow> clock \<Rightarrow> connect_net \<Rightarrow> connect_page \<Rightarrow> connect_action node" where
  "connect_main_view granted c n s =
    El tDiv []
      (if \<not> (cp_selectedAssetID s \<noteq> []) then
         [El tDiv []
            [El tH3 [] [tx ''Pick an asset to connect''],
             El tP [] [tx ''Choose an environment, VPC, and host from the left rail. Connection options and your access window show up here.'']]]
       else
         (if q_loading (tn_detail n) then
            [PanelState_view PanelLoading (u16 ''Loading asset'')]
          else
            (if q_error (tn_detail n) \<noteq> None then
               [PanelState_view PanelError (query_error_text (tn_detail n))]
             else
               (case q_data (tn_detail n) of
                  None \<Rightarrow> []
                | Some selectedAsset \<Rightarrow>
                    [connect_head_view n selectedAsset, connect_panel_view granted c n]))))"

definition connect_side_view :: "(string \<Rightarrow> bool) \<Rightarrow> (string \<Rightarrow> string \<Rightarrow> int) \<Rightarrow> string \<Rightarrow> clock \<Rightarrow> connect_net \<Rightarrow> connect_page \<Rightarrow> connect_action node" where
  "connect_side_view granted localeCompare userID c n s =
    El tAside [ALabel (u16 ''Asset context'')]
      [El tArticle []
         ([El tP [] [tx ''Recent usage'']] @
          (case q_data (tn_detail n) of
             None \<Rightarrow> [El tP [] [tx ''Select an asset to see its activity.'']]
           | Some selectedAsset \<Rightarrow>
               ((if \<not> granted ''bastion.session:read'' then [El tP [] [tx ''Showing only your own sessions on this asset.'']] else []) @
                (if q_loading (tn_recent n) then
                   [PanelState_view PanelLoading (u16 ''Loading sessions'')]
                 else
                   (if q_error (tn_recent n) \<noteq> None then
                      [PanelState_view PanelError (query_error_text (tn_recent n))]
                    else
                      (if length (recent_items n) = 0 then
                         [El tP [] [tx ''No recorded sessions for this asset.'']]
                       else
                         [El tUl []
                            (map (\<lambda>session.
                               El tLi []
                                 [El tSpan [] [tx (formatDateTime c (Some (sess_started_at session)))],
                                  El tSpan [] [tx (or_else (sess_user_name session) (sess_user_id session))],
                                  El tSpan [AClass (u16 (''status-pill '' @ sessionStatusTone session))]
                                    [tx (SessionStatus_str (sessionStatus session))]]) (recent_items n))]))) @
                [El tButton [AType ''button'',
                      OnClick (GoTo (''/audit'' @ buildAuditSearch \<lparr>aq_assetID = Some (cp_selectedAssetID s), aq_userID = None, aq_status = None\<rparr>))]
                   [Txt (u16 ''Open Audit '' @ right_arrow)]]))),
       El tArticle []
         ([El tP [] [tx ''Who has access'']] @
          (case q_data (tn_detail n) of
             None \<Rightarrow> [El tP [] [tx ''Select an asset to check access.'']]
           | Some selectedAsset \<Rightarrow>
               (if \<not> granted ''bastion.grant:read'' then
                  [El tP [] [tx ''Permission required: bastion.grant:read'']]
                else
                  ((if \<not> granted ''bastion.grant:write'' then
                      [El tP [] [Txt (u16 ''Showing only your own grant '' @ em_dash @ u16 '' bastion.grant:write required to see everyone.'')]]
                    else []) @
                   (if q_loading (tn_grants n) then
                      [PanelState_view PanelLoading (u16 ''Loading grants'')]
                    else
                      (if q_error (tn_grants n) \<noteq> None then
                         [PanelState_view PanelError (query_error_text (tn_grants n))]
                       else
                         (if length (grant_items n) = 0 then
                            [El tP [] [tx ''No active access grants on this asset.'']]
                          else
                            [El tUl []
                               (map (\<lambda>grant.
                                  El tLi []
                                    [El tSpan []
                                       [tx
                                          (if bgrant_user_id grant = userID then ''You'' else or_else (bgrant_user_name grant) (bgrant_user_id grant))],
                                     El tSpan [] [tx (formatGrantTimeRemaining (ck_parse c (bgrant_expires_at grant)) (ck_now c))]]) (grant_items n))]))) @
                   [El tP [] [Txt (u16 ''Standing role-based access isn'' @ [0x2019] @ u16 ''t shown here '' @ em_dash @ u16 '' see IAM for that.'')]]))) @
          [El tButton [AType ''button'', OnClick (GoTo ''/access'')] [Txt (u16 ''Manage access '' @ right_arrow)]]),
       El tArticle []
         ([El tP [] [tx ''Tags'']] @
          (case q_data (tn_detail n) of
             None \<Rightarrow> [El tP [] [tx ''Select an asset to see its tags.'']]
           | Some selectedAsset \<Rightarrow>
               (if tagEntries localeCompare (q_data (tn_detail n)) = [] then
                  [El tP [] [tx ''No tags.'']]
                else
                  [El tDiv []
                     (map (\<lambda>tag.
                        El tSpan [] [tx (if snd tag \<noteq> [] then fst tag @ '': '' @ snd tag else fst tag)]) (tagEntries localeCompare (q_data (tn_detail n))))])))]"

definition palette_view :: "(string \<Rightarrow> bool) \<Rightarrow> connect_net \<Rightarrow> connect_page \<Rightarrow> connect_action node" where
  "palette_view granted n s =
    El tDiv [ARole ''dialog'', AFlag ''aria-modal'' True, ALabel (u16 ''Search assets'')]
      [El tButton [AType ''button'', ALabel (u16 ''Close''), OnClick ClosePalette] [],
       El tDiv []
         ([El tDiv []
             [Icon ''Search'',
              El tInput [AType ''search'',
                   AValue (u16 (cp_paletteQuery s)),
                   OnChange TypePalette,
                   OnKeyDown PressInPalette,
                   APlaceholder (u16 ''Search assets by name, IP, env, VPC'' @ ellipsis),
                   ALabel (u16 ''Search assets''),
                   ARole ''combobox'',
                   AFlag ''aria-expanded'' True,
                   AOther ''aria-controls'' (u16 ''connect-palette-list''),
                   AOther ''aria-activedescendant'' (u16 (opt_or (active_option n s) []))]
                [],
              El tKbd [] [tx ''Esc'']]] @
          (if \<not> granted ''cmdb.asset:read'' then
             [PanelState_view PanelPermission (u16 ''Permission required: cmdb.asset:read'')]
           else
             (if q_loading (tn_rail n) then
                [PanelState_view PanelLoading (u16 ''Loading assets'')]
              else
                (if length (paletteResults (rail_assets n) s) = 0 then
                   [PanelState_view PanelEmpty (u16 ''No assets match this search.'')]
                 else
                   [El tUl [AOther ''id'' (u16 ''connect-palette-list''), ARole ''listbox'']
                      (map (\<lambda>(index, asset).
                         El tLi [AOther ''id'' (u16 (''connect-palette-opt-'' @ nat_str index)),
                              ARole ''option'',
                              AFlag ''aria-selected'' (int index = activeIndex (rail_assets n) s)]
                           [El tButton [AType ''button'',
                                 AClass (u16 (''connect-palette-item'' @ (if int index = activeIndex (rail_assets n) s then '' active'' else []))),
                                 OnClick (ChoosePalette asset),
                                 OnMouseEnter (HoverPalette index)]
                              [El tSpan [] [tx (or_else (asset_name asset) (asset_id asset))], El tSpan [] [Txt (palette_detail asset)]]]) (enumerate 0 (paletteResults (rail_assets n) s)))]))))]"

definition ConnectPage_view :: "(string \<Rightarrow> bool) \<Rightarrow> (string \<Rightarrow> string \<Rightarrow> int) \<Rightarrow> string \<Rightarrow> clock \<Rightarrow> connect_net \<Rightarrow> rail \<Rightarrow> connect_page \<Rightarrow> connect_action node" where
  "ConnectPage_view granted localeCompare userID c n r s =
    El tSection []
      ([El tDiv []
          [El tDiv [] [El tP [] [tx ''Operate''], El tH1 [] [tx ''Connect'']],
           El tButton [AType ''button'', OnClick OpenPalette, ATitle (u16 ''Search assets ('' @ [0x2318] @ u16 ''K)'')]
             [Icon ''Search'', El tSpan [] [Txt (u16 ''Search assets'' @ ellipsis)], El tKbd [] [Txt ([0x2318] @ u16 ''K'')]],
           El tSpan [AClass (u16 (''status-pill '' @ (if granted ''cmdb.asset:read'' then ''ok'' else ''warn''))),
                ATitle (u16 ''Required permission'')]
             [Icon ''ShieldCheck'', tx (if granted ''cmdb.asset:read'' then ''cmdb.asset:read'' else ''no access'')]],
        El tDiv []
          [map_node RailAction
             (AssetRail_view localeCompare (rail_assets n) (cp_railSearch s) (granted ''cmdb.asset:read'') (q_loading (tn_rail n)) (q_error (tn_rail n)) (cp_selectedAssetID s) False (\<lambda>asset. ''Select '' @ or_else (asset_name asset) (asset_id asset)) (tn_railFetching n) r),
           connect_main_view granted c n s,
           connect_side_view granted localeCompare userID c n s]] @
       (if cp_paletteOpen s then [palette_view granted n s] else []))"

section \<open>Actions\<close>

text \<open>One action: the page and its rail after it, where it leads, and the requests it makes.\<close>

fun connect_act :: "connect_net \<Rightarrow> connect_action \<Rightarrow> connect_page \<times> rail \<Rightarrow> (connect_page \<times> rail) \<times> string option \<times> api_call list" where
  "connect_act n OpenPalette (s, r) = ((setPaletteOpen True s, r), None, [])"
| "connect_act n ClosePalette (s, r) = ((setPaletteOpen False s, r), None, [])"
| "connect_act n (TypePalette v) (s, r) = ((palette_typed v s, r), None, [])"
| "connect_act n (PressInPalette key) (s, r) = ((onPaletteKeyDown (rail_assets n) key s, r), None, [])"
| "connect_act n (ChoosePalette a) (s, r) = ((choosePaletteAsset a s, r), None, [])"
| "connect_act n (HoverPalette i) (s, r) = ((s\<lparr>cp_paletteActive := int i\<rparr>, r), None, [])"
| "connect_act n (OpenLive p) (s, r) = ((s, r), openLive p s, [])"
| "connect_act n (GoTo path) (s, r) = ((s, r), Some path, [])"
| "connect_act n (RailAction (TypeSearch v)) (s, r) = ((s\<lparr>cp_railSearch := v\<rparr>, r), None, [])"
| "connect_act n (RailAction (ChooseRow a)) (s, r) = ((s\<lparr>cp_selectedAssetID := asset_id a\<rparr>, r), None, [])"
| "connect_act n (RailAction RefreshRail) (s, r) = ((s, r), None, [listAssets (no_asset_options\<lparr>assetopt_limit := Some 500\<rparr>)])"
| "connect_act n (RailAction (ChooseEnv v)) (s, r) = ((s, rail_act (ChooseEnv v) r), None, [])"
| "connect_act n (RailAction (TypeTag v)) (s, r) = ((s, rail_act (TypeTag v) r), None, [])"

section \<open>What the page offers\<close>

lemma connect_head_fires:
  "fires (connect_head_view n x) a \<longleftrightarrow> a = GoTo ''/cmdb'' \<or> \<not> open_disabled (tn_access n) \<and> (a = OpenLive SSH \<or> a = OpenLive RDP)"
  by (auto simp: connect_head_view_def markup open_disabled_def)

lemma connect_panel_fires:
  "fires (connect_panel_view granted c n) a \<longleftrightarrow>
     (if hasEffectiveAccess (tn_access n) then a = OpenLive SSH \<or> a = OpenLive RDP
      else q_error (tn_access n) = None \<and> granted ''bastion.request:write'' \<and> a = GoTo ''/access'')"
  by (auto simp: connect_panel_view_def markup)

text \<open>The asset the middle column shows.\<close>

definition main_asset :: "connect_net \<Rightarrow> connect_page \<Rightarrow> Asset option" where
  "main_asset n s = (if cp_selectedAssetID s = [] \<or> q_loading (tn_detail n) \<or> q_error (tn_detail n) \<noteq> None then None else q_data (tn_detail n))"

lemma connect_main_fires:
  "fires (connect_main_view granted c n s) a \<longleftrightarrow>
     (\<exists>x. main_asset n s = Some x \<and> (fires (connect_head_view n x) a \<or> fires (connect_panel_view granted c n) a))"
  by (auto simp: connect_main_view_def markup main_asset_def)

lemma connect_side_fires:
  "fires (connect_side_view granted cmp userID c n s) a \<longleftrightarrow> a = GoTo ''/access'' \<or>
     q_data (tn_detail n) \<noteq> None \<and>
       a = GoTo (''/audit'' @ buildAuditSearch \<lparr>aq_assetID = Some (cp_selectedAssetID s), aq_userID = None, aq_status = None\<rparr>)"
  by (auto simp: connect_side_view_def markup)

lemma enumerated [markup]:
  "list_ex P (enumerate 0 xs) \<longleftrightarrow> (\<exists>i<length xs. P (i, xs ! i))" "list_all P (enumerate 0 xs) \<longleftrightarrow> (\<forall>i<length xs. P (i, xs ! i))"
proof -
  have "set (enumerate 0 xs) = {(i, xs ! i) | i. i < length xs}"
    by (auto simp: in_set_enumerate_eq)
  then show "list_ex P (enumerate 0 xs) \<longleftrightarrow> (\<exists>i<length xs. P (i, xs ! i))" "list_all P (enumerate 0 xs) \<longleftrightarrow> (\<forall>i<length xs. P (i, xs ! i))"
    by (auto simp: list_ex_iff list_all_iff)
qed

lemma palette_fires:
  "fires (palette_view granted n s) a \<longleftrightarrow> a = ClosePalette \<or> (\<exists>v. a = TypePalette v) \<or> (\<exists>k. a = PressInPalette k) \<or>
     granted ''cmdb.asset:read'' \<and> \<not> q_loading (tn_rail n) \<and>
       (\<exists>i<length (paletteResults (rail_assets n) s). a = ChoosePalette (paletteResults (rail_assets n) s ! i) \<or> a = HoverPalette i)"
  by (simp add: palette_view_def markup) auto

lemma connect_fires:
  "fires (ConnectPage_view granted cmp userID c n r s) a \<longleftrightarrow> a = OpenPalette \<or>
     (\<exists>x. a = RailAction x \<and> fires (AssetRail_view cmp (rail_assets n) (cp_railSearch s) (granted ''cmdb.asset:read'') (q_loading (tn_rail n))
        (q_error (tn_rail n)) (cp_selectedAssetID s) False (\<lambda>asset. ''Select '' @ or_else (asset_name asset) (asset_id asset)) (tn_railFetching n) r) x) \<or>
     fires (connect_main_view granted c n s) a \<or> fires (connect_side_view granted cmp userID c n s) a \<or>
     cp_paletteOpen s \<and> fires (palette_view granted n s) a"
  by (simp add: ConnectPage_view_def markup) auto

lemma palette_wf [markup]: "wf_node (palette_view granted n s)"
  by (simp add: palette_view_def markup)

lemma ConnectPage_wf: "wf_node (ConnectPage_view granted cmp userID c n r s)"
  by (simp add: ConnectPage_view_def connect_main_view_def connect_head_view_def connect_panel_view_def connect_side_view_def markup)

section \<open>The page in use\<close>

type_synonym connect_world = "connect_page \<times> rail \<times> connect_net \<times> clock"

definition connect_world_view :: "(string \<Rightarrow> bool) \<Rightarrow> (string \<Rightarrow> string \<Rightarrow> int) \<Rightarrow> string \<Rightarrow> connect_world \<Rightarrow> connect_action node" where
  "connect_world_view granted cmp userID w = (case w of (s, r, n, c) \<Rightarrow> ConnectPage_view granted cmp userID c n r s)"

definition connect_does :: "connect_action \<Rightarrow> connect_world \<Rightarrow> connect_world \<Rightarrow> bool" where
  "connect_does a w w' = (case (w, w') of ((s, r, n, c), (s', r', n', c')) \<Rightarrow> n' = n \<and> c' = c \<and> (s', r') = fst (connect_act n a (s, r)))"

text \<open>Queries change freely, and the two keys of the page act on the palette.\<close>

inductive connect_env :: "connect_world \<Rightarrow> connect_world \<Rightarrow> bool" where
  "connect_env (s, r, n, c) (s, r, n', c')"
| "connect_env (s, r, n, c) (page_onKeyDown key modifier s, r, n, c)"

inductive_cases connect_envE: "connect_env w w'"

text \<open>The stored index of the palette is never below \<open>-1\<close>.\<close>

definition connect_inv :: "connect_world \<Rightarrow> bool" where
  "connect_inv w = (- 1 \<le> cp_paletteActive (fst w))"

interpretation connect_use: rendered "connect_world_view granted cmp userID" connect_does connect_env connect_inv for granted cmp userID
proof unfold_locales
  fix w w' :: connect_world and a
  obtain s r n c where w: "w = (s, r, n, c)" by (cases w)
  assume "connect_inv w" "connect_does a w w'"
  then show "connect_inv w'"
    by (cases "(n, a, s, r)" rule: connect_act.cases) (auto simp: w connect_inv_def connect_does_def palette_defs Let_def split: option.splits)
next
  fix w w' :: connect_world
  assume "connect_inv w" "connect_env w w'"
  then show "connect_inv w'" by (auto elim!: connect_envE simp: connect_inv_def palette_defs)
qed

section \<open>Properties\<close>




end
