(* ===== verification/SessionsView.thy ===== *)
theory SessionsView
  imports SessionsPage LivePanes RailView AccessPage
begin

text \<open>
  What the live workspace shows and what its controls do: the markup of \<open>src/web/src/features/sessions/SessionsPage.tsx\<close>
  around the rail, the tabs of the open sessions with the panes of \<open>SshTerminalPane.tsx\<close> and \<open>RdpSessionPane.tsx\<close>, the
  dialog that launches by identifier, and the card of \<open>DbAccessCard.tsx\<close>.
\<close>

section \<open>Markup\<close>

record db_card =
  dc_port :: int
  dc_secondsLeft :: jsnum
  dc_copiedTunnel :: bool
  dc_copiedClient :: bool

datatype db_action = CloseDb | TypePort string | CopyCommand bool

record sessions_net =
  vn_search :: "ListAssetsResponse query"
  vn_searchFetching :: bool
  vn_sidebar :: "ListAssetsResponse query"
  vn_sidebarFetching :: bool
  vn_launchPending :: bool

text \<open>The state of the page beside its sessions: the dialog, the rail and the access card.\<close>

record sessions_ui =
  su_assetQuery :: string
  su_selectedAssetID :: string
  su_sidebarSearch :: string
  su_launchByIdOpen :: bool
  su_rail :: rail
  su_card :: db_card

datatype sessions_action =
    OpenLaunchByID
  | CloseLaunchByID
  | DismissToast
  | SelectLive string
  | CloseLive string
  | SetLaunchQuery string
  | SetLaunchAsset string
  | LaunchSelected
  | SideAction rail_action
  | DbAction db_action

definition search_items :: "sessions_net \<Rightarrow> Asset list" where
  "search_items n = (case q_data (vn_search n) of None \<Rightarrow> [] | Some r \<Rightarrow> assets_items r)"

definition sidebar_items :: "sessions_net \<Rightarrow> Asset list" where
  "sidebar_items n = (case q_data (vn_sidebar n) of None \<Rightarrow> [] | Some r \<Rightarrow> assets_items r)"

fun feedback_kind_str :: "feedback_kind \<Rightarrow> string" where
  "feedback_kind_str FeedbackError = ''error''"
| "feedback_kind_str FeedbackSuccess = ''success''"

definition message_of :: "LiveSession \<Rightarrow> units" where
  "message_of session = (case ls_message session of None \<Rightarrow> [] | Some m \<Rightarrow> m)"

definition tab_title :: "LiveSession \<Rightarrow> units" where
  "tab_title session =
    (let base = u16 (asset_label (ls_asset session)) @ u16 '' '' @ em_dash @ u16 '' '' @ u16 (LiveStatus_str (ls_status session)) in
     if message_of session \<noteq> [] then base @ u16 '': '' @ message_of session else base)"

definition error_blurb :: "LiveSession \<Rightarrow> units" where
  "error_blurb session =
    (if ls_status session = StError \<and> message_of session \<noteq> [] then
       (if length (message_of session) > 40 then take 40 (message_of session) @ ellipsis else message_of session)
     else [])"

definition SshTerminalPane_view :: "ssh_pane \<Rightarrow> 'e node" where
  "SshTerminalPane_view p =
    El tDiv [] [El tDiv [] [], El tDiv [AClass (u16 (''live-terminal-status '' @ LiveStatus_str (ssh_status p)))] [Txt (ssh_message p)]]"

definition RdpSessionPane_view :: "rdp_pane \<Rightarrow> 'e node" where
  "RdpSessionPane_view p =
    El tDiv [] [El tDiv [] [], El tDiv [AClass (u16 (''live-terminal-status '' @ LiveStatus_str (rdp_status p)))] [Txt (rdp_message p)]]"

definition CopyRow_view :: "units \<Rightarrow> string \<Rightarrow> bool \<Rightarrow> 'e \<Rightarrow> 'e node" where
  "CopyRow_view label text copied onCopy =
    El tDiv []
      [El tDiv []
         [El tSpan [] [Txt label],
          El tButton [AType ''button'', OnClick onCopy] [Icon ''Copy'', El tSpan [] [tx (if copied then ''Copied'' else ''Copy'')]]],
       El tPre [] [tx text]]"

definition DbAccessCard_view :: "LocationLike \<Rightarrow> DbAccessInfo \<Rightarrow> db_card \<Rightarrow> db_action node" where
  "DbAccessCard_view loc info d =
    El tDiv [ARole ''dialog'', AFlag ''aria-modal'' True, ALabel (u16 ''Database access'')]
      [El tButton [AType ''button'', ALabel (u16 ''Close''), OnClick CloseDb] [],
       El tDiv []
         [El tDiv []
            [El tDiv []
               [El tP [] [tx (toUpperCase (DbProtocol_str (db_protocol info))), tx '' access''], El tH2 [] [tx (asset_label (db_asset info))]],
             El tButton [AType ''button'', OnClick CloseDb, ATitle (u16 ''Close''), ALabel (u16 ''Close'')] [Icon ''X'']],
          El tP []
            [tx
               ''DB sessions run through your own client. Start the tunnel, then connect on the local port. The ticket is single-use and must be redeemed within'',
             tx '' '',
             El tStrong [AClass (u16 (if num_le (dc_secondsLeft d) 0 then ''inline-error'' else []))]
               [tx (if num_le (dc_secondsLeft d) 0 then ''expired'' else num_str (dc_secondsLeft d) @ ''s'')],
             Txt
               (if num_le (dc_secondsLeft d) 0 then u16 '' '' @ em_dash @ u16 '' close and reconnect to get a fresh one.'' else u16 ''; the tunnel then stays up until you stop it.'')],
          El tLabel []
            [El tSpan [] [tx ''Local port''],
             El tInput [AType ''number'',
                  AValue (u16 (int_str (dc_port d))),
                  AOther ''min'' (u16 (nat_str 1)),
                  AOther ''max'' (u16 (nat_str 65535)),
                  OnChange TypePort]
               []],
          CopyRow_view (u16 ''1 '' @ middle_dot @ u16 '' Start tunnel (keep running)'') (tunnelCmd loc (dc_port d) info) (dc_copiedTunnel d)
            (CopyCommand True),
          CopyRow_view (u16 ''2 '' @ middle_dot @ u16 '' Connect with your client'')
            (clientCommand (db_protocol info) (dc_port d) (db_username info) (db_database info)) (dc_copiedClient d) (CopyCommand False),
          El tP []
            [Txt
               (u16 ''Password is not included '' @ em_dash @ u16 '' your client will prompt for it (saved on the asset'' @ [0x0027] @ u16 ''s connection profile).'')],
          El tDiv [] [El tButton [AType ''button'', OnClick CloseDb] [tx ''Done'']]]]"

definition live_tab_view :: "string \<Rightarrow> LiveSession \<Rightarrow> sessions_action node" where
  "live_tab_view active session =
    El tDiv [AClass (u16 (''live-session-tab'' @ (if active = ls_id session then '' active'' else []) @ (if ls_status session = StError then '' error'' else [])))]
      [El tButton [AType ''button'',
            OnClick (SelectLive (ls_id session)),
            ARole ''tab'',
            AFlag ''aria-selected'' (active = ls_id session),
            ATitle (tab_title session)]
         ([El tSpan [] [tx (toUpperCase (LaunchProtocol_str (ls_kind session)))],
           El tSpan [] [tx (asset_label (ls_asset session))],
           El tSpan [AClass (u16 (''status-pill '' @ (if ls_status session = StError then ''warn'' else ''info'')))]
             [tx (LiveStatus_str (ls_status session))]] @
          (if error_blurb session \<noteq> [] then [El tSpan [] [Txt (error_blurb session)]] else [])),
       El tLink [ATo (''/audit'' @ buildAuditSearch \<lparr>aq_assetID = Some (asset_id (ls_asset session)), aq_userID = None, aq_status = None\<rparr>),
            ATitle (u16 (''Audit history for '' @ asset_label (ls_asset session)))]
         [Icon ''History''],
       El tButton [AType ''button'', OnClick (CloseLive (ls_id session)), ATitle (u16 ''Close terminal'')] [Icon ''X'']]"

definition live_shell_view :: "(LiveSession \<Rightarrow> sessions_action node) \<Rightarrow> (LiveSession \<Rightarrow> sessions_action node) \<Rightarrow> sessions_page \<Rightarrow> sessions_action node" where
  "live_shell_view ssh_tab rdp_tab s =
    El tDiv []
      [El tDiv [ARole ''tablist'', ALabel (u16 ''Live sessions'')]
         ((map (\<lambda>session. live_tab_view (pg_activeLiveID s) session) (pg_liveSessions s))),
       El tDiv []
         (map (\<lambda>session.
            El tDiv [AFlag ''hidden'' (pg_activeLiveID s \<noteq> ls_id session)]
              ((if ls_kind session = SSH then [ssh_tab session] else [rdp_tab session]))) (pg_liveSessions s))]"

definition sessions_pane_view :: "(LiveSession \<Rightarrow> sessions_action node) \<Rightarrow> (LiveSession \<Rightarrow> sessions_action node) \<Rightarrow> sessions_page \<Rightarrow> sessions_action node" where
  "sessions_pane_view ssh_tab rdp_tab s =
    El tDiv []
      ((case pg_feedback s of
          None \<Rightarrow> []
        | Some toast \<Rightarrow>
            [El tDiv [AClass (u16 (''sessions-toast '' @ feedback_kind_str (fb_kind toast))), ARole ''status'']
               [El tSpan [] [Txt (fb_message toast)], El tButton [AType ''button'', OnClick DismissToast, ALabel (u16 ''Dismiss'')] [Txt [0x00D7]]]]) @
       (if length (pg_liveSessions s) > 0 then
          [live_shell_view ssh_tab rdp_tab s]
        else
          [El tDiv []
             [El tH3 [] [tx ''No active sessions''],
              El tP [] [tx ''Pick an asset from the left rail to open a new session, or use the form below to launch by ID.'']]]))"

definition launch_form_view :: "(string \<Rightarrow> bool) \<Rightarrow> sessions_net \<Rightarrow> sessions_ui \<Rightarrow> sessions_action node" where
  "launch_form_view granted n u =
    El tForm [OnSubmit LaunchSelected]
      ([El tDiv []
          [El tLabel []
             [El tSpan [] [tx ''Asset search''],
              El tInput [AType ''search'',
                   AValue (u16 (su_assetQuery u)),
                   OnChange SetLaunchQuery,
                   APlaceholder (u16 ''Name, IP, owner, region''),
                   ADisabled (\<not> granted ''cmdb.asset:read'')]
                []],
           El tLabel []
             [El tSpan [] [tx ''Asset''],
              El tSelect [AValue (u16 (su_selectedAssetID u)),
                   OnChange SetLaunchAsset,
                   ADisabled (\<not> granted ''cmdb.asset:read'' \<or> q_loading (vn_search n))]
                ([El tOption [AValue (u16 [])] [tx ''Select an active asset'']] @
                 (map (\<lambda>asset. El tOption [AValue (u16 (asset_id asset))] [tx (assetOptionLabel asset)]) (search_items n)))]]] @
       (if granted ''cmdb.asset:read'' \<and> q_loading (vn_search n) then [PanelState_view PanelLoading (u16 ''Loading active assets'')] else []) @
       (if granted ''cmdb.asset:read'' \<and> \<not> q_loading (vn_search n) \<and> \<not> (q_error (vn_search n) \<noteq> None) \<and> length (search_items n) = 0 then
          [PanelState_view PanelEmpty (u16 ''No active assets match this search.'')]
        else []) @
       [El tDiv []
          [El tButton [AType ''button'', OnClick CloseLaunchByID] [tx ''Cancel''],
           El tButton [AType ''submit'',
                ADisabled (\<not> granted ''cmdb.asset:read'' \<or> vn_launchPending n \<or> \<not> (su_selectedAssetID u \<noteq> []))]
             [Icon ''Play'', El tSpan [] [tx (if vn_launchPending n then ''Launching'' else ''Launch'')]]]])"

definition launch_modal_view :: "(string \<Rightarrow> bool) \<Rightarrow> sessions_net \<Rightarrow> sessions_ui \<Rightarrow> sessions_action node" where
  "launch_modal_view granted n u =
    El tDiv [ARole ''dialog'', AFlag ''aria-modal'' True, ALabel (u16 ''Launch session by asset ID'')]
      [El tButton [AType ''button'', ALabel (u16 ''Close''), OnClick CloseLaunchByID] [],
       El tDiv []
         ([El tDiv []
             [El tDiv [] [El tP [] [tx ''Live access''], El tH2 [] [tx ''Launch by ID'']],
              El tButton [AType ''button'', OnClick CloseLaunchByID, ATitle (u16 ''Close''), ALabel (u16 ''Close'')] [Icon ''X'']]] @
          (if granted ''cmdb.asset:read'' \<and> q_error (vn_search n) \<noteq> None then
             [PanelState_view PanelError (query_error_text (vn_search n))]
           else []) @
          [launch_form_view granted n u])]"

definition SessionsPage_view :: "(string \<Rightarrow> bool) \<Rightarrow> (string \<Rightarrow> string \<Rightarrow> int) \<Rightarrow> LocationLike \<Rightarrow> (LiveSession \<Rightarrow> sessions_action node) \<Rightarrow> (LiveSession \<Rightarrow> sessions_action node) \<Rightarrow> sessions_net \<Rightarrow> sessions_ui \<Rightarrow> sessions_page \<Rightarrow> sessions_action node" where
  "SessionsPage_view granted localeCompare loc ssh_tab rdp_tab n u s =
    El tSection []
      ([El tDiv []
          [El tH1 [] [tx ''Sessions''],
           El tDiv []
             [El tSpan [AClass (u16 (''status-pill '' @ (if granted ''cmdb.asset:read'' then ''ok'' else ''warn''))),
                   ATitle (u16 ''Required permission'')]
                [Icon ''ShieldCheck'',
                 tx
                   (if granted ''bastion.session:read'' then ''all sessions'' else if granted ''cmdb.asset:read'' then ''own sessions'' else ''no access'')],
              El tLink [ATo ''/audit''] [Txt (u16 ''Open Audit '' @ right_arrow)],
              El tButton [AType ''button'',
                   OnClick OpenLaunchByID,
                   ADisabled (\<not> granted ''cmdb.asset:read''),
                   ATitle (u16 ''Launch a session by typing the asset ID'')]
                [Icon ''Play'', El tSpan [] [tx ''Launch by ID'']]]],
        El tDiv []
          [map_node SideAction
             (AssetRail_view localeCompare (sidebar_items n) (su_sidebarSearch u) (granted ''cmdb.asset:read'') (q_loading (vn_sidebar n)) (q_error (vn_sidebar n)) [] (vn_launchPending n) (\<lambda>asset. ''Connect to '' @ or_else (asset_name asset) (asset_id asset)) (vn_sidebarFetching n) (su_rail u)),
           sessions_pane_view ssh_tab rdp_tab s]] @
       (if su_launchByIdOpen u then [launch_modal_view granted n u] else []) @
       (case pg_dbAccess s of None \<Rightarrow> [] | Some db \<Rightarrow> [map_node DbAction (DbAccessCard_view loc db (su_card u))]))"

section \<open>Actions\<close>

text \<open>\<open>Number.parseInt(text, 10)\<close>: the digits after white space and a sign, \<open>None\<close> where there are none.\<close>

definition parse_int :: "string \<Rightarrow> int option" where
  "parse_int v =
    (let t = dropWhile is_ws v; neg = (t \<noteq> [] \<and> hd t = CHR ''-''); u = (if t \<noteq> [] \<and> hd t \<in> set ''+-'' then tl t else t);
         ds = takeWhile is_digit u
     in if ds = [] then None else Some ((if neg then - 1 else 1) * foldl (\<lambda>k c. 10 * k + (of_char c - 48)) 0 ds))"

text \<open>The seconds until a ticket expires, rounded and never negative; a date that cannot be read gives no number.\<close>

definition seconds_left :: "clock \<Rightarrow> string \<Rightarrow> jsnum" where
  "seconds_left c expiresAt = (case ck_parse c expiresAt of None \<Rightarrow> NaN
   | Some t \<Rightarrow> num_of_int (max 0 \<lfloor>of_int (t - ck_now c) / 1000 + 1 / (2 :: rat)\<rfloor>))"

definition card_mount :: "clock \<Rightarrow> DbAccessInfo \<Rightarrow> db_card" where
  "card_mount c info = \<lparr>dc_port = DEFAULT_LOCAL_PORT (db_protocol info), dc_secondsLeft = seconds_left c (db_expiresAt info),
     dc_copiedTunnel = False, dc_copiedClient = False\<rparr>"

definition card_tick :: "clock \<Rightarrow> DbAccessInfo \<Rightarrow> db_card \<Rightarrow> db_card" where
  "card_tick c info d = d\<lparr>dc_secondsLeft := seconds_left c (db_expiresAt info)\<rparr>"

fun card_act :: "db_action \<Rightarrow> db_card \<Rightarrow> db_card" where
  "card_act CloseDb d = d"
| "card_act (TypePort v) d = (case parse_int v of None \<Rightarrow> d | Some n \<Rightarrow> if 0 < n \<and> n < 65536 then d\<lparr>dc_port := n\<rparr> else d)"
| "card_act (CopyCommand tunnel) d = (if tunnel then d\<lparr>dc_copiedTunnel := True\<rparr> else d\<lparr>dc_copiedClient := True\<rparr>)"

text \<open>
  One action of the page: the page after it, and the asset whose launch it starts. A launch of the rail or the dialog drops
  the message of the last one.
\<close>

fun sessions_act :: "sessions_action \<Rightarrow> sessions_page \<times> sessions_ui \<Rightarrow> (sessions_page \<times> sessions_ui) \<times> string option" where
  "sessions_act OpenLaunchByID (s, u) = ((s, u\<lparr>su_launchByIdOpen := True\<rparr>), None)"
| "sessions_act CloseLaunchByID (s, u) = ((s, u\<lparr>su_launchByIdOpen := False\<rparr>), None)"
| "sessions_act DismissToast (s, u) = ((s\<lparr>pg_feedback := None\<rparr>, u), None)"
| "sessions_act (SelectLive i) (s, u) = ((s\<lparr>pg_activeLiveID := i\<rparr>, u), None)"
| "sessions_act (CloseLive i) (s, u) = ((closeLiveSession i s, u), None)"
| "sessions_act (SetLaunchQuery v) (s, u) = ((s, u\<lparr>su_assetQuery := v\<rparr>), None)"
| "sessions_act (SetLaunchAsset v) (s, u) = ((s, u\<lparr>su_selectedAssetID := v\<rparr>), None)"
| "sessions_act LaunchSelected (s, u) =
     (let (s', launched) = launchSelectedAsset (su_selectedAssetID u) s in ((s', u\<lparr>su_launchByIdOpen := False\<rparr>), launched))"
| "sessions_act (SideAction (TypeSearch v)) (s, u) = ((s, u\<lparr>su_sidebarSearch := v\<rparr>), None)"
| "sessions_act (SideAction (ChooseRow a)) (s, u) = ((launch_onMutate s, u), Some (asset_id a))"
| "sessions_act (SideAction RefreshRail) (s, u) = ((s, u), None)"
| "sessions_act (SideAction (ChooseEnv v)) (s, u) = ((s, u\<lparr>su_rail := rail_act (ChooseEnv v) (su_rail u)\<rparr>), None)"
| "sessions_act (SideAction (TypeTag v)) (s, u) = ((s, u\<lparr>su_rail := rail_act (TypeTag v) (su_rail u)\<rparr>), None)"
| "sessions_act (DbAction a) (s, u) =
     ((if a = CloseDb then s\<lparr>pg_dbAccess := None\<rparr> else s, u\<lparr>su_card := card_act a (su_card u)\<rparr>), None)"

section \<open>What the page offers\<close>

lemma pane_facts [markup]:
  "fires (SshTerminalPane_view p) a = False" "wf_node (SshTerminalPane_view p)" "fires (RdpSessionPane_view q) a = False" "wf_node (RdpSessionPane_view q)"
  by (simp_all add: SshTerminalPane_view_def RdpSessionPane_view_def markup)

lemma db_card_facts [markup]:
  "fires (DbAccessCard_view loc info d) a \<longleftrightarrow> a = CloseDb \<or> (\<exists>v. a = TypePort v) \<or> (\<exists>b. a = CopyCommand b)" "wf_node (DbAccessCard_view loc info d)"
proof -
  have "(\<exists>b. a = CopyCommand b) \<longleftrightarrow> a = CopyCommand True \<or> a = CopyCommand False" by (metis (full_types))
  then show "fires (DbAccessCard_view loc info d) a \<longleftrightarrow> a = CloseDb \<or> (\<exists>v. a = TypePort v) \<or> (\<exists>b. a = CopyCommand b)"
    by (simp add: DbAccessCard_view_def CopyRow_view_def markup) blast
  show "wf_node (DbAccessCard_view loc info d)" by (simp add: DbAccessCard_view_def CopyRow_view_def markup)
qed

lemma live_tab_facts [markup]:
  "fires (live_tab_view active x) a \<longleftrightarrow> a = SelectLive (ls_id x) \<or> a = CloseLive (ls_id x)" "wf_node (live_tab_view active x)"
  by (simp add: live_tab_view_def markup) (simp add: live_tab_view_def markup)

lemma sessions_pane_fires:
  assumes "\<And>x a. \<not> fires (ssh_tab x) a" "\<And>x a. \<not> fires (rdp_tab x) a"
  shows "fires (sessions_pane_view ssh_tab rdp_tab s) a \<longleftrightarrow> a = DismissToast \<and> pg_feedback s \<noteq> None \<or>
     (\<exists>x\<in>set (pg_liveSessions s). a = SelectLive (ls_id x) \<or> a = CloseLive (ls_id x))"
  using assms by (simp add: sessions_pane_view_def live_shell_view_def markup) (auto simp: list_ex_iff)

lemma launch_form_fires:
  "fires (launch_form_view granted n u) a \<longleftrightarrow> a = CloseLaunchByID \<or> granted ''cmdb.asset:read'' \<and>
     (a = LaunchSelected \<and> \<not> vn_launchPending n \<and> su_selectedAssetID u \<noteq> [] \<or> (\<exists>v. a = SetLaunchQuery v) \<or>
      \<not> q_loading (vn_search n) \<and> (\<exists>v\<in>insert [] (asset_id ` set (search_items n)). a = SetLaunchAsset v))"
  by (simp add: launch_form_view_def markup) auto

lemma sessions_fires:
  assumes "\<And>x a. \<not> fires (ssh_tab x) a" "\<And>x a. \<not> fires (rdp_tab x) a"
  shows "fires (SessionsPage_view granted cmp loc ssh_tab rdp_tab n u s) a \<longleftrightarrow> a = OpenLaunchByID \<and> granted ''cmdb.asset:read'' \<or>
     (\<exists>x. a = SideAction x \<and> fires (AssetRail_view cmp (sidebar_items n) (su_sidebarSearch u) (granted ''cmdb.asset:read'') (q_loading (vn_sidebar n))
        (q_error (vn_sidebar n)) [] (vn_launchPending n) (\<lambda>asset. ''Connect to '' @ or_else (asset_name asset) (asset_id asset))
        (vn_sidebarFetching n) (su_rail u)) x) \<or>
     fires (sessions_pane_view ssh_tab rdp_tab s) a \<or>
     su_launchByIdOpen u \<and> (a = CloseLaunchByID \<or> fires (launch_form_view granted n u) a) \<or>
     pg_dbAccess s \<noteq> None \<and> (\<exists>x. a = DbAction x)"
proof -
  have "(\<exists>x. fires (DbAccessCard_view loc info d) x \<and> a = DbAction x) \<longleftrightarrow> (\<exists>x. a = DbAction x)" for info d
    by (auto simp: db_card_facts) (metis db_action.exhaust)
  then show ?thesis by (simp add: SessionsPage_view_def launch_modal_view_def markup del: db_card_facts) blast
qed

lemma SessionsPage_wf:
  assumes "\<And>x. wf_node (ssh_tab x)" "\<And>x. wf_node (rdp_tab x)"
  shows "wf_node (SessionsPage_view granted cmp loc ssh_tab rdp_tab n u s)"
  using assms by (simp add: SessionsPage_view_def sessions_pane_view_def live_shell_view_def launch_modal_view_def launch_form_view_def markup)

text \<open>The permissions an action of the page needs.\<close>

fun sessions_needs :: "sessions_action \<Rightarrow> string list" where
  "sessions_needs OpenLaunchByID = [''cmdb.asset:read'']"
| "sessions_needs LaunchSelected = [''cmdb.asset:read'']"
| "sessions_needs (SetLaunchQuery _) = [''cmdb.asset:read'']"
| "sessions_needs (SetLaunchAsset _) = [''cmdb.asset:read'']"
| "sessions_needs (SideAction (TypeSearch _)) = [''cmdb.asset:read'']"
| "sessions_needs (SideAction (ChooseEnv _)) = [''cmdb.asset:read'']"
| "sessions_needs (SideAction RefreshRail) = [''cmdb.asset:read'']"
| "sessions_needs _ = []"

interpretation sessions_guard: guarded_markup
  "\<lambda>granted (cmp, loc, ssh, rdp, n, u, s). SessionsPage_view granted cmp loc (\<lambda>x :: LiveSession. SshTerminalPane_view (ssh x :: ssh_pane))
     (\<lambda>x. RdpSessionPane_view (rdp x :: rdp_pane)) n u s" sessions_needs
proof unfold_locales
  fix granted :: "string \<Rightarrow> bool" and e p
    and x :: "(string \<Rightarrow> string \<Rightarrow> int) \<times> LocationLike \<times> (LiveSession \<Rightarrow> ssh_pane) \<times> (LiveSession \<Rightarrow> rdp_pane) \<times> sessions_net \<times> sessions_ui \<times> sessions_page"
  assume f: "fires (case x of (cmp, loc, ssh, rdp, n, u, s) \<Rightarrow> SessionsPage_view granted cmp loc (\<lambda>x. SshTerminalPane_view (ssh x))
     (\<lambda>x. RdpSessionPane_view (rdp x)) n u s) e" and p: "p \<in> set (sessions_needs e)"
  obtain cmp loc ssh rdp n u s where "x = (cmp, loc, ssh, rdp, n, u, s)" by (cases x)
  with f have "fires (SessionsPage_view granted cmp loc (\<lambda>x. SshTerminalPane_view (ssh x)) (\<lambda>x. RdpSessionPane_view (rdp x)) n u s) e" by simp
  with p show "granted p"
    by (cases e rule: sessions_needs.cases) (auto simp: sessions_fires sessions_pane_fires launch_form_fires pane_facts rail_fires)
qed

section \<open>The page in use\<close>

text \<open>
  The page runs between the user and its environment: launches answer, the panes report their status, timers take the
  toast away, count the ticket of the access card down and end the confirmation of a copy, and a deep link launches. The
  card keeps its state while it stays open.
\<close>

type_synonym sessions_world = "sessions_page \<times> sessions_ui \<times> sessions_net \<times> clock"

definition sessions_world_view :: "(string \<Rightarrow> bool) \<Rightarrow> (string \<Rightarrow> string \<Rightarrow> int) \<Rightarrow> LocationLike \<Rightarrow> (LiveSession \<Rightarrow> ssh_pane)
    \<Rightarrow> (LiveSession \<Rightarrow> rdp_pane) \<Rightarrow> sessions_world \<Rightarrow> sessions_action node" where
  "sessions_world_view granted cmp loc ssh rdp w = (case w of (s, u, n, _) \<Rightarrow>
     SessionsPage_view granted cmp loc (\<lambda>x. SshTerminalPane_view (ssh x)) (\<lambda>x. RdpSessionPane_view (rdp x)) n u s)"

definition sessions_does :: "sessions_action \<Rightarrow> sessions_world \<Rightarrow> sessions_world \<Rightarrow> bool" where
  "sessions_does a w w' = (case (w, w') of ((s, u, n, c), (s', u', n', c')) \<Rightarrow> n' = n \<and> c' = c \<and> (s', u') = fst (sessions_act a (s, u)))"

definition card_opened :: "clock \<Rightarrow> LaunchOutcome \<Rightarrow> sessions_page \<Rightarrow> db_card \<Rightarrow> db_card" where
  "card_opened c r s d = (case r of DbOutcome info \<Rightarrow> if pg_dbAccess s = None then card_mount c info else d | LiveOutcome _ \<Rightarrow> d)"

inductive sessions_env :: "bool \<Rightarrow> string \<Rightarrow> sessions_world \<Rightarrow> sessions_world \<Rightarrow> bool" for canRead userID where
  "sessions_env canRead userID (s, u, n, c) (s, u, n', c')"
| "fresh_event (Launched i r) s \<Longrightarrow> sessions_env canRead userID (s, u, n, c)
     (page_step (Launched i r) s, u\<lparr>su_card := card_opened c r s (su_card u)\<rparr>, n, c)"
| "sessions_env canRead userID (s, u, n, c) (page_step (LaunchFailed e) s, u, n, c)"
| "sessions_env canRead userID (s, u, n, c) (page_step (PaneReport rep) s, u, n, c)"
| "sessions_env canRead userID (s, u, n, c) (s\<lparr>pg_feedback := None\<rparr>, u, n, c)"
| "pg_dbAccess s = Some info \<Longrightarrow> sessions_env canRead userID (s, u, n, c) (s, u\<lparr>su_card := card_tick c info (su_card u)\<rparr>, n, c)"
| "sessions_env canRead userID (s, u, n, c) (s, u\<lparr>su_card := (su_card u)\<lparr>dc_copiedTunnel := b, dc_copiedClient := b'\<rparr>\<rparr>, n, c)"
| "sessions_env canRead userID (s, u, n, c) (fst (auto_launch canRead userID params s), u, n, c)"

inductive_cases sessions_envE: "sessions_env canRead userID w w'"

definition sessions_inv :: "sessions_world \<Rightarrow> bool" where
  "sessions_inv w = (case w of (s, u, _) \<Rightarrow> page_inv s \<and> (pg_dbAccess s = None \<or> 1 \<le> dc_port (su_card u) \<and> dc_port (su_card u) \<le> 65535))"

lemma page_inv_fields [simp]:
  "page_inv (s\<lparr>pg_feedback := f\<rparr>) = page_inv s" "page_inv (s\<lparr>pg_dbAccess := d\<rparr>) = page_inv s" "page_inv (s\<lparr>pg_consumed := k\<rparr>) = page_inv s"
  by (simp_all add: page_inv_def)

lemma card_port:
  "1 \<le> DEFAULT_LOCAL_PORT p" "DEFAULT_LOCAL_PORT p \<le> 65535"
  "1 \<le> dc_port d \<Longrightarrow> dc_port d \<le> 65535 \<Longrightarrow> 1 \<le> dc_port (card_act a d) \<and> dc_port (card_act a d) \<le> 65535"
  by (simp_all add: DEFAULT_LOCAL_PORT_def split: DbProtocol.splits) (cases a; auto split: option.splits)

lemma close_db [simp]: "pg_dbAccess (closeLiveSession i s) = pg_dbAccess s"
  by (simp add: closeLiveSession_def Let_def)

lemma launch_page_inv [simp]: "page_inv (fst (launchSelectedAsset i s)) = page_inv s" "pg_dbAccess (fst (launchSelectedAsset i s)) = pg_dbAccess s"
  by (simp_all add: launchSelectedAsset_def launch_onMutate_def Let_def)

lemma sessions_act_inv:
  assumes "sessions_inv (s, u, n, c)" "\<And>i. a = SelectLive i \<Longrightarrow> i \<in> ls_id ` set (pg_liveSessions s)"
  shows "sessions_inv (fst (fst (sessions_act a (s, u))), snd (fst (sessions_act a (s, u))), n, c)"
proof (cases "\<exists>i. a = SelectLive i")
  case True
  with assms show ?thesis by (auto simp: sessions_inv_def page_inv_def Let_def)
next
  case False
  with assms(1) show ?thesis
    by (cases "(a, s, u)" rule: sessions_act.cases)
      (auto simp: sessions_inv_def page_inv_close card_port launch_onMutate_def case_prod_beta Let_def)
qed

lemma auto_launch_inv [simp]:
  "page_inv (fst (auto_launch canRead userID params s)) = page_inv s" "pg_dbAccess (fst (auto_launch canRead userID params s)) = pg_dbAccess s"
  by (simp_all add: auto_launch_def launch_onMutate_def split: option.splits)

lemma sessions_env_inv:
  assumes "sessions_env canRead userID w w'" "sessions_inv w"
  shows "sessions_inv w'"
  using assms(1)
proof cases
  case (2 i r s u n c)
  with assms(2) page_inv_step [of s "Launched i r"] show ?thesis
    by (cases r) (auto simp: sessions_inv_def card_opened_def card_mount_def card_port launch_onSuccess_def)
qed (use assms(2) in \<open>auto simp: sessions_inv_def launch_onError_def page_inv_update card_tick_def updateLiveSessionStatus_def
      [THEN arg_cong [where f = pg_dbAccess], simplified]\<close>)

interpretation sessions_use: rendered "sessions_world_view granted cmp loc ssh rdp" sessions_does "sessions_env canRead userID" sessions_inv
  for granted cmp loc ssh rdp canRead userID
proof unfold_locales
  fix w w' :: sessions_world and a
  obtain s u n c where w: "w = (s, u, n, c)" by (cases w)
  assume i: "sessions_inv w" and f: "fires (sessions_world_view granted cmp loc ssh rdp w) a" and d: "sessions_does a w w'"
  have "a = SelectLive j \<Longrightarrow> j \<in> ls_id ` set (pg_liveSessions s)" for j
    using f by (auto simp: w sessions_world_view_def sessions_fires sessions_pane_fires launch_form_fires pane_facts)
  moreover have "w' = (fst (fst (sessions_act a (s, u))), snd (fst (sessions_act a (s, u))), n, c)"
    using d by (cases w') (auto simp: sessions_does_def w dest: sym)
  ultimately show "sessions_inv w'" using i sessions_act_inv [of s u n c a] by (simp add: w)
qed (rule sessions_env_inv)

section \<open>The keyboard focus of the panes\<close>

text \<open>
  When a pane becomes the active one its effect sets a timer that fits the terminal and focuses it, or focuses the screen of
  a desktop; the cleanup takes the timer back. \<open>pf_active\<close> is the prop the effect has seen last.
\<close>

datatype focus_call = FitTerminal | FocusTerminal | FocusScreen

record pane_focus =
  pf_active :: bool
  pf_timer :: bool

definition focus_mount :: "bool \<Rightarrow> pane_focus" where
  "focus_mount active = \<lparr>pf_active = active, pf_timer = active\<rparr>"

definition focus_effect :: "bool \<Rightarrow> pane_focus \<Rightarrow> pane_focus" where
  "focus_effect active p = (if active = pf_active p then p else focus_mount active)"

text \<open>The timer of a terminal; a terminal that is not loaded is skipped, and one that cannot be fitted is not focused.\<close>

definition ssh_focus_timer :: "bool \<Rightarrow> bool \<Rightarrow> bool \<Rightarrow> focus_call list" where
  "ssh_focus_timer has_fit fit_fails has_terminal =
    (if has_fit \<and> fit_fails then [FitTerminal]
     else (if has_fit then [FitTerminal] else []) @ (if has_terminal then [FocusTerminal] else []))"

definition rdp_focus_timer :: "bool \<Rightarrow> focus_call list" where
  "rdp_focus_timer has_host = (if has_host then [FocusScreen] else [])"

definition timer_fired :: "pane_focus \<Rightarrow> pane_focus" where
  "timer_fired p = p\<lparr>pf_timer := False\<rparr>"

text \<open>The panes after a rendering of the page: those of closed tabs are gone, those of new tabs are mounted.\<close>

definition panes_rendered :: "sessions_page \<Rightarrow> (string \<rightharpoonup> pane_focus) \<Rightarrow> (string \<rightharpoonup> pane_focus)" where
  "panes_rendered s F = (\<lambda>i. if i \<notin> ls_id ` set (pg_liveSessions s) then None
     else Some (case F i of None \<Rightarrow> focus_mount (pg_activeLiveID s = i) | Some p \<Rightarrow> focus_effect (pg_activeLiveID s = i) p))"

inductive focus_run :: "sessions_page \<times> (string \<rightharpoonup> pane_focus) \<Rightarrow> bool" where
  "focus_run (sessions_mount, \<lambda>_. None)"
| "focus_run (s, F) \<Longrightarrow> fresh_event ev s \<Longrightarrow> focus_run (page_step ev s, panes_rendered (page_step ev s) F)"
| "focus_run (s, F) \<Longrightarrow> F i = Some p \<Longrightarrow> pf_timer p \<Longrightarrow> focus_run (s, F(i \<mapsto> timer_fired p))"

text \<open>
  The keyboard never goes to a hidden pane: a timer that is about to focus a pane belongs to the active tab, however tabs are
  opened, selected and closed, so at most one pane is about to take the focus.
\<close>

theorem focus_goes_to_visible_pane:
  assumes "focus_run (s, F)"
  shows "\<forall>i p. F i = Some p \<longrightarrow> pf_active p = (pg_activeLiveID s = i) \<and> (pf_timer p \<longrightarrow> pg_activeLiveID s = i)"
  using assms
proof (induction "(s, F)" arbitrary: s F rule: focus_run.induct)
  case (2 s F ev)
  have "pf_timer p \<longrightarrow> pf_active p" if "F i = Some p" for i p using 2(2) that by blast
  then show ?case by (auto simp: panes_rendered_def focus_mount_def focus_effect_def split: if_splits option.splits)
qed (auto simp: timer_fired_def)

section \<open>Properties\<close>

text \<open>The values of one flag over a tree, from the top to the bottom.\<close>

fun attr_flag :: "string \<Rightarrow> 'e attr \<Rightarrow> bool option" where
  "attr_flag name (AFlag k b) = (if k = name then Some b else None)"
| "attr_flag name _ = None"

primrec flags :: "string \<Rightarrow> 'e node \<Rightarrow> bool list" where
  "flags name (Txt _) = []"
| "flags name (Icon _) = []"
| "flags name (El t as cs) = List.map_filter (attr_flag name) as @ concat (map (flags name) cs)"

lemma map_filter_flag: "List.map_filter (attr_flag name) (x # xs) =
    (case attr_flag name x of None \<Rightarrow> [] | Some b \<Rightarrow> [b]) @ List.map_filter (attr_flag name) xs" "List.map_filter (attr_flag name) [] = []"
  by (simp_all add: List.map_filter_def split: option.splits)

lemma tab_flags: "flags ''aria-selected'' (live_tab_view active x) = [active = ls_id x]" "flags ''hidden'' (live_tab_view active x) = []"
  by (simp_all add: live_tab_view_def map_filter_flag)

lemma pane_flags: "flags name (SshTerminalPane_view p) = []" "flags name (RdpSessionPane_view q) = []"
  by (simp_all add: SshTerminalPane_view_def RdpSessionPane_view_def map_filter_flag)

lemma concat_singles: "concat (map (\<lambda>x. [f x]) xs) = map f xs"
  by (induction xs) simp_all

lemma shell_flags:
  assumes "\<And>x name. flags name (ssh_tab x) = []" "\<And>x name. flags name (rdp_tab x) = []"
  shows "flags ''aria-selected'' (live_shell_view ssh_tab rdp_tab s) = map (\<lambda>x. pg_activeLiveID s = ls_id x) (pg_liveSessions s)"
    "flags ''hidden'' (live_shell_view ssh_tab rdp_tab s) = map (\<lambda>x. pg_activeLiveID s \<noteq> ls_id x) (pg_liveSessions s)"
proof -
  have p: "concat (map (flags name) (if ls_kind x = SSH then [ssh_tab x] else [rdp_tab x])) = []" for x name
    using assms by simp
  have e: "concat (map (\<lambda>x. []) xs) = ([] :: bool list)" for xs :: "LiveSession list" by (induction xs) simp_all
  show "flags ''aria-selected'' (live_shell_view ssh_tab rdp_tab s) = map (\<lambda>x. pg_activeLiveID s = ls_id x) (pg_liveSessions s)"
    "flags ''hidden'' (live_shell_view ssh_tab rdp_tab s) = map (\<lambda>x. pg_activeLiveID s \<noteq> ls_id x) (pg_liveSessions s)"
    by (simp_all add: live_shell_view_def map_filter_flag tab_flags comp_def concat_singles p e)
qed

lemma one_of_distinct: "distinct ids \<Longrightarrow> i \<in> set ids \<Longrightarrow> length (filter (\<lambda>j. i = j) ids) = 1"
  by (induction ids) (auto simp: filter_empty_conv)

text \<open>
  C16: One pane is in view at any time. Whatever the user and the environment do, as long as there are sessions exactly one of the
  tabs is marked as selected, and the panes that are hidden are exactly those of the other tabs.
\<close>

theorem one_pane_visible:
  assumes "visits (sessions_world_view granted cmp loc ssh rdp) sessions_does (sessions_env canRead userID) (sessions_mount, u, n, c) (s, u', n', c')"
  shows "let shell = live_shell_view (\<lambda>x. SshTerminalPane_view (ssh x)) (\<lambda>x. RdpSessionPane_view (rdp x)) s in
    flags ''hidden'' shell = map Not (flags ''aria-selected'' shell) \<and> length (flags ''hidden'' shell) = length (pg_liveSessions s) \<and>
    length (filter id (flags ''aria-selected'' shell)) = (if pg_liveSessions s = [] then 0 else 1)"
proof -
  have "sessions_inv (s, u', n', c')"
    using sessions_use.visits_keep [OF assms] by (simp add: sessions_inv_def sessions_mount_def page_inv_def)
  then have i: "pg_liveSessions s = [] \<or> distinct (map ls_id (pg_liveSessions s)) \<and> pg_activeLiveID s \<in> set (map ls_id (pg_liveSessions s))"
    by (auto simp: sessions_inv_def page_inv_def Let_def split: if_splits)
  then have "pg_liveSessions s = [] \<or> length (filter (\<lambda>x. pg_activeLiveID s = ls_id x) (pg_liveSessions s)) = 1"
    using one_of_distinct [of "map ls_id (pg_liveSessions s)" "pg_activeLiveID s"] by (auto simp: filter_map comp_def)
  then show ?thesis by (auto simp: Let_def shell_flags pane_flags filter_map comp_def)
qed

theorem one_pane_visible_witness:
  "\<exists>s. map ls_id (pg_liveSessions s) = [''s1'', ''s2''] \<and> pg_activeLiveID s = ''s2'' \<and>
    flags ''hidden'' (live_shell_view (\<lambda>_. SshTerminalPane_view undefined) (\<lambda>_. RdpSessionPane_view undefined) s) = [True, False]"
proof -
  let ?r = "LiveOutcome \<lparr>tl_asset = tree_asset ''a1'' ''prod'' None None, tl_expiresAt = [], tl_kind = RDP, tl_ticket = ''tk''\<rparr>"
  let ?V = "visits (sessions_world_view (\<lambda>_. True) unit_compare undefined (\<lambda>_. undefined) (\<lambda>_. undefined)) sessions_does (sessions_env True ''u-1'')
    (sessions_mount, undefined, undefined, undefined)"
  let ?w = "\<lambda>s. (s, (undefined :: sessions_ui), (undefined :: sessions_net), (undefined :: clock))"
  let ?s1 = "page_step (Launched ''s1'' ?r) sessions_mount"
  let ?s = "page_step (Launched ''s2'' ?r) ?s1"
  have step: "?V (?w t) \<Longrightarrow> fresh_event (Launched i ?r) t \<Longrightarrow> ?V (?w (page_step (Launched i ?r) t))" for i t
    using sessions_env.intros(2) [of i ?r t True "''u-1''" undefined undefined undefined]
    by (auto simp: card_opened_def simp del: page_step.simps fresh_event.simps elim!: visits.environment)
  have "?V (?w ?s1)" by (rule step [OF visits.start]) (simp add: sessions_mount_def)
  then have "?V (?w ?s)" by (rule step) (simp add: sessions_mount_def launch_onSuccess_def)
  note v = one_pane_visible [OF this, unfolded Let_def]
  have ids: "map ls_id (pg_liveSessions ?s) = [''s1'', ''s2'']" and act: "pg_activeLiveID ?s = ''s2''"
    by (simp_all add: launch_onSuccess_def sessions_mount_def)
  have "flags ''aria-selected'' (live_shell_view (\<lambda>_. SshTerminalPane_view undefined) (\<lambda>_. RdpSessionPane_view undefined) ?s) =
      map (\<lambda>j. pg_activeLiveID ?s = j) (map ls_id (pg_liveSessions ?s))"
    by (simp only: shell_flags(1) [OF pane_flags] map_map comp_def)
  with v have "flags ''hidden'' (live_shell_view (\<lambda>_. SshTerminalPane_view undefined) (\<lambda>_. RdpSessionPane_view undefined) ?s) = [True, False]"
    unfolding ids act by simp
  with ids act show ?thesis by (intro exI conjI)
qed



text \<open>
  C29: Launches are offered one at a time. No launch can be started while another is pending; a row of the rail launches
  exactly its asset, and the dialog the trimmed identifier chosen in it, which it offers only for a selected asset
  to users who may read assets. A launch takes the message of the last one away.
\<close>

theorem launch_offered:
  "(fires (sessions_world_view granted cmp loc ssh rdp (s, u, n, c)) (SideAction (ChooseRow a)) \<longleftrightarrow>
      \<not> vn_launchPending n \<and> a \<in> set (rail_rows (su_sidebarSearch u) (su_rail u) (sidebar_items n))) \<and>
   (fires (sessions_world_view granted cmp loc ssh rdp (s, u, n, c)) LaunchSelected \<longleftrightarrow>
      \<not> vn_launchPending n \<and> granted ''cmdb.asset:read'' \<and> su_launchByIdOpen u \<and> su_selectedAssetID u \<noteq> []) \<and>
   sessions_act (SideAction (ChooseRow a)) (s, u) = ((s\<lparr>pg_feedback := None\<rparr>, u), Some (asset_id a)) \<and>
   snd (sessions_act LaunchSelected (s, u)) = (if trim (su_selectedAssetID u) = [] then None else Some (trim (su_selectedAssetID u)))"
  by (auto simp: sessions_world_view_def sessions_fires sessions_pane_fires launch_form_fires pane_facts rail_fires launch_onMutate_def
      launchSelectedAsset_def Let_def)

end
