(* ===== verification/Spec2Isabelle.thy ===== *)
theory Spec2Isabelle
  imports AssetForms AwsForms OidcForms ConnectivityForms SessionsLib Iam SessionsPage
    AccessPage ConnectPage AuditPage RecordingPlayer ModalFocus IamPage AwsPage
    ConnectivityPage OidcPage AssetsPage Shell Router
    AccessView IamView AwsView OidcView ShellView AuditView AssetsView ConnectivityView ConnectView SessionsView
begin

text \<open>
  \<^bold>\<open>The operations portal, verified.\<close> This library models the browser application of the repository,
  \<open>src/web/src\<close> (TypeScript and React): a portal through which operators sign in, look up assets,
  open terminal, desktop and database sessions, request and approve access, review recorded sessions
  and administer identities, accounts, connectivity and single sign-on. The Go services behind it are
  reached through HTTP and WebSockets only.

  \<^bold>\<open>How the parts interact.\<close> Every page calls the endpoint functions (\<open>api/*.ts\<close>), which call \<open>apiRequest\<close>
  (\<open>api/client.ts\<close>). \<open>AuthProvider\<close> configures the client with a token and a callback for rejected
  requests; \<open>ProtectedRoute\<close> admits to the pages. A page enables its queries by permission and user, keeps
  form and feedback state, and starts mutations whose answers arrive later, in any order. Links between
  pages carry their state in the address (launch links, audit links). The workspace
  (\<open>SessionsPage\<close>) turns a launch into a tab with a live pane, which reports its status back.

  \<^bold>\<open>Foundations.\<close>
  \<^item> \<open>Prelude\<close>: falsy values, JavaScript sets and maps in insertion order, sorting.
  \<^item> \<open>JsText\<close>, \<open>JsUrl\<close>, \<open>JsNumber\<close>, \<open>JsJson\<close>: the parts of the language's library the code uses: trimming,
    case, splitting, URI encoding, query strings, binary64 numbers with rounding, \<open>Number(text)\<close>, number
    texts, JSON text and its parser. Strings are lists of characters of one byte (Latin-1), JSON text is
    a list of 16-bit units. The JSON parser carries fuel; \<open>json_parse_complete\<close> shows that the length of
    the text is enough.
  \<^item> \<open>Collation\<close>, \<open>TextFilter\<close>: sorting with a comparison that is a parameter (\<open>localeCompare\<close>), and the
    contract of the search fields.
  \<^item> \<open>QueryCache\<close>, \<open>PageLib\<close>, \<open>FormDialog\<close>, \<open>Forms\<close>: the contracts the pages share, as locales: \<open>filed_answer\<close> (an
    answer is stored for the record it was asked for), \<open>mutation\<close> (a write reports its outcome and a
    failure keeps the rest), \<open>gated_page\<close> (queries need a user and a permission), \<open>form_dialog\<close> (a dialog saves the
    record it was opened for) and \<open>secret_form\<close> (a secret is sent only when typed). They are interpreted in
    the theories of the pages, and the properties rest on the interpreted facts.

  \<^bold>\<open>Components and theories.\<close>
  \<^item> \<open>ApiTypes\<close>, \<open>ApiClient\<close>, \<open>ApiEndpoints\<close>, \<open>ApiContracts\<close>: the types of \<open>api/*.ts\<close> and \<open>types/auth.ts\<close>; headers, parsing and
    errors of \<open>apiRequest\<close> with the fetch as a parameter; path, query, method and body of every exported
    call; identifiers are separated in paths, bodies and queries read back.
  \<^item> \<open>Auth\<close>, \<open>Permissions\<close>, \<open>Preferences\<close>, \<open>Basename\<close>: \<open>features/auth\<close>, \<open>app/layout/ProtectedRoute.tsx\<close>, \<open>lib/permissions.ts\<close>,
    \<open>lib/access.ts\<close>, \<open>hooks/useTheme.ts\<close>, \<open>lib/assetView.ts\<close>, \<open>lib/basename.ts\<close>. The provider is a machine over logins, answers and
    rejections with the requests in flight in its state; its invariants are proved by rule induction.
  \<^item> \<open>AssetForms\<close>, \<open>AwsForms\<close>, \<open>OidcForms\<close>, \<open>ConnectivityForms\<close>, \<open>SessionsLib\<close>, \<open>Iam\<close>, \<open>Launch\<close>: the modules of \<open>lib\<close>: forms, payloads,
    validators, counts, durations, the asciicast parser, permission groups, the asset tree and links.
  \<^item> \<open>RemoteAccess\<close>, \<open>LivePanes\<close>, \<open>SessionsPage\<close>: \<open>lib/terminal.ts\<close>, \<open>lib/guacamole.ts\<close> and \<open>features/sessions\<close>: script loaders, the
    two live panes as machines over loader, socket and user events, the launch as a sequence of
    requests, and the tabs. The page driven by a pane's reports shows the pane's status (a refinement).
  \<^item> \<open>AccessPage\<close>, \<open>ConnectPage\<close>, \<open>AuditPage\<close>, \<open>RecordingPlayer\<close>, \<open>IamPage\<close>, \<open>MatrixPage\<close>, \<open>AwsPage\<close>, \<open>ConnectivityPage\<close>, \<open>OidcPage\<close>: the pages of
    \<open>features\<close>: state, queries, callbacks of every mutation, dialogs, deep links and derived views.
  \<^item> \<open>AssetViews\<close>, \<open>ConnectionSection\<close>, \<open>AssetsPage\<close>: \<open>features/cmdb\<close>: cells and panels, the connection profile, filters,
    paging, the drawer and what each mutation does to the query cache.
  \<^item> \<open>ModalFocus\<close>, \<open>Shell\<close>: \<open>hooks/useModalFocus.ts\<close>; routes, navigation, theme button, overview and profile.
  \<^item> \<open>Router\<close>: what the route table, the guard and the login page make of an address, following redirects until something is
    shown; that they end, and in which state they do not.
  \<^item> \<open>Markup\<close>: trees of elements, attributes and event handlers; \<open>fires\<close> says which actions a tree offers (a disabled control
    takes no input, a form is submitted only through an enabled submit button, a selection list can be set to its options
    only), \<open>wf_node\<close> when a tree is well formed, \<open>links\<close> where it leads. Two locales carry the proofs about pages in use:
    \<open>rendered\<close> (a page that runs between what its markup offers and what its environment does keeps an invariant) and \<open>guarded_markup\<close> (an
    action is offered only with the permissions it needs). Both are interpreted on the pages' own views.
  \<^item> \<open>AccessView\<close>, \<open>IamView\<close>, \<open>AwsView\<close>, \<open>OidcView\<close>, \<open>ShellView\<close>, \<open>AuditView\<close>, \<open>RailView\<close>, \<open>AssetDrawerView\<close>, \<open>AssetsView\<close>, \<open>ConnectivityView\<close>, \<open>ConnectView\<close>, \<open>SessionsView\<close>: the markup each
    component returns, as a function of its state, its queries and the permission checker, cut into views the way
    the markup nests; the actions of its controls with the function that carries one out; and what the page
    offers in which state.
  \<^item> This theory: properties that span components: permissions, outcomes and links across the pages.

  \<^bold>\<open>How state corresponds.\<close> A component's \<open>useState\<close> and \<open>useRef\<close> values are the fields of one record, a callback is a
  function on the record that also returns the request it sends, if any. Answers are separate steps, so
  that a theorem about sequences of steps covers every interleaving of user actions and answers.
  Failures are values: \<open>call_error\<close> is a rejected fetch or an \<open>ApiError\<close>, and every branch that throws or returns
  early is a branch of the definition.

  \<^bold>\<open>Parameters.\<close> The server's answers, the fetch, \<open>localeCompare\<close>, the clock, the browser's own focus order, the
  events of xterm, of the WebSocket and of guacamole-common-js, the answers of \<open>window.confirm\<close>, of the clipboard and of the
  file reader are arguments or events, and so is what the router library makes of a path. Of the query library the model uses documented behaviour: a
  disabled query is not asked, an equal answer keeps the value, keys match by prefix.

  \<^bold>\<open>Markup.\<close> A view keeps what decides behaviour or is read by a user or a screen reader: tags, texts, values, flags, types,
  roles, labels, titles, targets, class names that are computed, and every handler. It leaves out class names that never change,
  keys, refs, inline styles and the shape of icons; the browser's own check of required fields is left to the
  browser, so that a form may offer more than it would.

  \<^bold>\<open>Not modelled.\<close> Styles; locale-dependent date texts (\<open>toLocaleString\<close>, a parameter); scrolling the highlighted row
  of the palette into view; refetch intervals; the vendored libraries under \<open>web/public\<close>; the Go
  services, migrations and deployment files. \<open>AppProviders.tsx\<close>, \<open>App.tsx\<close> and \<open>main.tsx\<close> only compose
  other components.

  \<^bold>\<open>What the proofs found.\<close> Some theorems show behaviour the code does not intend: a profile refresh after a logout
  (\<open>refresh_after_logout_loops\<close>), the 401 of a superseded request (\<open>stale_restore_signs_out\<close>), late answers in the account and proxy dialogs
  (\<open>late_update_mixes_accounts\<close>, \<open>late_proxy_answers\<close>), databases dropped by the connection form (\<open>edit_drops_database\<close>), the last page of the
  inventory (\<open>last_page_strands\<close>), the tree that is not refetched (\<open>tree_view_goes_stale\<close>), settings saved before they are loaded
  (\<open>blank_settings_can_be_saved\<close>), the palette's arrow key (\<open>early_arrow_drops_highlight\<close>), the player's label (\<open>switched_recording_label\<close>), the resolver's
  link (\<open>resolver_link_drifts\<close>), the gaps of the focus trap (\<open>modal_trap_gaps\<close>), redirects that never end after a late refresh
  (\<open>late_refresh_never_settles\<close>), a chosen role that outlives its user (\<open>chosen_role_goes_stale\<close>) and typing lost to the answer of a save
  (\<open>typed_during_save_lost\<close>).
\<close>

section \<open>Permissions across the pages\<close>


section \<open>Markup across the pages\<close>

text \<open>
  C39: The markup of every page is well formed, whatever its state, its queries and the permissions are: every button has a type,
  so that none submits the form around it by accident; a control that shows a value has the handler that
  changes it; and no control is nested in a button or a link.
\<close>

theorem pages_well_formed:
  "wf_node (AccessPage_view granted ps c sp n1 s1) \<and> wf_node (IamPage_view granted perms c groups (CapabilityMatrix_view granted' c mn m) n2 s2) \<and>
   wf_node (AwsPage_view granted perms c n3 s3) \<and> wf_node (OidcPage_view granted perms c n4 s4) \<and>
   wf_node (ConnectivityPage_view granted ps c n5 s5) \<and> wf_node (AssetsPage_view granted cmp c n6 h s6) \<and>
   wf_node (ConnectPage_view granted cmp userID c n7 r s7) \<and> wf_node (AuditPage_view granted cmp ps c [RdpRecordingPlayer_view p] n8 s8) \<and>
   wf_node (SessionsPage_view granted cmp loc (\<lambda>x. SshTerminalPane_view (ssh x)) (\<lambda>x. RdpSessionPane_view (rdp x)) n9 u s9) \<and>
   wf_node (LoginPage_view nextPath f) \<and> wf_node (OverviewPage_view granted c identity ov) \<and> wf_node (ProfilePage_view c identity busy)"
  by (intro conjI AccessPage_wf IamPage_wf CapabilityMatrix_wf AwsPage_wf OidcPage_wf ConnectivityPage_wf AssetsPage_wf ConnectPage_wf
      AuditPage_wf SessionsPage_wf shell_views_wf pane_facts) (simp add: AuditPage_wf)


section \<open>Outcomes across the pages\<close>

text \<open>
  A write reports its outcome: after it was started and answered, the page shows a line, an error line exactly if the
  server refused or could not be reached, then with the error's own text.
\<close>

definition reports_outcome :: "('s \<Rightarrow> 's) \<Rightarrow> ('r \<Rightarrow> 's \<Rightarrow> 's) \<Rightarrow> (call_error \<Rightarrow> 's \<Rightarrow> 's) \<Rightarrow> ('s \<Rightarrow> ActionFeedback option) \<Rightarrow> bool" where
  "reports_outcome on_mutate on_success on_error feedback = (\<forall>r s. \<exists>fb.
     feedback (settle on_success on_error r (on_mutate s)) = Some fb \<and>
     (fb_kind fb = FeedbackError \<longleftrightarrow> (\<exists>e. r = Inl e \<and> fb_message fb = error_text e)))"


section \<open>Links across the pages\<close>

text \<open>
  C7: the live button of the connect page opens a session on the selected asset, also for a visitor who
  has to sign in first. The address it opens is not redirected to the audit page, the route guard
  remembers it, the login leads back to it, and the workspace then launches exactly the selected
  asset, once, with nothing launched when the visitor may not read assets. The terminal button of the
  inventory opens the same address.
\<close>

theorem live_button_launches_selected:
  assumes "cp_selectedAssetID s \<noteq> []"
  shows "\<exists>search ps. openLive p s = Some (''/sessions'' @ search) \<and> URLSearchParams search = Some ps \<and>
    SessionsRoute ps = ShowSessionsPage \<and>
    routeFromState (Some \<lparr>loc_pathname = ''/sessions'', loc_search = search\<rparr>) = ''/sessions'' @ search \<and>
    snd (auto_launch canRead userID ps sessions_mount) =
      (if canRead \<and> userID \<noteq> [] then Some (cp_selectedAssetID s, []) else None) \<and>
    snd (auto_launch canRead userID ps (fst (auto_launch canRead userID ps sessions_mount))) = None \<and>
    (asset_id a = cp_selectedAssetID s \<longrightarrow> connectAsset a p = ''/sessions'' @ search)"
proof -
  let ?spec = "\<lparr>spec_assetID = cp_selectedAssetID s, spec_protocol = p\<rparr>"
  let ?search = "buildLaunchSearch ?spec"
  let ?ps = "[(''launch'', cp_selectedAssetID s), (''protocol'', LaunchProtocol_str p)]"
  have u: "URLSearchParams ?search = Some ?ps" by (simp add: launch_link_params)
  have pl: "parseLaunchParams ?ps = Some ?spec" using launch_params_parse [of ?spec] assms by simp
  have r: "SessionsRoute ?ps = ShowSessionsPage" by (simp add: SessionsRoute_def params_get_def)
  have "openLive p s = Some (''/sessions'' @ ?search)" using assms by (simp add: openLive_def)
  moreover have "routeFromState (Some \<lparr>loc_pathname = ''/sessions'', loc_search = ?search\<rparr>) = ''/sessions'' @ ?search"
    by (simp add: routeFromState_def or_else_def)
  moreover have "snd (auto_launch canRead userID ?ps sessions_mount) =
      (if canRead \<and> userID \<noteq> [] then Some (cp_selectedAssetID s, []) else None)"
    using assms by (simp add: auto_launch_def pl sessions_mount_def)
  moreover have "snd (auto_launch canRead userID ?ps (fst (auto_launch canRead userID ?ps sessions_mount))) = None"
    using assms by (simp add: auto_launch_def pl sessions_mount_def launch_onMutate_def)
  moreover have "asset_id a = cp_selectedAssetID s \<longrightarrow> connectAsset a p = ''/sessions'' @ ?search"
    by (simp add: connectAsset_def)
  ultimately show ?thesis using u r by blast
qed

theorem live_button_launches_selected_witness:
  "\<exists>search ps. openLive RDP (connect_mount\<lparr>cp_selectedAssetID := ''a-1''\<rparr>) = Some (''/sessions'' @ search) \<and>
    URLSearchParams search = Some ps \<and> snd (auto_launch True ''u-1'' ps sessions_mount) = Some (''a-1'', [])"
proof -
  let ?s = "connect_mount\<lparr>cp_selectedAssetID := ''a-1''\<rparr>"
  have sel: "cp_selectedAssetID ?s \<noteq> []" by simp
  have asset: "(if True \<and> ''u-1'' \<noteq> [] then Some (cp_selectedAssetID ?s, []) else None) = Some (''a-1'', [])" by simp
  show ?thesis
    using live_button_launches_selected [OF sel, of RDP True "''u-1''"] unfolding asset by blast
qed

text \<open>
  An address of the old audit view still opens the audit page on the same sessions. A link of the
  sessions page with \<open>mode=audit\<close> in front of its filters is redirected, and the address it is
  redirected to seeds the audit page exactly as the filters themselves would.
\<close>

theorem old_audit_address:
  "\<exists>q. SessionsRoute ((''mode'', ''audit'') # ps) = RedirectTo (''/audit'' @ q) \<and>
     (\<exists>ps'. URLSearchParams q = Some ps' \<and> seed_filters ps' s = seed_filters ps s)"
proof -
  have get: "params_get (filter (\<lambda>p. fst p \<noteq> ''mode'') ps) k = params_get ps k" if "k \<noteq> ''mode''" for k
    using that by (induction ps) (auto simp: params_get_def)
  have "seed_filters (filter (\<lambda>p. fst p \<noteq> ''mode'') ps) s = seed_filters ps s"
    by (simp add: seed_filters_def get)
  then show ?thesis
    using SessionsRoute_keeps_params [of "(''mode'', ''audit'') # ps"] by (auto simp: params_get_def)
qed

end
